(* ===== verification/Nym_Prelude.thy ===== *)
theory Nym_Prelude
  imports Main "HOL-Library.Word"
begin

text \<open>
  Shared vocabulary of the development: the machine integers of the Rust sources, IP addresses
  and networks, decimal, hexadecimal and address printing as the Rust standard library does it,
  and the generic lemmas on lists, folds and options that the component theories use.
\<close>

subsection \<open>Collections of simplification rules\<close>

named_theorems emit_simps \<open>what a rule emitter appends to each chain\<close>
named_theorems match_simps \<open>when a rule built by the builders matches a packet\<close>
named_theorems render_simps \<open>rendering equations\<close>

subsection \<open>Machine integers and addresses\<close>

type_synonym u8 = "8 word"
type_synonym u16 = "16 word"
type_synonym u32 = "32 word"
type_synonym u64 = "64 word"

text \<open>Points in time and durations (\<open>Instant\<close>, \<open>Duration\<close>) in milliseconds.\<close>

type_synonym instant = nat

text \<open>\<open>std::net::IpAddr\<close>.\<close>

datatype ip_addr = IPv4 "32 word" | IPv6 "128 word"

text \<open>The derived order: every IPv4 address before every IPv6 address, then by value.\<close>

instantiation ip_addr :: linorder
begin

fun less_eq_ip_addr :: "ip_addr \<Rightarrow> ip_addr \<Rightarrow> bool" where
  "IPv4 a \<le> IPv4 b \<longleftrightarrow> a \<le> b"
| "IPv4 a \<le> IPv6 b \<longleftrightarrow> True"
| "IPv6 a \<le> IPv4 b \<longleftrightarrow> False"
| "IPv6 a \<le> IPv6 b \<longleftrightarrow> a \<le> b"

definition less_ip_addr :: "ip_addr \<Rightarrow> ip_addr \<Rightarrow> bool" where
  "a < b \<longleftrightarrow> a \<le> b \<and> \<not> (b :: ip_addr) \<le> a"

instance
proof
  fix a b c :: ip_addr
  show "(a < b) = (a \<le> b \<and> \<not> b \<le> a)" by (rule less_ip_addr_def)
  show "a \<le> a" by (cases a) simp_all
  show "a \<le> b \<Longrightarrow> b \<le> c \<Longrightarrow> a \<le> c" by (cases a; cases b; cases c) simp_all
  show "a \<le> b \<Longrightarrow> b \<le> a \<Longrightarrow> a = b" by (cases a; cases b) simp_all
  show "a \<le> b \<or> b \<le> a" by (cases a; cases b) auto
qed

end

fun is_v4 :: "ip_addr \<Rightarrow> bool" where
  "is_v4 (IPv4 _) = True"
| "is_v4 (IPv6 _) = False"

text \<open>\<open>Ipv4Addr::new\<close> and \<open>Ipv6Addr::new\<close> from octets and segments.\<close>

definition ipv4 :: "nat \<Rightarrow> nat \<Rightarrow> nat \<Rightarrow> nat \<Rightarrow> ip_addr" where
  "ipv4 a b c d = IPv4 (of_nat (((a * 256 + b) * 256 + c) * 256 + d))"

definition ipv6_of_segments :: "nat list \<Rightarrow> ip_addr" where
  "ipv6_of_segments segs = IPv6 (of_nat (foldl (\<lambda>acc s. acc * 65536 + s) 0 segs))"

text \<open>
  \<open>IpAddr::is_loopback\<close> of the standard library: \<open>127.0.0.0/8\<close> and \<open>::1\<close>.
\<close>

fun is_loopback :: "ip_addr \<Rightarrow> bool" where
  "is_loopback (IPv4 a) = (drop_bit 24 a = 127)"
| "is_loopback (IPv6 a) = (a = 1)"

text \<open>
  \<open>ipnetwork::IpNetwork\<close> is a type of a third-party crate: an address and a prefix length.
  Its \<open>contains\<close> is a parameter of the definitions that call it. \<open>cidr_contains\<close> is the
  membership of RFC 4632, used to instantiate that parameter at concrete inputs.
\<close>

datatype ip_network = IpNetwork (net_ip: ip_addr) (net_prefix: nat)

fun cidr_contains :: "ip_network \<Rightarrow> ip_addr \<Rightarrow> bool" where
  "cidr_contains (IpNetwork (IPv4 n) len) (IPv4 a) = (drop_bit (32 - len) a = drop_bit (32 - len) n)"
| "cidr_contains (IpNetwork (IPv6 n) len) (IPv6 a) = (drop_bit (128 - len) a = drop_bit (128 - len) n)"
| "cidr_contains _ _ = False"

subsection \<open>Printing\<close>

definition digit_char :: "nat \<Rightarrow> char" where
  "digit_char d = (if d < 10 then char_of (48 + d) else char_of (87 + d))"

function digits_base :: "nat \<Rightarrow> nat \<Rightarrow> string" where
  "digits_base b n =
     (if n < b \<or> b < 2 then [digit_char n] else digits_base b (n div b) @ [digit_char (n mod b)])"
  by pat_completeness auto
termination
  by (relation "measure snd") auto

declare digits_base.simps [simp del]

text \<open>\<open>{n}\<close>, \<open>{n:x}\<close> and \<open>{n:#x}\<close> of the formatting macros.\<close>

definition dec :: "nat \<Rightarrow> string" where
  "dec = digits_base 10"

definition hex :: "nat \<Rightarrow> string" where
  "hex = digits_base 16"

definition hex_alt :: "nat \<Rightarrow> string" where
  "hex_alt n = ''0x'' @ hex n"

text \<open>\<open>[String]::join\<close>.\<close>

fun join :: "string \<Rightarrow> string list \<Rightarrow> string" where
  "join sep [] = []"
| "join sep [s] = s"
| "join sep (s # t # ss) = s @ sep @ join sep (t # ss)"

abbreviation nl :: string where
  "nl \<equiv> [CHR 0x0A]"

abbreviation quote_str :: string where
  "quote_str \<equiv> [CHR 0x22]"

text \<open>\<open>Display\<close> of \<open>Ipv4Addr\<close>: dotted decimal.\<close>

definition show_ipv4 :: "32 word \<Rightarrow> string" where
  "show_ipv4 a = join ''.'' (map (\<lambda>k. dec (unat (drop_bit k a) mod 256)) [24, 16, 8, 0])"

text \<open>
  \<open>Display\<close> of \<open>Ipv6Addr\<close>: an IPv4-mapped address in its mixed notation, otherwise the
  leftmost longest run of at least two zero segments is written \<open>::\<close>.
\<close>

definition segments6 :: "128 word \<Rightarrow> nat list" where
  "segments6 a = map (\<lambda>k. unat (drop_bit k a) mod 65536) [112, 96, 80, 64, 48, 32, 16, 0]"

fun zero_span :: "nat list \<Rightarrow> nat \<Rightarrow> nat \<times> nat \<Rightarrow> nat \<times> nat \<Rightarrow> nat \<times> nat" where
  "zero_span [] i cur best = best"
| "zero_span (s # ss) i (start, len) best =
     (if s = 0
      then let cur = (if len = 0 then i else start, Suc len)
           in zero_span ss (Suc i) cur (if snd best < snd cur then cur else best)
      else zero_span ss (Suc i) (0, 0) best)"

definition show_ipv6 :: "128 word \<Rightarrow> string" where
  "show_ipv6 a =
     (let segs = segments6 a in
      if take 6 segs = [0, 0, 0, 0, 0, 65535] then ''::ffff:'' @ show_ipv4 (ucast a)
      else let (start, len) = zero_span segs 0 (0, 0) (0, 0) in
        if 1 < len
        then join '':'' (map hex (take start segs)) @ ''::'' @ join '':'' (map hex (drop (start + len) segs))
        else join '':'' (map hex segs))"

fun show_ip :: "ip_addr \<Rightarrow> string" where
  "show_ip (IPv4 a) = show_ipv4 a"
| "show_ip (IPv6 a) = show_ipv6 a"

definition show_net :: "ip_network \<Rightarrow> string" where
  "show_net n = show_ip (net_ip n) @ ''/'' @ dec (net_prefix n)"

text \<open>\<open>str::lines().any(|l| l == s)\<close> needs the lines of a string.\<close>

fun split_on :: "char \<Rightarrow> string \<Rightarrow> string list" where
  "split_on c [] = [[]]"
| "split_on c (x # xs) =
     (if x = c then [] # split_on c xs
      else (case split_on c xs of [] \<Rightarrow> [[x]] | l # ls \<Rightarrow> (x # l) # ls))"

text \<open>\<open>Itertools::unique\<close>: the first occurrence of every element.\<close>

definition unique :: "'a list \<Rightarrow> 'a list" where
  "unique xs = rev (remdups (rev xs))"

subsection \<open>Generic lemmas\<close>

lemma fold_append_emit:
  assumes "\<And>x s. get (f x s) = get s @ g x"
  shows "get (fold f xs s) = get s @ concat (map g xs)"
  by (induction xs arbitrary: s) (simp_all add: assms)

lemma fold_keeps:
  assumes "\<And>x s. get (f x s) = get s"
  shows "get (fold f xs s) = get s"
  by (induction xs arbitrary: s) (simp_all add: assms)

lemma find_append: "List.find P (xs @ ys) = (case List.find P xs of None \<Rightarrow> List.find P ys | Some x \<Rightarrow> Some x)"
  by (induction xs) auto

lemma find_None_iff: "List.find P xs = None \<longleftrightarrow> (\<forall>x\<in>set xs. \<not> P x)"
  by (induction xs) auto

lemma find_SomeD: "List.find P xs = Some x \<Longrightarrow> x \<in> set xs \<and> P x"
  by (induction xs) (auto split: if_splits)

lemma digit_chars [simp]:
  "digit_char 0 = CHR ''0''" "digit_char (Suc 0) = CHR ''1''" "digit_char 2 = CHR ''2''" "digit_char 3 = CHR ''3''" "digit_char 4 = CHR ''4''"
  "digit_char 5 = CHR ''5''" "digit_char 6 = CHR ''6''" "digit_char 7 = CHR ''7''" "digit_char 8 = CHR ''8''"
  "digit_char 9 = CHR ''9''" "digit_char 10 = CHR ''a''" "digit_char 11 = CHR ''b''" "digit_char 12 = CHR ''c''"
  "digit_char 13 = CHR ''d''" "digit_char 14 = CHR ''e''" "digit_char 15 = CHR ''f''"
  by (simp_all add: digit_char_def char_of_def bit_0)

lemmas show_number = dec_def hex_def hex_alt_def digits_base.simps

lemma digits_base_nonempty [simp]: "digits_base b n \<noteq> []"
  by (subst digits_base.simps) simp

lemma split_on_nonempty [simp]: "split_on c s \<noteq> []"
  by (induction s) (auto split: list.splits)

text \<open>\<open>to_ascii_lowercase\<close> on characters.\<close>

definition ascii_lower :: "char \<Rightarrow> char" where
  "ascii_lower c = (let n = of_char c :: nat in if 65 \<le> n \<and> n \<le> 90 then char_of (n + 32) else c)"

end
