(* ===== verification/FW_Rules.thy ===== *)
theory FW_Rules
  imports Nym_Prelude
begin

text \<open>
  The backend-neutral rule AST of \<open>nym-firewall/src/openwrt/rules.rs\<close>: the enums and structs,
  the rule builders, and the two fw3 fallbacks on a whole rule set. Beside it stands the reading
  of that AST as a packet filter (\<open>rule_matches\<close>, \<open>first_match\<close>, \<open>run_mangle\<close>), which is the
  documented behaviour of netfilter and models no code of the repository: the kernel's
  membership test for networks, its interface pattern match and its rate limiter are fields of
  the record \<open>netfilter\<close>, so every theorem holds for whatever they answer.
\<close>

subsection \<open>The AST\<close>

datatype family = V4 | V6 | Inet

datatype verdict = Accept | Return | Drop | Reject | SetCtMark u32 | RestoreMark

datatype proto = Tcp | Udp | Icmp | IcmpV6

datatype ct_state = New

datatype icmpv4_type = EchoRequest4

datatype icmpv6_type = RouterSolicit | NeighborSolicit | NeighborAdvert | EchoRequest6

record rate_limit =
  per_minute :: u32
  burst :: u32

datatype addr_match = AddrIp ip_addr | AddrNet ip_network

record match_fields =
  m_iif :: "string option"
  m_oif :: "string option"
  m_iif_not :: "string option"
  m_saddr :: "addr_match option"
  m_daddr :: "addr_match option"
  m_proto :: "proto option"
  m_sport :: "u16 option"
  m_dport :: "u16 option"
  m_ct_state :: "ct_state option"
  m_icmpv4_type :: "icmpv4_type option"
  m_icmpv6_type :: "icmpv6_type option"
  m_rate_limit :: "rate_limit option"
  m_mark :: "u32 option"
  m_ct_mark :: "u32 option"
  m_skuid :: "u32 option"

definition match_default :: match_fields where
  "match_default =
     \<lparr>m_iif = None, m_oif = None, m_iif_not = None, m_saddr = None, m_daddr = None,
      m_proto = None, m_sport = None, m_dport = None, m_ct_state = None,
      m_icmpv4_type = None, m_icmpv6_type = None, m_rate_limit = None,
      m_mark = None, m_ct_mark = None, m_skuid = None\<rparr>"

record rule =
  r_family :: family
  r_matches :: match_fields
  r_verdict :: verdict

subsection \<open>The builders of \<open>impl Rule\<close>\<close>

definition rule_new :: "family \<Rightarrow> verdict \<Rightarrow> rule" where
  "rule_new f v = \<lparr>r_family = f, r_matches = match_default, r_verdict = v\<rparr>"

definition accept :: "family \<Rightarrow> rule" where "accept f = rule_new f Accept"
definition return_rule :: "family \<Rightarrow> rule" where "return_rule f = rule_new f Return"
definition drop_rule :: "family \<Rightarrow> rule" where "drop_rule f = rule_new f Drop"
definition reject :: "family \<Rightarrow> rule" where "reject f = rule_new f Reject"

definition with_iif :: "string \<Rightarrow> rule \<Rightarrow> rule" where
  "with_iif i r = r\<lparr>r_matches := (r_matches r)\<lparr>m_iif := Some i\<rparr>\<rparr>"

definition with_oif :: "string \<Rightarrow> rule \<Rightarrow> rule" where
  "with_oif i r = r\<lparr>r_matches := (r_matches r)\<lparr>m_oif := Some i\<rparr>\<rparr>"

definition with_iif_not :: "string \<Rightarrow> rule \<Rightarrow> rule" where
  "with_iif_not i r = r\<lparr>r_matches := (r_matches r)\<lparr>m_iif_not := Some i\<rparr>\<rparr>"

definition with_daddr :: "addr_match \<Rightarrow> rule \<Rightarrow> rule" where
  "with_daddr a r = r\<lparr>r_matches := (r_matches r)\<lparr>m_daddr := Some a\<rparr>\<rparr>"

definition with_proto :: "proto \<Rightarrow> rule \<Rightarrow> rule" where
  "with_proto p r = r\<lparr>r_matches := (r_matches r)\<lparr>m_proto := Some p\<rparr>\<rparr>"

definition with_sport :: "u16 \<Rightarrow> rule \<Rightarrow> rule" where
  "with_sport p r = r\<lparr>r_matches := (r_matches r)\<lparr>m_sport := Some p\<rparr>\<rparr>"

definition with_dport :: "u16 \<Rightarrow> rule \<Rightarrow> rule" where
  "with_dport p r = r\<lparr>r_matches := (r_matches r)\<lparr>m_dport := Some p\<rparr>\<rparr>"

definition ct_new :: "rule \<Rightarrow> rule" where
  "ct_new r = r\<lparr>r_matches := (r_matches r)\<lparr>m_ct_state := Some New\<rparr>\<rparr>"

definition mark_eq :: "u32 \<Rightarrow> rule \<Rightarrow> rule" where
  "mark_eq k r = r\<lparr>r_matches := (r_matches r)\<lparr>m_mark := Some k\<rparr>\<rparr>"

definition ct_mark_eq :: "u32 \<Rightarrow> rule \<Rightarrow> rule" where
  "ct_mark_eq k r = r\<lparr>r_matches := (r_matches r)\<lparr>m_ct_mark := Some k\<rparr>\<rparr>"

definition with_skuid :: "u32 \<Rightarrow> rule \<Rightarrow> rule" where
  "with_skuid u r = r\<lparr>r_matches := (r_matches r)\<lparr>m_skuid := Some u\<rparr>\<rparr>"

definition set_ct_mark :: "family \<Rightarrow> u32 \<Rightarrow> rule" where
  "set_ct_mark f k = rule_new f (SetCtMark k)"

definition restore_mark :: "family \<Rightarrow> rule" where
  "restore_mark f = rule_new f RestoreMark"

definition with_icmpv4_type :: "icmpv4_type \<Rightarrow> rule \<Rightarrow> rule" where
  "with_icmpv4_type t r =
     r\<lparr>r_matches := (r_matches r)\<lparr>m_proto := Some Icmp, m_icmpv4_type := Some t\<rparr>\<rparr>"

definition with_icmpv6_type :: "icmpv6_type \<Rightarrow> rule \<Rightarrow> rule" where
  "with_icmpv6_type t r =
     r\<lparr>r_matches := (r_matches r)\<lparr>m_proto := Some IcmpV6, m_icmpv6_type := Some t\<rparr>\<rparr>"

definition with_rate_limit :: "u32 \<Rightarrow> u32 \<Rightarrow> rule \<Rightarrow> rule" where
  "with_rate_limit pm b r =
     r\<lparr>r_matches := (r_matches r)\<lparr>m_rate_limit := Some \<lparr>per_minute = pm, burst = b\<rparr>\<rparr>\<rparr>"

lemmas builder_defs = rule_new_def accept_def return_rule_def drop_rule_def reject_def with_iif_def
  with_oif_def with_iif_not_def with_daddr_def with_proto_def with_sport_def with_dport_def
  ct_new_def mark_eq_def ct_mark_eq_def with_skuid_def set_ct_mark_def restore_mark_def
  with_icmpv4_type_def with_icmpv6_type_def with_rate_limit_def match_default_def

subsection \<open>Chains and rule sets\<close>

type_synonym chain = "rule list"

record filter_rules =
  f_input :: chain
  f_output :: chain
  f_forward :: chain

record mangle_rules =
  g_prerouting :: chain
  g_output :: chain

record rule_set =
  rs_filter :: filter_rules
  rs_mangle :: mangle_rules

definition filter_default :: filter_rules where
  "filter_default = \<lparr>f_input = [], f_output = [], f_forward = []\<rparr>"

definition mangle_default :: mangle_rules where
  "mangle_default = \<lparr>g_prerouting = [], g_output = []\<rparr>"

definition rs_default :: rule_set where
  "rs_default = \<lparr>rs_filter = filter_default, rs_mangle = mangle_default\<rparr>"

definition mangle_is_empty :: "mangle_rules \<Rightarrow> bool" where
  "mangle_is_empty m = (g_prerouting m = [] \<and> g_output m = [])"

abbreviation input_of :: "rule_set \<Rightarrow> chain" where "input_of rs \<equiv> f_input (rs_filter rs)"
abbreviation output_of :: "rule_set \<Rightarrow> chain" where "output_of rs \<equiv> f_output (rs_filter rs)"
abbreviation forward_of :: "rule_set \<Rightarrow> chain" where "forward_of rs \<equiv> f_forward (rs_filter rs)"
abbreviation mangle_pre_of :: "rule_set \<Rightarrow> chain" where "mangle_pre_of rs \<equiv> g_prerouting (rs_mangle rs)"
abbreviation mangle_out_of :: "rule_set \<Rightarrow> chain" where "mangle_out_of rs \<equiv> g_output (rs_mangle rs)"

text \<open>\<open>rs.filter.output.push(r)\<close> and its four siblings (\<open>Chain::push\<close>).\<close>

definition push_input :: "rule \<Rightarrow> rule_set \<Rightarrow> rule_set" where
  "push_input r rs = rs\<lparr>rs_filter := (rs_filter rs)\<lparr>f_input := input_of rs @ [r]\<rparr>\<rparr>"

definition push_output :: "rule \<Rightarrow> rule_set \<Rightarrow> rule_set" where
  "push_output r rs = rs\<lparr>rs_filter := (rs_filter rs)\<lparr>f_output := output_of rs @ [r]\<rparr>\<rparr>"

definition push_forward :: "rule \<Rightarrow> rule_set \<Rightarrow> rule_set" where
  "push_forward r rs = rs\<lparr>rs_filter := (rs_filter rs)\<lparr>f_forward := forward_of rs @ [r]\<rparr>\<rparr>"

definition push_mangle_pre :: "rule \<Rightarrow> rule_set \<Rightarrow> rule_set" where
  "push_mangle_pre r rs = rs\<lparr>rs_mangle := (rs_mangle rs)\<lparr>g_prerouting := mangle_pre_of rs @ [r]\<rparr>\<rparr>"

definition push_mangle_out :: "rule \<Rightarrow> rule_set \<Rightarrow> rule_set" where
  "push_mangle_out r rs = rs\<lparr>rs_mangle := (rs_mangle rs)\<lparr>g_output := mangle_out_of rs @ [r]\<rparr>\<rparr>"

text \<open>\<open>RuleSet::all_chains\<close>, \<open>has_skuid\<close>, \<open>without_skuid_rules\<close>, \<open>without_mangle_rules\<close>.\<close>

definition all_chains :: "rule_set \<Rightarrow> chain list" where
  "all_chains rs = [input_of rs, output_of rs, forward_of rs, mangle_pre_of rs, mangle_out_of rs]"

definition has_skuid :: "rule_set \<Rightarrow> bool" where
  "has_skuid rs = list_ex (list_ex (\<lambda>r. m_skuid (r_matches r) \<noteq> None)) (all_chains rs)"

abbreviation unscoped :: "rule \<Rightarrow> bool" where
  "unscoped r \<equiv> m_skuid (r_matches r) = None"

definition without_skuid_rules :: "rule_set \<Rightarrow> rule_set" where
  "without_skuid_rules rs =
     \<lparr>rs_filter = \<lparr>f_input = filter unscoped (input_of rs),
                   f_output = filter unscoped (output_of rs),
                   f_forward = filter unscoped (forward_of rs)\<rparr>,
      rs_mangle = \<lparr>g_prerouting = filter unscoped (mangle_pre_of rs),
                   g_output = filter unscoped (mangle_out_of rs)\<rparr>\<rparr>"

definition without_mangle_rules :: "rule_set \<Rightarrow> rule_set" where
  "without_mangle_rules rs = rs\<lparr>rs_mangle := mangle_default\<rparr>"

subsection \<open>The packet-filter reading of a chain\<close>

record packet =
  p_iif :: string
  p_oif :: string
  p_saddr :: ip_addr
  p_daddr :: ip_addr
  p_proto :: "proto option"
  p_sport :: u16
  p_dport :: u16
  p_new :: bool
  p_icmpv4 :: "icmpv4_type option"
  p_icmpv6 :: "icmpv6_type option"
  p_mark :: u32
  p_ctmark :: u32
  p_uid :: "u32 option"

record netfilter =
  nf_net :: "ip_network \<Rightarrow> ip_addr \<Rightarrow> bool"
  nf_iface :: "string \<Rightarrow> string \<Rightarrow> bool"
  nf_limit :: "rate_limit \<Rightarrow> packet \<Rightarrow> bool"

text \<open>The one law asked of the kernel where a theorem needs a match: a device name matches itself.\<close>

definition iface_refl :: "netfilter \<Rightarrow> bool" where
  "iface_refl nf = (\<forall>d. nf_iface nf d d)"

fun opt_ok :: "'a option \<Rightarrow> ('a \<Rightarrow> bool) \<Rightarrow> bool" where
  "opt_ok None P = True"
| "opt_ok (Some x) P = P x"

fun addr_ok :: "netfilter \<Rightarrow> addr_match \<Rightarrow> ip_addr \<Rightarrow> bool" where
  "addr_ok nf (AddrIp a) x = (a = x)"
| "addr_ok nf (AddrNet n) x = nf_net nf n x"

fun family_ok :: "family \<Rightarrow> packet \<Rightarrow> bool" where
  "family_ok V4 p = is_v4 (p_daddr p)"
| "family_ok V6 p = (\<not> is_v4 (p_daddr p))"
| "family_ok Inet p = True"

definition fields_match :: "netfilter \<Rightarrow> match_fields \<Rightarrow> packet \<Rightarrow> bool" where
  "fields_match nf m p =
     (opt_ok (m_iif m) (\<lambda>i. nf_iface nf i (p_iif p)) \<and>
      opt_ok (m_oif m) (\<lambda>i. nf_iface nf i (p_oif p)) \<and>
      opt_ok (m_iif_not m) (\<lambda>i. \<not> nf_iface nf i (p_iif p)) \<and>
      opt_ok (m_saddr m) (\<lambda>a. addr_ok nf a (p_saddr p)) \<and>
      opt_ok (m_daddr m) (\<lambda>a. addr_ok nf a (p_daddr p)) \<and>
      opt_ok (m_proto m) (\<lambda>q. p_proto p = Some q) \<and>
      opt_ok (m_sport m) (\<lambda>q. p_sport p = q) \<and>
      opt_ok (m_dport m) (\<lambda>q. p_dport p = q) \<and>
      opt_ok (m_ct_state m) (\<lambda>_. p_new p) \<and>
      opt_ok (m_icmpv4_type m) (\<lambda>t. p_icmpv4 p = Some t) \<and>
      opt_ok (m_icmpv6_type m) (\<lambda>t. p_icmpv6 p = Some t) \<and>
      opt_ok (m_mark m) (\<lambda>k. p_mark p = k) \<and>
      opt_ok (m_ct_mark m) (\<lambda>k. p_ctmark p = k) \<and>
      opt_ok (m_skuid m) (\<lambda>u. p_uid p = Some u) \<and>
      opt_ok (m_rate_limit m) (\<lambda>l. nf_limit nf l p))"

definition rule_matches :: "netfilter \<Rightarrow> rule \<Rightarrow> packet \<Rightarrow> bool" where
  "rule_matches nf r p = (family_ok (r_family r) p \<and> fields_match nf (r_matches r) p)"

text \<open>A filter chain answers with the verdict of its first matching rule.\<close>

definition first_match :: "netfilter \<Rightarrow> chain \<Rightarrow> packet \<Rightarrow> verdict option" where
  "first_match nf c p = map_option r_verdict (List.find (\<lambda>r. rule_matches nf r p) c)"

definition matched_by :: "netfilter \<Rightarrow> chain \<Rightarrow> packet \<Rightarrow> bool" where
  "matched_by nf c p = (\<exists>r\<in>set c. rule_matches nf r p)"

text \<open>A mangle chain runs all its rules, each on the packet the earlier ones left.\<close>

fun mangle_step :: "netfilter \<Rightarrow> rule \<Rightarrow> packet \<Rightarrow> packet" where
  "mangle_step nf r p =
     (if rule_matches nf r p
      then (case r_verdict r of SetCtMark k \<Rightarrow> p\<lparr>p_ctmark := k\<rparr>
            | RestoreMark \<Rightarrow> p\<lparr>p_mark := p_ctmark p\<rparr>
            | _ \<Rightarrow> p)
      else p)"

definition run_mangle :: "netfilter \<Rightarrow> chain \<Rightarrow> packet \<Rightarrow> packet" where
  "run_mangle nf c p = fold (mangle_step nf) c p"

subsection \<open>What a push appends\<close>

lemma push_output_of [emit_simps]:
  "output_of (push_output r rs) = output_of rs @ [r]"
  "output_of (push_input r rs) = output_of rs"
  "output_of (push_forward r rs) = output_of rs"
  "output_of (push_mangle_pre r rs) = output_of rs"
  "output_of (push_mangle_out r rs) = output_of rs"
  by (simp_all add: push_output_def push_input_def push_forward_def push_mangle_pre_def push_mangle_out_def)

lemma push_input_of [emit_simps]:
  "input_of (push_output r rs) = input_of rs"
  "input_of (push_input r rs) = input_of rs @ [r]"
  "input_of (push_forward r rs) = input_of rs"
  "input_of (push_mangle_pre r rs) = input_of rs"
  "input_of (push_mangle_out r rs) = input_of rs"
  by (simp_all add: push_output_def push_input_def push_forward_def push_mangle_pre_def push_mangle_out_def)

lemma push_forward_of [emit_simps]:
  "forward_of (push_output r rs) = forward_of rs"
  "forward_of (push_input r rs) = forward_of rs"
  "forward_of (push_forward r rs) = forward_of rs @ [r]"
  "forward_of (push_mangle_pre r rs) = forward_of rs"
  "forward_of (push_mangle_out r rs) = forward_of rs"
  by (simp_all add: push_output_def push_input_def push_forward_def push_mangle_pre_def push_mangle_out_def)

lemma push_mangle_of [emit_simps]:
  "rs_mangle (push_output r rs) = rs_mangle rs"
  "rs_mangle (push_input r rs) = rs_mangle rs"
  "rs_mangle (push_forward r rs) = rs_mangle rs"
  "mangle_pre_of (push_mangle_pre r rs) = mangle_pre_of rs @ [r]"
  "mangle_out_of (push_mangle_pre r rs) = mangle_out_of rs"
  "mangle_pre_of (push_mangle_out r rs) = mangle_pre_of rs"
  "mangle_out_of (push_mangle_out r rs) = mangle_out_of rs @ [r]"
  by (simp_all add: push_output_def push_input_def push_forward_def push_mangle_pre_def push_mangle_out_def)

lemma rs_default_of [emit_simps]:
  "output_of rs_default = []" "input_of rs_default = []" "forward_of rs_default = []"
  "mangle_pre_of rs_default = []" "mangle_out_of rs_default = []"
  "rs_mangle rs_default = mangle_default"
  by (simp_all add: rs_default_def filter_default_def mangle_default_def)

subsection \<open>First-match evaluation\<close>

lemma first_match_Nil [simp]: "first_match nf [] p = None"
  by (simp add: first_match_def)

lemma first_match_Cons [simp]:
  "first_match nf (r # c) p = (if rule_matches nf r p then Some (r_verdict r) else first_match nf c p)"
  by (simp add: first_match_def)

lemma first_match_append:
  "first_match nf (c @ d) p = (case first_match nf c p of None \<Rightarrow> first_match nf d p | Some v \<Rightarrow> Some v)"
  by (induction c) auto

lemma first_match_None: "first_match nf c p = None \<longleftrightarrow> \<not> matched_by nf c p"
  by (induction c) (auto simp: matched_by_def)

lemma first_match_Some:
  "first_match nf c p = Some v \<Longrightarrow> \<exists>r\<in>set c. rule_matches nf r p \<and> r_verdict r = v"
  by (induction c) (auto split: if_splits)

lemma first_match_uniform:
  assumes "\<forall>r\<in>set c. r_verdict r = v"
  shows "first_match nf c p = (if matched_by nf c p then Some v else None)"
  using assms by (induction c) (auto simp: matched_by_def)

lemma matched_by_Nil [simp]: "\<not> matched_by nf [] p"
  by (simp add: matched_by_def)

lemma matched_by_Cons [simp]: "matched_by nf (r # c) p \<longleftrightarrow> rule_matches nf r p \<or> matched_by nf c p"
  by (auto simp: matched_by_def)

lemma matched_by_append [simp]: "matched_by nf (c @ d) p \<longleftrightarrow> matched_by nf c p \<or> matched_by nf d p"
  by (auto simp: matched_by_def)

lemma matched_by_concat: "matched_by nf (concat cs) p \<longleftrightarrow> (\<exists>c\<in>set cs. matched_by nf c p)"
  by (auto simp: matched_by_def)

text \<open>
  Dropping rules whose verdict is an accept never turns a packet that was not accepted into an
  accepted one.
\<close>

lemma first_match_filter_accepts:
  assumes "\<forall>r\<in>set c. \<not> P r \<longrightarrow> r_verdict r = Accept"
    and "first_match nf (filter P c) p = Some Accept"
  shows "first_match nf c p = Some Accept"
  using assms by (induction c) (auto split: if_splits)

subsection \<open>Matching of built rules\<close>

lemma built_verdict [simp]:
  "r_verdict (rule_new f v) = v" "r_verdict (accept f) = Accept" "r_verdict (return_rule f) = Return"
  "r_verdict (drop_rule f) = Drop" "r_verdict (reject f) = Reject"
  "r_verdict (set_ct_mark f k) = SetCtMark k" "r_verdict (restore_mark f) = RestoreMark"
  "r_verdict (with_iif i r) = r_verdict r" "r_verdict (with_oif i r) = r_verdict r"
  "r_verdict (with_iif_not i r) = r_verdict r" "r_verdict (with_daddr a r) = r_verdict r"
  "r_verdict (with_proto q r) = r_verdict r" "r_verdict (with_sport s r) = r_verdict r"
  "r_verdict (with_dport s r) = r_verdict r" "r_verdict (ct_new r) = r_verdict r"
  "r_verdict (mark_eq k r) = r_verdict r" "r_verdict (ct_mark_eq k r) = r_verdict r"
  "r_verdict (with_skuid u r) = r_verdict r" "r_verdict (with_icmpv4_type t4 r) = r_verdict r"
  "r_verdict (with_icmpv6_type t6 r) = r_verdict r" "r_verdict (with_rate_limit pm b r) = r_verdict r"
  by (simp_all add: builder_defs)

lemma built_skuid [simp]:
  "unscoped (rule_new f v)" "unscoped (accept f)" "unscoped (return_rule f)"
  "unscoped (drop_rule f)" "unscoped (reject f)" "unscoped (set_ct_mark f k)" "unscoped (restore_mark f)"
  "m_skuid (r_matches (with_iif i r)) = m_skuid (r_matches r)"
  "m_skuid (r_matches (with_oif i r)) = m_skuid (r_matches r)"
  "m_skuid (r_matches (with_iif_not i r)) = m_skuid (r_matches r)"
  "m_skuid (r_matches (with_daddr a r)) = m_skuid (r_matches r)"
  "m_skuid (r_matches (with_proto q r)) = m_skuid (r_matches r)"
  "m_skuid (r_matches (with_sport s r)) = m_skuid (r_matches r)"
  "m_skuid (r_matches (with_dport s r)) = m_skuid (r_matches r)"
  "m_skuid (r_matches (ct_new r)) = m_skuid (r_matches r)"
  "m_skuid (r_matches (mark_eq k r)) = m_skuid (r_matches r)"
  "m_skuid (r_matches (ct_mark_eq k r)) = m_skuid (r_matches r)"
  "m_skuid (r_matches (with_skuid u r)) = Some u"
  "m_skuid (r_matches (with_icmpv4_type t4 r)) = m_skuid (r_matches r)"
  "m_skuid (r_matches (with_icmpv6_type t6 r)) = m_skuid (r_matches r)"
  "m_skuid (r_matches (with_rate_limit pm b r)) = m_skuid (r_matches r)"
  by (simp_all add: builder_defs)

lemma rule_matches_new [match_simps]:
  "rule_matches nf (rule_new f v) p = family_ok f p"
  "rule_matches nf (accept f) p = family_ok f p"
  "rule_matches nf (return_rule f) p = family_ok f p"
  "rule_matches nf (drop_rule f) p = family_ok f p"
  "rule_matches nf (reject f) p = family_ok f p"
  "rule_matches nf (set_ct_mark f k) p = family_ok f p"
  "rule_matches nf (restore_mark f) p = family_ok f p"
  by (simp_all add: rule_matches_def fields_match_def builder_defs)

lemmas built_match_defs = rule_matches_def fields_match_def builder_defs

end
