(* ===== verification/FW_Types.thy ===== *)
theory FW_Types
  imports FW_Rules
begin

text \<open>
  The vocabulary a firewall policy is written in: \<open>nym-firewall/src/net.rs\<close> (endpoints, clients,
  exemptions, tunnel metadata), \<open>nym-firewall/src/lib.rs\<close> (\<open>FirewallPolicy\<close> and its accessors),
  \<open>nym-dns/src/lib.rs\<close> (DNS configuration) and \<open>nym-firewall-config/src/lib.rs\<close> (local
  networks). \<open>IpNetwork::contains\<close> belongs to a third-party crate and is an argument.
\<close>

subsection \<open>Endpoints, clients, exemptions and tunnels (net.rs)\<close>

datatype transport_protocol = TUdp | TTcp

text \<open>\<open>str::eq_ignore_ascii_case\<close> and \<open>FromStr for TransportProtocol\<close>.\<close>

definition eq_ignore_ascii_case :: "string \<Rightarrow> string \<Rightarrow> bool" where
  "eq_ignore_ascii_case s t = (map ascii_lower s = map ascii_lower t)"

datatype transport_protocol_parse_error = TransportProtocolParseError

definition transport_from_str :: "string \<Rightarrow> transport_protocol_parse_error + transport_protocol" where
  "transport_from_str s =
     (if eq_ignore_ascii_case s ''udp'' then Inr TUdp
      else if eq_ignore_ascii_case s ''tcp'' then Inr TTcp
      else Inl TransportProtocolParseError)"

fun show_transport :: "transport_protocol \<Rightarrow> string" where
  "show_transport TUdp = ''UDP''"
| "show_transport TTcp = ''TCP''"

record endpoint =
  e_ip :: ip_addr
  e_port :: u16
  e_protocol :: transport_protocol

datatype allowed_clients = Root | AllClients

definition allow_all :: "allowed_clients \<Rightarrow> bool" where
  "allow_all c = (c = AllClients)"

record allowed_endpoint =
  ae_endpoint :: endpoint
  ae_clients :: allowed_clients

datatype allowed_tunnel_traffic =
  TrafficNone | TrafficAll | TrafficOne endpoint | TrafficTwo endpoint endpoint

definition traffic_all :: "allowed_tunnel_traffic \<Rightarrow> bool" where
  "traffic_all t = (case t of TrafficAll \<Rightarrow> True | _ \<Rightarrow> False)"

record inbound_exemption =
  x_proto :: transport_protocol
  x_dport :: u16
  x_label :: "string option"

definition exemption_new :: "transport_protocol \<Rightarrow> u16 \<Rightarrow> inbound_exemption" where
  "exemption_new q d = \<lparr>x_proto = q, x_dport = d, x_label = None\<rparr>"

definition with_label :: "string \<Rightarrow> inbound_exemption \<Rightarrow> inbound_exemption" where
  "with_label l x = x\<lparr>x_label := Some l\<rparr>"

definition show_exemption :: "inbound_exemption \<Rightarrow> string" where
  "show_exemption x = show_transport (x_proto x) @ ''/'' @ dec (unat (x_dport x)) @
     (case x_label x of None \<Rightarrow> [] | Some l \<Rightarrow> '' ('' @ l @ '')'')"

record tunnel_metadata =
  t_interface :: string
  t_ips :: "ip_addr list"
  t_ipv4_gateway :: "32 word option"
  t_ipv6_gateway :: "128 word option"

datatype tunnel_interface = One tunnel_metadata | Two tunnel_metadata tunnel_metadata

fun exit_metadata :: "tunnel_interface \<Rightarrow> tunnel_metadata" where
  "exit_metadata (One m) = m"
| "exit_metadata (Two entry ex) = ex"

fun inner_metadatas :: "tunnel_interface \<Rightarrow> tunnel_metadata list" where
  "inner_metadatas (One m) = [m]"
| "inner_metadatas (Two entry ex) = [entry, ex]"

subsection \<open>DNS configuration (nym-dns/src/lib.rs)\<close>

record resolved_dns_config =
  d_tunnel :: "ip_addr list"
  d_non_tunnel :: "ip_addr list"

datatype dns_config = DnsDefault | DnsOverride "ip_addr list" "ip_addr list"

definition from_addresses :: "ip_addr list \<Rightarrow> ip_addr list \<Rightarrow> dns_config" where
  "from_addresses t n = DnsOverride t n"

fun dns_resolve :: "dns_config \<Rightarrow> ip_addr list \<Rightarrow> resolved_dns_config" where
  "dns_resolve DnsDefault default_tun = \<lparr>d_tunnel = default_tun, d_non_tunnel = []\<rparr>"
| "dns_resolve (DnsOverride t n) default_tun = \<lparr>d_tunnel = t, d_non_tunnel = n\<rparr>"

definition dns_addresses :: "resolved_dns_config \<Rightarrow> ip_addr list" where
  "dns_addresses c = d_non_tunnel c @ d_tunnel c"

definition dns_is_loopback :: "resolved_dns_config \<Rightarrow> bool" where
  "dns_is_loopback c =
     (let (lo, non_lo) = List.partition is_loopback (d_tunnel c @ d_non_tunnel c)
      in lo \<noteq> [] \<and> non_lo = [])"

record idle_dns =
  i_local_resolvers :: "ip_addr list"
  i_killswitch :: bool

definition wan_only :: idle_dns where
  "wan_only = \<lparr>i_local_resolvers = [], i_killswitch = False\<rparr>"

definition includes_wan :: "idle_dns \<Rightarrow> bool" where
  "includes_wan i = (\<not> i_killswitch i \<or> i_local_resolvers i = [])"

subsection \<open>Local networks (nym-firewall-config/src/lib.rs)\<close>

definition ALLOWED_LAN_NETS :: "ip_network list" where
  "ALLOWED_LAN_NETS =
     [IpNetwork (ipv4 10 0 0 0) 8, IpNetwork (ipv4 172 16 0 0) 12, IpNetwork (ipv4 192 168 0 0) 16,
      IpNetwork (ipv4 169 254 0 0) 16,
      IpNetwork (ipv6_of_segments [0xfe80, 0, 0, 0, 0, 0, 0, 0]) 10,
      IpNetwork (ipv6_of_segments [0xfc00, 0, 0, 0, 0, 0, 0, 0]) 7]"

definition ALLOWED_LAN_MULTICAST_NETS :: "ip_network list" where
  "ALLOWED_LAN_MULTICAST_NETS =
     [IpNetwork (ipv4 255 255 255 255) 32, IpNetwork (ipv4 224 0 0 0) 24, IpNetwork (ipv4 239 0 0 0) 8,
      IpNetwork (ipv6_of_segments [0xff01, 0, 0, 0, 0, 0, 0, 0]) 16,
      IpNetwork (ipv6_of_segments [0xff02, 0, 0, 0, 0, 0, 0, 0]) 16,
      IpNetwork (ipv6_of_segments [0xff03, 0, 0, 0, 0, 0, 0, 0]) 16,
      IpNetwork (ipv6_of_segments [0xff04, 0, 0, 0, 0, 0, 0, 0]) 16,
      IpNetwork (ipv6_of_segments [0xff05, 0, 0, 0, 0, 0, 0, 0]) 16]"

definition LOOPBACK_NETS :: "ip_network list" where
  "LOOPBACK_NETS =
     [IpNetwork (ipv4 127 0 0 0) 8, IpNetwork (ipv6_of_segments [0, 0, 0, 0, 0, 0, 0, 1]) 128]"

definition is_local_address :: "(ip_network \<Rightarrow> ip_addr \<Rightarrow> bool) \<Rightarrow> ip_addr \<Rightarrow> bool" where
  "is_local_address contains a = list_ex (\<lambda>net. contains net a) (ALLOWED_LAN_NETS @ LOOPBACK_NETS)"

subsection \<open>Policies (nym-firewall/src/lib.rs)\<close>

definition ROOT_UID :: u32 where "ROOT_UID = 0"
definition TUNNEL_FWMARK :: u32 where "TUNNEL_FWMARK = 0x14d"

record connecting_policy =
  cg_peer_endpoints :: "allowed_endpoint list"
  cg_tunnel :: "tunnel_interface option"
  cg_allow_lan :: bool
  cg_dns_config :: resolved_dns_config
  cg_allowed_endpoints :: "allowed_endpoint list"
  cg_entry_traffic :: allowed_tunnel_traffic
  cg_exit_traffic :: allowed_tunnel_traffic
  cg_inbound_exemptions :: "inbound_exemption list"

record connected_policy =
  cd_peer_endpoints :: "allowed_endpoint list"
  cd_tunnel :: tunnel_interface
  cd_allow_lan :: bool
  cd_dns_config :: resolved_dns_config
  cd_allowed_endpoints :: "allowed_endpoint list"
  cd_inbound_exemptions :: "inbound_exemption list"

record blocked_policy =
  bl_allow_lan :: bool
  bl_allowed_endpoints :: "allowed_endpoint list"
  bl_dns_servers :: "ip_addr list"

datatype firewall_policy =
  Connecting connecting_policy | Connected connected_policy | Blocked blocked_policy

fun peer_endpoints :: "firewall_policy \<Rightarrow> allowed_endpoint list" where
  "peer_endpoints (Connecting c) = cg_peer_endpoints c"
| "peer_endpoints (Connected c) = cd_peer_endpoints c"
| "peer_endpoints (Blocked b) = []"

fun allowed_endpoints :: "firewall_policy \<Rightarrow> allowed_endpoint list" where
  "allowed_endpoints (Connecting c) = cg_allowed_endpoints c"
| "allowed_endpoints (Connected c) = cd_allowed_endpoints c"
| "allowed_endpoints (Blocked b) = bl_allowed_endpoints b"

fun inbound_exemptions :: "firewall_policy \<Rightarrow> inbound_exemption list" where
  "inbound_exemptions (Connecting c) = cg_inbound_exemptions c"
| "inbound_exemptions (Connected c) = cd_inbound_exemptions c"
| "inbound_exemptions (Blocked b) = []"

fun policy_tunnel :: "firewall_policy \<Rightarrow> tunnel_interface option" where
  "policy_tunnel (Connecting c) = cg_tunnel c"
| "policy_tunnel (Connected c) = Some (cd_tunnel c)"
| "policy_tunnel (Blocked b) = None"

fun allowed_entry_tunnel_traffic :: "firewall_policy \<Rightarrow> allowed_tunnel_traffic" where
  "allowed_entry_tunnel_traffic (Connecting c) = cg_entry_traffic c"
| "allowed_entry_tunnel_traffic (Connected c) = TrafficAll"
| "allowed_entry_tunnel_traffic (Blocked b) = TrafficNone"

fun allowed_exit_tunnel_traffic :: "firewall_policy \<Rightarrow> allowed_tunnel_traffic" where
  "allowed_exit_tunnel_traffic (Connecting c) = cg_exit_traffic c"
| "allowed_exit_tunnel_traffic (Connected c) = TrafficAll"
| "allowed_exit_tunnel_traffic (Blocked b) = TrafficNone"

fun allow_lan :: "firewall_policy \<Rightarrow> bool" where
  "allow_lan (Connecting c) = cg_allow_lan c"
| "allow_lan (Connected c) = cd_allow_lan c"
| "allow_lan (Blocked b) = bl_allow_lan b"

fun policy_dns_config :: "firewall_policy \<Rightarrow> resolved_dns_config option" where
  "policy_dns_config (Connecting c) = Some (cg_dns_config c)"
| "policy_dns_config (Connected c) = Some (cd_dns_config c)"
| "policy_dns_config (Blocked b) = None"

subsection \<open>Facts\<close>

text \<open>Printing a transport protocol and parsing it again.\<close>

lemma transport_roundtrip: "transport_from_str (show_transport t) = Inr t"
proof (cases t)
  case TUdp
  have "transport_from_str (show_transport TUdp) = Inr TUdp" by code_simp
  then show ?thesis by (simp only: TUdp)
next
  case TTcp
  have "transport_from_str (show_transport TTcp) = Inr TTcp" by code_simp
  then show ?thesis by (simp only: TTcp)
qed

lemma exit_metadata_inner: "exit_metadata t \<in> set (inner_metadatas t)"
  by (cases t) simp_all

lemma dns_is_loopback_iff:
  "dns_is_loopback c \<longleftrightarrow> dns_addresses c \<noteq> [] \<and> (\<forall>a\<in>set (dns_addresses c). is_loopback a)"
  by (auto simp: dns_is_loopback_def dns_addresses_def filter_empty_conv)

end
