(* ===== verification/Gateways.thy ===== *)
theory Gateways
  imports Nym_Prelude "HOL-Library.AList"
begin

text \<open>
  The gateway directory (\<open>nym-gateway-directory\<close>): gateways, the filters a search applies to them, the
  lists they are searched in (\<open>entries/gateway/mod.rs\<close>), the entry and exit points a user asks for and the
  blacklist of entry gateways (\<open>blacklisted_gateways.rs\<close>). The random generator behind
  \<open>IteratorRandom::choose\<close> is an argument: any function that gives an index from its state and the number
  of candidates.
\<close>

subsection \<open>Gateways\<close>

text \<open>Identities are base58 strings; an address of the mixnet (\<open>Recipient\<close>) names its gateway.\<close>

type_synonym node_identity = string

datatype recipient = Recipient (recipient_gateway: node_identity) (recipient_rest: string)

text \<open>The errors of the directory. What another crate reports is kept as its text.\<close>

datatype directory_error =
  NodeIdentityFormattingError string string
| RecipientFormattingError string string
| ValidatorClientError string
| VpnApiClientError string
| FailedToLookupDescribedGateways string
| FailedToLookupSkimmedGateways string
| FailedToLookupSkimmedNodes string
| RequestedGatewayIdNotFound string
| MissingIpPacketRouterAddress
| MissingHostnameOrIpAddress string
| NoMatchingGateway string
| NoMatchingEntryGatewayForLocation string "string list"
| NoMatchingExitGatewayForLocation string "string list"
| NoMatchingGatewayAfterSelectingLowLatency string
| FailedToSelectGatewayRandomly
| NoGatewayDescriptionAvailable string
| FailedToLookupIp string
| MalformedGateway
| DirectoryOffline
| HttpClient string
| NymApi string
| Cancelled
| InvalidScoreValue string
| InvalidConfiguration string

datatype asn_kind = Residential | OtherAsn

record asn =
  asn_asn :: string
  asn_name :: string
  asn_route :: "ip_network option"
  asn_kind :: asn_kind

text \<open>Floating-point fields are kept as their bit patterns; nothing computes with them.\<close>

record location =
  loc_country :: string
  loc_latitude :: u64
  loc_longitude :: u64
  loc_city :: string
  loc_region :: string
  loc_asn :: "asn option"

datatype score_value = Offline | Low | Medium | High

fun priority :: "score_value \<Rightarrow> u8" where
  "priority Offline = 0"
| "priority Low = 1"
| "priority Medium = 2"
| "priority High = 3"

text \<open>\<open>PartialOrd for ScoreValue\<close> compares priorities.\<close>

instantiation score_value :: linorder
begin

definition less_eq_score_value :: "score_value \<Rightarrow> score_value \<Rightarrow> bool" where
  "a \<le> b \<longleftrightarrow> priority a \<le> priority b"

definition less_score_value :: "score_value \<Rightarrow> score_value \<Rightarrow> bool" where
  "a < b \<longleftrightarrow> priority a < priority b"

instance
proof
  fix a b c :: score_value
  show "(a < b) = (a \<le> b \<and> \<not> b \<le> a)"
    by (auto simp: less_eq_score_value_def less_score_value_def)
  show "a \<le> a" by (simp add: less_eq_score_value_def)
  show "a \<le> b \<Longrightarrow> b \<le> c \<Longrightarrow> a \<le> c" by (simp add: less_eq_score_value_def)
  show "a \<le> b \<Longrightarrow> b \<le> a \<Longrightarrow> a = b" by (cases a; cases b) (simp_all add: less_eq_score_value_def word_le_nat_alt)
  show "a \<le> b \<or> b \<le> a" by (auto simp: less_eq_score_value_def)
qed

end

lemma score_order [simp]:
  "High \<le> s \<longleftrightarrow> s = High" "Low \<le> High" "Medium \<le> High" "Low \<le> Medium" "Offline \<le> s"
  "Low \<le> s \<longleftrightarrow> s \<noteq> Offline" "Medium \<le> s \<longleftrightarrow> s = Medium \<or> s = High"
  by (cases s; simp add: less_eq_score_value_def word_le_nat_alt)+

text \<open>
  The words compared with are ASCII and no other character lowercases to a letter of them, so ASCII
  lowercasing stands for \<open>to_lowercase\<close>.
\<close>

definition score_from_str :: "string \<Rightarrow> directory_error + score_value" where
  "score_from_str s =
     (let l = map ascii_lower s
      in if l = ''offline'' then Inr Offline else if l = ''low'' then Inr Low
         else if l = ''medium'' then Inr Medium else if l = ''high'' then Inr High else Inl (InvalidScoreValue s))"

fun score_to_string :: "score_value \<Rightarrow> string" where
  "score_to_string Offline = ''Offline''"
| "score_to_string Low = ''Low''"
| "score_to_string Medium = ''Medium''"
| "score_to_string High = ''High''"

record performance =
  pf_last_updated :: string
  pf_score :: score_value
  pf_mixnet_score :: score_value
  pf_load :: score_value
  pf_uptime :: u32

record socks5_probe =
  sk_can_proxy_https :: bool
  sk_score :: "score_value option"
  sk_errors :: "string list option"

record entry_probe =
  en_can_connect :: bool
  en_can_route :: bool

record exit_probe =
  ex_can_connect :: bool
  ex_can_route_ip_v4 :: bool
  ex_can_route_ip_external_v4 :: bool
  ex_can_route_ip_v6 :: bool
  ex_can_route_ip_external_v6 :: bool
  ex_socks5 :: "socks5_probe option"

record lp_probe =
  lp_can_connect :: bool
  lp_can_handshake :: bool
  lp_can_register :: bool
  lp_error :: "string option"

record wg_probe_results =
  wp_can_register :: bool
  wp_can_handshake :: bool
  wp_can_resolve_dns :: bool
  wp_can_query_metadata_v4 :: bool
  wp_ping_hosts_performance :: u32
  wp_ping_ips_performance :: u32

record probe_outcome =
  po_as_entry :: entry_probe
  po_as_exit :: "exit_probe option"
  po_wg :: "wg_probe_results option"
  po_lp :: "lp_probe option"

record probe =
  pb_last_updated :: string
  pb_outcome :: probe_outcome

type_synonym u128 = "128 word"

record node_staking =
  nk_total_stake :: u128
  nk_total_delegations :: u128
  nk_total_bond :: u128
  nk_delegations :: nat

record node_family =
  nf_id :: u32
  nf_name :: string
  nf_description :: string
  nf_family_stake :: u128
  nf_members :: nat

record quic_client_options =
  q_addresses :: "(ip_addr \<times> u16) list"
  q_host :: "string option"
  q_id_pubkey :: string

datatype bridge_parameters = QuicPlain quic_client_options

record bridge_information =
  br_version :: string
  br_transports :: "bridge_parameters list"

fun bridge_addresses :: "bridge_parameters \<Rightarrow> (ip_addr \<times> u16) list" where
  "bridge_addresses (QuicPlain params) = q_addresses params"

definition get_addrs :: "bridge_information \<Rightarrow> (ip_addr \<times> u16) list" where
  "get_addrs b = concat (map bridge_addresses (br_transports b))"

text \<open>
  A gateway. Of the Lewes protocol details the control port is kept; the mixnet performance is the integer
  \<open>round_to_integer\<close> gives.
\<close>

record gateway =
  g_identity :: node_identity
  g_name :: string
  g_description :: "string option"
  g_location :: "location option"
  g_ipr_address :: "recipient option"
  g_authenticator_address :: "string option"
  g_nr_address :: "string option"
  g_bridge_params :: "bridge_information option"
  g_last_probe :: "probe option"
  g_ips :: "ip_addr list"
  g_host :: "string option"
  g_clients_ws_port :: "u16 option"
  g_clients_wss_port :: "u16 option"
  g_mixnet_performance :: "u8 option"
  g_performance :: "performance option"
  g_version :: "string option"
  g_lp_control_port :: "u16 option"
  g_staking_data :: "node_staking option"
  g_family_data :: "node_family option"

definition is_in_country :: "string \<Rightarrow> gateway \<Rightarrow> bool" where
  "is_in_country code g = (case g_location g of None \<Rightarrow> False | Some l \<Rightarrow> loc_country l = code)"

definition is_in_region :: "string \<Rightarrow> gateway \<Rightarrow> bool" where
  "is_in_region region g = (case g_location g of None \<Rightarrow> False | Some l \<Rightarrow> loc_region l = region)"

definition is_residential_asn :: "gateway \<Rightarrow> bool" where
  "is_residential_asn g =
     (case g_location g of
        None \<Rightarrow> False
      | Some l \<Rightarrow> (case loc_asn l of None \<Rightarrow> False | Some a \<Rightarrow> asn_kind a = Residential))"

definition get_bridge_params :: "gateway \<Rightarrow> bridge_parameters option" where
  "get_bridge_params g =
     (case g_bridge_params g of
        None \<Rightarrow> None
      | Some all_params \<Rightarrow> (case br_transports all_params of [] \<Rightarrow> None | t # _ \<Rightarrow> Some t))"

definition is_quic_enabled :: "gateway \<Rightarrow> bool" where
  "is_quic_enabled g = (case get_bridge_params g of None \<Rightarrow> False | Some (QuicPlain _) \<Rightarrow> True)"

definition is_exit_node :: "gateway \<Rightarrow> bool" where
  "is_exit_node g = (g_ipr_address g \<noteq> None)"

definition is_vpn_node :: "gateway \<Rightarrow> bool" where
  "is_vpn_node g = (g_authenticator_address g \<noteq> None)"

definition lookup_ip :: "gateway \<Rightarrow> ip_addr option" where
  "lookup_ip g = (case g_ips g of [] \<Rightarrow> None | ip # _ \<Rightarrow> Some ip)"

definition clients_address_no_tls :: "gateway \<Rightarrow> string option" where
  "clients_address_no_tls g =
     (case (g_host g, g_clients_ws_port g) of
        (Some host, Some port) \<Rightarrow> Some (''ws://'' @ host @ '':'' @ dec (unat port))
      | _ \<Rightarrow> None)"

definition clients_address_tls :: "gateway \<Rightarrow> string option" where
  "clients_address_tls g =
     (case (g_host g, g_clients_wss_port g) of
        (Some host, Some port) \<Rightarrow> Some (''wss://'' @ host @ '':'' @ dec (unat port))
      | _ \<Rightarrow> None)"

definition not_mixnet_blacklisted :: "gateway \<Rightarrow> bool" where
  "not_mixnet_blacklisted g = (case g_mixnet_performance g of None \<Rightarrow> False | Some p \<Rightarrow> 55 < p)"

text \<open>\<open>gateway_ext.rs\<close>: the websocket and Lewes protocol endpoints.\<close>

definition DEFAULT_WS_PORT :: u16 where "DEFAULT_WS_PORT = 80"

definition option_list :: "'a option \<Rightarrow> 'a list" where
  "option_list x = (case x of None \<Rightarrow> [] | Some y \<Rightarrow> [y])"

definition endpoints :: "gateway \<Rightarrow> (ip_addr \<times> u16) list" where
  "endpoints g =
     (let ports = option_list (g_clients_ws_port g) @ option_list (g_clients_wss_port g);
          ports = (if ports = [] then [DEFAULT_WS_PORT] else ports)
      in List.product (g_ips g) ports)"

definition lp_endpoints :: "gateway \<Rightarrow> (ip_addr \<times> u16) list" where
  "lp_endpoints g =
     (case g_lp_control_port g of None \<Rightarrow> [] | Some port \<Rightarrow> map (\<lambda>ip. (ip, port)) (g_ips g))"

subsection \<open>The blacklist\<close>

definition BLACKLIST_TTL :: instant where "BLACKLIST_TTL = 20 * 60 * 1000"

text \<open>The lock is poisoned once a thread has panicked while it held it; every operation then fails.\<close>

record blacklist =
  bk_map :: "(node_identity \<times> instant) list"
  bk_poisoned :: bool

definition housekeep :: "instant \<Rightarrow> (node_identity \<times> instant) list \<Rightarrow> (node_identity \<times> instant) list" where
  "housekeep now m = filter (\<lambda>(_, expiry). now \<le> expiry) m"

definition blacklist_add :: "node_identity \<Rightarrow> instant \<Rightarrow> blacklist \<Rightarrow> bool \<times> blacklist" where
  "blacklist_add identity now b =
     (if bk_poisoned b then (False, b)
      else (True, b\<lparr>bk_map := housekeep now (AList.update identity (now + BLACKLIST_TTL) (bk_map b))\<rparr>))"

definition blacklist_remove :: "node_identity \<Rightarrow> instant \<Rightarrow> blacklist \<Rightarrow> bool \<times> blacklist" where
  "blacklist_remove identity now b =
     (if bk_poisoned b then (False, b)
      else (True, b\<lparr>bk_map := housekeep now (AList.delete identity (bk_map b))\<rparr>))"

definition blacklist_clear :: "blacklist \<Rightarrow> bool \<times> blacklist" where
  "blacklist_clear b = (if bk_poisoned b then (False, b) else (True, b\<lparr>bk_map := []\<rparr>))"

definition blacklist_exists :: "node_identity \<Rightarrow> instant \<Rightarrow> blacklist \<Rightarrow> bool option" where
  "blacklist_exists identity now b =
     (if bk_poisoned b then None
      else Some (case map_of (bk_map b) identity of None \<Rightarrow> False | Some expiry \<Rightarrow> now < expiry))"

definition blacklist_is_empty :: "blacklist \<Rightarrow> bool option" where
  "blacklist_is_empty b = (if bk_poisoned b then None else Some (bk_map b = []))"

definition is_whitelisted :: "instant \<Rightarrow> blacklist \<Rightarrow> gateway \<Rightarrow> bool" where
  "is_whitelisted now b g =
     (case blacklist_exists (g_identity g) now b of Some ex \<Rightarrow> \<not> ex | None \<Rightarrow> False)"

subsection \<open>Filters\<close>

datatype gateway_type = MixnetEntry | MixnetExit | Wg

datatype gateway_filter =
  MinScore score_value | MinSocks5Score score_value | Country string | Region string | ResidentialOnly
| QuicEnabled | Exit | Vpn | NotBlacklisted blacklist

text \<open>A \<open>HashSet\<close> of filters, all of which must hold: the order and repetitions of the list are irrelevant.\<close>

type_synonym gateway_filters = "gateway_filter list"

definition meets_score :: "gateway_type option \<Rightarrow> score_value \<Rightarrow> gateway \<Rightarrow> bool" where
  "meets_score gw_type min_score g =
     (case gw_type of
        Some MixnetEntry \<Rightarrow> (case g_performance g of None \<Rightarrow> False | Some p \<Rightarrow> min_score \<le> pf_mixnet_score p)
      | Some MixnetExit \<Rightarrow> (case g_performance g of None \<Rightarrow> False | Some p \<Rightarrow> min_score \<le> pf_mixnet_score p)
      | Some Wg \<Rightarrow> (case g_performance g of None \<Rightarrow> False | Some p \<Rightarrow> min_score \<le> pf_score p)
      | None \<Rightarrow> False)"

definition meets_socks5_score :: "score_value \<Rightarrow> gateway \<Rightarrow> bool" where
  "meets_socks5_score min_score g =
     (case Option.bind (g_last_probe g) (\<lambda>probe.
             Option.bind (po_as_exit (pb_outcome probe)) (\<lambda>ex. Option.bind (ex_socks5 ex) sk_score)) of
        None \<Rightarrow> False
      | Some score \<Rightarrow> min_score \<le> score)"

fun matches_filter :: "instant \<Rightarrow> gateway_type option \<Rightarrow> gateway_filter \<Rightarrow> gateway \<Rightarrow> bool" where
  "matches_filter now gw_type (MinScore score) g = meets_score gw_type score g"
| "matches_filter now gw_type (MinSocks5Score score) g = meets_socks5_score score g"
| "matches_filter now gw_type (Country code) g = is_in_country code g"
| "matches_filter now gw_type (Region region) g = is_in_region region g"
| "matches_filter now gw_type ResidentialOnly g = is_residential_asn g"
| "matches_filter now gw_type QuicEnabled g = is_quic_enabled g"
| "matches_filter now gw_type Exit g = is_exit_node g"
| "matches_filter now gw_type Vpn g = is_vpn_node g"
| "matches_filter now gw_type (NotBlacklisted b) g = is_whitelisted now b g"

definition matches_all_filters :: "instant \<Rightarrow> gateway_type option \<Rightarrow> gateway_filters \<Rightarrow> gateway \<Rightarrow> bool" where
  "matches_all_filters now gw_type filters g = list_all (\<lambda>f. matches_filter now gw_type f g) filters"

subsection \<open>Lists of gateways\<close>

record gateway_list =
  gl_type :: "gateway_type option"
  gl_gateways :: "gateway list"

definition all_iso_codes :: "gateway_list \<Rightarrow> string list" where
  "all_iso_codes gl = unique (map loc_country (List.map_filter g_location (gl_gateways gl)))"

definition filter_gateways :: "instant \<Rightarrow> gateway_filters \<Rightarrow> gateway_list \<Rightarrow> gateway list" where
  "filter_gateways now filters gl = filter (matches_all_filters now (gl_type gl) filters) (gl_gateways gl)"

definition gateway_with_identity :: "node_identity \<Rightarrow> gateway_list \<Rightarrow> gateway option" where
  "gateway_with_identity identity gl = List.find (\<lambda>g. g_identity g = identity) (gl_gateways gl)"

definition gateway_with_identity_filtered :: "instant \<Rightarrow> node_identity \<Rightarrow> gateway_filters \<Rightarrow> gateway_list \<Rightarrow> gateway option" where
  "gateway_with_identity_filtered now identity filters gl =
     List.find (\<lambda>g. g_identity g = identity) (filter_gateways now filters gl)"

definition remove_gateway :: "gateway \<Rightarrow> gateway_list \<Rightarrow> gateway_list" where
  "remove_gateway gone gl = gl\<lparr>gl_gateways := filter (\<lambda>g. g_identity g \<noteq> g_identity gone) (gl_gateways gl)\<rparr>"

definition into_exit_gateways :: "instant \<Rightarrow> gateway_list \<Rightarrow> gateway_list" where
  "into_exit_gateways now gl = gl\<lparr>gl_gateways := filter_gateways now [Exit] gl\<rparr>"

definition into_vpn_gateways :: "instant \<Rightarrow> gateway_list \<Rightarrow> gateway_list" where
  "into_vpn_gateways now gl = gl\<lparr>gl_gateways := filter_gateways now [Vpn] gl\<rparr>"

type_synonym 'r rng = "'r \<Rightarrow> nat \<Rightarrow> nat \<times> 'r"

definition choose_from :: "'r rng \<Rightarrow> 'r \<Rightarrow> 'a list \<Rightarrow> 'a option \<times> 'r" where
  "choose_from draw r xs =
     (if xs = [] then (None, r)
      else case draw r (length xs) of (k, r) \<Rightarrow> (Some (xs ! (k mod length xs)), r))"

definition choose_random :: "'r rng \<Rightarrow> instant \<Rightarrow> gateway_filters \<Rightarrow> gateway_list \<Rightarrow> 'r \<Rightarrow> gateway option \<times> 'r" where
  "choose_random draw now filters gl r = choose_from draw r (filter_gateways now filters gl)"

subsection \<open>Searching for an entry or an exit\<close>

definition COUNTRY_WITH_REGION_SELECTOR :: string where
  "COUNTRY_WITH_REGION_SELECTOR = ''US''"

datatype entry_point = EntryGateway node_identity | EntryCountry string | EntryRegion string | EntryRandom

datatype exit_point =
  ExitAddress recipient | ExitGateway node_identity | ExitCountry string | ExitRegion string | ExitRandom

fun is_unmatched_non_specific_gateway :: "directory_error \<Rightarrow> bool" where
  "is_unmatched_non_specific_gateway (NoMatchingEntryGatewayForLocation _ _) = True"
| "is_unmatched_non_specific_gateway (NoMatchingExitGatewayForLocation _ _) = True"
| "is_unmatched_non_specific_gateway FailedToSelectGatewayRandomly = True"
| "is_unmatched_non_specific_gateway _ = False"

definition ok_or :: "'e \<Rightarrow> 'a option \<Rightarrow> 'e + 'a" where
  "ok_or e x = (case x of None \<Rightarrow> Inl e | Some y \<Rightarrow> Inr y)"

abbreviation pick ::
  "'r rng \<Rightarrow> instant \<Rightarrow> gateway_filters \<Rightarrow> gateway_list \<Rightarrow> directory_error \<Rightarrow> 'r \<Rightarrow> (directory_error + gateway) \<times> 'r" where
  "pick draw now filters gl err r \<equiv> apfst (ok_or err) (choose_random draw now filters gl r)"

fun find_entry_gateway ::
  "'r rng \<Rightarrow> instant \<Rightarrow> entry_point \<Rightarrow> gateway_filters \<Rightarrow> gateway_filters \<Rightarrow> gateway_list \<Rightarrow> 'r
   \<Rightarrow> (directory_error + gateway) \<times> 'r" where
  "find_entry_gateway draw now (EntryGateway identity) base optional gl r =
     (ok_or (NoMatchingGateway identity) (gateway_with_identity identity gl), r)"
| "find_entry_gateway draw now (EntryCountry code) base optional gl r =
     pick draw now (base @ optional @ [Country code]) gl (NoMatchingEntryGatewayForLocation code (all_iso_codes gl)) r"
| "find_entry_gateway draw now (EntryRegion region) base optional gl r =
     pick draw now (base @ optional @ [Country COUNTRY_WITH_REGION_SELECTOR, Region region]) gl
       (NoMatchingEntryGatewayForLocation region (all_iso_codes gl)) r"
| "find_entry_gateway draw now EntryRandom base optional gl r =
     pick draw now (base @ optional) gl FailedToSelectGatewayRandomly r"

fun entry_not_found :: "entry_point \<Rightarrow> gateway_list \<Rightarrow> directory_error" where
  "entry_not_found (EntryGateway identity) gl = NoMatchingGateway identity"
| "entry_not_found (EntryCountry code) gl = NoMatchingEntryGatewayForLocation code (all_iso_codes gl)"
| "entry_not_found (EntryRegion region) gl = NoMatchingEntryGatewayForLocation region (all_iso_codes gl)"
| "entry_not_found EntryRandom gl = FailedToSelectGatewayRandomly"

text \<open>The descending score loop the three \<open>find_best\<close> functions share.\<close>

fun best_of ::
  "(score_value \<Rightarrow> 'r \<Rightarrow> (directory_error + gateway) \<times> 'r) \<Rightarrow> directory_error \<Rightarrow> score_value list \<Rightarrow> 'r
   \<Rightarrow> (directory_error + gateway) \<times> 'r" where
  "best_of search none_left [] r = (Inl none_left, r)"
| "best_of search none_left (score # scores) r =
     (case search score r of
        (Inr g, r) \<Rightarrow> (Inr g, r)
      | (Inl err, r) \<Rightarrow>
          if is_unmatched_non_specific_gateway err then best_of search none_left scores r else (Inl err, r))"

definition find_best_entry_gateway ::
  "'r rng \<Rightarrow> instant \<Rightarrow> entry_point \<Rightarrow> gateway_filters \<Rightarrow> gateway_list \<Rightarrow> 'r \<Rightarrow> (directory_error + gateway) \<times> 'r" where
  "find_best_entry_gateway draw now entry_point base gl =
     best_of (\<lambda>score. find_entry_gateway draw now entry_point base [MinScore score] gl)
       (entry_not_found entry_point gl) [High, Medium, Low]"

fun find_exit_gateway ::
  "'r rng \<Rightarrow> instant \<Rightarrow> exit_point \<Rightarrow> gateway_filters \<Rightarrow> gateway_list \<Rightarrow> 'r \<Rightarrow> (directory_error + gateway) \<times> 'r" where
  "find_exit_gateway draw now (ExitAddress address) base gl r =
     (case gateway_with_identity (recipient_gateway address) gl of
        None \<Rightarrow> (Inl (NoMatchingGateway (recipient_gateway address)), r)
      | Some g \<Rightarrow> (Inr (g\<lparr>g_ipr_address := Some address\<rparr>), r))"
| "find_exit_gateway draw now (ExitGateway identity) base gl r =
     (ok_or (NoMatchingGateway identity) (gateway_with_identity identity gl), r)"
| "find_exit_gateway draw now (ExitCountry code) base gl r =
     pick draw now (base @ [Country code]) gl (NoMatchingExitGatewayForLocation code (all_iso_codes gl)) r"
| "find_exit_gateway draw now (ExitRegion region) base gl r =
     pick draw now (base @ [Country COUNTRY_WITH_REGION_SELECTOR, Region region]) gl
       (NoMatchingExitGatewayForLocation region (all_iso_codes gl)) r"
| "find_exit_gateway draw now ExitRandom base gl r =
     pick draw now base gl FailedToSelectGatewayRandomly r"

text \<open>The address as \<open>Display for Recipient\<close> prints it is an argument.\<close>

fun exit_not_found :: "(recipient \<Rightarrow> string) \<Rightarrow> exit_point \<Rightarrow> gateway_list \<Rightarrow> directory_error" where
  "exit_not_found show_recipient (ExitAddress address) gl = NoMatchingGateway (show_recipient address)"
| "exit_not_found show_recipient (ExitGateway identity) gl = NoMatchingGateway identity"
| "exit_not_found show_recipient (ExitCountry code) gl = NoMatchingEntryGatewayForLocation code (all_iso_codes gl)"
| "exit_not_found show_recipient (ExitRegion region) gl = NoMatchingEntryGatewayForLocation region (all_iso_codes gl)"
| "exit_not_found show_recipient ExitRandom gl = FailedToSelectGatewayRandomly"

definition find_best_exit_gateway ::
  "(recipient \<Rightarrow> string) \<Rightarrow> 'r rng \<Rightarrow> instant \<Rightarrow> exit_point \<Rightarrow> gateway_filters \<Rightarrow> gateway_list \<Rightarrow> 'r
   \<Rightarrow> (directory_error + gateway) \<times> 'r" where
  "find_best_exit_gateway show_recipient draw now exit_point base gl =
     best_of (\<lambda>score. find_exit_gateway draw now exit_point (base @ [MinScore score]) gl)
       (exit_not_found show_recipient exit_point gl) [High, Medium, Low]"

fun socks5_not_found :: "(recipient \<Rightarrow> string) \<Rightarrow> exit_point \<Rightarrow> gateway_list \<Rightarrow> directory_error" where
  "socks5_not_found show_recipient (ExitCountry code) gl = NoMatchingExitGatewayForLocation code (all_iso_codes gl)"
| "socks5_not_found show_recipient (ExitRegion region) gl = NoMatchingExitGatewayForLocation region (all_iso_codes gl)"
| "socks5_not_found show_recipient exit_point gl = exit_not_found show_recipient exit_point gl"

definition find_best_socks5_gateway ::
  "(recipient \<Rightarrow> string) \<Rightarrow> 'r rng \<Rightarrow> instant \<Rightarrow> exit_point \<Rightarrow> gateway_filters \<Rightarrow> gateway_list \<Rightarrow> 'r
   \<Rightarrow> (directory_error + gateway) \<times> 'r" where
  "find_best_socks5_gateway show_recipient draw now exit_point base gl =
     best_of (\<lambda>score. find_exit_gateway draw now exit_point (base @ [MinSocks5Score score]) gl)
       (socks5_not_found show_recipient exit_point gl) [High, Medium, Low]"

definition build_entry_filters :: "score_value option \<Rightarrow> blacklist \<Rightarrow> gateway_filters" where
  "build_entry_filters min_score b =
     (case min_score of None \<Rightarrow> [] | Some s \<Rightarrow> [MinScore s]) @
     (case blacklist_is_empty b of Some False \<Rightarrow> [NotBlacklisted b] | _ \<Rightarrow> [])"

definition build_exit_filters :: "score_value option \<Rightarrow> bool \<Rightarrow> gateway_filters" where
  "build_exit_filters min_score residential_exit =
     (case min_score of None \<Rightarrow> [] | Some s \<Rightarrow> [MinScore s]) @ (if residential_exit then [ResidentialOnly, Exit] else [])"

subsection \<open>What a search promises\<close>

lemma choose_from_Some: "choose_from draw r xs = (Some g, r') \<Longrightarrow> g \<in> set xs"
  by (auto simp: choose_from_def split: if_splits prod.splits)

lemma choose_from_None: "choose_from draw r xs = (None, r') \<longleftrightarrow> xs = [] \<and> r' = r"
  by (auto simp: choose_from_def split: prod.splits)

lemma ok_or_eq [simp]: "ok_or e x = Inr y \<longleftrightarrow> x = Some y" "ok_or e x = Inl e' \<longleftrightarrow> x = None \<and> e' = e"
  by (auto simp: ok_or_def split: option.splits)

lemma pick_found: "pick draw now filters gl err r = (Inr g, r') \<Longrightarrow> g \<in> set (filter_gateways now filters gl)"
  by (auto simp: choose_random_def apfst_def map_prod_def split: prod.splits dest: choose_from_Some)

lemma pick_missing:
  "pick draw now filters gl err r = (Inl e, r') \<Longrightarrow> filter_gateways now filters gl = [] \<and> e = err"
  by (auto simp: choose_random_def apfst_def map_prod_def choose_from_None split: prod.splits)

text \<open>
  A search by score: what it finds at a score is admitted at that score, it fails only when nothing is,
  a gateway admitted at a score is admitted at every lower one, and an error that stops the descent means
  that nothing is admitted at any score.
\<close>

locale tiered_search =
  fixes search :: "score_value \<Rightarrow> 'r \<Rightarrow> (directory_error + gateway) \<times> 'r"
    and admits :: "score_value \<Rightarrow> gateway \<Rightarrow> bool"
  assumes found: "search s r = (Inr g, r') \<Longrightarrow> admits s g"
    and missing: "search s r = (Inl e, r') \<Longrightarrow> \<not> admits s g"
    and hopeless: "search s r = (Inl e, r') \<Longrightarrow> \<not> is_unmatched_non_specific_gateway e \<Longrightarrow> \<not> admits t g"
    and lower: "admits s g \<Longrightarrow> t \<le> s \<Longrightarrow> admits t g"
begin

lemma best_found:
  assumes "best_of search none_left [High, Medium, Low] r = (Inr g, r')"
  shows "admits Low g" and "Low \<le> s \<Longrightarrow> admits s h \<Longrightarrow> admits s g"
proof -
  have "admits Low g \<and> (Low \<le> s \<longrightarrow> admits s h \<longrightarrow> admits s g)"
  proof (cases "fst (search High r)")
    case (Inr g')
    then have "admits High g" using assms found [of High r g'] by (auto split: prod.splits)
    then show ?thesis using lower [of High g] by (cases s) auto
  next
    case (Inl e)
    note high = missing [of High r e "snd (search High r)"]
    show ?thesis
    proof (cases "fst (search Medium (snd (search High r)))")
      case (Inr g')
      then have "admits Medium g"
        using Inl assms found [of Medium "snd (search High r)" g'] by (auto split: prod.splits if_splits)
      then show ?thesis using high Inl lower [of Medium g] by (cases s) (auto simp: prod_eq_iff)
    next
      case e2: (Inl e')
      note medium = missing [of Medium "snd (search High r)" e' "snd (search Medium (snd (search High r)))"]
      have "admits Low g"
        using Inl e2 assms found by (auto split: prod.splits if_splits sum.splits)
      then show ?thesis using high Inl medium e2 by (cases s) (auto simp: prod_eq_iff)
    qed
  qed
  then show "admits Low g" and "Low \<le> s \<Longrightarrow> admits s h \<Longrightarrow> admits s g" by blast+
qed

lemma best_missing:
  assumes "best_of search none_left [High, Medium, Low] r = (Inl e, r')"
  shows "\<not> admits Low g"
  using assms missing [of Low] hopeless by (fastforce split: prod.splits sum.splits if_splits)

end

subsubsection \<open>The searches by entry and by exit point\<close>

fun entry_filters :: "entry_point \<Rightarrow> gateway_filters" where
  "entry_filters (EntryCountry code) = [Country code]"
| "entry_filters (EntryRegion region) = [Country COUNTRY_WITH_REGION_SELECTOR, Region region]"
| "entry_filters _ = []"

fun exit_filters :: "exit_point \<Rightarrow> gateway_filters" where
  "exit_filters (ExitCountry code) = [Country code]"
| "exit_filters (ExitRegion region) = [Country COUNTRY_WITH_REGION_SELECTOR, Region region]"
| "exit_filters _ = []"

fun entry_admits :: "instant \<Rightarrow> entry_point \<Rightarrow> gateway_filters \<Rightarrow> gateway_list \<Rightarrow> score_value \<Rightarrow> gateway \<Rightarrow> bool" where
  "entry_admits now (EntryGateway identity) base gl s g = (gateway_with_identity identity gl = Some g)"
| "entry_admits now point base gl s g = (g \<in> set (filter_gateways now (base @ MinScore s # entry_filters point) gl))"

fun exit_admits ::
  "(score_value \<Rightarrow> gateway_filter) \<Rightarrow> instant \<Rightarrow> exit_point \<Rightarrow> gateway_filters \<Rightarrow> gateway_list \<Rightarrow> score_value \<Rightarrow> gateway \<Rightarrow> bool" where
  "exit_admits tier now (ExitAddress address) base gl s g =
     (map_option (g_ipr_address_update (\<lambda>_. Some address)) (gateway_with_identity (recipient_gateway address) gl) = Some g)"
| "exit_admits tier now (ExitGateway identity) base gl s g = (gateway_with_identity identity gl = Some g)"
| "exit_admits tier now point base gl s g = (g \<in> set (filter_gateways now (base @ tier s # exit_filters point) gl))"

lemma meets_score_lower: "meets_score ty s g \<Longrightarrow> t \<le> s \<Longrightarrow> meets_score ty t g"
  by (auto simp: meets_score_def split: option.splits gateway_type.splits)

lemma meets_socks5_lower: "meets_socks5_score s g \<Longrightarrow> t \<le> s \<Longrightarrow> meets_socks5_score t g"
  by (auto simp: meets_socks5_score_def split: option.splits)

lemma in_filter_gateways:
  "g \<in> set (filter_gateways now fs gl) \<longleftrightarrow> g \<in> set (gl_gateways gl) \<and> (\<forall>f\<in>set fs. matches_filter now (gl_type gl) f g)"
  by (auto simp: filter_gateways_def matches_all_filters_def list_all_iff)

interpretation entry: tiered_search
  "\<lambda>score. find_entry_gateway draw now point base [MinScore score] gl" "entry_admits now point base gl"
  for draw now point base gl
proof
  let ?search = "\<lambda>s. find_entry_gateway draw now point base [MinScore s] gl"
  show "?search s r = (Inr g, r') \<Longrightarrow> entry_admits now point base gl s g" for s r g r'
    by (cases point) (auto dest: pick_found)
  show "?search s r = (Inl e, r') \<Longrightarrow> \<not> entry_admits now point base gl s g" for s r e r' g
    by (cases point) (auto dest: pick_missing)
  show "?search s r = (Inl e, r') \<Longrightarrow> \<not> is_unmatched_non_specific_gateway e \<Longrightarrow> \<not> entry_admits now point base gl t g"
    for s r e r' t g
    by (cases point) (auto dest: pick_missing)
  show "entry_admits now point base gl s g \<Longrightarrow> t \<le> s \<Longrightarrow> entry_admits now point base gl t g" for s t g
    by (cases point) (auto simp: in_filter_gateways intro: meets_score_lower)
qed

interpretation exit_by_score: tiered_search
  "\<lambda>score. find_exit_gateway draw now point (base @ [MinScore score]) gl" "exit_admits MinScore now point base gl"
  for draw now point base gl
proof
  let ?search = "\<lambda>s. find_exit_gateway draw now point (base @ [MinScore s]) gl"
  show "?search s r = (Inr g, r') \<Longrightarrow> exit_admits MinScore now point base gl s g" for s r g r'
    by (cases point) (auto dest: pick_found split: option.splits)
  show "?search s r = (Inl e, r') \<Longrightarrow> \<not> exit_admits MinScore now point base gl s g" for s r e r' g
    by (cases point) (auto dest: pick_missing split: option.splits)
  show "?search s r = (Inl e, r') \<Longrightarrow> \<not> is_unmatched_non_specific_gateway e \<Longrightarrow> \<not> exit_admits MinScore now point base gl t g"
    for s r e r' t g
    by (cases point) (auto dest: pick_missing split: option.splits)
  show "exit_admits MinScore now point base gl s g \<Longrightarrow> t \<le> s \<Longrightarrow> exit_admits MinScore now point base gl t g" for s t g
    by (cases point) (auto simp: in_filter_gateways intro: meets_score_lower)
qed

interpretation exit_by_socks5: tiered_search
  "\<lambda>score. find_exit_gateway draw now point (base @ [MinSocks5Score score]) gl" "exit_admits MinSocks5Score now point base gl"
  for draw now point base gl
proof
  let ?search = "\<lambda>s. find_exit_gateway draw now point (base @ [MinSocks5Score s]) gl"
  show "?search s r = (Inr g, r') \<Longrightarrow> exit_admits MinSocks5Score now point base gl s g" for s r g r'
    by (cases point) (auto dest: pick_found split: option.splits)
  show "?search s r = (Inl e, r') \<Longrightarrow> \<not> exit_admits MinSocks5Score now point base gl s g" for s r e r' g
    by (cases point) (auto dest: pick_missing split: option.splits)
  show "?search s r = (Inl e, r') \<Longrightarrow> \<not> is_unmatched_non_specific_gateway e \<Longrightarrow> \<not> exit_admits MinSocks5Score now point base gl t g"
    for s r e r' t g
    by (cases point) (auto dest: pick_missing split: option.splits)
  show "exit_admits MinSocks5Score now point base gl s g \<Longrightarrow> t \<le> s \<Longrightarrow> exit_admits MinSocks5Score now point base gl t g" for s t g
    by (cases point) (auto simp: in_filter_gateways intro: meets_socks5_lower)
qed

subsection \<open>The blacklist over time\<close>

text \<open>A blacklist after gateways were added to it, oldest first.\<close>

definition blacklist_after :: "(node_identity \<times> instant) list \<Rightarrow> blacklist" where
  "blacklist_after adds = fold (\<lambda>(i, t) b. snd (blacklist_add i t b)) adds \<lparr>bk_map = [], bk_poisoned = False\<rparr>"

lemma blacklist_after_snoc:
  "blacklist_after (adds @ [(i, t)]) = snd (blacklist_add i t (blacklist_after adds))"
  by (simp add: blacklist_after_def)

lemma blacklist_after_wf: "distinct (map fst (bk_map (blacklist_after adds))) \<and> \<not> bk_poisoned (blacklist_after adds)"
proof (induction adds rule: rev_induct)
  case (snoc a adds)
  then show ?case
    by (cases a)
      (simp add: blacklist_after_snoc blacklist_add_def housekeep_def distinct_update distinct_map_filter)
qed (simp add: blacklist_after_def)

lemma map_of_filter_snd:
  "distinct (map fst m) \<Longrightarrow>
     map_of (filter (\<lambda>(_, e). P e) m) i = (case map_of m i of None \<Rightarrow> None | Some e \<Rightarrow> if P e then Some e else None)"
  by (induction m) (auto simp: map_of_eq_None_iff split: option.splits)

text \<open>C20: blacklisting lasts exactly its time to live. After any additions at non-decreasing times, a gateway is
  blacklisted at a later moment if and only if it was added less than \<open>BLACKLIST_TTL\<close> before it: the
  housekeeping done by every addition never forgets an entry that still counts.\<close>

theorem blacklisted_for_ttl:
  assumes "sorted (map snd adds)" and "\<And>i t. (i, t) \<in> set adds \<Longrightarrow> t \<le> now"
  shows "blacklist_exists identity now (blacklist_after adds) = Some (\<exists>t. (identity, t) \<in> set adds \<and> now < t + BLACKLIST_TTL)"
  using assms
proof (induction adds rule: rev_induct)
  case (snoc a adds)
  obtain i t where a: "a = (i, t)" by (cases a)
  have sorted: "sorted (map snd adds)" and older: "\<And>j u. (j, u) \<in> set adds \<Longrightarrow> u \<le> t" and "t \<le> now"
    using snoc.prems by (auto simp: a sorted_append)
  let ?b = "blacklist_after adds"
  have wf: "distinct (map fst (bk_map ?b))" "\<not> bk_poisoned ?b" using blacklist_after_wf [of adds] by auto
  have ih: "blacklist_exists identity now ?b = Some (\<exists>t. (identity, t) \<in> set adds \<and> now < t + BLACKLIST_TTL)"
    using snoc.IH sorted snoc.prems(2) by auto
  have "blacklist_exists identity now (blacklist_after (adds @ [a])) =
      Some (if identity = i then now < t + BLACKLIST_TTL else the (blacklist_exists identity now ?b))"
    using wf \<open>t \<le> now\<close>
    by (auto simp: a blacklist_after_snoc blacklist_add_def blacklist_exists_def housekeep_def map_of_filter_snd
        distinct_update update_conv' split: option.splits)
  also have "\<dots> = Some (\<exists>u. (identity, u) \<in> set (adds @ [a]) \<and> now < u + BLACKLIST_TTL)"
  proof (cases "identity = i")
    case True
    have "now < t + BLACKLIST_TTL" if "(i, u) \<in> set adds" "now < u + BLACKLIST_TTL" for u
      using that older [of i u] by simp
    then show ?thesis using True by (auto simp: a)
  next
    case False
    then show ?thesis using ih by (simp add: a)
  qed
  finally show ?case .
qed (simp add: blacklist_after_def blacklist_exists_def)

theorem blacklisted_for_ttl_witness:
  "blacklist_exists ''A'' 1200000 (blacklist_after [(''A'', 0), (''B'', 5), (''A'', 10)]) = Some True"
proof -
  have "sorted (map snd [(''A'', 0), (''B'', 5), (''A'', 10 :: nat)])" by simp
  then have "blacklist_exists ''A'' 1200000 (blacklist_after [(''A'', 0), (''B'', 5), (''A'', 10)])
      = Some (\<exists>t. (''A'', t) \<in> set [(''A'', 0), (''B'', 5), (''A'', 10)] \<and> 1200000 < t + BLACKLIST_TTL)"
    by (rule blacklisted_for_ttl) auto
  then show ?thesis by (auto simp: BLACKLIST_TTL_def)
qed

end
