(* ===== verification/Gateway_Select.thy ===== *)
theory Gateway_Select
  imports Gateways
begin

text \<open>
  Choosing the entry and the exit gateway of a session (\<open>tunnel/gateway_selector.rs\<close>,
  \<open>tunnel/independence.rs\<close>, \<open>gateway_independence.rs\<close>): the independence criteria, the pair selection with
  its fallbacks and what a selected pair satisfies. Whether two networks overlap
  (\<open>ipnetwork\<close>) is an argument.
\<close>

subsection \<open>Independence of two gateways\<close>

record gateway_independence =
  gi_enable_notifications :: bool
  gi_different_node_family :: bool
  gi_different_asn :: bool
  gi_different_subnet :: bool

definition gi_default :: gateway_independence where
  "gi_default = \<lparr>gi_enable_notifications = True, gi_different_node_family = True, gi_different_asn = True,
     gi_different_subnet = True\<rparr>"

definition gi_set_enabled :: "bool \<Rightarrow> gateway_independence \<Rightarrow> gateway_independence" where
  "gi_set_enabled on gi = gi\<lparr>gi_different_node_family := on, gi_different_asn := on, gi_different_subnet := on\<rparr>"

definition gi_disabled :: gateway_independence where
  "gi_disabled = gi_set_enabled False gi_default"

definition gi_active :: "gateway_independence \<Rightarrow> bool" where
  "gi_active gi = (gi_different_node_family gi \<or> gi_different_asn gi \<or> gi_different_subnet gi)"

datatype independence_violation =
  SameGateway | SameAsn | MissingAsn | SameNodeFamily | OverlappingSubnet | MissingSubnet

fun violation_str :: "independence_violation \<Rightarrow> string" where
  "violation_str SameGateway = ''same gateway''"
| "violation_str SameAsn = ''same ASN''"
| "violation_str MissingAsn = ''ASN unknown''"
| "violation_str SameNodeFamily = ''same node family''"
| "violation_str OverlappingSubnet = ''overlapping subnet''"
| "violation_str MissingSubnet = ''subnet unknown''"

definition gateway_asn :: "gateway \<Rightarrow> asn option" where
  "gateway_asn g = Option.bind (g_location g) loc_asn"

definition asn_violations :: "gateway \<Rightarrow> gateway \<Rightarrow> gateway_independence \<Rightarrow> independence_violation list" where
  "asn_violations gw1 gw2 criteria =
     (if gi_different_asn criteria
      then case (gateway_asn gw1, gateway_asn gw2) of
             (Some a1, Some a2) \<Rightarrow> if asn_asn a1 = asn_asn a2 then [SameAsn] else []
           | _ \<Rightarrow> [MissingAsn]
      else [])"

definition family_violations :: "gateway \<Rightarrow> gateway \<Rightarrow> gateway_independence \<Rightarrow> independence_violation list" where
  "family_violations gw1 gw2 criteria =
     (if gi_different_node_family criteria
      then case (g_family_data gw1, g_family_data gw2) of
             (Some f1, Some f2) \<Rightarrow> if nf_id f1 = nf_id f2 then [SameNodeFamily] else []
           | _ \<Rightarrow> []
      else [])"

definition routes_overlap :: "(ip_network \<Rightarrow> ip_network \<Rightarrow> bool) \<Rightarrow> ip_network \<Rightarrow> ip_network \<Rightarrow> bool" where
  "routes_overlap overlaps n1 n2 =
     (case (net_ip n1, net_ip n2) of
        (IPv4 _, IPv4 _) \<Rightarrow> overlaps n1 n2
      | (IPv6 _, IPv6 _) \<Rightarrow> overlaps n1 n2
      | _ \<Rightarrow> False)"

definition subnet_violations ::
  "(ip_network \<Rightarrow> ip_network \<Rightarrow> bool) \<Rightarrow> gateway \<Rightarrow> gateway \<Rightarrow> gateway_independence \<Rightarrow> independence_violation list" where
  "subnet_violations overlaps gw1 gw2 criteria =
     (if gi_different_subnet criteria
      then case (Option.bind (gateway_asn gw1) asn_route, Option.bind (gateway_asn gw2) asn_route) of
             (Some r1, Some r2) \<Rightarrow> if routes_overlap overlaps r1 r2 then [OverlappingSubnet] else []
           | _ \<Rightarrow> [MissingSubnet]
      else [])"

definition independence_violations ::
  "(ip_network \<Rightarrow> ip_network \<Rightarrow> bool) \<Rightarrow> gateway \<Rightarrow> gateway \<Rightarrow> gateway_independence \<Rightarrow> independence_violation list" where
  "independence_violations overlaps gw1 gw2 criteria =
     (if g_identity gw1 = g_identity gw2 then [SameGateway]
      else asn_violations gw1 gw2 criteria @ family_violations gw1 gw2 criteria
        @ subnet_violations overlaps gw1 gw2 criteria)"

definition gateways_are_independent ::
  "(ip_network \<Rightarrow> ip_network \<Rightarrow> bool) \<Rightarrow> gateway \<Rightarrow> gateway \<Rightarrow> gateway_independence \<Rightarrow> bool" where
  "gateways_are_independent overlaps gw1 gw2 criteria = (independence_violations overlaps gw1 gw2 criteria = [])"

definition describe_violations :: "independence_violation list \<Rightarrow> string" where
  "describe_violations vs = join '', '' (map violation_str vs)"

subsection \<open>Selecting a pair\<close>

datatype select_error =
  SameEntryAndExitGateway node_identity
| NeedsRelaxedIndependenceCriteria string
| EntryGatewayUnavailable directory_error
| ExitGatewayUnavailable directory_error
| LookupGateways directory_error
| LoadKeypair node_identity
| SetupGatewayDirectoryClient directory_error
| LookupGatewayIdentity directory_error
| SelectEntryGateway directory_error
| SelectExitGateway directory_error
| LookupRouterAddress directory_error
| MalformedLewesProtocolInfo node_identity

record pair_selection =
  ps_entry_point :: entry_point
  ps_exit_point :: exit_point
  ps_entry_filters :: gateway_filters
  ps_exit_filters :: gateway_filters

text \<open>What is fixed during one selection: the external functions and the time.\<close>

record 'r selector_env =
  se_draw :: "'r rng"
  se_overlaps :: "ip_network \<Rightarrow> ip_network \<Rightarrow> bool"
  se_show_recipient :: "recipient \<Rightarrow> string"
  se_now :: instant

definition pair_selection_new :: "entry_point \<Rightarrow> exit_point \<Rightarrow> bool \<Rightarrow> blacklist \<Rightarrow> pair_selection" where
  "pair_selection_new entry exit residential_exit b =
     \<lparr>ps_entry_point = entry, ps_exit_point = exit,
      ps_entry_filters = (case blacklist_is_empty b of Some False \<Rightarrow> [NotBlacklisted b] | _ \<Rightarrow> []),
      ps_exit_filters = (if residential_exit then [ResidentialOnly, Exit] else [])\<rparr>"

definition best_entry :: "'r selector_env \<Rightarrow> pair_selection \<Rightarrow> gateway_list \<Rightarrow> 'r \<Rightarrow> (directory_error + gateway) \<times> 'r" where
  "best_entry env ps = find_best_entry_gateway (se_draw env) (se_now env) (ps_entry_point ps) (ps_entry_filters ps)"

definition best_exit :: "'r selector_env \<Rightarrow> pair_selection \<Rightarrow> gateway_list \<Rightarrow> 'r \<Rightarrow> (directory_error + gateway) \<times> 'r" where
  "best_exit env ps =
     find_best_exit_gateway (se_show_recipient env) (se_draw env) (se_now env) (ps_exit_point ps) (ps_exit_filters ps)"

definition blacklist_rules_out_every_entry ::
  "'r selector_env \<Rightarrow> pair_selection \<Rightarrow> gateway_list \<Rightarrow> 'r \<Rightarrow> bool \<times> 'r" where
  "blacklist_rules_out_every_entry env ps entries r =
     (if ps_entry_filters ps = [] then (False, r)
      else case best_entry env ps entries r of
        (Inr _, r) \<Rightarrow> (False, r)
      | (Inl _, r) \<Rightarrow>
          (case best_entry env (ps\<lparr>ps_entry_filters := []\<rparr>) entries r of
             (Inr _, r) \<Rightarrow> (True, r)
           | (Inl _, r) \<Rightarrow> (False, r)))"

definition entry_candidates ::
  "'r selector_env \<Rightarrow> gateway_independence \<Rightarrow> gateway_list \<Rightarrow> gateway \<Rightarrow> gateway_list" where
  "entry_candidates env criteria entries exit =
     \<lparr>gl_type = gl_type entries,
      gl_gateways = filter (\<lambda>g. gateways_are_independent (se_overlaps env) g exit criteria) (gl_gateways entries)\<rparr>"

text \<open>An exit that is found is in the list, so dropping it makes the list shorter: the loop ends.\<close>

lemma found_exit_in_list:
  assumes "best_exit env ps exits r = (Inr x, r')"
  shows "\<exists>g\<in>set (gl_gateways exits). g_identity g = g_identity x"
proof -
  have "exit_admits MinScore (se_now env) (ps_exit_point ps) (ps_exit_filters ps) exits Low x"
    using assms exit_by_score.best_found(1) unfolding best_exit_def find_best_exit_gateway_def by metis
  then show ?thesis
    by (cases "ps_exit_point ps") (auto simp: in_filter_gateways gateway_with_identity_def dest: find_SomeD)
qed

lemma remove_gateway_shorter:
  "\<exists>g\<in>set (gl_gateways gl). g_identity g = g_identity x \<Longrightarrow>
     length (gl_gateways (remove_gateway x gl)) < length (gl_gateways gl)"
  unfolding remove_gateway_def by (auto intro: length_filter_less)

function exit_loop ::
  "'r selector_env \<Rightarrow> pair_selection \<Rightarrow> gateway_independence \<Rightarrow> gateway_list \<Rightarrow> gateway_list \<Rightarrow> select_error option \<Rightarrow> 'r
   \<Rightarrow> (select_error + gateway \<times> gateway) \<times> 'r" where
  "exit_loop env ps criteria entries exits entry_error r =
     (case best_exit env ps exits r of
        (Inl err, r) \<Rightarrow>
          (Inl (case entry_error of Some e \<Rightarrow> e | None \<Rightarrow> ExitGatewayUnavailable err), r)
      | (Inr x, r) \<Rightarrow>
          (case best_entry env ps (entry_candidates env criteria entries x) r of
             (Inr e, r) \<Rightarrow> (Inr (e, x), r)
           | (Inl err, r) \<Rightarrow>
               exit_loop env ps criteria entries (remove_gateway x exits) (Some (EntryGatewayUnavailable err)) r))"
  by pat_completeness auto
termination
  by (relation "measure (\<lambda>(_, _, _, _, exits, _, _). length (gl_gateways exits))")
    (auto intro!: remove_gateway_shorter dest!: found_exit_in_list [OF sym])

declare exit_loop.simps [simp del]

definition select_with_criteria ::
  "'r selector_env \<Rightarrow> pair_selection \<Rightarrow> gateway_independence \<Rightarrow> gateway_list \<Rightarrow> gateway_list \<Rightarrow> 'r
   \<Rightarrow> (select_error + gateway \<times> gateway) \<times> 'r" where
  "select_with_criteria env ps criteria entries exits r =
     (case best_entry env ps entries r of
        (Inl err, r) \<Rightarrow> (Inl (EntryGatewayUnavailable err), r)
      | (Inr _, r) \<Rightarrow> exit_loop env ps criteria entries exits None r)"

definition select_pair ::
  "'r selector_env \<Rightarrow> pair_selection \<Rightarrow> gateway_independence \<Rightarrow> gateway_list \<Rightarrow> gateway_list \<Rightarrow> 'r
   \<Rightarrow> (select_error + gateway \<times> gateway) \<times> 'r" where
  "select_pair env ps criteria entries exits r =
     (let (ruled_out, r) = blacklist_rules_out_every_entry env ps entries r;
          sel = (if ruled_out then ps\<lparr>ps_entry_filters := []\<rparr> else ps)
      in case select_with_criteria env sel criteria entries exits r of
           (Inr pair, r) \<Rightarrow> (Inr pair, r)
         | (Inl strict_error, r) \<Rightarrow>
             if \<not> gi_active criteria then (Inl strict_error, r)
             else (case select_with_criteria env sel gi_disabled entries exits r of
                     (Inr (e, x), r) \<Rightarrow>
                       (Inl (NeedsRelaxedIndependenceCriteria
                          (describe_violations (independence_violations (se_overlaps env) e x criteria))), r)
                   | (Inl _, r) \<Rightarrow> (Inl strict_error, r)))"

subsection \<open>The candidate lists and the keys\<close>

datatype tunnel_type = Mixnet | Wireguard

definition candidate_lists ::
  "(gateway_type \<Rightarrow> directory_error + gateway_list) \<Rightarrow> tunnel_type \<Rightarrow> bool \<Rightarrow> select_error + gateway_list \<times> gateway_list" where
  "candidate_lists lookup tunnel_type bridges_enabled =
     (case tunnel_type of
        Wireguard \<Rightarrow>
          (case lookup Wg of
             Inl err \<Rightarrow> Inl (LookupGateways err)
           | Inr all \<Rightarrow>
               let entries = (if bridges_enabled
                              then \<lparr>gl_type = gl_type all, gl_gateways = filter (\<lambda>g. g_bridge_params g \<noteq> None) (gl_gateways all)\<rparr>
                              else all)
               in Inr (entries, all))
      | Mixnet \<Rightarrow>
          (case lookup MixnetExit of
             Inl err \<Rightarrow> Inl (LookupGateways err)
           | Inr exits \<Rightarrow>
               (case lookup MixnetEntry of
                  Inl err \<Rightarrow> Inl (LookupGateways err)
                | Inr entries \<Rightarrow> Inr (entries, exits))))"

text \<open>The settings a selection reads.\<close>

record selection_settings =
  ss_entry_point :: entry_point
  ss_exit_point :: exit_point
  ss_residential_exit :: bool
  ss_tunnel_type :: tunnel_type
  ss_bridges_enabled :: bool

definition select_gateway_pair ::
  "'r selector_env \<Rightarrow> (gateway_type \<Rightarrow> directory_error + gateway_list) \<Rightarrow> blacklist \<Rightarrow> selection_settings \<Rightarrow> gateway_independence
   \<Rightarrow> 'r \<Rightarrow> (select_error + gateway \<times> gateway) \<times> 'r" where
  "select_gateway_pair env lookup b settings criteria r =
     (let ps = pair_selection_new (ss_entry_point settings) (ss_exit_point settings) (ss_residential_exit settings) b
      in case (ps_entry_point ps, ps_exit_point ps) of
           (EntryGateway e, ExitGateway x) \<Rightarrow>
             if e = x then (Inl (SameEntryAndExitGateway e), r)
             else (case candidate_lists lookup (ss_tunnel_type settings) (ss_bridges_enabled settings) of
                     Inl err \<Rightarrow> (Inl err, r)
                   | Inr (entries, exits) \<Rightarrow> select_pair env ps criteria entries exits r)
         | _ \<Rightarrow>
             (case candidate_lists lookup (ss_tunnel_type settings) (ss_bridges_enabled settings) of
                Inl err \<Rightarrow> (Inl err, r)
              | Inr (entries, exits) \<Rightarrow> select_pair env ps criteria entries exits r))"

text \<open>Key pairs are opaque; the key database gives an entry and an exit key pair for a gateway, or fails.\<close>

type_synonym key_pair = string

record gateway_with_keys =
  gk_gateway :: gateway
  gk_keys :: key_pair

record selected_gateways =
  sg_entry :: gateway_with_keys
  sg_exit :: gateway_with_keys

definition entry_gateway :: "selected_gateways \<Rightarrow> gateway" where
  "entry_gateway sg = gk_gateway (sg_entry sg)"

definition exit_gateway :: "selected_gateways \<Rightarrow> gateway" where
  "exit_gateway sg = gk_gateway (sg_exit sg)"

definition select_gateways ::
  "'r selector_env \<Rightarrow> (gateway_type \<Rightarrow> directory_error + gateway_list) \<Rightarrow> (node_identity \<Rightarrow> (key_pair \<times> key_pair) option)
   \<Rightarrow> blacklist \<Rightarrow> selection_settings \<Rightarrow> gateway_independence \<Rightarrow> 'r \<Rightarrow> (select_error + selected_gateways) \<times> 'r" where
  "select_gateways env lookup load_or_create_keys b settings criteria r =
     (case select_gateway_pair env lookup b settings criteria r of
        (Inl err, r) \<Rightarrow> (Inl err, r)
      | (Inr (e, x), r) \<Rightarrow>
          (case load_or_create_keys (g_identity e) of
             None \<Rightarrow> (Inl (LoadKeypair (g_identity e)), r)
           | Some (entry_keys, _) \<Rightarrow>
               (case load_or_create_keys (g_identity x) of
                  None \<Rightarrow> (Inl (LoadKeypair (g_identity x)), r)
                | Some (_, exit_keys) \<Rightarrow>
                    (Inr \<lparr>sg_entry = \<lparr>gk_gateway = e, gk_keys = entry_keys\<rparr>,
                          sg_exit = \<lparr>gk_gateway = x, gk_keys = exit_keys\<rparr>\<rparr>, r))))"

subsection \<open>The searches, by what they admit\<close>

abbreviation admits_entry :: "'r selector_env \<Rightarrow> pair_selection \<Rightarrow> gateway_list \<Rightarrow> score_value \<Rightarrow> gateway \<Rightarrow> bool" where
  "admits_entry env ps \<equiv> entry_admits (se_now env) (ps_entry_point ps) (ps_entry_filters ps)"

abbreviation admits_exit :: "'r selector_env \<Rightarrow> pair_selection \<Rightarrow> gateway_list \<Rightarrow> score_value \<Rightarrow> gateway \<Rightarrow> bool" where
  "admits_exit env ps \<equiv> exit_admits MinScore (se_now env) (ps_exit_point ps) (ps_exit_filters ps)"

lemma best_entry_found: "best_entry env ps gl r = (Inr g, r') \<Longrightarrow> admits_entry env ps gl Low g"
  unfolding best_entry_def find_best_entry_gateway_def by (rule entry.best_found(1))

lemma best_entry_missing: "best_entry env ps gl r = (Inl e, r') \<Longrightarrow> \<not> admits_entry env ps gl Low g"
  unfolding best_entry_def find_best_entry_gateway_def by (rule entry.best_missing)

lemma best_exit_found: "best_exit env ps gl r = (Inr g, r') \<Longrightarrow> admits_exit env ps gl Low g"
  unfolding best_exit_def find_best_exit_gateway_def by (rule exit_by_score.best_found(1))

lemma best_exit_missing: "best_exit env ps gl r = (Inl e, r') \<Longrightarrow> \<not> admits_exit env ps gl Low g"
  unfolding best_exit_def find_best_exit_gateway_def by (rule exit_by_score.best_missing)

text \<open>A pair a selection may return: the exit is admitted, and the entry is among those independent of it.\<close>

definition eligible_pair ::
  "'r selector_env \<Rightarrow> pair_selection \<Rightarrow> gateway_independence \<Rightarrow> gateway_list \<Rightarrow> gateway_list \<Rightarrow> gateway \<Rightarrow> gateway \<Rightarrow> bool" where
  "eligible_pair env ps criteria entries exits e x =
     (admits_exit env ps exits Low x \<and> admits_entry env ps (entry_candidates env criteria entries x) Low e)"

abbreviation distinct_identities :: "gateway_list \<Rightarrow> bool" where
  "distinct_identities gl \<equiv> distinct (map g_identity (gl_gateways gl))"

lemma identity_inj: "distinct_identities gl \<Longrightarrow> g \<in> set (gl_gateways gl) \<Longrightarrow> h \<in> set (gl_gateways gl) \<Longrightarrow>
    g_identity g = g_identity h \<Longrightarrow> g = h"
  by (auto simp: distinct_map inj_on_def)

lemma admitted_exit_inj:
  assumes "distinct_identities gl" "exit_admits tier now point base gl s x" "exit_admits tier now point base gl s y"
    "g_identity x = g_identity y"
  shows "x = y"
proof (cases "x \<in> set (gl_gateways gl) \<and> y \<in> set (gl_gateways gl)")
  case True
  then show ?thesis using assms(1,4) by (blast intro: identity_inj)
next
  case False
  then show ?thesis
    using assms(2,3) by (cases point) (simp_all only: exit_admits.simps in_filter_gateways option.inject, auto)
qed

lemma find_filter_neq: "i \<noteq> j \<Longrightarrow> List.find (\<lambda>g. f g = i) (filter (\<lambda>g. f g \<noteq> j) xs) = List.find (\<lambda>g. f g = i) xs"
  by (induction xs) auto

lemma find_filter_self: "List.find (\<lambda>g. f g = i) (filter (\<lambda>g. f g \<noteq> i) xs) = None"
  by (induction xs) auto

lemma exit_admits_remove:
  "exit_admits tier now point base (remove_gateway x gl) s y \<longleftrightarrow>
     exit_admits tier now point base gl s y \<and> g_identity y \<noteq> g_identity x"
proof (cases point)
  case (ExitAddress a)
  then show ?thesis
    by (cases "recipient_gateway a = g_identity x")
      (auto simp: gateway_with_identity_def remove_gateway_def find_filter_neq find_filter_self dest: find_SomeD)
next
  case (ExitGateway i)
  then show ?thesis
    by (cases "i = g_identity x")
      (auto simp: gateway_with_identity_def remove_gateway_def find_filter_neq find_filter_self dest: find_SomeD)
qed (auto simp: in_filter_gateways remove_gateway_def)

lemma distinct_remove: "distinct_identities gl \<Longrightarrow> distinct_identities (remove_gateway x gl)"
  by (auto simp: remove_gateway_def distinct_map inj_on_def)

subsection \<open>The loop over the exits\<close>

text \<open>One round of the loop.\<close>

lemma exit_loop_round:
  assumes "best_exit env ps exits r = (Inr y, r1)"
    and "best_entry env ps (entry_candidates env criteria entries y) r1 = (found, r2)"
  shows "exit_loop env ps criteria entries exits err r =
    (case found of
       Inr e \<Rightarrow> (Inr (e, y), r2)
     | Inl er \<Rightarrow> exit_loop env ps criteria entries (remove_gateway y exits) (Some (EntryGatewayUnavailable er)) r2)"
  by (subst exit_loop.simps) (simp add: assms split: sum.splits)

lemma exit_loop_stop:
  assumes "best_exit env ps exits r = (Inl er, r1)"
  shows "exit_loop env ps criteria entries exits err r =
    (Inl (case err of Some e \<Rightarrow> e | None \<Rightarrow> ExitGatewayUnavailable er), r1)"
  by (subst exit_loop.simps) (simp add: assms)

lemma exit_loop_sound:
  "exit_loop env ps criteria entries exits err r = (Inr (e, x), r') \<Longrightarrow> eligible_pair env ps criteria entries exits e x"
proof (induction env ps criteria entries exits err r rule: exit_loop.induct)
  case (1 env ps criteria entries exits err r)
  obtain res r1 where exit_search: "best_exit env ps exits r = (res, r1)" by (cases "best_exit env ps exits r")
  show ?case
  proof (cases res)
    case (Inl e')
    then show ?thesis using 1(2) exit_search by (simp add: exit_loop_stop)
  next
    case (Inr y)
    obtain found r2 where entry_search: "best_entry env ps (entry_candidates env criteria entries y) r1 = (found, r2)"
      by (cases "best_entry env ps (entry_candidates env criteria entries y) r1")
    note loop = exit_loop_round [OF exit_search [unfolded Inr] entry_search, of err]
    show ?thesis
    proof (cases found)
      case (Inl er)
      have "eligible_pair env ps criteria entries (remove_gateway y exits) e x"
        using 1(1) [OF exit_search [symmetric] Inr entry_search [symmetric] Inl] 1(2) by (simp add: loop Inl)
      then show ?thesis by (simp add: eligible_pair_def exit_admits_remove)
    next
      case e: (Inr g)
      then show ?thesis
        using 1(2) loop best_exit_found [OF exit_search [unfolded Inr]] best_entry_found [OF entry_search [unfolded e]]
        by (simp add: eligible_pair_def)
    qed
  qed
qed

lemma exit_loop_complete:
  "exit_loop env ps criteria entries exits err r = (Inl er, r') \<Longrightarrow> distinct_identities exits \<Longrightarrow>
    \<not> eligible_pair env ps criteria entries exits e x"
proof (induction env ps criteria entries exits err r rule: exit_loop.induct)
  case (1 env ps criteria entries exits err r)
  obtain res r1 where exit_search: "best_exit env ps exits r = (res, r1)" by (cases "best_exit env ps exits r")
  show ?case
  proof (cases res)
    case (Inl e')
    then show ?thesis using exit_search by (auto simp: eligible_pair_def dest: best_exit_missing)
  next
    case (Inr y)
    obtain res2 r2 where entry_search: "best_entry env ps (entry_candidates env criteria entries y) r1 = (res2, r2)"
      by (cases "best_entry env ps (entry_candidates env criteria entries y) r1")
    note loop = exit_loop_round [OF exit_search [unfolded Inr] entry_search, of err]
    from 1(2) obtain e2 where res2: "res2 = Inl e2"
      by (auto simp: loop split: sum.splits)
    have "\<not> eligible_pair env ps criteria entries (remove_gateway y exits) e x"
      using 1(1) [OF exit_search [symmetric] Inr entry_search [symmetric] res2] 1(2,3) by (simp add: loop res2 distinct_remove)
    moreover have "x = y" if "admits_exit env ps exits Low x" "g_identity x = g_identity y"
      using that exit_search Inr 1(3) by (auto intro: admitted_exit_inj dest: best_exit_found)
    ultimately show ?thesis
      using entry_search res2 by (auto simp: eligible_pair_def exit_admits_remove dest: best_entry_missing)
  qed
qed

subsection \<open>What a selection returns\<close>

lemma select_with_criteria_sound:
  "select_with_criteria env ps criteria entries exits r = (Inr (e, x), r') \<Longrightarrow> eligible_pair env ps criteria entries exits e x"
  by (auto simp: select_with_criteria_def split: prod.splits sum.splits dest: exit_loop_sound)

lemma gateway_with_identity_candidates:
  "gateway_with_identity i gl = None \<Longrightarrow> gateway_with_identity i (entry_candidates env criteria gl x) = None"
  by (auto simp: gateway_with_identity_def entry_candidates_def find_None_iff)

lemma entry_admits_candidates:
  "\<exists>g. admits_entry env ps (entry_candidates env criteria entries x) Low g \<Longrightarrow> \<exists>g. admits_entry env ps entries Low g"
proof (cases "ps_entry_point ps")
  case (EntryGateway i)
  assume "\<exists>g. admits_entry env ps (entry_candidates env criteria entries x) Low g"
  then have "gateway_with_identity i entries \<noteq> None"
    using gateway_with_identity_candidates [of i entries env criteria x]
    by (cases "gateway_with_identity i entries") (auto simp: EntryGateway)
  then show ?thesis by (auto simp: EntryGateway)
qed (auto simp: in_filter_gateways entry_candidates_def)

lemma select_with_criteria_complete:
  assumes "select_with_criteria env ps criteria entries exits r = (Inl er, r')" and "distinct_identities exits"
  shows "\<not> eligible_pair env ps criteria entries exits e x"
proof (cases "\<exists>g. admits_entry env ps entries Low g")
  case True
  then show ?thesis
    using assms
    by (auto simp: select_with_criteria_def split: prod.splits sum.splits dest: best_entry_missing exit_loop_complete)
next
  case False
  then show ?thesis using entry_admits_candidates unfolding eligible_pair_def by blast
qed

text \<open>The filters in force: the blacklist is set aside exactly when it rules out every entry.\<close>

definition effective_selection :: "'r selector_env \<Rightarrow> pair_selection \<Rightarrow> gateway_list \<Rightarrow> pair_selection" where
  "effective_selection env ps entries =
     (if (\<nexists>g. admits_entry env ps entries Low g) \<and> (\<exists>g. admits_entry env (ps\<lparr>ps_entry_filters := []\<rparr>) entries Low g)
      then ps\<lparr>ps_entry_filters := []\<rparr> else ps)"

lemma rules_out_iff:
  "fst (blacklist_rules_out_every_entry env ps entries r) \<longleftrightarrow>
     (\<nexists>g. admits_entry env ps entries Low g) \<and> (\<exists>g. admits_entry env (ps\<lparr>ps_entry_filters := []\<rparr>) entries Low g)"
proof (cases "ps_entry_filters ps = []")
  case True
  then have "ps\<lparr>ps_entry_filters := []\<rparr> = ps" by (cases ps) simp
  then show ?thesis using True by (auto simp: blacklist_rules_out_every_entry_def)
next
  case False
  then show ?thesis
    unfolding blacklist_rules_out_every_entry_def
    by (auto split: prod.splits sum.splits dest: best_entry_missing best_entry_found
        best_entry_missing [where ps = "ps\<lparr>ps_entry_filters := []\<rparr>", simplified]
        best_entry_found [where ps = "ps\<lparr>ps_entry_filters := []\<rparr>", simplified])
qed

text \<open>The errors of one pass name a missing entry or exit.\<close>

lemma exit_loop_errors:
  "exit_loop env ps criteria entries exits err r = (Inl er, r') \<Longrightarrow> (\<forall>v. err \<noteq> Some (NeedsRelaxedIndependenceCriteria v)) \<Longrightarrow>
    er \<noteq> NeedsRelaxedIndependenceCriteria v"
proof (induction env ps criteria entries exits err r rule: exit_loop.induct)
  case (1 env ps criteria entries exits err r)
  obtain res r1 where exit_search: "best_exit env ps exits r = (res, r1)" by (cases "best_exit env ps exits r")
  show ?case
  proof (cases res)
    case (Inl e')
    then show ?thesis using 1(2,3) exit_search by (auto simp: exit_loop_stop split: option.splits)
  next
    case (Inr y)
    obtain found r2 where entry_search: "best_entry env ps (entry_candidates env criteria entries y) r1 = (found, r2)"
      by (cases "best_entry env ps (entry_candidates env criteria entries y) r1")
    note loop = exit_loop_round [OF exit_search [unfolded Inr] entry_search, of err]
    from 1(2) obtain e2 where e2: "found = Inl e2" by (auto simp: loop split: sum.splits)
    then show ?thesis
      using 1(1) [OF exit_search [symmetric] Inr entry_search [symmetric] e2] 1(2) by (simp add: loop)
  qed
qed

lemma strict_errors:
  "select_with_criteria env ps criteria entries exits r = (Inl er, r') \<Longrightarrow> er \<noteq> NeedsRelaxedIndependenceCriteria v"
  by (auto simp: select_with_criteria_def split: prod.splits sum.splits dest: exit_loop_errors)

lemma effective_if:
  "blacklist_rules_out_every_entry env ps entries r = (ruled_out, r1) \<Longrightarrow>
     (if ruled_out then ps\<lparr>ps_entry_filters := []\<rparr> else ps) = effective_selection env ps entries"
  using rules_out_iff [of env ps entries r] by (simp add: effective_selection_def)

lemma select_pair_sound:
  "select_pair env ps criteria entries exits r = (Inr (e, x), r') \<Longrightarrow>
     eligible_pair env (effective_selection env ps entries) criteria entries exits e x"
  unfolding select_pair_def Let_def
  by (auto simp: effective_if split: prod.splits sum.splits if_splits dest: select_with_criteria_sound)

lemma eligible_independent:
  assumes "eligible_pair env ps criteria entries exits e x"
  shows "gateways_are_independent (se_overlaps env) e x criteria" and "e \<in> set (gl_gateways entries)"
proof -
  have "e \<in> set (gl_gateways (entry_candidates env criteria entries x))"
    using assms unfolding eligible_pair_def
    by (cases "ps_entry_point ps") (auto simp: in_filter_gateways gateway_with_identity_def dest: find_SomeD)
  then show "gateways_are_independent (se_overlaps env) e x criteria" "e \<in> set (gl_gateways entries)"
    by (simp_all add: entry_candidates_def)
qed

text \<open>C19: gateway selection is exact. A returned pair is eligible; when none is returned, no pair is eligible
  under the criteria, and relaxing them is suggested exactly when that would help. The blacklist is obeyed
  unless it rules out every entry gateway the settings admit.\<close>

theorem selection_exact:
  assumes "distinct_identities exits"
  shows "case fst (select_pair env ps criteria entries exits r) of
      Inr (e, x) \<Rightarrow> eligible_pair env (effective_selection env ps entries) criteria entries exits e x
    | Inl err \<Rightarrow>
        (\<forall>e x. \<not> eligible_pair env (effective_selection env ps entries) criteria entries exits e x)
        \<and> ((\<exists>v. err = NeedsRelaxedIndependenceCriteria v) \<longleftrightarrow>
             gi_active criteria
             \<and> (\<exists>e x. eligible_pair env (effective_selection env ps entries) gi_disabled entries exits e x))"
proof -
  obtain ruled_out r1 where ro: "blacklist_rules_out_every_entry env ps entries r = (ruled_out, r1)"
    by (cases "blacklist_rules_out_every_entry env ps entries r")
  let ?sel = "effective_selection env ps entries"
  note sel = effective_if [OF ro]
  obtain strict r2 where strict: "select_with_criteria env ?sel criteria entries exits r1 = (strict, r2)"
    by (cases "select_with_criteria env ?sel criteria entries exits r1")
  obtain relaxed r3 where relaxed: "select_with_criteria env ?sel gi_disabled entries exits r2 = (relaxed, r3)"
    by (cases "select_with_criteria env ?sel gi_disabled entries exits r2")
  show ?thesis
  proof (cases strict)
    case (Inr pair)
    then obtain e x where pair: "strict = Inr (e, x)" by (cases pair) simp
    from select_with_criteria_sound [OF strict [unfolded this]] show ?thesis
      by (simp add: select_pair_def ro sel Let_def strict pair)
  next
    case err: (Inl er)
    have none: "\<not> eligible_pair env ?sel criteria entries exits e x" for e x
      by (rule select_with_criteria_complete [OF strict [unfolded err] assms])
    have er: "er \<noteq> NeedsRelaxedIndependenceCriteria v" for v
      by (rule strict_errors [OF strict [unfolded err]])
    show ?thesis
    proof (cases relaxed)
      case (Inr pair)
      then obtain e x where pair: "relaxed = Inr (e, x)" by (cases pair) simp
      then have "eligible_pair env ?sel gi_disabled entries exits e x"
        by (intro select_with_criteria_sound [OF relaxed [unfolded pair]])
      then have "\<exists>e x. eligible_pair env ?sel gi_disabled entries exits e x" by blast
      then show ?thesis using none er by (simp add: select_pair_def ro sel Let_def strict err relaxed pair)
    next
      case (Inl er')
      have "\<not> eligible_pair env ?sel gi_disabled entries exits e x" for e x
        by (rule select_with_criteria_complete [OF relaxed [unfolded Inl] assms])
      then show ?thesis using none er by (simp add: select_pair_def ro sel Let_def strict err relaxed Inl)
    qed
  qed
qed

subsection \<open>What the user gets\<close>

fun entry_point_matches :: "entry_point \<Rightarrow> gateway \<Rightarrow> bool" where
  "entry_point_matches (EntryGateway identity) g = (g_identity g = identity)"
| "entry_point_matches (EntryCountry code) g = is_in_country code g"
| "entry_point_matches (EntryRegion region) g = (is_in_country ''US'' g \<and> is_in_region region g)"
| "entry_point_matches EntryRandom g = True"

fun exit_point_matches :: "exit_point \<Rightarrow> gateway \<Rightarrow> bool" where
  "exit_point_matches (ExitAddress address) g = (g_identity g = recipient_gateway address \<and> g_ipr_address g = Some address)"
| "exit_point_matches (ExitGateway identity) g = (g_identity g = identity)"
| "exit_point_matches (ExitCountry code) g = is_in_country code g"
| "exit_point_matches (ExitRegion region) g = (is_in_country ''US'' g \<and> is_in_region region g)"
| "exit_point_matches ExitRandom g = True"

fun exit_pinned :: "exit_point \<Rightarrow> bool" where
  "exit_pinned (ExitAddress _) = True"
| "exit_pinned (ExitGateway _) = True"
| "exit_pinned _ = False"

lemma entry_admits_matches: "entry_admits now point base gl s g \<Longrightarrow> entry_point_matches point g"
  by (cases point)
    (auto simp: in_filter_gateways gateway_with_identity_def COUNTRY_WITH_REGION_SELECTOR_def dest: find_SomeD)

lemma exit_admits_matches:
  "exit_admits tier now point base gl s g \<Longrightarrow>
     exit_point_matches point g \<and> (\<not> exit_pinned point \<longrightarrow> g \<in> set (filter_gateways now base gl))"
  by (cases point)
    (auto simp: in_filter_gateways gateway_with_identity_def COUNTRY_WITH_REGION_SELECTOR_def dest: find_SomeD)

lemma select_gateway_pair_lists:
  assumes "select_gateway_pair env lookup b settings criteria r = (Inr pair, r')"
  obtains entries exits where "candidate_lists lookup (ss_tunnel_type settings) (ss_bridges_enabled settings) = Inr (entries, exits)"
    and "select_pair env (pair_selection_new (ss_entry_point settings) (ss_exit_point settings) (ss_residential_exit settings) b)
      criteria entries exits r = (Inr pair, r')"
  using assms unfolding select_gateway_pair_def Let_def
  by (auto split: entry_point.splits exit_point.splits if_splits sum.splits prod.splits)

lemma bridge_candidates:
  "candidate_lists lookup Wireguard True = Inr (entries, exits) \<Longrightarrow> g \<in> set (gl_gateways entries) \<Longrightarrow> g_bridge_params g \<noteq> None"
  by (auto simp: candidate_lists_def Let_def split: sum.splits)

text \<open>C18: nobody sees both ends. Whatever the random choices, a selected pair is two different gateways that
  satisfy every active independence criterion and the entry and exit points the user asked for; an exit that
  is not pinned is residential when that is asked for, and with bridges on the entry announces bridges.\<close>

theorem selected_pair_safe:
  assumes "select_gateway_pair env lookup b settings criteria r = (Inr (e, x), r')"
  shows "gateways_are_independent (se_overlaps env) e x criteria \<and> g_identity e \<noteq> g_identity x
    \<and> entry_point_matches (ss_entry_point settings) e \<and> exit_point_matches (ss_exit_point settings) x
    \<and> (ss_residential_exit settings \<and> \<not> exit_pinned (ss_exit_point settings) \<longrightarrow> is_residential_asn x \<and> is_exit_node x)
    \<and> (ss_tunnel_type settings = Wireguard \<and> ss_bridges_enabled settings \<longrightarrow> g_bridge_params e \<noteq> None)"
proof -
  let ?ps = "pair_selection_new (ss_entry_point settings) (ss_exit_point settings) (ss_residential_exit settings) b"
  from assms obtain entries exits where
    lists: "candidate_lists lookup (ss_tunnel_type settings) (ss_bridges_enabled settings) = Inr (entries, exits)"
    and sel: "select_pair env ?ps criteria entries exits r = (Inr (e, x), r')"
    by (rule select_gateway_pair_lists)
  note eligible = select_pair_sound [OF sel]
  have points: "ps_entry_point (effective_selection env ?ps entries) = ss_entry_point settings"
    "ps_exit_point (effective_selection env ?ps entries) = ss_exit_point settings"
    "ps_exit_filters (effective_selection env ?ps entries) = (if ss_residential_exit settings then [ResidentialOnly, Exit] else [])"
    by (simp_all add: effective_selection_def pair_selection_new_def)
  have "entry_point_matches (ss_entry_point settings) e"
    using eligible unfolding eligible_pair_def points by (blast dest: entry_admits_matches)
  moreover have "exit_point_matches (ss_exit_point settings) x"
    "ss_residential_exit settings \<and> \<not> exit_pinned (ss_exit_point settings) \<Longrightarrow> is_residential_asn x \<and> is_exit_node x"
    using eligible unfolding eligible_pair_def points by (auto simp: in_filter_gateways dest!: exit_admits_matches)
  moreover have "gateways_are_independent (se_overlaps env) e x criteria"
    by (rule eligible_independent(1) [OF eligible])
  moreover have "g_identity e \<noteq> g_identity x"
    using calculation(4) by (auto simp: gateways_are_independent_def independence_violations_def split: if_splits)
  moreover have "ss_tunnel_type settings = Wireguard \<and> ss_bridges_enabled settings \<Longrightarrow> g_bridge_params e \<noteq> None"
    using lists eligible_independent(2) [OF eligible] by (auto dest: bridge_candidates)
  ultimately show ?thesis by blast
qed

definition sample_gateway :: "string \<Rightarrow> string \<Rightarrow> score_value \<Rightarrow> gateway" where
  "sample_gateway identity country score =
     \<lparr>g_identity = identity, g_name = [], g_description = None,
      g_location = Some \<lparr>loc_country = country, loc_latitude = 0, loc_longitude = 0, loc_city = [], loc_region = [],
        loc_asn = Some \<lparr>asn_asn = ''AS'' @ identity, asn_name = [], asn_route = None, asn_kind = Residential\<rparr>\<rparr>,
      g_ipr_address = Some (Recipient identity []), g_authenticator_address = None, g_nr_address = None, g_bridge_params = None,
      g_last_probe = None, g_ips = [ipv4 192 0 2 1], g_host = None, g_clients_ws_port = Some 9000, g_clients_wss_port = None,
      g_mixnet_performance = None,
      g_performance = Some \<lparr>pf_last_updated = [], pf_score = score, pf_mixnet_score = score, pf_load = Low, pf_uptime = 0\<rparr>,
      g_version = None, g_lp_control_port = None, g_staking_data = None, g_family_data = None\<rparr>"

definition sample_list :: gateway_list where
  "sample_list = \<lparr>gl_type = Some Wg,
     gl_gateways = [sample_gateway ''A'' ''CH'' Low, sample_gateway ''B'' ''DE'' High, sample_gateway ''C'' ''CH'' High]\<rparr>"

definition sample_env :: "nat selector_env" where
  "sample_env = \<lparr>se_draw = (\<lambda>r n. (r, Suc r)), se_overlaps = (\<lambda>_ _. False), se_show_recipient = recipient_gateway, se_now = 0\<rparr>"

definition sample_criteria :: gateway_independence where
  "sample_criteria = gi_default\<lparr>gi_different_subnet := False\<rparr>"

definition sample_selection :: selection_settings where
  "sample_selection = \<lparr>ss_entry_point = EntryCountry ''CH'', ss_exit_point = ExitRandom, ss_residential_exit = True,
     ss_tunnel_type = Wireguard, ss_bridges_enabled = False\<rparr>"

abbreviation sample_pair_selection :: pair_selection where
  "sample_pair_selection \<equiv> pair_selection_new (EntryCountry ''CH'') ExitRandom True \<lparr>bk_map = [], bk_poisoned = False\<rparr>"

lemmas sample_eval = best_entry_def best_exit_def find_best_entry_gateway_def find_best_exit_gateway_def choose_random_def
  choose_from_def filter_gateways_def matches_all_filters_def meets_score_def is_in_country_def is_residential_asn_def
  is_exit_node_def pair_selection_new_def blacklist_is_empty_def ok_or_def entry_candidates_def gateways_are_independent_def
  independence_violations_def asn_violations_def family_violations_def subnet_violations_def gateway_asn_def
  sample_env_def sample_list_def sample_gateway_def sample_criteria_def gi_default_def

lemma sample_first_entry:
  "best_entry sample_env sample_pair_selection sample_list 3 = (Inr (sample_gateway ''C'' ''CH'' High), 4)"
  by (simp add: sample_eval)

lemma sample_exit: "best_exit sample_env sample_pair_selection sample_list 4 = (Inr (sample_gateway ''B'' ''DE'' High), 5)"
  by (simp add: sample_eval numeral_2_eq_2 [symmetric])

lemma sample_entry:
  "best_entry sample_env sample_pair_selection
     (entry_candidates sample_env sample_criteria sample_list (sample_gateway ''B'' ''DE'' High)) 5 = (Inr (sample_gateway ''C'' ''CH'' High), 6)"
  by (simp add: sample_eval)

lemma sample_selected:
  "select_gateway_pair sample_env (\<lambda>_. Inr sample_list) \<lparr>bk_map = [], bk_poisoned = False\<rparr> sample_selection sample_criteria 3
   = (Inr (sample_gateway ''C'' ''CH'' High, sample_gateway ''B'' ''DE'' High), 6)"
proof -
  have "blacklist_rules_out_every_entry sample_env sample_pair_selection sample_list 3 = (False, 3)"
    by (simp add: blacklist_rules_out_every_entry_def pair_selection_new_def blacklist_is_empty_def)
  then have "select_pair sample_env sample_pair_selection sample_criteria sample_list sample_list 3
      = (Inr (sample_gateway ''C'' ''CH'' High, sample_gateway ''B'' ''DE'' High), 6)"
    by (simp add: select_pair_def select_with_criteria_def sample_first_entry exit_loop_round [OF sample_exit sample_entry])
  then show ?thesis
    by (simp add: select_gateway_pair_def sample_selection_def candidate_lists_def Let_def
        pair_selection_new_def split: entry_point.splits)
qed

theorem selection_exact_witness:
  "distinct_identities sample_list
    \<and> (case fst (select_pair sample_env sample_pair_selection sample_criteria sample_list sample_list 3) of
         Inr (e, x) \<Rightarrow> eligible_pair sample_env (effective_selection sample_env sample_pair_selection sample_list)
           sample_criteria sample_list sample_list e x
       | Inl err \<Rightarrow> (\<forall>e x. \<not> eligible_pair sample_env (effective_selection sample_env sample_pair_selection sample_list)
           sample_criteria sample_list sample_list e x))"
proof -
  have "distinct_identities sample_list" by (simp add: sample_list_def sample_gateway_def)
  from this selection_exact [OF this, where env = sample_env and ps = sample_pair_selection and criteria = sample_criteria
      and entries = sample_list and r = 3] show ?thesis
    by (auto split: sum.splits)
qed

theorem selected_pair_safe_witness:
  "g_identity (sample_gateway ''C'' ''CH'' High) \<noteq> g_identity (sample_gateway ''B'' ''DE'' High)
    \<and> gateways_are_independent (se_overlaps sample_env) (sample_gateway ''C'' ''CH'' High) (sample_gateway ''B'' ''DE'' High) sample_criteria
    \<and> is_residential_asn (sample_gateway ''B'' ''DE'' High)"
  using selected_pair_safe [OF sample_selected] by (simp add: sample_selection_def)

text \<open>The search takes the best score on offer: whenever some gateway the entry point and filters admit
  reaches a score of at least low, the returned entry reaches it too.\<close>

theorem best_entry_highest_score:
  assumes "find_best_entry_gateway draw now point base gl r = (Inr g, r')"
    and "entry_admits now point base gl s h" and "Low \<le> s"
  shows "entry_admits now point base gl s g"
  using entry.best_found(2) [OF assms(1) [unfolded find_best_entry_gateway_def] assms(3,2)] .

theorem best_entry_highest_score_witness:
  "entry_admits 0 (EntryCountry ''CH'') [] sample_list High (sample_gateway ''C'' ''CH'' High)"
proof (rule best_entry_highest_score)
  show "find_best_entry_gateway (se_draw sample_env) 0 (EntryCountry ''CH'') [] sample_list 3
      = (Inr (sample_gateway ''C'' ''CH'' High), 4)"
    by (simp add: sample_eval)
  show "entry_admits 0 (EntryCountry ''CH'') [] sample_list High (sample_gateway ''C'' ''CH'' High)"
    by (simp add: sample_eval)
qed simp

text \<open>C21: when no exit gateway is in the requested country, the search for the best exit reports that no
  entry gateway is: the error names the wrong end of the tunnel, unlike the search for a socks5 exit.\<close>

theorem missing_exit_blamed_on_entry:
  assumes "\<And>g. g \<in> set (gl_gateways gl) \<Longrightarrow> \<not> is_in_country code g"
  shows "fst (find_best_exit_gateway show_recipient draw now (ExitCountry code) base gl r)
      = Inl (NoMatchingEntryGatewayForLocation code (all_iso_codes gl))
    \<and> fst (find_best_socks5_gateway show_recipient draw now (ExitCountry code) base gl r)
      = Inl (NoMatchingExitGatewayForLocation code (all_iso_codes gl))"
proof -
  have "filter_gateways now (fs @ [Country code]) gl = []" for fs
    using assms by (auto simp: filter_gateways_def matches_all_filters_def filter_empty_conv)
  from this [of "base @ _ # []"] show ?thesis
    by (simp add: find_best_exit_gateway_def find_best_socks5_gateway_def choose_random_def choose_from_def ok_or_def)
qed

theorem missing_exit_blamed_on_entry_witness:
  "fst (find_best_exit_gateway recipient_gateway (se_draw sample_env) 0 (ExitCountry ''FR'') [] sample_list 0)
     = Inl (NoMatchingEntryGatewayForLocation ''FR'' [''CH'', ''DE''])"
proof -
  have none: "\<not> is_in_country ''FR'' g" if "g \<in> set (gl_gateways sample_list)" for g
    using that by (auto simp: sample_list_def sample_gateway_def is_in_country_def)
  have "all_iso_codes sample_list = [''CH'', ''DE'']"
    by (simp add: sample_list_def sample_gateway_def all_iso_codes_def unique_def map_filter_simps)
  then show ?thesis using missing_exit_blamed_on_entry [of sample_list "''FR''", OF none] by metis
qed

end
