(* ===== verification/Tunnel_Settings.thy ===== *)
theory Tunnel_Settings
  imports FW_Types Gateway_Select
begin

text \<open>
  The settings of the tunnel state machine and what is computed from them
  (\<open>nym-vpn-lib/src/tunnel_state_machine/mod.rs\<close>): the DNS servers, the difference between two settings, the
  policy and the resolver pins of the idle states, when the API endpoints are resolved again, the counters
  that decide when a gateway is blamed, the delays between attempts (\<open>connecting_state.rs\<close>) and the freshness
  of the endpoint cache (\<open>api_endpoints_cache.rs\<close>).
\<close>

subsection \<open>Settings\<close>

datatype dns_options = DefaultDns | CustomDns "ip_addr list"

datatype wireguard_multihop_mode = TunTun

record wireguard_tunnel_options =
  wo_multihop_mode :: wireguard_multihop_mode
  wo_enable_bridges :: bool

record gateway_performance_options =
  po_mixnet_min_performance :: "u8 option"
  po_vpn_min_performance :: "u8 option"

text \<open>The mixnet client's configuration belongs to another crate and is only compared; it is kept as text.\<close>

record tunnel_settings =
  ts_enable_ipv6 :: bool
  ts_tunnel_type :: tunnel_type
  ts_allow_lan :: bool
  ts_residential_exit :: bool
  ts_mixnet_mtu :: "u16 option"
  ts_wireguard_options :: wireguard_tunnel_options
  ts_performance_options :: gateway_performance_options
  ts_mixnet_client_config :: "string option"
  ts_entry_point :: entry_point
  ts_exit_point :: exit_point
  ts_dns :: dns_options
  ts_killswitch :: bool
  ts_legacy_split_tunnel :: bool
  ts_inbound_exemptions :: "inbound_exemption list"
  ts_gateway_independence :: gateway_independence

text \<open>What the settings are read with: network membership and the built-in DNS servers, both of other crates.\<close>

record lib_env =
  le_contains :: "ip_network \<Rightarrow> ip_addr \<Rightarrow> bool"
  le_default_dns :: "ip_addr list"

definition independence_criteria :: "bool \<Rightarrow> tunnel_settings \<Rightarrow> gateway_independence" where
  "independence_criteria relax_independence s = (if relax_independence then gi_disabled else ts_gateway_independence s)"

text \<open>The filter \<open>is_ipv4() || (enable_ipv6 && is_ipv6())\<close> that every address list goes through.\<close>

definition family_enabled :: "bool \<Rightarrow> ip_addr \<Rightarrow> bool" where
  "family_enabled enable_ipv6 ip = (is_v4 ip \<or> enable_ipv6 \<and> \<not> is_v4 ip)"

definition default_dns_ips :: "lib_env \<Rightarrow> tunnel_settings \<Rightarrow> ip_addr list" where
  "default_dns_ips le s = filter (family_enabled (ts_enable_ipv6 s)) (le_default_dns le)"

definition dns_ips :: "lib_env \<Rightarrow> tunnel_settings \<Rightarrow> ip_addr list" where
  "dns_ips le s =
     (case ts_dns s of
        CustomDns addrs \<Rightarrow> filter (family_enabled (ts_enable_ipv6 s)) addrs
      | DefaultDns \<Rightarrow> default_dns_ips le s)"

definition local_custom_dns_ips :: "lib_env \<Rightarrow> tunnel_settings \<Rightarrow> ip_addr list" where
  "local_custom_dns_ips le s =
     (case ts_dns s of
        CustomDns _ \<Rightarrow> filter (\<lambda>ip. is_local_address (le_contains le) ip \<and> \<not> is_loopback ip) (dns_ips le s)
      | DefaultDns \<Rightarrow> [])"

definition idle_dns_ips :: "lib_env \<Rightarrow> tunnel_settings \<Rightarrow> ip_addr list" where
  "idle_dns_ips le s = default_dns_ips le s @ local_custom_dns_ips le s"

definition idle_dns_of :: "lib_env \<Rightarrow> tunnel_settings \<Rightarrow> idle_dns" where
  "idle_dns_of le s = \<lparr>i_local_resolvers = local_custom_dns_ips le s, i_killswitch = ts_killswitch s\<rparr>"

definition to_dns_config :: "lib_env \<Rightarrow> dns_options \<Rightarrow> dns_config" where
  "to_dns_config le d =
     (case d of
        DefaultDns \<Rightarrow> DnsDefault
      | CustomDns addrs \<Rightarrow>
          if addrs = [] then DnsDefault
          else (let (non_tunnel, tunnel) = List.partition (is_local_address (le_contains le)) addrs
                in from_addresses tunnel non_tunnel))"

definition resolved_dns_config :: "lib_env \<Rightarrow> tunnel_settings \<Rightarrow> resolved_dns_config" where
  "resolved_dns_config le s = dns_resolve (to_dns_config le (ts_dns s)) (dns_ips le s)"

definition bridges_enabled :: "tunnel_settings \<Rightarrow> bool" where
  "bridges_enabled s = (ts_tunnel_type s = Wireguard \<and> wo_enable_bridges (ts_wireguard_options s))"

subsection \<open>Differences\<close>

datatype diff_field =
  FEnableIpv6 | FTunnelType | FAllowLan | FResidentialExit | FMixnetTunnelOptions | FWireguardTunnelOptions | FQUIC
| FGatewayPerformanceOptions | FMixnetPerformanceOptions | FEntryPoint | FExitPoint | FDns | FKillswitch
| FLegacySplitTunnel | FInboundExemptions | FGatewayIndependence

type_synonym settings_diff = "diff_field set"

definition criteria_of :: "gateway_independence \<Rightarrow> gateway_independence" where
  "criteria_of gi = gi\<lparr>gi_enable_notifications := False\<rparr>"

definition changed_fields :: "tunnel_settings \<Rightarrow> tunnel_settings \<Rightarrow> settings_diff" where
  "changed_fields s t =
     (if ts_enable_ipv6 s \<noteq> ts_enable_ipv6 t then {FEnableIpv6} else {})
     \<union> (if ts_tunnel_type s \<noteq> ts_tunnel_type t then {FTunnelType} else {})
     \<union> (if ts_allow_lan s \<noteq> ts_allow_lan t then {FAllowLan} else {})
     \<union> (if ts_residential_exit s \<noteq> ts_residential_exit t then {FResidentialExit} else {})
     \<union> (if ts_mixnet_mtu s \<noteq> ts_mixnet_mtu t then {FMixnetTunnelOptions} else {})
     \<union> (if ts_wireguard_options s \<noteq> ts_wireguard_options t
        then insert FWireguardTunnelOptions
          (if wo_enable_bridges (ts_wireguard_options s) \<noteq> wo_enable_bridges (ts_wireguard_options t) then {FQUIC} else {})
        else {})
     \<union> (if ts_performance_options s \<noteq> ts_performance_options t
        then insert FGatewayPerformanceOptions
          (if po_mixnet_min_performance (ts_performance_options s) \<noteq> po_mixnet_min_performance (ts_performance_options t)
           then {FMixnetPerformanceOptions} else {})
        else {})
     \<union> (if ts_mixnet_client_config s \<noteq> ts_mixnet_client_config t then {FMixnetPerformanceOptions} else {})
     \<union> (if ts_entry_point s \<noteq> ts_entry_point t then {FEntryPoint} else {})
     \<union> (if ts_exit_point s \<noteq> ts_exit_point t then {FExitPoint} else {})
     \<union> (if ts_dns s \<noteq> ts_dns t then {FDns} else {})
     \<union> (if ts_killswitch s \<noteq> ts_killswitch t then {FKillswitch} else {})
     \<union> (if ts_legacy_split_tunnel s \<noteq> ts_legacy_split_tunnel t then {FLegacySplitTunnel} else {})
     \<union> (if ts_inbound_exemptions s \<noteq> ts_inbound_exemptions t then {FInboundExemptions} else {})
     \<union> (if criteria_of (ts_gateway_independence s) \<noteq> criteria_of (ts_gateway_independence t)
        then {FGatewayIndependence} else {})"

definition settings_diff :: "tunnel_settings \<Rightarrow> tunnel_settings \<Rightarrow> settings_diff option" where
  "settings_diff s t = (let d = changed_fields s t in if d = {} then None else Some d)"

definition only_field_changed :: "diff_field \<Rightarrow> settings_diff \<Rightarrow> bool" where
  "only_field_changed f d = (f \<in> d \<and> card d = 1)"

definition only_hot_appliable_changed :: "settings_diff \<Rightarrow> bool" where
  "only_hot_appliable_changed d = (d \<noteq> {} \<and> d \<subseteq> {FAllowLan, FInboundExemptions})"

definition only_mixnet_performance_options_changed :: "settings_diff \<Rightarrow> bool" where
  "only_mixnet_performance_options_changed d = only_field_changed FMixnetPerformanceOptions d"

definition affects_gateway_selection :: "settings_diff \<Rightarrow> bool" where
  "affects_gateway_selection d =
     (d \<inter> {FEntryPoint, FExitPoint, FTunnelType, FQUIC, FResidentialExit, FGatewayPerformanceOptions, FGatewayIndependence} \<noteq> {})"

text \<open>What a selection reads of the settings.\<close>

definition selection_of :: "tunnel_settings \<Rightarrow> selection_settings" where
  "selection_of s = \<lparr>ss_entry_point = ts_entry_point s, ss_exit_point = ts_exit_point s,
     ss_residential_exit = ts_residential_exit s, ss_tunnel_type = ts_tunnel_type s, ss_bridges_enabled = bridges_enabled s\<rparr>"

subsection \<open>The idle policy and the pins\<close>

type_synonym socket_addr = "ip_addr \<times> u16"
type_synonym resolver_overrides = "(string \<times> socket_addr list) list"

record resolved_config =
  rc_nyxd_socket_addrs :: "socket_addr list"
  rc_nym_api_overrides :: resolver_overrides
  rc_nym_vpn_api_overrides :: resolver_overrides

definition has_resolver_overrides :: "resolved_config \<Rightarrow> bool" where
  "has_resolver_overrides rc = (rc_nym_api_overrides rc \<noteq> [] \<or> rc_nym_vpn_api_overrides rc \<noteq> [])"

definition all_socket_addrs :: "resolved_config \<Rightarrow> socket_addr list" where
  "all_socket_addrs rc =
     rc_nyxd_socket_addrs rc @ concat (map snd (rc_nym_api_overrides rc)) @ concat (map snd (rc_nym_vpn_api_overrides rc))"

definition endpoint_from_socket_address :: "socket_addr \<Rightarrow> transport_protocol \<Rightarrow> endpoint" where
  "endpoint_from_socket_address addr proto = \<lparr>e_ip = fst addr, e_port = snd addr, e_protocol = proto\<rparr>"

definition allow :: "transport_protocol \<Rightarrow> allowed_clients \<Rightarrow> socket_addr \<Rightarrow> allowed_endpoint" where
  "allow proto clients addr = \<lparr>ae_endpoint = endpoint_from_socket_address addr proto, ae_clients = clients\<rparr>"

definition enabled_addrs :: "bool \<Rightarrow> socket_addr list \<Rightarrow> socket_addr list" where
  "enabled_addrs enable_ipv6 = filter (\<lambda>addr. family_enabled enable_ipv6 (fst addr))"

definition idle_blocked_policy :: "lib_env \<Rightarrow> tunnel_settings \<Rightarrow> socket_addr list \<Rightarrow> firewall_policy" where
  "idle_blocked_policy le s api_endpoints =
     Blocked \<lparr>bl_allow_lan = ts_allow_lan s,
       bl_allowed_endpoints = map (allow TTcp Root) (enabled_addrs (ts_enable_ipv6 s) api_endpoints),
       bl_dns_servers = idle_dns_ips le s\<rparr>"

definition idle_resolver_pins :: "bool \<Rightarrow> resolved_config option \<Rightarrow> resolver_overrides option" where
  "idle_resolver_pins killswitch resolution =
     (case resolution of
        None \<Rightarrow> None
      | Some rc \<Rightarrow> if killswitch \<and> has_resolver_overrides rc then Some (rc_nym_vpn_api_overrides rc) else None)"

definition API_ENDPOINT_REFRESH_INTERVAL :: instant where "API_ENDPOINT_REFRESH_INTERVAL = 60 * 60 * 1000"
definition API_ENDPOINT_RETRY_DELAY :: instant where "API_ENDPOINT_RETRY_DELAY = 60 * 1000"

definition api_endpoints_need_refresh :: "bool \<Rightarrow> bool \<Rightarrow> instant option \<Rightarrow> instant \<Rightarrow> bool" where
  "api_endpoints_need_refresh killswitch endpoints_known resolved_at now =
     (killswitch \<and>
      (case resolved_at of
         None \<Rightarrow> True
       | Some at \<Rightarrow> \<not> endpoints_known \<or> now - at \<ge> API_ENDPOINT_REFRESH_INTERVAL))"

subsection \<open>Blame\<close>

definition GATEWAY_BLAME_GRACE :: instant where "GATEWAY_BLAME_GRACE = 120 * 1000"

fun short_session :: "tunnel_type \<Rightarrow> instant" where
  "short_session Wireguard = 60 * 1000"
| "short_session Mixnet = 180 * 1000"

definition saturating_inc :: "u32 \<Rightarrow> u32" where
  "saturating_inc n = (if n = - 1 then n else n + 1)"

definition SHORT_SESSION_STRIKES :: u32 where "SHORT_SESSION_STRIKES = 3"

record short_session_strikes =
  st_entry :: "node_identity option"
  st_count :: u32

definition strikes_reset :: short_session_strikes where
  "strikes_reset = \<lparr>st_entry = None, st_count = 0\<rparr>"

definition strikes_record ::
  "node_identity \<Rightarrow> instant \<Rightarrow> tunnel_type \<Rightarrow> short_session_strikes \<Rightarrow> bool \<times> short_session_strikes" where
  "strikes_record entry lifetime tunnel_type s =
     (if lifetime \<ge> short_session tunnel_type then (False, strikes_reset)
      else (let s = (if st_entry s \<noteq> Some entry then \<lparr>st_entry = Some entry, st_count = 0\<rparr> else s);
                s = s\<lparr>st_count := saturating_inc (st_count s)\<rparr>
            in (SHORT_SESSION_STRIKES \<le> st_count s, s)))"

definition BANDWIDTH_FAILURE_SESSIONS :: u32 where "BANDWIDTH_FAILURE_SESSIONS = 3"

definition ends_sessions :: "u32 \<Rightarrow> bool" where
  "ends_sessions count = (count < BANDWIDTH_FAILURE_SESSIONS)"

definition record_failure :: "bool \<Rightarrow> u32 \<Rightarrow> u32" where
  "record_failure worked count = saturating_inc (if worked then 0 else count)"

definition record_other_end :: "bool \<Rightarrow> u32 \<Rightarrow> u32" where
  "record_other_end worked count = (if worked then 0 else count)"

definition grace_covers :: "node_identity \<Rightarrow> (node_identity \<times> instant) option \<Rightarrow> instant \<Rightarrow> bool" where
  "grace_covers entry grace now =
     (case grace of None \<Rightarrow> False | Some (identity, deadline) \<Rightarrow> identity = entry \<and> now < deadline)"

definition keep_gateways :: "u32 \<Rightarrow> bool \<Rightarrow> bool \<Rightarrow> bool" where
  "keep_gateways next_attempt grace_pending final_retry_owed =
     (\<not> 2 dvd unat next_attempt \<or> grace_pending \<or> final_retry_owed)"

definition api_probe_targets :: "bool \<Rightarrow> socket_addr list \<Rightarrow> socket_addr list" where
  "api_probe_targets enable_ipv6 addrs = take 2 (enabled_addrs enable_ipv6 addrs)"

subsection \<open>Delays\<close>

definition INITIAL_WAIT_DELAY :: nat where "INITIAL_WAIT_DELAY = 2000"
definition DELAY_MULTIPLIER :: u32 where "DELAY_MULTIPLIER = 2"
definition MAX_WAIT_DELAY :: nat where "MAX_WAIT_DELAY = 15000"
definition FAST_RETRY_ATTEMPTS :: u32 where "FAST_RETRY_ATTEMPTS = 2"
definition NETWORK_RECOVERY_DELAY :: nat where "NETWORK_RECOVERY_DELAY = 500"

text \<open>Saturating multiplication on \<open>u32\<close>; a \<open>Duration\<close> holds \<open>u64\<close> seconds, which these products never reach.\<close>

definition saturating_mul_u32 :: "u32 \<Rightarrow> u32 \<Rightarrow> u32" where
  "saturating_mul_u32 a b = (if unat a * unat b < 2 ^ 32 then a * b else - 1)"

definition wait_delay :: "u32 \<Rightarrow> nat" where
  "wait_delay retry_attempt =
     (if retry_attempt \<le> FAST_RETRY_ATTEMPTS then NETWORK_RECOVERY_DELAY
      else (let multiplier = saturating_mul_u32 (retry_attempt - FAST_RETRY_ATTEMPTS) DELAY_MULTIPLIER;
                delay = INITIAL_WAIT_DELAY * unat multiplier
            in min delay MAX_WAIT_DELAY))"

subsection \<open>The endpoint cache\<close>

definition MAX_AGE_SECS :: u64 where "MAX_AGE_SECS = 7 * 24 * 3600"
definition MAX_FUTURE_SKEW_SECS :: u64 where "MAX_FUTURE_SKEW_SECS = 5 * 60"

definition saturating_add_u64 :: "u64 \<Rightarrow> u64 \<Rightarrow> u64" where
  "saturating_add_u64 a b = (if unat a + unat b < 2 ^ 64 then a + b else - 1)"

definition saturating_sub_u64 :: "u64 \<Rightarrow> u64 \<Rightarrow> u64" where
  "saturating_sub_u64 a b = (if b \<le> a then a - b else 0)"

definition timestamp_is_fresh :: "u64 \<Rightarrow> u64 \<Rightarrow> bool" where
  "timestamp_is_fresh saved_at now =
     (saved_at \<le> saturating_add_u64 now MAX_FUTURE_SKEW_SECS \<and> saturating_sub_u64 now saved_at \<le> MAX_AGE_SECS)"

subsection \<open>What a difference says\<close>

lemma in_when: "x \<in> (if b then A else {}) \<longleftrightarrow> b \<and> x \<in> A"
  by simp

lemma in_changed_fields:
  "FEnableIpv6 \<in> changed_fields s t \<longleftrightarrow> ts_enable_ipv6 s \<noteq> ts_enable_ipv6 t"
  "FTunnelType \<in> changed_fields s t \<longleftrightarrow> ts_tunnel_type s \<noteq> ts_tunnel_type t"
  "FAllowLan \<in> changed_fields s t \<longleftrightarrow> ts_allow_lan s \<noteq> ts_allow_lan t"
  "FResidentialExit \<in> changed_fields s t \<longleftrightarrow> ts_residential_exit s \<noteq> ts_residential_exit t"
  "FMixnetTunnelOptions \<in> changed_fields s t \<longleftrightarrow> ts_mixnet_mtu s \<noteq> ts_mixnet_mtu t"
  "FWireguardTunnelOptions \<in> changed_fields s t \<longleftrightarrow> ts_wireguard_options s \<noteq> ts_wireguard_options t"
  "FQUIC \<in> changed_fields s t \<longleftrightarrow> wo_enable_bridges (ts_wireguard_options s) \<noteq> wo_enable_bridges (ts_wireguard_options t)"
  "FGatewayPerformanceOptions \<in> changed_fields s t \<longleftrightarrow> ts_performance_options s \<noteq> ts_performance_options t"
  "FMixnetPerformanceOptions \<in> changed_fields s t \<longleftrightarrow>
     po_mixnet_min_performance (ts_performance_options s) \<noteq> po_mixnet_min_performance (ts_performance_options t)
     \<or> ts_mixnet_client_config s \<noteq> ts_mixnet_client_config t"
  "FEntryPoint \<in> changed_fields s t \<longleftrightarrow> ts_entry_point s \<noteq> ts_entry_point t"
  "FExitPoint \<in> changed_fields s t \<longleftrightarrow> ts_exit_point s \<noteq> ts_exit_point t"
  "FDns \<in> changed_fields s t \<longleftrightarrow> ts_dns s \<noteq> ts_dns t"
  "FKillswitch \<in> changed_fields s t \<longleftrightarrow> ts_killswitch s \<noteq> ts_killswitch t"
  "FLegacySplitTunnel \<in> changed_fields s t \<longleftrightarrow> ts_legacy_split_tunnel s \<noteq> ts_legacy_split_tunnel t"
  "FInboundExemptions \<in> changed_fields s t \<longleftrightarrow> ts_inbound_exemptions s \<noteq> ts_inbound_exemptions t"
  "FGatewayIndependence \<in> changed_fields s t \<longleftrightarrow>
     criteria_of (ts_gateway_independence s) \<noteq> criteria_of (ts_gateway_independence t)"
  unfolding changed_fields_def Un_iff in_when insert_iff empty_iff by (simp | auto)+

lemma settings_diff_Some: "settings_diff s t = Some d \<longleftrightarrow> d = changed_fields s t \<and> d \<noteq> {}"
  by (auto simp: settings_diff_def Let_def)

lemma hot_changes_only: "only_hot_appliable_changed d \<Longrightarrow> f \<in> d \<Longrightarrow> f = FAllowLan \<or> f = FInboundExemptions"
  by (auto simp: only_hot_appliable_changed_def)

lemma only_field_singleton: "only_field_changed f d \<longleftrightarrow> d = {f}"
  by (auto simp: only_field_changed_def card_1_singleton_iff)

definition sample_settings :: tunnel_settings where
  "sample_settings =
     \<lparr>ts_enable_ipv6 = False, ts_tunnel_type = Wireguard, ts_allow_lan = True, ts_residential_exit = False, ts_mixnet_mtu = None,
      ts_wireguard_options = \<lparr>wo_multihop_mode = TunTun, wo_enable_bridges = False\<rparr>,
      ts_performance_options = \<lparr>po_mixnet_min_performance = None, po_vpn_min_performance = None\<rparr>,
      ts_mixnet_client_config = None, ts_entry_point = EntryRandom, ts_exit_point = ExitRandom, ts_dns = DefaultDns,
      ts_killswitch = True, ts_legacy_split_tunnel = False, ts_inbound_exemptions = [], ts_gateway_independence = gi_default\<rparr>"

subsection \<open>Settings a selection does not depend on\<close>

lemma criteria_of_eq:
  "criteria_of c = criteria_of c' \<longleftrightarrow>
     gi_different_node_family c = gi_different_node_family c' \<and> gi_different_asn c = gi_different_asn c'
     \<and> gi_different_subnet c = gi_different_subnet c'"
  by (cases c; cases c') (simp add: criteria_of_def)

lemma violations_criteria:
  assumes "criteria_of c = criteria_of c'"
  shows "independence_violations overlaps g h c = independence_violations overlaps g h c'" and "gi_active c = gi_active c'"
    and "entry_candidates env c entries g = entry_candidates env c' entries g"
proof -
  show same: "independence_violations overlaps g h c = independence_violations overlaps g h c'" for overlaps g h
    using assms
    by (simp add: criteria_of_eq independence_violations_def asn_violations_def family_violations_def subnet_violations_def)
  show "gi_active c = gi_active c'" using assms by (simp add: criteria_of_eq gi_active_def)
  show "entry_candidates env c entries g = entry_candidates env c' entries g"
    by (simp add: entry_candidates_def gateways_are_independent_def same)
qed

lemma exit_loop_criteria:
  assumes "criteria_of c = criteria_of c'"
  shows "exit_loop env ps c entries exits err r = exit_loop env ps c' entries exits err r"
proof (induction "length (gl_gateways exits)" arbitrary: exits err r rule: less_induct)
  case less
  have "exit_loop env ps c entries (remove_gateway x exits) e r' = exit_loop env ps c' entries (remove_gateway x exits) e r'"
    if "best_exit env ps exits r = (Inr x, r'')" for x e r' r''
    using that by (intro less remove_gateway_shorter found_exit_in_list)
  then show ?case
    unfolding exit_loop.simps [of env ps c entries exits] exit_loop.simps [of env ps c' entries exits]
      violations_criteria(3) [OF assms]
    by (cases "best_exit env ps exits r") (auto split: prod.splits sum.splits)
qed

lemma select_pair_criteria:
  assumes "criteria_of c = criteria_of c'"
  shows "select_pair env ps c entries exits r = select_pair env ps c' entries exits r"
  unfolding select_pair_def select_with_criteria_def exit_loop_criteria [OF assms] violations_criteria [OF assms] ..

lemma select_gateways_criteria:
  assumes "criteria_of c = criteria_of c'"
  shows "select_gateways env lookup keys b settings c r = select_gateways env lookup keys b settings c' r"
  unfolding select_gateways_def select_gateway_pair_def select_pair_criteria [OF assms] ..

text \<open>C37: a settings change that counts as not affecting the gateway selection does not affect it. Whatever the
  gateway lists, the keys, the blacklist, the random draws and the session's relaxation are, a selection under the
  new settings returns what it returns under the old ones, errors included.\<close>

theorem unaffected_selection_same:
  assumes "\<not> affects_gateway_selection (changed_fields s t)"
  shows "select_gateways env lookup keys b (selection_of t) (independence_criteria relax t) r
    = select_gateways env lookup keys b (selection_of s) (independence_criteria relax s) r"
proof -
  have same: "ts_entry_point s = ts_entry_point t" "ts_exit_point s = ts_exit_point t" "ts_tunnel_type s = ts_tunnel_type t"
    "ts_residential_exit s = ts_residential_exit t" "wo_enable_bridges (ts_wireguard_options s) = wo_enable_bridges (ts_wireguard_options t)"
    "criteria_of (ts_gateway_independence s) = criteria_of (ts_gateway_independence t)"
    using assms by (simp_all add: affects_gateway_selection_def in_changed_fields)
  then have settings: "selection_of t = selection_of s" by (simp add: selection_of_def bridges_enabled_def)
  have "criteria_of (independence_criteria relax t) = criteria_of (independence_criteria relax s)"
    using same by (simp add: independence_criteria_def)
  then show ?thesis unfolding settings by (rule select_gateways_criteria)
qed

theorem unaffected_selection_same_witness:
  "select_gateways sample_env (\<lambda>_. Inr sample_list) (\<lambda>_. Some (''entry'', ''exit'')) \<lparr>bk_map = [], bk_poisoned = False\<rparr>
      (selection_of (sample_settings\<lparr>ts_allow_lan := False, ts_killswitch := False, ts_gateway_independence := gi_default\<lparr>gi_enable_notifications := False\<rparr>\<rparr>))
      (independence_criteria False (sample_settings\<lparr>ts_allow_lan := False, ts_killswitch := False,
         ts_gateway_independence := gi_default\<lparr>gi_enable_notifications := False\<rparr>\<rparr>)) 3
    = select_gateways sample_env (\<lambda>_. Inr sample_list) (\<lambda>_. Some (''entry'', ''exit'')) \<lparr>bk_map = [], bk_poisoned = False\<rparr>
      (selection_of sample_settings) (independence_criteria False sample_settings) 3"
  by (rule unaffected_selection_same)
     (simp add: affects_gateway_selection_def changed_fields_def sample_settings_def criteria_of_def gi_default_def)

lemma unat_saturating_mul_u32: "unat (saturating_mul_u32 a b) = min (unat a * unat b) (2 ^ 32 - 1)"
proof (cases "unat a * unat b < 2 ^ 32")
  case True
  then have "unat (a * b) = unat a * unat b" by (simp add: unat_word_ariths)
  with True show ?thesis by (simp add: saturating_mul_u32_def)
next
  case False
  then show ?thesis by (simp add: saturating_mul_u32_def unsigned_minus_1_eq_mask mask_eq_exp_minus_1)
qed

lemma wait_delay_nat:
  "wait_delay n = (if unat n \<le> 2 then 500 else min (2000 * min ((unat n - 2) * 2) (2 ^ 32 - 1)) 15000)"
proof -
  have "unat (n - FAST_RETRY_ATTEMPTS) = unat n - 2" if "\<not> n \<le> FAST_RETRY_ATTEMPTS"
    using that by (simp add: FAST_RETRY_ATTEMPTS_def word_le_nat_alt unat_sub)
  then show ?thesis
    by (simp add: wait_delay_def FAST_RETRY_ATTEMPTS_def word_le_nat_alt NETWORK_RECOVERY_DELAY_def INITIAL_WAIT_DELAY_def
        MAX_WAIT_DELAY_def DELAY_MULTIPLIER_def unat_saturating_mul_u32 Let_def)
qed

text \<open>The delay before an attempt is at least half a second and at most fifteen, and never shrinks as the
  attempts go on, up to the largest attempt number.\<close>

theorem wait_delay_bounds:
  "NETWORK_RECOVERY_DELAY \<le> wait_delay n \<and> wait_delay n \<le> MAX_WAIT_DELAY \<and> wait_delay (min m n) \<le> wait_delay n"
proof -
  have "wait_delay m \<le> wait_delay n" if "m \<le> n"
    using that by (auto simp: wait_delay_nat word_le_nat_alt)
  then show ?thesis
    by (auto simp: wait_delay_nat NETWORK_RECOVERY_DELAY_def MAX_WAIT_DELAY_def min_def)
qed

end
