(* ===== verification/Machine_Monad.thy ===== *)
theory Machine_Monad
  imports "HOL-Library.State_Monad"
begin

text \<open>
  The state monad the handlers of the tunnel state machine are written in, and a weakest-precondition
  calculus for it: \<open>wp m Q s\<close> says that running \<open>m\<close> from \<open>s\<close> ends with a result and a state that satisfy
  \<open>Q\<close>. Programs are total, so \<open>wp\<close> distributes over conjunction and negation alike.
\<close>

named_theorems wp_rules

definition gets :: "('s \<Rightarrow> 'a) \<Rightarrow> ('s, 'a) state" where
  "gets f = State (\<lambda>s. (f s, s))"

definition modify :: "('s \<Rightarrow> 's) \<Rightarrow> ('s, unit) state" where
  "modify f = State (\<lambda>s. ((), f s))"

definition wp :: "('s, 'a) state \<Rightarrow> ('a \<Rightarrow> 's \<Rightarrow> bool) \<Rightarrow> 's \<Rightarrow> bool" where
  "wp m Q s = (case run_state m s of (a, s') \<Rightarrow> Q a s')"

lemma wp_return [wp_rules]: "wp (State_Monad.return a) Q = Q a"
  by (simp add: wp_def fun_eq_iff)

lemma wp_bind [wp_rules]: "wp (State_Monad.bind m f) Q = wp m (\<lambda>a. wp (f a) Q)"
  by (simp add: wp_def fun_eq_iff split: prod.splits)

lemma wp_gets [wp_rules]: "wp (gets f) Q = (\<lambda>s. Q (f s) s)"
  by (simp add: wp_def gets_def fun_eq_iff)

lemma wp_modify [wp_rules]: "wp (modify f) Q = (\<lambda>s. Q () (f s))"
  by (simp add: wp_def modify_def fun_eq_iff)

lemma wp_if [wp_rules]: "wp (if b then m else n) Q s = (if b then wp m Q s else wp n Q s)"
  by simp

lemma wp_option [wp_rules]:
  "wp (case x of None \<Rightarrow> m | Some y \<Rightarrow> f y) Q s = (case x of None \<Rightarrow> wp m Q s | Some y \<Rightarrow> wp (f y) Q s)"
  by (simp split: option.splits)

lemma wp_prod [wp_rules]: "wp (case x of (a, b) \<Rightarrow> f a b) Q s = (case x of (a, b) \<Rightarrow> wp (f a b) Q s)"
  by (simp split: prod.splits)

lemma wp_let [wp_rules]: "wp (let x = a in f x) Q s = wp (f a) Q s"
  by simp

lemma wp_mono: "wp m Q s \<Longrightarrow> (\<And>a t. Q a t \<Longrightarrow> R a t) \<Longrightarrow> wp m R s"
  by (auto simp: wp_def split: prod.splits)

lemma wp_conj: "wp m (\<lambda>a t. Q a t \<and> R a t) s \<longleftrightarrow> wp m Q s \<and> wp m R s"
  by (simp add: wp_def split: prod.splits)

lemma wp_run: "wp m Q s \<Longrightarrow> run_state m s = (a, t) \<Longrightarrow> Q a t"
  by (simp add: wp_def)

lemma wp_runI: "(\<And>a t. run_state m s = (a, t) \<Longrightarrow> Q a t) \<Longrightarrow> wp m Q s"
  by (simp add: wp_def split: prod.splits)

text \<open>\<open>keeping P m\<close>: running \<open>m\<close> keeps \<open>P\<close>, whatever it returns.\<close>

definition keeping :: "('s \<Rightarrow> bool) \<Rightarrow> ('s, 'a) state \<Rightarrow> bool" where
  "keeping P m = (\<forall>s. P s \<longrightarrow> wp m (\<lambda>_. P) s)"

named_theorems keeping_rules

lemma keeping_return [keeping_rules]: "keeping P (State_Monad.return a)"
  by (simp add: keeping_def wp_rules)

lemma keeping_bind [keeping_rules]: "keeping P m \<Longrightarrow> (\<And>a. keeping P (f a)) \<Longrightarrow> keeping P (State_Monad.bind m f)"
  by (auto simp: keeping_def wp_rules intro: wp_mono)

lemma keeping_gets [keeping_rules]: "keeping P (gets f)"
  by (simp add: keeping_def wp_rules)

lemma keeping_if [keeping_rules]: "(b \<Longrightarrow> keeping P m) \<Longrightarrow> (\<not> b \<Longrightarrow> keeping P n) \<Longrightarrow> keeping P (if b then m else n)"
  by simp

lemma keeping_option [keeping_rules]:
  "(x = None \<Longrightarrow> keeping P m) \<Longrightarrow> (\<And>y. x = Some y \<Longrightarrow> keeping P (f y)) \<Longrightarrow>
     keeping P (case x of None \<Rightarrow> m | Some y \<Rightarrow> f y)"
  by (simp split: option.splits)

lemma keeping_prod [keeping_rules]: "(\<And>a b. x = (a, b) \<Longrightarrow> keeping P (f a b)) \<Longrightarrow> keeping P (case x of (a, b) \<Rightarrow> f a b)"
  by (simp split: prod.splits)

lemma keeping_let [keeping_rules]: "keeping P (f a) \<Longrightarrow> keeping P (let x = a in f x)"
  by simp

lemma keeping_wp: "keeping P m \<Longrightarrow> P s \<Longrightarrow> wp m (\<lambda>_. P) s"
  by (simp add: keeping_def)

text \<open>\<open>always Q m\<close>: from every state \<open>m\<close> ends as \<open>Q\<close> says.\<close>

definition always :: "('a \<Rightarrow> 's \<Rightarrow> bool) \<Rightarrow> ('s, 'a) state \<Rightarrow> bool" where
  "always Q m = (\<forall>s. wp m Q s)"

named_theorems always_rules

lemma always_return [always_rules]: "(\<And>s. Q a s) \<Longrightarrow> always Q (State_Monad.return a)"
  by (simp add: always_def wp_rules)

lemma always_bind [always_rules]: "(\<And>a. always Q (f a)) \<Longrightarrow> always Q (State_Monad.bind m f)"
  by (simp add: always_def wp_rules) (simp add: wp_def split: prod.splits)

lemma always_bind_result: "always (\<lambda>a _. R a) m \<Longrightarrow> (\<And>a. R a \<Longrightarrow> always Q (f a)) \<Longrightarrow> always Q (State_Monad.bind m f)"
  by (auto simp: always_def wp_rules intro: wp_mono)

lemma always_if [always_rules]: "(b \<Longrightarrow> always Q m) \<Longrightarrow> (\<not> b \<Longrightarrow> always Q n) \<Longrightarrow> always Q (if b then m else n)"
  by simp

lemma always_option [always_rules]:
  "(x = None \<Longrightarrow> always Q m) \<Longrightarrow> (\<And>y. x = Some y \<Longrightarrow> always Q (f y)) \<Longrightarrow> always Q (case x of None \<Rightarrow> m | Some y \<Rightarrow> f y)"
  by (simp split: option.splits)

lemma always_prod [always_rules]: "(\<And>a b. always Q (f a b)) \<Longrightarrow> always Q (case x of (a, b) \<Rightarrow> f a b)"
  by (simp split: prod.splits)

lemma always_let [always_rules]: "always Q (f a) \<Longrightarrow> always Q (let x = a in f x)"
  by simp

lemma always_wp: "always Q m \<Longrightarrow> wp m Q s"
  by (simp add: always_def)

lemma always_mono: "always Q m \<Longrightarrow> (\<And>a s. Q a s \<Longrightarrow> R a s) \<Longrightarrow> always R m"
  unfolding always_def by (blast intro: wp_mono)

end
