(* ===== verification/Tunnel_Machine.thy ===== *)
theory Tunnel_Machine
  imports Tunnel_Settings Machine_Monad "HOL-Library.Product_Lexorder"
begin

text \<open>
  The tunnel state machine (\<open>nym-vpn-lib/src/tunnel_state_machine\<close>): the shared state of \<open>mod.rs\<close> and the six
  states of \<open>states/\<close>, each with its \<open>enter\<close> and its \<open>handle_event\<close>, written in the state monad with the
  source's order of calls. What the machine calls is a record of operations on an abstract world: the
  firewall, the DNS handler, the routes, the account controller, discovery, connectivity, the endpoint
  cache and the tunnel monitor. Every fallible call returns whether it succeeded.
\<close>

subsection \<open>The world\<close>

datatype discovery_command = Pause bool | UseResolverOverrides "resolver_overrides option"

type_synonym monitor_id = nat

record tunnel_parameters =
  tp_resolved :: "resolved_config option"
  tp_settings :: tunnel_settings
  tp_selected_gateways :: "selected_gateways option"
  tp_blacklist :: blacklist
  tp_relax_independence :: bool
  tp_bandwidth_failures_end_session :: bool

record 'w world_ops =
  w_lib :: lib_env
  w_now :: "'w \<Rightarrow> instant"
  w_offline :: "'w \<Rightarrow> bool \<times> 'w"
  w_fw_set_killswitch :: "bool \<Rightarrow> 'w \<Rightarrow> 'w"
  w_fw_apply :: "firewall_policy \<Rightarrow> 'w \<Rightarrow> bool \<times> 'w"
  w_fw_reset :: "'w \<Rightarrow> bool \<times> 'w"
  w_dns_set :: "string \<Rightarrow> resolved_dns_config \<Rightarrow> 'w \<Rightarrow> bool \<times> 'w"
  w_dns_reset :: "'w \<Rightarrow> bool \<times> 'w"
  w_dns_reset_idle :: "idle_dns \<Rightarrow> 'w \<Rightarrow> bool \<times> 'w"
  w_dns_reset_before_interface_removal :: "'w \<Rightarrow> bool \<times> 'w"
  w_remove_routes :: "'w \<Rightarrow> 'w"
  w_discovery :: "discovery_command \<Rightarrow> 'w \<Rightarrow> 'w"
  w_account_overrides :: "resolver_overrides option \<Rightarrow> 'w \<Rightarrow> bool \<times> 'w"
  w_account_firewall :: "bool \<Rightarrow> 'w \<Rightarrow> 'w"
  w_account_time_desynced :: "'w \<Rightarrow> bool"
  w_account_refresh :: "'w \<Rightarrow> 'w"
  w_api_reachable :: "socket_addr list \<Rightarrow> 'w \<Rightarrow> bool \<times> 'w"
  w_save_endpoints :: "socket_addr list \<Rightarrow> 'w \<Rightarrow> 'w"
  w_start_monitor :: "tunnel_parameters \<Rightarrow> 'w \<Rightarrow> monitor_id \<times> 'w"
  w_cancel_monitor :: "monitor_id \<Rightarrow> 'w \<Rightarrow> 'w"

subsection \<open>Shared state\<close>

record 'w shared_state =
  sh_world :: 'w
  sh_settings :: tunnel_settings
  sh_blacklist :: blacklist
  sh_grace :: "(node_identity \<times> instant) option"
  sh_strikes :: short_session_strikes
  sh_suspect :: "node_identity option"
  sh_streak :: u32
  sh_relax :: bool
  sh_api_endpoints :: "socket_addr list"
  sh_api_resolution :: "resolved_config option"
  sh_resolved_at :: "instant option"

definition query :: "('w \<Rightarrow> 'a \<times> 'w) \<Rightarrow> ('w shared_state, 'a) state" where
  "query f = State (\<lambda>s. case f (sh_world s) of (a, w) \<Rightarrow> (a, s\<lparr>sh_world := w\<rparr>))"

definition act :: "('w \<Rightarrow> 'w) \<Rightarrow> ('w shared_state, unit) state" where
  "act f = modify (\<lambda>s. s\<lparr>sh_world := f (sh_world s)\<rparr>)"

definition ignore :: "('s, 'a) state \<Rightarrow> ('s, unit) state" where
  "ignore m = State_Monad.bind m (\<lambda>_. State_Monad.return ())"

definition clock :: "'w world_ops \<Rightarrow> ('w shared_state, instant) state" where
  "clock io = gets (\<lambda>s. w_now io (sh_world s))"

definition allow_networking :: "'w world_ops \<Rightarrow> ('w shared_state, unit) state" where
  "allow_networking io = do { act (w_discovery io (Pause False)); act (w_account_firewall io False) }"

definition disallow_networking :: "'w world_ops \<Rightarrow> ('w shared_state, unit) state" where
  "disallow_networking io = do { act (w_discovery io (Pause True)); act (w_account_firewall io True) }"

definition set_resolver_overrides :: "'w world_ops \<Rightarrow> resolver_overrides \<Rightarrow> ('w shared_state, bool) state" where
  "set_resolver_overrides io pins =
     do { act (w_discovery io (UseResolverOverrides (Some pins))); query (w_account_overrides io (Some pins)) }"

definition reset_resolver_overrides :: "'w world_ops \<Rightarrow> ('w shared_state, unit) state" where
  "reset_resolver_overrides io =
     do { act (w_discovery io (UseResolverOverrides None)); ignore (query (w_account_overrides io None)) }"

definition blacklist_entry_gateway :: "'w world_ops \<Rightarrow> node_identity \<Rightarrow> ('w shared_state, unit) state" where
  "blacklist_entry_gateway io entry =
     do { now \<leftarrow> clock io; modify (\<lambda>s. s\<lparr>sh_blacklist := snd (blacklist_add entry now (sh_blacklist s))\<rparr>) }"

definition clear_short_session_strikes :: "('w shared_state, unit) state" where
  "clear_short_session_strikes = modify (\<lambda>s. s\<lparr>sh_strikes := strikes_reset, sh_suspect := None\<rparr>)"

definition apply_policy :: "'w world_ops \<Rightarrow> firewall_policy \<Rightarrow> ('w shared_state, bool) state" where
  "apply_policy io policy =
     do { ks \<leftarrow> gets (\<lambda>s. ts_killswitch (sh_settings s));
          act (w_fw_set_killswitch io ks);
          query (w_fw_apply io policy) }"

definition enter_idle_firewall :: "'w world_ops \<Rightarrow> ('w shared_state, bool) state" where
  "enter_idle_firewall io =
     do { settings \<leftarrow> gets sh_settings;
          api_endpoints \<leftarrow> gets sh_api_endpoints;
          act (w_fw_set_killswitch io (ts_killswitch settings));
          done \<leftarrow> (if ts_killswitch settings
                  then query (w_fw_apply io (idle_blocked_policy (w_lib io) settings api_endpoints))
                  else query (w_fw_reset io));
          (if \<not> done then State_Monad.return False
           else do {
             resolution \<leftarrow> gets sh_api_resolution;
             (case idle_resolver_pins (ts_killswitch settings) resolution of
                Some pins \<Rightarrow> ignore (set_resolver_overrides io pins)
              | None \<Rightarrow> reset_resolver_overrides io);
             State_Monad.return True }) }"

definition adopt_resolved_api_endpoints :: "'w world_ops \<Rightarrow> resolved_config \<Rightarrow> ('w shared_state, unit) state" where
  "adopt_resolved_api_endpoints io resolved =
     do { now \<leftarrow> clock io;
          let api_endpoints = remdups_adj (sort (all_socket_addrs resolved));
          modify (\<lambda>s. s\<lparr>sh_api_endpoints := api_endpoints, sh_api_resolution := Some resolved, sh_resolved_at := Some now\<rparr>);
          act (w_save_endpoints io api_endpoints) }"

definition install_idle_api_access :: "'w world_ops \<Rightarrow> resolved_config \<Rightarrow> ('w shared_state, bool) state" where
  "install_idle_api_access io resolved = do { adopt_resolved_api_endpoints io resolved; enter_idle_firewall io }"

definition release_firewall_on_shutdown :: "'w world_ops \<Rightarrow> ('w shared_state, bool) state" where
  "release_firewall_on_shutdown io =
     do { ks \<leftarrow> gets (\<lambda>s. ts_killswitch (sh_settings s));
          (if ks then State_Monad.return True else query (w_fw_reset io)) }"

subsection \<open>Allow-list upkeep\<close>

record idle_api_access =
  ia_resolving :: bool
  ia_timer :: "instant option"

definition ia_new :: idle_api_access where
  "ia_new = \<lparr>ia_resolving = False, ia_timer = None\<rparr>"

definition arm_timer :: "instant \<Rightarrow> idle_api_access \<Rightarrow> idle_api_access" where
  "arm_timer due a = a\<lparr>ia_timer := Some due\<rparr>"

definition plan :: "bool \<Rightarrow> bool \<Rightarrow> instant \<Rightarrow> idle_api_access \<Rightarrow> idle_api_access" where
  "plan killswitch need_refresh due a =
     (if \<not> killswitch then \<lparr>ia_resolving = False, ia_timer = None\<rparr>
      else if need_refresh then \<lparr>ia_resolving = True, ia_timer = None\<rparr>
      else arm_timer due a)"

definition api_endpoints_refresh_due :: "'w world_ops \<Rightarrow> ('w shared_state, instant) state" where
  "api_endpoints_refresh_due io =
     do { now \<leftarrow> clock io;
          gets (\<lambda>s. case sh_resolved_at s of
                      Some at \<Rightarrow> if sh_api_endpoints s \<noteq> [] then at + API_ENDPOINT_REFRESH_INTERVAL else now
                    | None \<Rightarrow> now) }"

definition schedule :: "'w world_ops \<Rightarrow> idle_api_access \<Rightarrow> ('w shared_state, idle_api_access) state" where
  "schedule io a =
     do { s \<leftarrow> gets id;
          now \<leftarrow> clock io;
          due \<leftarrow> api_endpoints_refresh_due io;
          State_Monad.return (plan (ts_killswitch (sh_settings s))
            (api_endpoints_need_refresh (ts_killswitch (sh_settings s)) (sh_api_endpoints s \<noteq> []) (sh_resolved_at s) now) due a) }"

definition start_access :: "'w world_ops \<Rightarrow> ('w shared_state, idle_api_access) state" where
  "start_access io = schedule io ia_new"

text \<open>The resolution has ended by the time its result is handled. The flag is whether the firewall took it.\<close>

definition handle_resolved ::
  "'w world_ops \<Rightarrow> resolved_config option \<Rightarrow> idle_api_access \<Rightarrow> ('w shared_state, bool \<times> idle_api_access) state" where
  "handle_resolved io result a =
     (let a = a\<lparr>ia_resolving := False\<rparr>
      in case result of
           Some resolved \<Rightarrow>
             do { installed \<leftarrow> install_idle_api_access io resolved;
                  (if \<not> installed then State_Monad.return (False, a)
                   else do { due \<leftarrow> api_endpoints_refresh_due io; State_Monad.return (True, arm_timer due a) }) }
         | None \<Rightarrow>
             do { now \<leftarrow> clock io; State_Monad.return (True, arm_timer (now + API_ENDPOINT_RETRY_DELAY) a) })"

subsection \<open>States\<close>

datatype error_state_reason =
  SetFirewallPolicy | SetRouting | SetDns | TunDevice | TunnelProvider | Ipv6Unavailable | SameEntryAndExit
| NeedsRelaxedIndependence | PerformantEntryGatewayUnavailable | PerformantExitGatewayUnavailable
| InvalidEntryGatewayIdentity | InvalidExitGatewayIdentity | InvalidEntryGatewayCountry | InvalidExitGatewayCountry
| CredentialWastedOnEntryGateway | CredentialWastedOnExitGateway | BandwidthExceeded | InactiveAccount
| InactiveSubscription | MaxDevicesReached | DeviceTimeOutOfSync | DeviceLoggedOut | Internal string

text \<open>Of the connection data what the machine reads: the WireGuard endpoints.\<close>

record wireguard_connection_data =
  wd_entry_bridge :: "socket_addr option"
  wd_entry_endpoint :: socket_addr

datatype tunnel_connection_data = WireguardData wireguard_connection_data | MixnetData

record establish_connection_data =
  ed_entry_gateway :: gateway
  ed_exit_gateway :: gateway
  ed_tunnel :: "tunnel_connection_data option"

record connection_data =
  cn_entry_gateway :: gateway
  cn_exit_gateway :: gateway
  cn_tunnel :: tunnel_connection_data

datatype establish_connection_state =
  ResolvingApiAddresses | AwaitingReadiness | RefreshingList | SelectingPair | RegisteringPair | ConnectingTunnel

datatype after_disconnect =
  Nothing | Reconnect "selected_gateways option" | GoOffline bool "selected_gateways option" | GoError error_state_reason

datatype private_tunnel_state =
  PDisconnected
| PConnecting u32 establish_connection_state tunnel_type "establish_connection_data option"
| PConnected connection_data
| PDisconnecting after_disconnect
| PError error_state_reason
| POffline bool

record connecting_params =
  cp_enable_ipv6 :: bool
  cp_allow_lan :: bool
  cp_wg_entry_endpoint :: "socket_addr option"
  cp_bridge_endpoints :: "socket_addr list"
  cp_ws_entry_endpoints :: "socket_addr list"
  cp_lp_entry_endpoints :: "socket_addr list"
  cp_api_endpoints :: "socket_addr list"
  cp_dns_servers :: "ip_addr list"
  cp_tunnel_interface :: "tunnel_interface option"
  cp_inbound_exemptions :: "inbound_exemption list"

record connected_params =
  dp_enable_ipv6 :: bool
  dp_allow_lan :: bool
  dp_wg_entry_endpoint :: "socket_addr option"
  dp_ws_entry_endpoints :: "socket_addr list"
  dp_dns_config :: resolved_dns_config
  dp_tunnel_interface :: tunnel_interface
  dp_allowed_endpoints :: "allowed_endpoint list"
  dp_inbound_exemptions :: "inbound_exemption list"

record connecting_state =
  cs_retry_attempt :: u32
  cs_monitor :: "monitor_id option"
  cs_event_sender :: bool
  cs_selected_gateways :: "selected_gateways option"
  cs_connection_data :: "establish_connection_data option"
  cs_params :: connecting_params
  cs_resolving :: bool
  cs_delay :: "instant option"
  cs_final_retry_owed :: bool

record connected_state =
  ds_monitor :: monitor_id
  ds_selected_gateways :: selected_gateways
  ds_tunnel_interface :: tunnel_interface
  ds_params :: connected_params
  ds_bandwidth_failure :: "bool option option"
  ds_bandwidth_checks_worked :: bool
  ds_connected_at :: instant

datatype tunnel_state =
  StDisconnected idle_api_access
| StConnecting connecting_state
| StConnected connected_state
| StDisconnecting after_disconnect "monitor_id option"
| StError error_state_reason idle_api_access
| StOffline bool "selected_gateways option" bool

datatype next_tunnel_state =
  NewState tunnel_state private_tunnel_state | SameState tunnel_state | Finished | Panicked

type_synonym 'w entering = "('w shared_state, tunnel_state \<times> private_tunnel_state) state"
type_synonym 'w handling = "('w shared_state, next_tunnel_state) state"

definition new_state :: "'w entering \<Rightarrow> 'w handling" where
  "new_state m = State_Monad.bind m (\<lambda>(st, private). State_Monad.return (NewState st private))"

definition same_state :: "tunnel_state \<Rightarrow> 'w handling" where
  "same_state st = State_Monad.return (SameState st)"

subsection \<open>Policies\<close>

definition enabled_peer :: "bool \<Rightarrow> allowed_clients \<Rightarrow> socket_addr option \<Rightarrow> allowed_endpoint list" where
  "enabled_peer enable_ipv6 clients addr = map (allow TUdp clients) (enabled_addrs enable_ipv6 (option_list addr))"

definition connecting_policy_of :: "connecting_params \<Rightarrow> firewall_policy" where
  "connecting_policy_of p =
     Connecting \<lparr>
       cg_peer_endpoints = map (allow TTcp Root) (enabled_addrs (cp_enable_ipv6 p) (cp_ws_entry_endpoints p))
         @ enabled_peer (cp_enable_ipv6 p) Root (cp_wg_entry_endpoint p)
         @ map (allow TUdp Root) (enabled_addrs (cp_enable_ipv6 p) (cp_bridge_endpoints p)),
       cg_tunnel = cp_tunnel_interface p,
       cg_allow_lan = cp_allow_lan p,
       cg_dns_config = dns_resolve (from_addresses [] (cp_dns_servers p)) [],
       cg_allowed_endpoints = map (allow TTcp Root) (enabled_addrs (cp_enable_ipv6 p) (cp_api_endpoints p))
         @ map (allow TTcp Root) (enabled_addrs (cp_enable_ipv6 p) (cp_lp_entry_endpoints p)),
       cg_entry_traffic = TrafficAll,
       cg_exit_traffic = TrafficAll,
       cg_inbound_exemptions = cp_inbound_exemptions p\<rparr>"

definition connected_policy_of :: "connected_params \<Rightarrow> firewall_policy" where
  "connected_policy_of p =
     Connected \<lparr>
       cd_peer_endpoints = map (allow TTcp AllClients) (enabled_addrs (dp_enable_ipv6 p) (dp_ws_entry_endpoints p))
         @ enabled_peer (dp_enable_ipv6 p) AllClients (dp_wg_entry_endpoint p),
       cd_tunnel = dp_tunnel_interface p,
       cd_allow_lan = dp_allow_lan p,
       cd_dns_config = dp_dns_config p,
       cd_allowed_endpoints = dp_allowed_endpoints p,
       cd_inbound_exemptions = dp_inbound_exemptions p\<rparr>"

definition offline_policy_of :: "bool \<Rightarrow> firewall_policy" where
  "offline_policy_of lan = Blocked \<lparr>bl_allow_lan = lan, bl_allowed_endpoints = [], bl_dns_servers = []\<rparr>"

subsection \<open>Entering a state\<close>

definition enter_error :: "'w world_ops \<Rightarrow> error_state_reason \<Rightarrow> 'w entering" where
  "enter_error io reason =
     do { ignore (enter_idle_firewall io);
          allow_networking io;
          api_access \<leftarrow> start_access io;
          State_Monad.return (StError reason api_access, PError reason) }"

definition disconnected_reset_dns :: "'w world_ops \<Rightarrow> ('w shared_state, unit) state" where
  "disconnected_reset_dns io =
     do { idle \<leftarrow> gets (\<lambda>s. idle_dns_of (w_lib io) (sh_settings s)); ignore (query (w_dns_reset_idle io idle)) }"

definition enter_disconnected :: "'w world_ops \<Rightarrow> 'w entering" where
  "enter_disconnected io =
     do { modify (\<lambda>s. s\<lparr>sh_grace := None\<rparr>);
          clear_short_session_strikes;
          modify (\<lambda>s. s\<lparr>sh_streak := 0, sh_relax := False\<rparr>);
          applied \<leftarrow> enter_idle_firewall io;
          (if \<not> applied then enter_error io SetFirewallPolicy
           else do {
             allow_networking io;
             disconnected_reset_dns io;
             api_access \<leftarrow> start_access io;
             State_Monad.return (StDisconnected api_access, PDisconnected) }) }"

definition enter_offline :: "'w world_ops \<Rightarrow> bool \<Rightarrow> selected_gateways option \<Rightarrow> 'w entering" where
  "enter_offline io reconnect gateways =
     do { disallow_networking io;
          clear_short_session_strikes;
          lan \<leftarrow> gets (\<lambda>s. ts_allow_lan (sh_settings s));
          ignore (apply_policy io (offline_policy_of lan));
          State_Monad.return (StOffline reconnect gateways lan, POffline reconnect) }"

definition enter_disconnecting :: "'w world_ops \<Rightarrow> after_disconnect \<Rightarrow> monitor_id \<Rightarrow> 'w entering" where
  "enter_disconnecting io after monitor =
     do { disallow_networking io;
          act (w_cancel_monitor io monitor);
          State_Monad.return (StDisconnecting after (Some monitor), PDisconnecting after) }"

definition make_connecting_tunnel_state :: "establish_connection_state \<Rightarrow> connecting_state \<Rightarrow> 'w shared_state \<Rightarrow> private_tunnel_state" where
  "make_connecting_tunnel_state progress cs s =
     PConnecting (cs_retry_attempt cs) progress (ts_tunnel_type (sh_settings s)) (cs_connection_data cs)"

definition initial_connecting_params :: "lib_env \<Rightarrow> selected_gateways option \<Rightarrow> 'w shared_state \<Rightarrow> connecting_params" where
  "initial_connecting_params le selected s =
     (let settings = sh_settings s in
      \<lparr>cp_enable_ipv6 = ts_enable_ipv6 settings,
       cp_allow_lan = ts_allow_lan settings,
       cp_wg_entry_endpoint = None,
       cp_bridge_endpoints =
         (if bridges_enabled settings
          then case Option.bind selected (\<lambda>g. g_bridge_params (entry_gateway g)) of
                 Some params \<Rightarrow> get_addrs params
               | None \<Rightarrow> []
          else []),
       cp_ws_entry_endpoints = (case selected of Some g \<Rightarrow> endpoints (entry_gateway g) | None \<Rightarrow> []),
       cp_lp_entry_endpoints = (case selected of Some g \<Rightarrow> lp_endpoints (entry_gateway g) | None \<Rightarrow> []),
       cp_api_endpoints = sh_api_endpoints s,
       cp_dns_servers = idle_dns_ips le settings,
       cp_tunnel_interface = None,
       cp_inbound_exemptions = ts_inbound_exemptions settings\<rparr>)"

definition enter_connecting :: "'w world_ops \<Rightarrow> u32 \<Rightarrow> selected_gateways option \<Rightarrow> 'w entering" where
  "enter_connecting io retry_attempt selected =
     do { disallow_networking io;
          offline \<leftarrow> query (w_offline io);
          (if offline then enter_offline io True selected
           else do {
             params \<leftarrow> gets (initial_connecting_params (w_lib io) selected);
             applied \<leftarrow> apply_policy io (connecting_policy_of params);
             (if \<not> applied then enter_error io SetFirewallPolicy
              else do {
                now \<leftarrow> clock io;
                let cs = \<lparr>cs_retry_attempt = retry_attempt, cs_monitor = None, cs_event_sender = True,
                    cs_selected_gateways = selected,
                    cs_connection_data = map_option (\<lambda>g. \<lparr>ed_entry_gateway = entry_gateway g, ed_exit_gateway = exit_gateway g,
                      ed_tunnel = None\<rparr>) selected,
                    cs_params = params, cs_resolving = False,
                    cs_delay = Some (now + (if retry_attempt > 0 then wait_delay retry_attempt else 0)),
                    cs_final_retry_owed = False\<rparr>;
                private \<leftarrow> gets (make_connecting_tunnel_state ResolvingApiAddresses cs);
                State_Monad.return (StConnecting cs, private) }) }) }"

definition connected_wg_endpoint :: "tunnel_settings \<Rightarrow> tunnel_connection_data \<Rightarrow> socket_addr option" where
  "connected_wg_endpoint settings tunnel =
     (case tunnel of
        WireguardData wg \<Rightarrow> if bridges_enabled settings then wd_entry_bridge wg else Some (wd_entry_endpoint wg)
      | MixnetData \<Rightarrow> None)"

definition initial_connected_params ::
  "lib_env \<Rightarrow> tunnel_interface \<Rightarrow> connection_data \<Rightarrow> selected_gateways \<Rightarrow> tunnel_settings \<Rightarrow> connected_params" where
  "initial_connected_params le tunnel_interface connection_data gateways settings =
     \<lparr>dp_enable_ipv6 = ts_enable_ipv6 settings,
      dp_allow_lan = ts_allow_lan settings,
      dp_wg_entry_endpoint = connected_wg_endpoint settings (cn_tunnel connection_data),
      dp_ws_entry_endpoints = endpoints (entry_gateway gateways) @ endpoints (exit_gateway gateways),
      dp_dns_config = resolved_dns_config le settings,
      dp_tunnel_interface = tunnel_interface,
      dp_allowed_endpoints = [],
      dp_inbound_exemptions = ts_inbound_exemptions settings\<rparr>"

definition connected_set_dns :: "'w world_ops \<Rightarrow> tunnel_interface \<Rightarrow> ('w shared_state, bool) state" where
  "connected_set_dns io tunnel_interface =
     do { dns_config \<leftarrow> gets (\<lambda>s. resolved_dns_config (w_lib io) (sh_settings s));
          query (w_dns_set io (t_interface (exit_metadata tunnel_interface)) dns_config) }"

definition enter_connected ::
  "'w world_ops \<Rightarrow> tunnel_interface \<Rightarrow> connection_data \<Rightarrow> selected_gateways \<Rightarrow> monitor_id \<Rightarrow> 'w entering" where
  "enter_connected io tunnel_interface connection_data gateways monitor =
     do { params \<leftarrow> gets (\<lambda>s. initial_connected_params (w_lib io) tunnel_interface connection_data gateways (sh_settings s));
          now \<leftarrow> clock io;
          let ds = \<lparr>ds_monitor = monitor, ds_selected_gateways = gateways, ds_tunnel_interface = tunnel_interface,
            ds_params = params, ds_bandwidth_failure = None, ds_bandwidth_checks_worked = False, ds_connected_at = now\<rparr>;
          applied \<leftarrow> apply_policy io (connected_policy_of params);
          (if \<not> applied then enter_disconnecting io (GoError SetFirewallPolicy) monitor
           else do {
             dns_set \<leftarrow> connected_set_dns io tunnel_interface;
             (if \<not> dns_set then enter_disconnecting io (GoError SetDns) monitor
              else do {
                reset_resolver_overrides io;
                State_Monad.return (StConnected ds, PConnected connection_data) }) }) }"

subsection \<open>Events\<close>

datatype tunnel_command = Connect bool | Disconnect | SetTunnelSettings tunnel_settings

datatype monitor_event =
  AwaitingAccountReadiness
| RefreshingGateways
| SelectingGateways
| SelectedGateways selected_gateways
| RegisteringWithGateways
| RegisteredWithGateways establish_connection_data
| InterfaceUp tunnel_interface establish_connection_data
| Up tunnel_interface connection_data
| Down "error_state_reason option"
| ConnectionFailed
| RegistrationFailed bool
| BandwidthChecks "bool option option" bool

text \<open>The branches of the \<open>select!\<close> blocks. A state ignores the events it does not poll.\<close>

datatype event =
  Command tunnel_command
| Monitor monitor_event
| ConnectivityChanged bool
| Resolved "resolved_config option"
| TimerFired
| DelayElapsed
| TunnelClosed
| ShutdownRequested

definition set_relax :: "bool \<Rightarrow> ('w shared_state, unit) state" where
  "set_relax relax = modify (\<lambda>s. s\<lparr>sh_relax := relax\<rparr>)"

definition assign_settings :: "tunnel_settings \<Rightarrow> ('w shared_state, unit) state" where
  "assign_settings settings = modify (\<lambda>s. s\<lparr>sh_settings := settings\<rparr>)"

subsection \<open>Disconnected\<close>

definition handle_disconnected :: "'w world_ops \<Rightarrow> idle_api_access \<Rightarrow> event \<Rightarrow> 'w handling" where
  "handle_disconnected io a ev =
     (case ev of
        Command (Connect relax) \<Rightarrow> do { set_relax relax; new_state (enter_connecting io 0 None) }
      | Command Disconnect \<Rightarrow> same_state (StDisconnected a)
      | Command (SetTunnelSettings settings) \<Rightarrow>
          do { old \<leftarrow> gets sh_settings;
               assign_settings settings;
               (if idle_dns_of (w_lib io) old \<noteq> idle_dns_of (w_lib io) settings then disconnected_reset_dns io
                else State_Monad.return ());
               applied \<leftarrow> enter_idle_firewall io;
               (if \<not> applied then new_state (enter_error io SetFirewallPolicy)
                else do { a \<leftarrow> schedule io a; same_state (StDisconnected a) }) }
      | Resolved result \<Rightarrow>
          do { (taken, a) \<leftarrow> handle_resolved io result a;
               (if taken then same_state (StDisconnected a) else new_state (enter_error io SetFirewallPolicy)) }
      | TimerFired \<Rightarrow> do { a \<leftarrow> schedule io (a\<lparr>ia_timer := None\<rparr>); same_state (StDisconnected a) }
      | ConnectivityChanged offline \<Rightarrow>
          (if offline then new_state (enter_offline io False None) else same_state (StDisconnected a))
      | ShutdownRequested \<Rightarrow> do { disconnected_reset_dns io; State_Monad.return Finished }
      | _ \<Rightarrow> same_state (StDisconnected a))"

subsection \<open>Error\<close>

definition plain_reset_dns :: "'w world_ops \<Rightarrow> ('w shared_state, unit) state" where
  "plain_reset_dns io = ignore (query (w_dns_reset io))"

definition handle_error :: "'w world_ops \<Rightarrow> error_state_reason \<Rightarrow> idle_api_access \<Rightarrow> event \<Rightarrow> 'w handling" where
  "handle_error io reason a ev =
     (case ev of
        Command (Connect relax) \<Rightarrow>
          do { set_relax relax;
               plain_reset_dns io;
               offline \<leftarrow> query (w_offline io);
               new_state (if offline then enter_offline io True None else enter_connecting io 0 None) }
      | Command Disconnect \<Rightarrow>
          do { plain_reset_dns io;
               offline \<leftarrow> query (w_offline io);
               new_state (if offline then enter_offline io False None else enter_disconnected io) }
      | Command (SetTunnelSettings settings) \<Rightarrow>
          do { old \<leftarrow> gets sh_settings;
               (case settings_diff old settings of
                  None \<Rightarrow> same_state (StError reason a)
                | Some d \<Rightarrow>
                    do { assign_settings settings;
                         (if FAllowLan \<in> d \<or> FKillswitch \<in> d \<or> FEnableIpv6 \<in> d \<or> FDns \<in> d
                          then do {
                            applied \<leftarrow> enter_idle_firewall io;
                            (if \<not> applied then same_state (StError reason a)
                             else if reason = SetFirewallPolicy then new_state (enter_disconnected io)
                             else do { a \<leftarrow> schedule io a; same_state (StError reason a) }) }
                          else same_state (StError reason a)) }) }
      | Resolved result \<Rightarrow> do { (taken, a) \<leftarrow> handle_resolved io result a; same_state (StError reason a) }
      | TimerFired \<Rightarrow> do { a \<leftarrow> schedule io (a\<lparr>ia_timer := None\<rparr>); same_state (StError reason a) }
      | ShutdownRequested \<Rightarrow>
          do { plain_reset_dns io; ignore (release_firewall_on_shutdown io); State_Monad.return Finished }
      | _ \<Rightarrow> same_state (StError reason a))"

subsection \<open>Offline\<close>

definition handle_offline ::
  "'w world_ops \<Rightarrow> bool \<Rightarrow> selected_gateways option \<Rightarrow> bool \<Rightarrow> event \<Rightarrow> 'w handling" where
  "handle_offline io reconnect gateways lan ev =
     (case ev of
        Command (Connect relax) \<Rightarrow>
          do { set_relax relax;
               (if reconnect then same_state (StOffline reconnect gateways lan)
                else new_state (enter_offline io True gateways)) }
      | Command Disconnect \<Rightarrow>
          (if reconnect then State_Monad.return (NewState (StOffline False gateways lan) (POffline False))
           else same_state (StOffline reconnect gateways lan))
      | Command (SetTunnelSettings settings) \<Rightarrow>
          do { old \<leftarrow> gets sh_settings;
               (case settings_diff old settings of
                  None \<Rightarrow> same_state (StOffline reconnect gateways lan)
                | Some d \<Rightarrow>
                    do { let gateways = (if affects_gateway_selection d then None else gateways);
                         assign_settings settings;
                         let lan = (if FAllowLan \<in> d then ts_allow_lan settings else lan);
                         (if FAllowLan \<in> d \<or> FKillswitch \<in> d then ignore (apply_policy io (offline_policy_of lan))
                          else State_Monad.return ());
                         same_state (StOffline reconnect gateways lan) }) }
      | ConnectivityChanged offline \<Rightarrow>
          (if offline then same_state (StOffline reconnect gateways lan)
           else do {
             plain_reset_dns io;
             (if reconnect
              then do {
                now \<leftarrow> clock io;
                (case gateways of
                   Some g \<Rightarrow> modify (\<lambda>s. s\<lparr>sh_grace := Some (g_identity (entry_gateway g), now + GATEWAY_BLAME_GRACE)\<rparr>)
                 | None \<Rightarrow> State_Monad.return ());
                new_state (enter_connecting io 0 gateways) }
              else new_state (enter_disconnected io)) })
      | ShutdownRequested \<Rightarrow>
          do { plain_reset_dns io; ignore (release_firewall_on_shutdown io); State_Monad.return Finished }
      | _ \<Rightarrow> same_state (StOffline reconnect gateways lan))"

subsection \<open>Disconnecting\<close>

fun after_connect :: "after_disconnect \<Rightarrow> after_disconnect" where
  "after_connect (GoOffline _ gateways) = GoOffline True gateways"
| "after_connect (Reconnect gateways) = Reconnect gateways"
| "after_connect _ = Reconnect None"

fun after_disconnect_command :: "after_disconnect \<Rightarrow> after_disconnect" where
  "after_disconnect_command (GoOffline _ gateways) = GoOffline False gateways"
| "after_disconnect_command _ = Nothing"

definition leave_disconnecting :: "'w world_ops \<Rightarrow> after_disconnect \<Rightarrow> 'w handling" where
  "leave_disconnecting io after =
     new_state (case after of
        Nothing \<Rightarrow> enter_disconnected io
      | GoError reason \<Rightarrow> enter_error io reason
      | Reconnect gateways \<Rightarrow> enter_connecting io 0 gateways
      | GoOffline reconnect gateways \<Rightarrow> enter_offline io reconnect gateways)"

definition handle_disconnecting :: "'w world_ops \<Rightarrow> after_disconnect \<Rightarrow> monitor_id option \<Rightarrow> event \<Rightarrow> 'w handling" where
  "handle_disconnecting io after waiting ev =
     (case waiting of
        None \<Rightarrow> new_state (enter_disconnected io)
      | Some monitor \<Rightarrow>
          (case ev of
             TunnelClosed \<Rightarrow> leave_disconnecting io after
           | Command (Connect relax) \<Rightarrow> do { set_relax relax; same_state (StDisconnecting (after_connect after) waiting) }
           | Command Disconnect \<Rightarrow> same_state (StDisconnecting (after_disconnect_command after) waiting)
           | Command (SetTunnelSettings settings) \<Rightarrow>
               do { assign_settings settings; same_state (StDisconnecting after waiting) }
           | ShutdownRequested \<Rightarrow> new_state (enter_disconnected io)
           | _ \<Rightarrow> same_state (StDisconnecting after waiting)))"

subsection \<open>Connecting\<close>

definition connecting_set_policy :: "'w world_ops \<Rightarrow> connecting_state \<Rightarrow> ('w shared_state, bool) state" where
  "connecting_set_policy io cs = apply_policy io (connecting_policy_of (cs_params cs))"

definition grace_retry_pending :: "connecting_state \<Rightarrow> instant \<Rightarrow> 'w shared_state \<Rightarrow> bool" where
  "grace_retry_pending cs now s =
     (case cs_selected_gateways cs of
        None \<Rightarrow> False
      | Some g \<Rightarrow> grace_covers (g_identity (entry_gateway g)) (sh_grace s) now)"

definition reconnect_attempt :: "'w world_ops \<Rightarrow> connecting_state \<Rightarrow> 'w handling" where
  "reconnect_attempt io cs =
     do { now \<leftarrow> clock io;
          pending \<leftarrow> gets (grace_retry_pending cs now);
          let next_attempt = saturating_inc (cs_retry_attempt cs);
          new_state (enter_connecting io next_attempt
            (if keep_gateways next_attempt pending (cs_final_retry_owed cs) then cs_selected_gateways cs else None)) }"

definition connecting_disconnect :: "'w world_ops \<Rightarrow> after_disconnect \<Rightarrow> monitor_id \<Rightarrow> 'w handling" where
  "connecting_disconnect io after monitor =
     do { act (w_remove_routes io); new_state (enter_disconnecting io after monitor) }"

definition any_api_endpoint_reachable :: "'w world_ops \<Rightarrow> ('w shared_state, bool) state" where
  "any_api_endpoint_reachable io =
     do { targets \<leftarrow> gets (\<lambda>s. api_probe_targets (ts_enable_ipv6 (sh_settings s)) (sh_api_endpoints s));
          (if targets = [] then State_Monad.return False else query (w_api_reachable io targets)) }"

definition settle_entry_gateway_suspect :: "'w world_ops \<Rightarrow> connecting_state \<Rightarrow> ('w shared_state, connecting_state) state" where
  "settle_entry_gateway_suspect io cs =
     do { suspect \<leftarrow> gets sh_suspect;
          modify (\<lambda>s. s\<lparr>sh_suspect := None\<rparr>);
          (case suspect of
             None \<Rightarrow> State_Monad.return cs
           | Some identity \<Rightarrow>
               (if map_option (\<lambda>g. g_identity (entry_gateway g)) (cs_selected_gateways cs) \<noteq> Some identity
                then State_Monad.return cs
                else do {
                  reachable \<leftarrow> any_api_endpoint_reachable io;
                  (if \<not> reachable then State_Monad.return cs
                   else do {
                     modify (\<lambda>s. s\<lparr>sh_grace := None\<rparr>);
                     clear_short_session_strikes;
                     blacklist_entry_gateway io identity;
                     State_Monad.return (cs\<lparr>cs_selected_gateways := None, cs_connection_data := None\<rparr>) }) })) }"

definition force_account_refresh_if_time_desynced :: "'w world_ops \<Rightarrow> u32 \<Rightarrow> ('w shared_state, unit) state" where
  "force_account_refresh_if_time_desynced io retry_attempt =
     do { desynced \<leftarrow> gets (\<lambda>s. w_account_time_desynced io (sh_world s));
          (if retry_attempt = 0 \<and> desynced then act (w_account_refresh io) else State_Monad.return ()) }"

definition monitor_params :: "resolved_config option \<Rightarrow> connecting_state \<Rightarrow> 'w shared_state \<Rightarrow> tunnel_parameters" where
  "monitor_params resolved cs s =
     \<lparr>tp_resolved = resolved, tp_settings = sh_settings s, tp_selected_gateways = cs_selected_gateways cs,
      tp_blacklist = sh_blacklist s, tp_relax_independence = sh_relax s,
      tp_bandwidth_failures_end_session = ends_sessions (sh_streak s)\<rparr>"

definition start_tunnel_monitor :: "'w world_ops \<Rightarrow> resolved_config option \<Rightarrow> connecting_state \<Rightarrow> 'w handling" where
  "start_tunnel_monitor io resolved cs =
     (if \<not> cs_event_sender cs
      then new_state (enter_error io (Internal ''Monitor event sender is not set. This is a logical error.''))
      else do {
        params \<leftarrow> gets (monitor_params resolved cs);
        monitor \<leftarrow> query (w_start_monitor io params);
        same_state (StConnecting (cs\<lparr>cs_event_sender := False, cs_monitor := Some monitor\<rparr>)) })"

definition handle_resolved_gateway_config ::
  "'w world_ops \<Rightarrow> resolved_config option \<Rightarrow> connecting_state \<Rightarrow> 'w handling" where
  "handle_resolved_gateway_config io result cs =
     (let cs = cs\<lparr>cs_resolving := False\<rparr>
      in case result of
           None \<Rightarrow> reconnect_attempt io cs
         | Some resolved \<Rightarrow>
             do { adopt_resolved_api_endpoints io resolved;
                  api_endpoints \<leftarrow> gets sh_api_endpoints;
                  let cs = cs\<lparr>cs_params := (cs_params cs)\<lparr>cp_api_endpoints := api_endpoints\<rparr>\<rparr>;
                  applied \<leftarrow> connecting_set_policy io cs;
                  (if \<not> applied then new_state (enter_error io SetFirewallPolicy)
                   else do {
                     pinned \<leftarrow> (if has_resolver_overrides resolved
                               then set_resolver_overrides io (rc_nym_vpn_api_overrides resolved)
                               else State_Monad.return True);
                     (if \<not> pinned then new_state (enter_error io (Internal ''Failed to set resolver overrides''))
                      else do {
                        allow_networking io;
                        cs \<leftarrow> settle_entry_gateway_suspect io cs;
                        force_account_refresh_if_time_desynced io (cs_retry_attempt cs);
                        start_tunnel_monitor io (Some resolved) cs }) }) })"

definition handle_gateway_failure :: "'w world_ops \<Rightarrow> bool \<Rightarrow> connecting_state \<Rightarrow> ('w shared_state, connecting_state) state" where
  "handle_gateway_failure io entry_culpable cs =
     (case cs_selected_gateways cs of
        None \<Rightarrow> State_Monad.return cs
      | Some g \<Rightarrow>
          do { now \<leftarrow> clock io;
               pending \<leftarrow> gets (grace_retry_pending cs now);
               (if pending
                then do {
                  reachable \<leftarrow> any_api_endpoint_reachable io;
                  (if reachable then modify (\<lambda>s. s\<lparr>sh_grace := None\<rparr>) else State_Monad.return ());
                  State_Monad.return (cs\<lparr>cs_final_retry_owed := True\<rparr>) }
                else do {
                  modify (\<lambda>s. s\<lparr>sh_grace := None\<rparr>);
                  (if entry_culpable then blacklist_entry_gateway io (g_identity (entry_gateway g)) else State_Monad.return ());
                  State_Monad.return (cs\<lparr>cs_selected_gateways := None\<rparr>) }) })"

definition connecting_selected_gateways ::
  "'w world_ops \<Rightarrow> selected_gateways \<Rightarrow> connecting_state \<Rightarrow> ('w shared_state, bool \<times> connecting_state) state" where
  "connecting_selected_gateways io gateways cs =
     do { settings \<leftarrow> gets sh_settings;
          let params = (cs_params cs)\<lparr>
            cp_bridge_endpoints :=
              (case g_bridge_params (entry_gateway gateways) of
                 Some params \<Rightarrow> if bridges_enabled settings then get_addrs params else cp_bridge_endpoints (cs_params cs)
               | None \<Rightarrow> cp_bridge_endpoints (cs_params cs)),
            cp_ws_entry_endpoints := endpoints (entry_gateway gateways),
            cp_lp_entry_endpoints := lp_endpoints (entry_gateway gateways)\<rparr>;
          let cs = cs\<lparr>cs_params := params\<rparr>;
          applied \<leftarrow> connecting_set_policy io cs;
          State_Monad.return (applied, cs\<lparr>cs_selected_gateways := Some gateways\<rparr>) }"

definition connecting_registered :: "establish_connection_data \<Rightarrow> tunnel_settings \<Rightarrow> connecting_state \<Rightarrow> connecting_state" where
  "connecting_registered data settings cs =
     cs\<lparr>cs_params := (cs_params cs)\<lparr>cp_wg_entry_endpoint :=
          (case ed_tunnel data of
             Some (WireguardData wg) \<Rightarrow> if \<not> bridges_enabled settings then Some (wd_entry_endpoint wg) else None
           | _ \<Rightarrow> None)\<rparr>,
        cs_connection_data := Some data\<rparr>"

definition connecting_policy_failed :: "'w world_ops \<Rightarrow> connecting_state \<Rightarrow> 'w handling" where
  "connecting_policy_failed io cs =
     new_state (case cs_monitor cs of
        Some monitor \<Rightarrow> enter_disconnecting io (GoError SetFirewallPolicy) monitor
      | None \<Rightarrow> enter_error io SetFirewallPolicy)"

definition report_progress :: "establish_connection_state \<Rightarrow> connecting_state \<Rightarrow> 'w handling" where
  "report_progress progress cs =
     do { private \<leftarrow> gets (make_connecting_tunnel_state progress cs); State_Monad.return (NewState (StConnecting cs) private) }"

definition connecting_up :: "'w world_ops \<Rightarrow> tunnel_interface \<Rightarrow> connection_data \<Rightarrow> connecting_state \<Rightarrow> 'w handling" where
  "connecting_up io interface data cs =
     do { modify (\<lambda>s. s\<lparr>sh_grace := None\<rparr>);
          modify (\<lambda>s. case blacklist_is_empty (sh_blacklist s) of
             Some False \<Rightarrow> s\<lparr>sh_blacklist := snd (blacklist_clear (sh_blacklist s))\<rparr>
           | _ \<Rightarrow> s);
          (case cs_selected_gateways cs of
             None \<Rightarrow> State_Monad.return Panicked
           | Some gateways \<Rightarrow>
               (case cs_monitor cs of
                  None \<Rightarrow> State_Monad.return Panicked
                | Some monitor \<Rightarrow> new_state (enter_connected io interface data gateways monitor))) }"

definition connecting_down :: "'w world_ops \<Rightarrow> error_state_reason option \<Rightarrow> connecting_state \<Rightarrow> 'w handling" where
  "connecting_down io reason cs =
     (case reason of
        Some reason \<Rightarrow>
          (case cs_monitor cs of
             None \<Rightarrow> State_Monad.return Panicked
           | Some monitor \<Rightarrow> new_state (enter_disconnecting io (GoError reason) monitor))
      | None \<Rightarrow>
          do { (case cs_monitor cs of Some _ \<Rightarrow> act (w_remove_routes io) | None \<Rightarrow> State_Monad.return ());
               reconnect_attempt io (cs\<lparr>cs_monitor := None\<rparr>) })"

definition connecting_bandwidth ::
  "'w world_ops \<Rightarrow> bool option option \<Rightarrow> bool \<Rightarrow> connecting_state \<Rightarrow> ('w shared_state, connecting_state) state" where
  "connecting_bandwidth io failure worked cs =
     (case failure of
        Some culpable \<Rightarrow>
          do { modify (\<lambda>s. s\<lparr>sh_streak := record_failure worked (sh_streak s)\<rparr>);
               (case culpable of
                  Some entry_culpable \<Rightarrow> handle_gateway_failure io entry_culpable cs
                | None \<Rightarrow> State_Monad.return cs) }
      | None \<Rightarrow> do { modify (\<lambda>s. s\<lparr>sh_streak := record_other_end worked (sh_streak s)\<rparr>); State_Monad.return cs })"

definition connecting_monitor_event :: "'w world_ops \<Rightarrow> monitor_event \<Rightarrow> connecting_state \<Rightarrow> 'w handling" where
  "connecting_monitor_event io ev cs =
     (case ev of
        AwaitingAccountReadiness \<Rightarrow> report_progress AwaitingReadiness cs
      | RefreshingGateways \<Rightarrow> report_progress RefreshingList cs
      | RegisteringWithGateways \<Rightarrow> report_progress RegisteringPair cs
      | SelectingGateways \<Rightarrow> report_progress SelectingPair cs
      | SelectedGateways gateways \<Rightarrow>
          do { (applied, cs) \<leftarrow> connecting_selected_gateways io gateways cs;
               (if applied then same_state (StConnecting cs) else connecting_policy_failed io cs) }
      | RegisteredWithGateways data \<Rightarrow>
          do { settings \<leftarrow> gets sh_settings; report_progress ConnectingTunnel (connecting_registered data settings cs) }
      | InterfaceUp interface data \<Rightarrow>
          do { let cs = cs\<lparr>cs_connection_data := Some data,
                   cs_params := (cs_params cs)\<lparr>cp_tunnel_interface := Some interface\<rparr>\<rparr>;
               applied \<leftarrow> connecting_set_policy io cs;
               (if applied then report_progress ConnectingTunnel cs else connecting_policy_failed io cs) }
      | Up interface data \<Rightarrow> connecting_up io interface data cs
      | Down reason \<Rightarrow> connecting_down io reason cs
      | ConnectionFailed \<Rightarrow> do { cs \<leftarrow> handle_gateway_failure io True cs; same_state (StConnecting cs) }
      | RegistrationFailed entry_culpable \<Rightarrow>
          do { cs \<leftarrow> handle_gateway_failure io entry_culpable cs; same_state (StConnecting cs) }
      | BandwidthChecks failure worked \<Rightarrow>
          do { cs \<leftarrow> connecting_bandwidth io failure worked cs; same_state (StConnecting cs) })"

definition needs_no_reconnect :: "settings_diff \<Rightarrow> tunnel_settings \<Rightarrow> bool" where
  "needs_no_reconnect d settings =
     (only_hot_appliable_changed d \<or> only_mixnet_performance_options_changed d \<and> ts_tunnel_type settings = Wireguard)"

definition hot_connecting_params :: "settings_diff \<Rightarrow> tunnel_settings \<Rightarrow> connecting_params \<Rightarrow> connecting_params" where
  "hot_connecting_params d settings p =
     (let p = (if FAllowLan \<in> d then p\<lparr>cp_allow_lan := ts_allow_lan settings\<rparr> else p)
      in if FInboundExemptions \<in> d then p\<lparr>cp_inbound_exemptions := ts_inbound_exemptions settings\<rparr> else p)"

definition connecting_set_settings :: "'w world_ops \<Rightarrow> tunnel_settings \<Rightarrow> connecting_state \<Rightarrow> 'w handling" where
  "connecting_set_settings io settings cs =
     do { old \<leftarrow> gets sh_settings;
          (case settings_diff old settings of
             None \<Rightarrow> same_state (StConnecting cs)
           | Some d \<Rightarrow>
               do { assign_settings settings;
                    let cs = cs\<lparr>cs_params := hot_connecting_params d settings (cs_params cs)\<rparr>;
                    applied \<leftarrow> (if FAllowLan \<in> d \<or> FInboundExemptions \<in> d \<or> FKillswitch \<in> d
                               then connecting_set_policy io cs else State_Monad.return True);
                    (if \<not> applied then new_state (enter_error io SetFirewallPolicy)
                     else if needs_no_reconnect d settings then same_state (StConnecting cs)
                     else do {
                       let gateways = (if affects_gateway_selection d then None else cs_selected_gateways cs);
                       (case cs_monitor cs of
                          Some monitor \<Rightarrow> connecting_disconnect io (Reconnect gateways) monitor
                        | None \<Rightarrow> new_state (enter_connecting io (cs_retry_attempt cs) gateways)) }) }) }"

definition connecting_stop :: "'w world_ops \<Rightarrow> connecting_state \<Rightarrow> 'w handling" where
  "connecting_stop io cs =
     (case cs_monitor cs of
        Some monitor \<Rightarrow> connecting_disconnect io Nothing monitor
      | None \<Rightarrow> do { act (w_remove_routes io); new_state (enter_disconnected io) })"

definition handle_connecting :: "'w world_ops \<Rightarrow> connecting_state \<Rightarrow> event \<Rightarrow> 'w handling" where
  "handle_connecting io cs ev =
     (case ev of
        DelayElapsed \<Rightarrow> same_state (StConnecting (cs\<lparr>cs_delay := None, cs_resolving := True\<rparr>))
      | Resolved result \<Rightarrow> handle_resolved_gateway_config io result cs
      | Monitor mev \<Rightarrow> connecting_monitor_event io mev cs
      | Command (Connect relax) \<Rightarrow>
          do { set_relax relax;
               (case cs_monitor cs of
                  Some monitor \<Rightarrow> connecting_disconnect io (Reconnect None) monitor
                | None \<Rightarrow> new_state (enter_connecting io (cs_retry_attempt cs) None)) }
      | Command Disconnect \<Rightarrow> connecting_stop io cs
      | Command (SetTunnelSettings settings) \<Rightarrow> connecting_set_settings io settings cs
      | ConnectivityChanged offline \<Rightarrow>
          (if offline
           then case cs_monitor cs of
                  Some monitor \<Rightarrow> connecting_disconnect io (GoOffline True (cs_selected_gateways cs)) monitor
                | None \<Rightarrow> new_state (enter_offline io True (cs_selected_gateways cs))
           else same_state (StConnecting cs))
      | ShutdownRequested \<Rightarrow> connecting_stop io cs
      | _ \<Rightarrow> same_state (StConnecting cs))"

subsection \<open>Connected\<close>

definition connected_teardown :: "'w world_ops \<Rightarrow> ('w shared_state, unit) state" where
  "connected_teardown io =
     do { ignore (query (w_dns_reset_before_interface_removal io)); act (w_remove_routes io) }"

definition connected_disconnect :: "'w world_ops \<Rightarrow> after_disconnect \<Rightarrow> connected_state \<Rightarrow> 'w handling" where
  "connected_disconnect io after ds =
     do { connected_teardown io; new_state (enter_disconnecting io after (ds_monitor ds)) }"

definition bandwidth_failure_end :: "'w world_ops \<Rightarrow> bool option \<Rightarrow> connected_state \<Rightarrow> 'w handling" where
  "bandwidth_failure_end io entry_culpable ds =
     do { modify (\<lambda>s. s\<lparr>sh_grace := None\<rparr>);
          modify (\<lambda>s. s\<lparr>sh_streak := record_failure (ds_bandwidth_checks_worked ds) (sh_streak s)\<rparr>);
          retry_attempt \<leftarrow> gets sh_streak;
          (if entry_culpable = Some True
           then blacklist_entry_gateway io (g_identity (entry_gateway (ds_selected_gateways ds)))
           else State_Monad.return ());
          new_state (enter_connecting io retry_attempt
            (if entry_culpable = None then Some (ds_selected_gateways ds) else None)) }"

definition ordinary_end :: "'w world_ops \<Rightarrow> connected_state \<Rightarrow> 'w handling" where
  "ordinary_end io ds =
     do { modify (\<lambda>s. s\<lparr>sh_streak := record_other_end (ds_bandwidth_checks_worked ds) (sh_streak s)\<rparr>);
          now \<leftarrow> clock io;
          let entry = g_identity (entry_gateway (ds_selected_gateways ds));
          modify (\<lambda>s. s\<lparr>sh_grace := Some (entry, now + GATEWAY_BLAME_GRACE)\<rparr>);
          tunnel_type \<leftarrow> gets (\<lambda>s. ts_tunnel_type (sh_settings s));
          strikes \<leftarrow> gets sh_strikes;
          let (struck_out, strikes) = strikes_record entry (now - ds_connected_at ds) tunnel_type strikes;
          modify (\<lambda>s. s\<lparr>sh_strikes := strikes\<rparr>);
          (if struck_out then modify (\<lambda>s. s\<lparr>sh_suspect := Some entry\<rparr>) else State_Monad.return ());
          new_state (enter_connecting io (if struck_out then 1 else 0) (Some (ds_selected_gateways ds))) }"

definition handle_tunnel_down :: "'w world_ops \<Rightarrow> error_state_reason option \<Rightarrow> connected_state \<Rightarrow> 'w handling" where
  "handle_tunnel_down io reason ds =
     do { connected_teardown io;
          (case reason of
             Some reason \<Rightarrow> new_state (enter_error io reason)
           | None \<Rightarrow>
               (case ds_bandwidth_failure ds of
                  Some entry_culpable \<Rightarrow> bandwidth_failure_end io entry_culpable ds
                | None \<Rightarrow> ordinary_end io ds)) }"

definition hot_connected_params :: "settings_diff \<Rightarrow> tunnel_settings \<Rightarrow> connected_params \<Rightarrow> connected_params" where
  "hot_connected_params d settings p =
     (let p = (if FAllowLan \<in> d then p\<lparr>dp_allow_lan := ts_allow_lan settings\<rparr> else p)
      in if FInboundExemptions \<in> d then p\<lparr>dp_inbound_exemptions := ts_inbound_exemptions settings\<rparr> else p)"

definition connected_set_settings :: "'w world_ops \<Rightarrow> tunnel_settings \<Rightarrow> connected_state \<Rightarrow> 'w handling" where
  "connected_set_settings io settings ds =
     do { old \<leftarrow> gets sh_settings;
          (case settings_diff old settings of
             None \<Rightarrow> same_state (StConnected ds)
           | Some d \<Rightarrow>
               do { let ds = ds\<lparr>ds_params := hot_connected_params d settings (ds_params ds)\<rparr>;
                    applied \<leftarrow> (if FAllowLan \<in> d \<or> FInboundExemptions \<in> d
                               then apply_policy io (connected_policy_of (ds_params ds)) else State_Monad.return True);
                    (if \<not> applied then new_state (enter_error io SetFirewallPolicy)
                     else do {
                       assign_settings settings;
                       (if needs_no_reconnect d settings then same_state (StConnected ds)
                        else connected_disconnect io
                          (Reconnect (if affects_gateway_selection d then None else Some (ds_selected_gateways ds))) ds) }) }) }"

definition handle_connected :: "'w world_ops \<Rightarrow> connected_state \<Rightarrow> event \<Rightarrow> 'w handling" where
  "handle_connected io ds ev =
     (case ev of
        Command (Connect relax) \<Rightarrow> do { set_relax relax; connected_disconnect io (Reconnect None) ds }
      | Command Disconnect \<Rightarrow> connected_disconnect io Nothing ds
      | Command (SetTunnelSettings settings) \<Rightarrow> connected_set_settings io settings ds
      | Monitor (Down reason) \<Rightarrow> handle_tunnel_down io reason ds
      | Monitor (BandwidthChecks failure worked) \<Rightarrow>
          same_state (StConnected (ds\<lparr>ds_bandwidth_failure := failure, ds_bandwidth_checks_worked := worked\<rparr>))
      | ConnectivityChanged offline \<Rightarrow>
          (if offline then connected_disconnect io (GoOffline True (Some (ds_selected_gateways ds))) ds
           else same_state (StConnected ds))
      | ShutdownRequested \<Rightarrow> connected_disconnect io Nothing ds
      | _ \<Rightarrow> same_state (StConnected ds))"

subsection \<open>The machine\<close>

definition handle_event :: "'w world_ops \<Rightarrow> tunnel_state \<Rightarrow> event \<Rightarrow> 'w handling" where
  "handle_event io st ev =
     (case st of
        StDisconnected a \<Rightarrow> handle_disconnected io a ev
      | StConnecting cs \<Rightarrow> handle_connecting io cs ev
      | StConnected ds \<Rightarrow> handle_connected io ds ev
      | StDisconnecting after waiting \<Rightarrow> handle_disconnecting io after waiting ev
      | StError reason a \<Rightarrow> handle_error io reason a ev
      | StOffline reconnect gateways lan \<Rightarrow> handle_offline io reconnect gateways lan ev)"

definition initial_shared_state :: "tunnel_settings \<Rightarrow> blacklist \<Rightarrow> socket_addr list \<Rightarrow> 'w \<Rightarrow> 'w shared_state" where
  "initial_shared_state settings blacklisted cached w =
     \<lparr>sh_world = w, sh_settings = settings, sh_blacklist = blacklisted, sh_grace = None, sh_strikes = strikes_reset,
      sh_suspect = None, sh_streak = 0, sh_relax = False, sh_api_endpoints = cached, sh_api_resolution = None,
      sh_resolved_at = None\<rparr>"

definition spawn_machine :: "'w world_ops \<Rightarrow> 'w entering" where
  "spawn_machine io =
     do { offline \<leftarrow> query (w_offline io);
          (if offline then enter_offline io False None else enter_disconnected io) }"

text \<open>
  The loop of \<open>TunnelStateMachine::run\<close>: events in any order, until the machine finishes. Between two events the
  world may change as \<open>env\<close> allows.
\<close>

fun resumed :: "next_tunnel_state \<Rightarrow> tunnel_state option" where
  "resumed (NewState st private) = Some st"
| "resumed (SameState st) = Some st"
| "resumed Finished = None"
| "resumed Panicked = None"

inductive machine_run ::
  "'w world_ops \<Rightarrow> ('w \<Rightarrow> 'w \<Rightarrow> bool) \<Rightarrow> tunnel_state \<Rightarrow> 'w shared_state \<Rightarrow> event list \<Rightarrow> next_tunnel_state \<Rightarrow> 'w shared_state \<Rightarrow> bool"
  for io :: "'w world_ops" and env :: "'w \<Rightarrow> 'w \<Rightarrow> bool" and st0 :: tunnel_state and s0 :: "'w shared_state"
where
  run_start: "machine_run io env st0 s0 [] (SameState st0) s0"
| run_event: "machine_run io env st0 s0 evs n s \<Longrightarrow> resumed n = Some st \<Longrightarrow> env (sh_world s) w \<Longrightarrow>
    run_state (handle_event io st ev) (s\<lparr>sh_world := w\<rparr>) = (n', s') \<Longrightarrow> machine_run io env st0 s0 (evs @ [ev]) n' s'"

end
