(* ===== verification/Connection_Monitor.thy ===== *)
theory Connection_Monitor
  imports Nym_Prelude
begin

text \<open>
  The connection monitor (\<open>nym-connection-monitor/src/connection_monitor.rs\<close>): probes sent through the tunnel,
  one at a time, and the verdicts the tunnel monitor acts on. The loop alternates between waiting for a probe
  and waiting for the timer, so a run is a list of rounds: how the probe ended, how long it took, and how
  late the timer fired. Sending a probe is a call of the probe; its end is what the round says.
\<close>

datatype connection_status_event = Viable | IntermittentFailure u32 | ConnFailed

record connection_event =
  ce_start :: instant
  ce_finish :: instant
  ce_status :: connection_status_event

datatype phase = InitialPhase | MonitoringPhase

record timing_config =
  tc_initial_timeout :: instant
  tc_initial_retry_count :: u32
  tc_monitoring_timeout :: instant
  tc_monitoring_retry_count :: u32
  tc_periodicity :: instant

definition timing_mixnet :: timing_config where
  "timing_mixnet = \<lparr>tc_initial_timeout = 10 * 1000, tc_initial_retry_count = 5, tc_monitoring_timeout = 10 * 1000,
     tc_monitoring_retry_count = 5, tc_periodicity = 60 * 1000\<rparr>"

definition timing_two_hop :: timing_config where
  "timing_two_hop = \<lparr>tc_initial_timeout = 3 * 1000, tc_initial_retry_count = 3, tc_monitoring_timeout = 5 * 1000,
     tc_monitoring_retry_count = 3, tc_periodicity = 10 * 1000\<rparr>"

datatype connection_status = Undetermined | StatusViable | StatusFailed

record cm_state =
  cm_phase :: phase
  cm_status :: connection_status
  cm_retry :: u32
  cm_last_reply_at :: "instant option"
  cm_last_sent_at :: instant

definition cm_default :: "instant \<Rightarrow> cm_state" where
  "cm_default now = \<lparr>cm_phase = InitialPhase, cm_status = Undetermined, cm_retry = 0, cm_last_reply_at = None, cm_last_sent_at = now\<rparr>"

definition increment_retry :: "cm_state \<Rightarrow> cm_state" where
  "increment_retry m = (if cm_retry m = - 1 then m else m\<lparr>cm_retry := cm_retry m + 1\<rparr>)"

definition cm_timeout :: "timing_config \<Rightarrow> cm_state \<Rightarrow> instant" where
  "cm_timeout cfg m = (case cm_phase m of InitialPhase \<Rightarrow> tc_initial_timeout cfg | MonitoringPhase \<Rightarrow> tc_monitoring_timeout cfg)"

definition max_retry_count :: "timing_config \<Rightarrow> cm_state \<Rightarrow> u32" where
  "max_retry_count cfg m =
     (case cm_phase m of InitialPhase \<Rightarrow> tc_initial_retry_count cfg | MonitoringPhase \<Rightarrow> tc_monitoring_retry_count cfg)"

text \<open>Instants are milliseconds; the standard library's hold \<open>i64\<close> seconds and nanoseconds below a second.\<close>

definition INSTANT_MAX :: instant where
  "INSTANT_MAX = (2 ^ 63 - 1) * 1000 + 999"

definition checked_add_instant :: "instant \<Rightarrow> instant \<Rightarrow> instant option" where
  "checked_add_instant at delay = (if at + delay \<le> INSTANT_MAX then Some (at + delay) else None)"

text \<open>A probe has ended: the event reported and when the next probe is due, if that can be computed.\<close>

definition probe_ended :: "timing_config \<Rightarrow> bool \<Rightarrow> instant \<Rightarrow> cm_state \<Rightarrow> connection_event \<times> instant option \<times> cm_state" where
  "probe_ended cfg ok now m =
     (if ok
      then (let m = m\<lparr>cm_last_reply_at := Some now, cm_retry := 0\<rparr>;
                m = (if cm_phase m = InitialPhase then m\<lparr>cm_phase := MonitoringPhase\<rparr> else m);
                event = \<lparr>ce_start = cm_last_sent_at m, ce_finish = now, ce_status = Viable\<rparr>;
                m = m\<lparr>cm_status := StatusViable\<rparr>
            in (event, checked_add_instant now (tc_periodicity cfg), m))
      else (let m = increment_retry m;
                (status, m) = (if max_retry_count cfg m < cm_retry m
                               then (ConnFailed, m\<lparr>cm_status := StatusFailed\<rparr>)
                               else (IntermittentFailure (cm_retry m), m));
                event = \<lparr>ce_start = cm_last_sent_at m, ce_finish = now, ce_status = status\<rparr>
            in (event, checked_add_instant (cm_last_sent_at m) (cm_timeout cfg m), m)))"

text \<open>The timer fires no earlier than it is due and no earlier than it is set.\<close>

record round =
  rd_ok :: bool
  rd_took :: instant
  rd_late :: instant

datatype cm_exit = CmCancelled | ComputeNextProbeTime

fun cm_loop :: "timing_config \<Rightarrow> cm_state \<Rightarrow> round list \<Rightarrow> connection_event list \<times> cm_exit" where
  "cm_loop cfg m [] = ([], CmCancelled)"
| "cm_loop cfg m (r # rs) =
     (let now = cm_last_sent_at m + rd_took r;
          (event, next_probe_at, m) = probe_ended cfg (rd_ok r) now m
      in case next_probe_at of
           None \<Rightarrow> ([event], ComputeNextProbeTime)
         | Some due \<Rightarrow>
             (let (events, exit) = cm_loop cfg (m\<lparr>cm_last_sent_at := max due now + rd_late r\<rparr>) rs in (event # events, exit)))"

definition monitor_connection :: "timing_config \<Rightarrow> instant \<Rightarrow> round list \<Rightarrow> connection_event list \<times> cm_exit" where
  "monitor_connection cfg now = cm_loop cfg (cm_default now)"

subsection \<open>Verdicts\<close>

text \<open>What a history of probes, the newest first, says: the failures since the last answer against the retries
  allowed before and after the first answer.\<close>

definition failures_in_a_row :: "bool list \<Rightarrow> nat" where
  "failures_in_a_row history = min (length (takeWhile Not history)) (2 ^ 32 - 1)"

definition allowed_failures :: "timing_config \<Rightarrow> bool list \<Rightarrow> u32" where
  "allowed_failures cfg history = (if True \<in> set history then tc_monitoring_retry_count cfg else tc_initial_retry_count cfg)"

definition verdict :: "timing_config \<Rightarrow> bool list \<Rightarrow> connection_status_event" where
  "verdict cfg history =
     (let k = failures_in_a_row history
      in if k = 0 then Viable
         else if k > unat (allowed_failures cfg history) then ConnFailed
         else IntermittentFailure (word_of_nat k))"

definition reflects :: "bool list \<Rightarrow> cm_state \<Rightarrow> bool" where
  "reflects history m =
     (unat (cm_retry m) = failures_in_a_row history \<and> cm_phase m = (if True \<in> set history then MonitoringPhase else InitialPhase))"

lemma reflects_start: "reflects [] (cm_default now)"
  by (simp add: reflects_def cm_default_def failures_in_a_row_def)

lemma probe_ended_reflects:
  assumes "reflects history m" and "probe_ended cfg ok now m = (event, due, m')"
  shows "reflects (ok # history) m'" and "ce_status event = verdict cfg (ok # history)" and "cm_last_sent_at m' = cm_last_sent_at m"
proof -
  have max: "unat (- 1 :: u32) = 2 ^ 32 - 1" by (simp add: unsigned_minus_1_eq_mask mask_eq_exp_minus_1)
  have retry: "unat (cm_retry (increment_retry m)) = failures_in_a_row (False # history)"
  proof (cases "cm_retry m = - 1")
    case True
    then have "failures_in_a_row history = 2 ^ 32 - 1" using assms(1) max by (simp add: reflects_def)
    then have "failures_in_a_row (False # history) = 2 ^ 32 - 1" by (simp add: failures_in_a_row_def min_def split: if_splits)
    then show ?thesis using True max by (simp add: increment_retry_def)
  next
    case False
    then have "unat (cm_retry m) \<noteq> 2 ^ 32 - 1" using max word_unat_eq_iff by metis
    moreover have "unat (cm_retry m) < 2 ^ 32" using unsigned_less [of "cm_retry m"] by simp
    ultimately have "unat (cm_retry m + 1) = unat (cm_retry m) + 1" by (simp add: unat_word_ariths)
    moreover note \<open>unat (cm_retry m) \<noteq> 2 ^ 32 - 1\<close>
    ultimately show ?thesis using False assms(1) by (simp add: reflects_def increment_retry_def failures_in_a_row_def)
  qed
  have same: "cm_phase (increment_retry m) = cm_phase m" "cm_last_sent_at (increment_retry m) = cm_last_sent_at m"
    by (simp_all add: increment_retry_def)
  have word: "cm_retry (increment_retry m) = word_of_nat (failures_in_a_row (False # history))"
    unfolding retry [symmetric] by simp
  show "reflects (ok # history) m'"
    using assms retry same
    by (cases ok) (auto simp: probe_ended_def reflects_def Let_def failures_in_a_row_def split: if_splits phase.splits)
  have "0 < failures_in_a_row (False # history)" by (simp add: failures_in_a_row_def)
  then show "ce_status event = verdict cfg (ok # history)"
    using assms retry same word
    by (cases ok) (auto simp: probe_ended_def reflects_def verdict_def Let_def failures_in_a_row_def allowed_failures_def
        max_retry_count_def word_less_nat_alt split: if_splits)
  show "cm_last_sent_at m' = cm_last_sent_at m"
    using assms(2) same by (cases ok) (auto simp: probe_ended_def Let_def split: if_splits)
qed

definition longest_wait :: "timing_config \<Rightarrow> instant" where
  "longest_wait cfg = max (tc_periodicity cfg) (max (tc_initial_timeout cfg) (tc_monitoring_timeout cfg))"

definition timeout_after :: "timing_config \<Rightarrow> bool list \<Rightarrow> instant" where
  "timeout_after cfg history = (if True \<in> set history then tc_monitoring_timeout cfg else tc_initial_timeout cfg)"

text \<open>When the next probe may leave: a period after an answer; after a failure not before the timeout is over.\<close>

definition earliest_next :: "timing_config \<Rightarrow> bool list \<Rightarrow> connection_event \<Rightarrow> instant" where
  "earliest_next cfg history event =
     (if ce_status event = Viable then ce_finish event + tc_periodicity cfg
      else max (ce_finish event) (ce_start event + timeout_after cfg history))"

lemma probe_ended_due:
  assumes "reflects history m" and "probe_ended cfg ok now m = (event, due, m')"
  shows "ce_start event = cm_last_sent_at m" and "ce_finish event = now"
    and "due = Some at \<Longrightarrow> cm_last_sent_at m \<le> now \<Longrightarrow> max at now = earliest_next cfg (ok # history) event"
    and "due = None \<Longrightarrow> cm_last_sent_at m \<le> now \<Longrightarrow> INSTANT_MAX < now + longest_wait cfg"
proof -
  have new: "reflects (ok # history) m'" and status: "ce_status event = verdict cfg (ok # history)"
    by (rule probe_ended_reflects [OF assms])+
  have viable: "ce_status event = Viable \<longleftrightarrow> ok"
    using assms(2) by (cases ok) (auto simp: probe_ended_def Let_def split: if_splits)
  show "ce_start event = cm_last_sent_at m" "ce_finish event = now"
    using assms(2) by (auto simp: probe_ended_def increment_retry_def Let_def split: if_splits)
  have phase: "\<not> ok \<Longrightarrow> cm_phase m' = cm_phase m"
    using assms(2) by (auto simp: probe_ended_def increment_retry_def Let_def split: if_splits)
  have due: "due = (if ok then checked_add_instant now (tc_periodicity cfg)
      else checked_add_instant (cm_last_sent_at m) (timeout_after cfg (ok # history)))"
    using assms by (cases ok) (auto simp: probe_ended_def increment_retry_def cm_timeout_def timeout_after_def reflects_def
        Let_def split: if_splits)
  show "max at now = earliest_next cfg (ok # history) event" if "due = Some at" "cm_last_sent_at m \<le> now"
    using that due viable \<open>ce_start event = cm_last_sent_at m\<close> \<open>ce_finish event = now\<close>
    by (auto simp: earliest_next_def checked_add_instant_def max_def split: if_splits)
  show "INSTANT_MAX < now + longest_wait cfg" if "due = None" "cm_last_sent_at m \<le> now"
    using that due by (auto simp: checked_add_instant_def longest_wait_def timeout_after_def split: if_splits)
qed

lemma cm_loop_Cons:
  assumes "cm_loop cfg m (r # rs) = (events, exit)" and "reflects history m"
  obtains event m' where "ce_status event = verdict cfg (rd_ok r # history)" "ce_start event = cm_last_sent_at m"
      "events = [event]" "exit = ComputeNextProbeTime" "INSTANT_MAX < ce_finish event + longest_wait cfg"
  | event m' rest where "ce_status event = verdict cfg (rd_ok r # history)" "ce_start event = cm_last_sent_at m"
      "reflects (rd_ok r # history) m'" "cm_last_sent_at m' = earliest_next cfg (rd_ok r # history) event + rd_late r"
      "cm_loop cfg m' rs = (rest, exit)" "events = event # rest"
proof -
  let ?now = "cm_last_sent_at m + rd_took r"
  obtain event due m1 where ended: "probe_ended cfg (rd_ok r) ?now m = (event, due, m1)"
    using prod_cases3 by blast
  note facts = probe_ended_reflects [OF assms(2) ended] probe_ended_due [OF assms(2) ended]
  show thesis
  proof (cases due)
    case None
    then show thesis using assms(1) ended facts by (intro that(1)) auto
  next
    case (Some at)
    let ?m' = "m1\<lparr>cm_last_sent_at := max at ?now + rd_late r\<rparr>"
    obtain rest where rest: "cm_loop cfg ?m' rs = (rest, exit)" "events = event # rest"
      using assms(1) ended Some by (auto simp: Let_def split: prod.splits)
    show thesis
      using facts(1,2,4) facts(6) [OF Some] rest by (intro that(2) [of event ?m' rest]) (auto simp: reflects_def)
  qed
qed

lemma cm_loop_verdicts:
  "cm_loop cfg m rs = (events, exit) \<Longrightarrow> reflects history m \<Longrightarrow>
     length events \<le> length rs
     \<and> (\<forall>i<length events. ce_status (events ! i) = verdict cfg (rev (take (Suc i) (map rd_ok rs)) @ history))
     \<and> (if exit = CmCancelled then length events = length rs
        else events \<noteq> [] \<and> INSTANT_MAX < ce_finish (last events) + longest_wait cfg)"
proof (induction rs arbitrary: m events history)
  case (Cons r rs)
  from Cons.prems show ?case
  proof (cases rule: cm_loop_Cons)
    case (2 event m' rest)
    from Cons.IH [OF this(5,3)] this(1,6) show ?thesis
      by (auto simp: nth_Cons split: nat.splits)
  qed auto
qed auto

text \<open>C36: the verdict on the connection is exact. After any sequence of probe outcomes, answers taking any time and
  timers firing however late, the monitor has reported one event per probe, and each says what the history up
  to it says: viable after an answer, failing with the number of failures since the last answer, failed once
  these exceed the retries allowed (fewer before the first answer than after it, as configured). The monitor
  stops by itself only when an instant would overflow.\<close>

theorem connection_verdict_exact:
  assumes "monitor_connection cfg now rs = (events, exit)"
  shows "length events \<le> length rs
    \<and> (\<forall>i<length events. ce_status (events ! i) = verdict cfg (rev (take (Suc i) (map rd_ok rs))))
    \<and> (if exit = CmCancelled then length events = length rs
       else events \<noteq> [] \<and> INSTANT_MAX < ce_finish (last events) + longest_wait cfg)"
  using cm_loop_verdicts [OF assms [unfolded monitor_connection_def] reflects_start] by simp

theorem connection_verdict_exact_witness:
  "ce_status (fst (monitor_connection timing_two_hop 0
      [\<lparr>rd_ok = True, rd_took = 100, rd_late = 0\<rparr>, \<lparr>rd_ok = False, rd_took = 5000, rd_late = 7\<rparr>,
       \<lparr>rd_ok = False, rd_took = 10, rd_late = 0\<rparr>, \<lparr>rd_ok = False, rd_took = 5000, rd_late = 0\<rparr>,
       \<lparr>rd_ok = False, rd_took = 5000, rd_late = 0\<rparr>]) ! 4) = ConnFailed"
proof -
  let ?rs = "[\<lparr>rd_ok = True, rd_took = 100, rd_late = 0\<rparr>, \<lparr>rd_ok = False, rd_took = 5000, rd_late = 7\<rparr>,
       \<lparr>rd_ok = False, rd_took = 10, rd_late = 0\<rparr>, \<lparr>rd_ok = False, rd_took = 5000, rd_late = 0\<rparr>,
       \<lparr>rd_ok = False, rd_took = 5000, rd_late = 0\<rparr>] :: round list"
  obtain events exit where run: "monitor_connection timing_two_hop 0 ?rs = (events, exit)" by fastforce
  have "exit = CmCancelled"
    using run by (simp add: monitor_connection_def cm_default_def probe_ended_def increment_retry_def checked_add_instant_def
        INSTANT_MAX_def timing_two_hop_def cm_timeout_def max_retry_count_def Let_def)
  moreover have "verdict timing_two_hop (rev (take (Suc 4) (map rd_ok ?rs))) = ConnFailed"
    by (simp add: verdict_def failures_in_a_row_def allowed_failures_def timing_two_hop_def)
  ultimately show ?thesis using connection_verdict_exact [OF run] run by simp
qed

lemma cm_loop_first: "cm_loop cfg m rs = (e # es, exit) \<Longrightarrow> reflects history m \<Longrightarrow> ce_start e = cm_last_sent_at m"
  by (cases rs) (simp, auto elim: cm_loop_Cons simp del: cm_loop.simps)

lemma cm_loop_paced:
  "cm_loop cfg m rs = (events, exit) \<Longrightarrow> reflects history m \<Longrightarrow> Suc i < length events \<Longrightarrow>
     earliest_next cfg (rev (take (Suc i) (map rd_ok rs)) @ history) (events ! i) \<le> ce_start (events ! Suc i)"
proof (induction rs arbitrary: m events history i)
  case (Cons r rs)
  from Cons.prems(1,2) show ?case
  proof (cases rule: cm_loop_Cons)
    case (2 event m' rest)
    show ?thesis
    proof (cases i)
      case 0
      then obtain e es where "rest = e # es" using Cons.prems(3) 2(6) by (cases rest) auto
      then show ?thesis using 0 2 cm_loop_first [of cfg m' rs e es exit] by simp
    next
      case (Suc j)
      then show ?thesis using Cons.IH [OF 2(5,3), of j] Cons.prems(3) 2(6) by simp
    qed
  qed (use Cons.prems(3) in simp)
qed simp

text \<open>Probes are paced. However fast a probe fails, the next one leaves no earlier than the probe's timeout
  after it (of the phase it was sent in), and after an answer no earlier than a period later.\<close>

theorem probes_paced:
  assumes "monitor_connection cfg now rs = (events, exit)" and "Suc i < length events"
  shows "earliest_next cfg (rev (take (Suc i) (map rd_ok rs))) (events ! i) \<le> ce_start (events ! Suc i)"
  using cm_loop_paced [OF assms(1) [unfolded monitor_connection_def] reflects_start assms(2)] by simp

theorem probes_paced_witness:
  "ce_start (fst (monitor_connection timing_two_hop 0
      [\<lparr>rd_ok = False, rd_took = 1, rd_late = 0\<rparr>, \<lparr>rd_ok = False, rd_took = 1, rd_late = 0\<rparr>]) ! 1) \<ge> 3000"
proof -
  let ?rs = "[\<lparr>rd_ok = False, rd_took = 1, rd_late = 0\<rparr>, \<lparr>rd_ok = False, rd_took = 1, rd_late = 0\<rparr>] :: round list"
  obtain events exit where run: "monitor_connection timing_two_hop 0 ?rs = (events, exit)" by fastforce
  then have "length events = 2" "ce_start (events ! 0) = 0" "ce_status (events ! 0) = IntermittentFailure 1"
    by (auto simp: monitor_connection_def cm_default_def probe_ended_def increment_retry_def checked_add_instant_def
        INSTANT_MAX_def timing_two_hop_def cm_timeout_def max_retry_count_def Let_def)
  with probes_paced [OF run, of 0] run show ?thesis
    by (simp add: earliest_next_def timeout_after_def timing_two_hop_def)
qed

end
