(* ===== verification/Bandwidth.thy ===== *)
theory Bandwidth
  imports Tunnel_Settings
begin

text \<open>
  The bandwidth controller of a WireGuard session (\<open>nym-vpn-lib/src/bandwidth_controller.rs\<close>): it asks both
  gateways how much bandwidth is left, decides how soon to ask again, tops up with tickets, and ends the
  session, or only its checks, when a gateway keeps failing. What the clients, the ticket provider and the
  account controller answer is an argument of each check; an answer that never comes because the session is
  cancelled meanwhile is \<open>None\<close>.
\<close>

subsection \<open>Query health\<close>

definition DEFAULT_BANDWIDTH_CHECK :: u64 where "DEFAULT_BANDWIDTH_CHECK = 5"
definition DEFAULT_BANDWIDTH_DEPLETION_RATE :: u64 where "DEFAULT_BANDWIDTH_DEPLETION_RATE = 1024 * 1024"
definition MINIMUM_RAMAINING_BANDWIDTH :: u64 where "MINIMUM_RAMAINING_BANDWIDTH = 500 * 1024 * 1024"
definition DEFAULT_CLIENT_RETRIES :: nat where "DEFAULT_CLIENT_RETRIES = 1"
definition QUERY_FAILURES_TO_ESCALATE :: u32 where "QUERY_FAILURES_TO_ESCALATE = 2"
definition FIRST_ANSWER_GRACE :: instant where "FIRST_ANSWER_GRACE = 60 * 1000"

record query_health =
  qh_answered :: bool
  qh_topped_up :: bool
  qh_consecutive_failures :: u32
  qh_failing_since :: "instant option"

definition qh_default :: query_health where
  "qh_default = \<lparr>qh_answered = False, qh_topped_up = False, qh_consecutive_failures = 0, qh_failing_since = None\<rparr>"

definition qh_record_success :: "query_health \<Rightarrow> query_health" where
  "qh_record_success h = h\<lparr>qh_answered := True, qh_consecutive_failures := 0, qh_failing_since := None\<rparr>"

definition qh_record_failure :: "instant \<Rightarrow> query_health \<Rightarrow> bool \<times> query_health" where
  "qh_record_failure now h =
     (let failures = saturating_inc (qh_consecutive_failures h);
          failing_since = (case qh_failing_since h of Some since \<Rightarrow> since | None \<Rightarrow> now);
          h = h\<lparr>qh_consecutive_failures := failures, qh_failing_since := Some failing_since\<rparr>
      in (QUERY_FAILURES_TO_ESCALATE \<le> failures \<and> (qh_answered h \<or> FIRST_ANSWER_GRACE \<le> now - failing_since), h))"

definition checks_worked :: "bool option \<Rightarrow> query_health \<Rightarrow> query_health \<Rightarrow> bool" where
  "checks_worked failure_had_worked entry exit =
     (case failure_had_worked of Some had_worked \<Rightarrow> had_worked | None \<Rightarrow> qh_answered entry \<and> qh_answered exit)"

subsection \<open>Errors\<close>

datatype ticket_type = V1WireguardEntry | V1WireguardExit

text \<open>Errors of other crates are kept as their text, but for the timeout the code looks for.\<close>

datatype auth_client_error = TimeoutWaitingForConnectResponse | AuthClientError string

datatype specific_gateway_error =
  RequestCredential string ticket_type string
| DeprecatedTopUpWireguard string ticket_type auth_client_error
| TopUpWireguard string ticket_type string
| DeprecatedQueryBandwidth string auth_client_error
| QueryBandwidth string string
| DeprecatedUpgradeModeRecheck string auth_client_error
| UpgradeModeRecheck string string
| GatewayTimeout string
| GatewayInternal string

fun is_no_retry :: "specific_gateway_error \<Rightarrow> bool" where
  "is_no_retry (DeprecatedTopUpWireguard _ _ _) = True"
| "is_no_retry (TopUpWireguard _ _ _) = True"
| "is_no_retry _ = False"

fun is_gateway_fault :: "specific_gateway_error \<Rightarrow> bool" where
  "is_gateway_fault (RequestCredential _ _ _) = False"
| "is_gateway_fault _ = True"

definition from_deprecated_topup_wireguard :: "string \<Rightarrow> ticket_type \<Rightarrow> auth_client_error \<Rightarrow> specific_gateway_error" where
  "from_deprecated_topup_wireguard gateway_id ticketbook_type source =
     (if source = TimeoutWaitingForConnectResponse then GatewayTimeout gateway_id
      else DeprecatedTopUpWireguard gateway_id ticketbook_type source)"

definition from_deprecated_query_bandwidth :: "string \<Rightarrow> auth_client_error \<Rightarrow> specific_gateway_error" where
  "from_deprecated_query_bandwidth gateway_id source =
     (if source = TimeoutWaitingForConnectResponse then GatewayTimeout gateway_id
      else DeprecatedQueryBandwidth gateway_id source)"

definition from_deprecated_upgrade_mode_recheck_bandwidth :: "string \<Rightarrow> auth_client_error \<Rightarrow> specific_gateway_error" where
  "from_deprecated_upgrade_mode_recheck_bandwidth gateway_id source =
     (if source = TimeoutWaitingForConnectResponse then GatewayTimeout gateway_id
      else DeprecatedUpgradeModeRecheck gateway_id source)"

datatype upgrade_mode_recheck_error =
  UpgradeModeTokenRequest string string | UnavailableUpgradeModeToken string | GatewayQuery specific_gateway_error

datatype bandwidth_error =
  EntryGatewayError specific_gateway_error
| ExitGatewayError specific_gateway_error
| NyxdError string
| BandwidthInternal string
| BandwidthCancelled

definition bandwidth_gateway_error :: "bool \<Rightarrow> specific_gateway_error \<Rightarrow> bandwidth_error" where
  "bandwidth_gateway_error entry err = (if entry then EntryGatewayError err else ExitGatewayError err)"

fun entry_culpable :: "bandwidth_error \<Rightarrow> bool option" where
  "entry_culpable (EntryGatewayError err) = (if is_gateway_fault err then Some True else None)"
| "entry_culpable (ExitGatewayError err) = (if is_gateway_fault err then Some False else None)"
| "entry_culpable _ = None"

subsection \<open>How soon to ask again\<close>

type_synonym i64 = "64 word"

text \<open>Bytes are an \<open>i64\<close>, read signed; the cast to \<open>u64\<close> keeps the bits.\<close>

record available_bandwidth =
  ab_bytes :: i64
  ab_upgrade_mode :: "bool option"

record depletion_rate =
  dr_current_depletion_rate :: u64
  dr_available_bandwidth :: u64

definition dr_default :: depletion_rate where
  "dr_default = \<lparr>dr_current_depletion_rate = DEFAULT_BANDWIDTH_DEPLETION_RATE, dr_available_bandwidth = 0\<rparr>"

definition checked_div :: "u64 \<Rightarrow> u64 \<Rightarrow> u64 option" where
  "checked_div a b = (if b = 0 then None else Some (a div b))"

text \<open>
  Periods are whole seconds. The bounds are multiples of \<open>DEFAULT_PEER_TIMEOUT_CHECK\<close>, a constant of the
  WireGuard types crate, which is the argument \<open>peer\<close>.
\<close>

definition UPPER_BOUND_CHECK_DURATION :: "u64 \<Rightarrow> u64" where
  "UPPER_BOUND_CHECK_DURATION peer = 6 * peer"

definition update_dynamic_check_interval ::
  "u64 \<Rightarrow> u64 \<Rightarrow> u64 \<Rightarrow> depletion_rate \<Rightarrow> (specific_gateway_error + u64 option) \<times> depletion_rate" where
  "update_dynamic_check_interval peer current_period remaining d =
     (case checked_div (saturating_sub_u64 (dr_available_bandwidth d) remaining) current_period of
        None \<Rightarrow> (Inl (GatewayInternal ''check interval shouldn't be 0''), d)
      | Some new_depletion_rate \<Rightarrow>
          (let d = d\<lparr>dr_available_bandwidth := remaining\<rparr>
           in if new_depletion_rate = 0 then (Inr (Some peer), d)
              else (let d = d\<lparr>dr_current_depletion_rate := new_depletion_rate\<rparr>
                    in case checked_div remaining (dr_current_depletion_rate d) of
                         None \<Rightarrow> (Inl (GatewayInternal ''depletion rate shouldn't be 0''), d)
                       | Some estimated \<Rightarrow>
                           (let checks = (case checked_div estimated current_period of Some n \<Rightarrow> n | None \<Rightarrow> 0)
                            in if checks < 10 then (Inr None, d)
                               else if dr_available_bandwidth d < MINIMUM_RAMAINING_BANDWIDTH then (Inr None, d)
                               else if UPPER_BOUND_CHECK_DURATION peer < estimated
                               then (Inr (Some (UPPER_BOUND_CHECK_DURATION peer)), d)
                               else if estimated < peer then (Inr (Some peer), d)
                               else (Inr (Some checks), d)))))"

subsection \<open>Clients\<close>

datatype bandwidth_client = DeprecatedClient node_identity | LatestClient node_identity

fun client_gateway_id :: "bandwidth_client \<Rightarrow> node_identity" where
  "client_gateway_id (DeprecatedClient gw) = gw"
| "client_gateway_id (LatestClient gw) = gw"

fun is_latest :: "bandwidth_client \<Rightarrow> bool" where
  "is_latest (LatestClient _) = True"
| "is_latest (DeprecatedClient _) = False"

text \<open>Semantic versions belong to another crate: parsing and comparing them are arguments.\<close>

definition bandwidth_client_new ::
  "(string \<Rightarrow> 'v option) \<Rightarrow> ('v \<Rightarrow> 'v \<Rightarrow> bool) \<Rightarrow> gateway \<Rightarrow> bool \<Rightarrow> 'v option \<Rightarrow> bandwidth_client" where
  "bandwidth_client_new parse_version at_least g has_auth_client update_version =
     (if has_auth_client
      then (if (case (Option.bind (g_version g) parse_version, update_version) of
                  (Some version, Some update) \<Rightarrow> at_least version update
                | _ \<Rightarrow> False)
               \<and> (case Option.bind (g_last_probe g) (\<lambda>p. po_wg (pb_outcome p)) of
                    Some r \<Rightarrow> wp_can_query_metadata_v4 r
                  | None \<Rightarrow> False)
            then LatestClient (g_identity g)
            else DeprecatedClient (g_identity g))
      else LatestClient (g_identity g))"

text \<open>What either client would answer.\<close>

record query_answer =
  qa_authenticator :: "auth_client_error + i64 option \<times> bool option"
  qa_metadata :: "string + available_bandwidth"

fun query_bandwidth :: "bandwidth_client \<Rightarrow> query_answer \<Rightarrow> specific_gateway_error + available_bandwidth" where
  "query_bandwidth (DeprecatedClient gw) answer =
     (case qa_authenticator answer of
        Inl err \<Rightarrow> Inl (from_deprecated_query_bandwidth gw err)
      | Inr (None, _) \<Rightarrow> Inl (GatewayInternal ''No such peer on the gateway'')
      | Inr (Some bytes, upgrade_mode) \<Rightarrow> Inr \<lparr>ab_bytes = bytes, ab_upgrade_mode = upgrade_mode\<rparr>)"
| "query_bandwidth (LatestClient gw) answer =
     (case qa_metadata answer of
        Inl err \<Rightarrow> Inl (QueryBandwidth gw err)
      | Inr response \<Rightarrow> Inr response)"

text \<open>\<open>answers\<close> gives the answer to each attempt; the argument counts the attempts left.\<close>

fun query_attempts ::
  "bandwidth_client \<Rightarrow> (nat \<Rightarrow> query_answer) \<Rightarrow> nat \<Rightarrow> nat \<Rightarrow> specific_gateway_error + available_bandwidth" where
  "query_attempts client answers attempt 0 = query_bandwidth client (answers attempt)"
| "query_attempts client answers attempt (Suc retries) =
     (case query_bandwidth client (answers attempt) of
        Inl (GatewayTimeout _) \<Rightarrow> query_attempts client answers (Suc attempt) retries
      | result \<Rightarrow> result)"

definition query_bandwidth_with_retries ::
  "bandwidth_client \<Rightarrow> (nat \<Rightarrow> query_answer) \<Rightarrow> nat \<Rightarrow> specific_gateway_error + available_bandwidth" where
  "query_bandwidth_with_retries client answers retries = query_attempts client answers 0 retries"

record topup_answer =
  ta_authenticator :: "auth_client_error + available_bandwidth"
  ta_metadata :: "string + available_bandwidth"

fun topup_bandwidth ::
  "bandwidth_client \<Rightarrow> ticket_type \<Rightarrow> topup_answer \<Rightarrow> specific_gateway_error + available_bandwidth" where
  "topup_bandwidth (DeprecatedClient gw) ticketbook_type answer =
     (case ta_authenticator answer of
        Inl err \<Rightarrow> Inl (from_deprecated_topup_wireguard gw ticketbook_type err)
      | Inr response \<Rightarrow> Inr response)"
| "topup_bandwidth (LatestClient gw) ticketbook_type answer =
     (case ta_metadata answer of
        Inl err \<Rightarrow> Inl (TopUpWireguard gw ticketbook_type err)
      | Inr response \<Rightarrow> Inr response)"

record recheck_answer =
  ra_token :: "string + string option"
  ra_authenticator :: "auth_client_error + bool"
  ra_metadata :: "string + bool"

fun client_upgrade_mode_recheck :: "bandwidth_client \<Rightarrow> recheck_answer \<Rightarrow> specific_gateway_error + bool" where
  "client_upgrade_mode_recheck (DeprecatedClient gw) answer =
     (case ra_authenticator answer of
        Inl err \<Rightarrow> Inl (from_deprecated_upgrade_mode_recheck_bandwidth gw err)
      | Inr enabled \<Rightarrow> Inr enabled)"
| "client_upgrade_mode_recheck (LatestClient gw) answer =
     (case ra_metadata answer of
        Inl err \<Rightarrow> Inl (UpgradeModeRecheck gw err)
      | Inr enabled \<Rightarrow> Inr enabled)"

subsection \<open>The controller\<close>

record bandwidth_controller =
  bc_entry_client :: bandwidth_client
  bc_exit_client :: bandwidth_client
  bc_entry_depletion_rate :: depletion_rate
  bc_exit_depletion_rate :: depletion_rate
  bc_entry_query_health :: query_health
  bc_exit_query_health :: query_health
  bc_session_cancelled :: bool
  bc_stopped :: bool
  bc_end_session_on_failure :: bool
  bc_failure :: "bandwidth_error option"
  bc_failure_had_worked :: "bool option"
  bc_upgrade_mode_enabled_on_last_check :: bool

definition bc_new :: "bandwidth_client \<Rightarrow> bandwidth_client \<Rightarrow> bool \<Rightarrow> bandwidth_controller" where
  "bc_new entry_client exit_client end_session_on_failure =
     \<lparr>bc_entry_client = entry_client, bc_exit_client = exit_client, bc_entry_depletion_rate = dr_default,
      bc_exit_depletion_rate = dr_default, bc_entry_query_health = qh_default, bc_exit_query_health = qh_default,
      bc_session_cancelled = False, bc_stopped = False, bc_end_session_on_failure = end_session_on_failure,
      bc_failure = None, bc_failure_had_worked = None, bc_upgrade_mode_enabled_on_last_check = False\<rparr>"

text \<open>The stop token is a child of the session's: cancelling the session stops the checks too.\<close>

definition bc_fail :: "bandwidth_error \<Rightarrow> bool \<Rightarrow> bandwidth_controller \<Rightarrow> bandwidth_controller" where
  "bc_fail err had_worked bc =
     (let bc = bc\<lparr>bc_failure_had_worked := Some (case bc_failure_had_worked bc of Some b \<Rightarrow> b | None \<Rightarrow> had_worked)\<rparr>
      in if bc_end_session_on_failure bc
         then bc\<lparr>bc_failure := Some (case bc_failure bc of Some e \<Rightarrow> e | None \<Rightarrow> err),
                 bc_session_cancelled := True, bc_stopped := True\<rparr>
         else bc\<lparr>bc_stopped := True\<rparr>)"

definition bc_client :: "bool \<Rightarrow> bandwidth_controller \<Rightarrow> bandwidth_client" where
  "bc_client entry bc = (if entry then bc_entry_client bc else bc_exit_client bc)"

definition bc_health :: "bool \<Rightarrow> bandwidth_controller \<Rightarrow> query_health" where
  "bc_health entry bc = (if entry then bc_entry_query_health bc else bc_exit_query_health bc)"

definition bc_set_health :: "bool \<Rightarrow> query_health \<Rightarrow> bandwidth_controller \<Rightarrow> bandwidth_controller" where
  "bc_set_health entry h bc = (if entry then bc\<lparr>bc_entry_query_health := h\<rparr> else bc\<lparr>bc_exit_query_health := h\<rparr>)"

definition bc_rate :: "bool \<Rightarrow> bandwidth_controller \<Rightarrow> depletion_rate" where
  "bc_rate entry bc = (if entry then bc_entry_depletion_rate bc else bc_exit_depletion_rate bc)"

definition bc_set_rate :: "bool \<Rightarrow> depletion_rate \<Rightarrow> bandwidth_controller \<Rightarrow> bandwidth_controller" where
  "bc_set_rate entry d bc = (if entry then bc\<lparr>bc_entry_depletion_rate := d\<rparr> else bc\<lparr>bc_exit_depletion_rate := d\<rparr>)"

definition bc_ticket_type :: "bool \<Rightarrow> ticket_type" where
  "bc_ticket_type entry = (if entry then V1WireguardEntry else V1WireguardExit)"

definition is_using_latest_client :: "bandwidth_controller \<Rightarrow> bool" where
  "is_using_latest_client bc = (is_latest (bc_entry_client bc) \<and> is_latest (bc_exit_client bc))"

text \<open>What one side's check meets; \<open>None\<close> where the session was cancelled before the answer came.\<close>

record side_world =
  sw_now :: instant
  sw_query :: "(nat \<Rightarrow> query_answer) option"
  sw_attested :: "bool option"
  sw_recheck :: "recheck_answer option"
  sw_upgrade_end_reported :: "(string + unit) option"
  sw_ticket :: "(string + unit) option"
  sw_topup :: "topup_answer option"

datatype bandwidth_call = AskTicket bool | SendTopUp bool | AskRecheck bool | ReportUpgradeEnd

definition request_upgrade_mode_recheck :: "bandwidth_client \<Rightarrow> recheck_answer \<Rightarrow> upgrade_mode_recheck_error + bool" where
  "request_upgrade_mode_recheck client answer =
     (case ra_token answer of
        Inl source \<Rightarrow> Inl (UpgradeModeTokenRequest (client_gateway_id client) source)
      | Inr None \<Rightarrow> Inl (UnavailableUpgradeModeToken (client_gateway_id client))
      | Inr (Some jwt) \<Rightarrow>
          (case client_upgrade_mode_recheck client answer of
             Inl err \<Rightarrow> Inl (GatewayQuery err)
           | Inr enabled \<Rightarrow> Inr enabled))"

text \<open>The calls made, and the result unless cancelled.\<close>

definition top_up_bandwidth ::
  "bool \<Rightarrow> side_world \<Rightarrow> bandwidth_controller \<Rightarrow> bandwidth_call list \<times> (specific_gateway_error + available_bandwidth) option" where
  "top_up_bandwidth entry w bc =
     (case sw_ticket w of
        None \<Rightarrow> ([AskTicket entry], None)
      | Some (Inl source) \<Rightarrow>
          ([AskTicket entry],
           Some (Inl (RequestCredential (client_gateway_id (bc_client entry bc)) (bc_ticket_type entry) source)))
      | Some (Inr _) \<Rightarrow>
          ([AskTicket entry, SendTopUp entry],
           map_option (topup_bandwidth (bc_client entry bc) (bc_ticket_type entry)) (sw_topup w)))"

definition handle_bandwidth_query_error ::
  "bool \<Rightarrow> specific_gateway_error \<Rightarrow> instant \<Rightarrow> bandwidth_controller \<Rightarrow> bandwidth_controller" where
  "handle_bandwidth_query_error entry err now bc =
     (let (escalate, h) = qh_record_failure now (bc_health entry bc);
          bc = bc_set_health entry h bc
      in if escalate then bc_fail (bandwidth_gateway_error entry err) (qh_answered h) bc else bc)"

text \<open>The end of a check that decided to top up.\<close>

definition top_up_step :: "bool \<Rightarrow> side_world \<Rightarrow> bandwidth_controller \<Rightarrow> bool \<times> bandwidth_call list \<times> bandwidth_controller" where
  "top_up_step entry w bc =
     (case top_up_bandwidth entry w bc of
        (calls, None) \<Rightarrow> (False, calls, bc)
      | (calls, Some (Inr _)) \<Rightarrow>
          (True, calls, bc_set_health entry ((bc_health entry bc)\<lparr>qh_topped_up := True\<rparr>) bc)
      | (calls, Some (Inl (RequestCredential _ _ _))) \<Rightarrow> (True, calls, bc)
      | (calls, Some (Inl err)) \<Rightarrow>
          (True, calls, bc_fail (bandwidth_gateway_error entry err) (qh_topped_up (bc_health entry bc)) bc))"

definition upgrade_mode_step ::
  "bool \<Rightarrow> bool option \<Rightarrow> bool \<Rightarrow> side_world \<Rightarrow> bandwidth_controller \<Rightarrow> bool \<times> bandwidth_call list \<times> bandwidth_controller" where
  "upgrade_mode_step entry gw_upgrade_mode attested w bc =
     (case gw_upgrade_mode of
        None \<Rightarrow> top_up_step entry w bc
      | Some True \<Rightarrow> (True, [], bc\<lparr>bc_upgrade_mode_enabled_on_last_check := True\<rparr>)
      | Some False \<Rightarrow>
          if attested \<and> \<not> bc_upgrade_mode_enabled_on_last_check bc
          then (case sw_recheck w of
                  None \<Rightarrow> (False, [AskRecheck entry], bc)
                | Some _ \<Rightarrow> (case top_up_step entry w bc of (done, calls, bc) \<Rightarrow> (done, AskRecheck entry # calls, bc)))
          else if attested
          then (case sw_upgrade_end_reported w of
                  None \<Rightarrow> (False, [ReportUpgradeEnd], bc)
                | Some (Inl err) \<Rightarrow>
                    (True, [ReportUpgradeEnd],
                     bc_fail (BandwidthInternal (''failed to report the end of upgrade mode: '' @ err)) False bc)
                | Some (Inr _) \<Rightarrow> (case top_up_step entry w bc of (done, calls, bc) \<Rightarrow> (done, ReportUpgradeEnd # calls, bc)))
          else top_up_step entry w bc)"

text \<open>A check: whether it ran to its end, the period to switch to, the calls and the controller.\<close>

type_synonym check_result = "bool \<times> u64 option \<times> bandwidth_call list \<times> bandwidth_controller"

definition handle_bandwidth_query ::
  "u64 \<Rightarrow> bool \<Rightarrow> u64 \<Rightarrow> available_bandwidth \<Rightarrow> side_world \<Rightarrow> bandwidth_controller \<Rightarrow> check_result" where
  "handle_bandwidth_query peer entry current_period result w bc =
     (let bc = bc_set_health entry (qh_record_success (bc_health entry bc)) bc;
          (update, d) = update_dynamic_check_interval peer current_period (ab_bytes result) (bc_rate entry bc);
          bc = bc_set_rate entry d bc
      in case update of
           Inl _ \<Rightarrow> (True, None, [], bc)
         | Inr (Some period) \<Rightarrow> (True, Some period, [], bc)
         | Inr None \<Rightarrow>
             (case sw_attested w of
                None \<Rightarrow> (False, None, [], bc)
              | Some attested \<Rightarrow>
                  (case upgrade_mode_step entry (ab_upgrade_mode result) attested w bc of
                     (done, calls, bc) \<Rightarrow> (done, None, calls, bc))))"

definition check_bandwidth :: "u64 \<Rightarrow> bool \<Rightarrow> u64 \<Rightarrow> side_world \<Rightarrow> bandwidth_controller \<Rightarrow> check_result" where
  "check_bandwidth peer entry current_period w bc =
     (case sw_query w of
        None \<Rightarrow> (False, None, [], bc)
      | Some answers \<Rightarrow>
          (case query_bandwidth_with_retries (bc_client entry bc) answers DEFAULT_CLIENT_RETRIES of
             Inr result \<Rightarrow> handle_bandwidth_query peer entry current_period result w bc
           | Inl err \<Rightarrow> (True, None, [], handle_bandwidth_query_error entry err (sw_now w) bc)))"

definition shorter_period :: "u64 option \<Rightarrow> u64 option \<Rightarrow> u64 option" where
  "shorter_period entry exit =
     (case (entry, exit) of
        (Some d1, Some d2) \<Rightarrow> Some (min d1 d2)
      | (Some d1, None) \<Rightarrow> Some d1
      | (None, d2) \<Rightarrow> d2)"

definition check_both :: "u64 \<Rightarrow> u64 \<Rightarrow> side_world \<Rightarrow> side_world \<Rightarrow> bandwidth_controller \<Rightarrow> check_result" where
  "check_both peer current_period entry_world exit_world bc =
     (case check_bandwidth peer True current_period entry_world bc of
        (False, _, calls, bc) \<Rightarrow> (False, None, calls, bc)
      | (True, entry_period, entry_calls, bc) \<Rightarrow>
          (case check_bandwidth peer False current_period exit_world bc of
             (done, exit_period, exit_calls, bc) \<Rightarrow>
               (done, shorter_period entry_period exit_period, entry_calls @ exit_calls, bc)))"

record bandwidth_outcome =
  bo_failure :: "bandwidth_error option"
  bo_worked :: bool

definition bc_outcome :: "bandwidth_controller \<Rightarrow> bandwidth_outcome" where
  "bc_outcome bc =
     \<lparr>bo_failure = bc_failure bc,
      bo_worked = checks_worked (bc_failure_had_worked bc) (bc_entry_query_health bc) (bc_exit_query_health bc)\<rparr>"

text \<open>The ticks of the interval until the session ends, each with what its checks meet.\<close>

fun bc_run :: "u64 \<Rightarrow> u64 \<Rightarrow> (side_world \<times> side_world) list \<Rightarrow> bandwidth_controller \<Rightarrow> u64 \<times> bandwidth_call list \<times> bandwidth_controller" where
  "bc_run peer period [] bc = (period, [], bc)"
| "bc_run peer period ((entry_world, exit_world) # ticks) bc =
     (if bc_stopped bc then (period, [], bc)
      else (case check_both peer period entry_world exit_world bc of
              (False, _, calls, bc) \<Rightarrow> (period, calls, bc)
            | (True, next_period, calls, bc) \<Rightarrow>
                (case bc_run peer (case next_period of Some p \<Rightarrow> p | None \<Rightarrow> period) ticks bc of
                   (period, more_calls, bc) \<Rightarrow> (period, calls @ more_calls, bc))))"

definition run_bandwidth_controller ::
  "u64 \<Rightarrow> (side_world \<times> side_world) list \<Rightarrow> bandwidth_controller \<Rightarrow> bandwidth_call list \<times> bandwidth_outcome" where
  "run_bandwidth_controller peer ticks bc =
     (case bc_run peer DEFAULT_BANDWIDTH_CHECK ticks bc of (_, calls, bc) \<Rightarrow> (calls, bc_outcome bc))"

subsection \<open>When failing queries end a session\<close>

text \<open>The queries of a side so far, the newest first: whether each was answered and when it ended.\<close>

definition health_after :: "(bool \<times> instant) list \<Rightarrow> query_health" where
  "health_after history = foldr (\<lambda>(ok, at) h. if ok then qh_record_success h else snd (qh_record_failure at h)) history qh_default"

definition failing_streak :: "(bool \<times> instant) list \<Rightarrow> (bool \<times> instant) list" where
  "failing_streak history = takeWhile (\<lambda>(ok, _). \<not> ok) history"

definition reflects_health :: "(bool \<times> instant) list \<Rightarrow> query_health \<Rightarrow> bool" where
  "reflects_health history h =
     (qh_answered h = (\<exists>(ok, _)\<in>set history. ok)
      \<and> unat (qh_consecutive_failures h) = min (length (failing_streak history)) (2 ^ 32 - 1)
      \<and> qh_failing_since h = (if failing_streak history = [] then None else Some (snd (last (failing_streak history)))))"

lemma unat_saturating_inc: "unat (saturating_inc n) = min (unat n + 1) (2 ^ 32 - 1)"
proof (cases "n = - 1")
  case True
  then show ?thesis by (simp add: saturating_inc_def unsigned_minus_1_eq_mask mask_eq_exp_minus_1)
next
  case False
  have max: "unat (- 1 :: u32) = 2 ^ 32 - 1" by (simp add: unsigned_minus_1_eq_mask mask_eq_exp_minus_1)
  then have "unat n \<noteq> 2 ^ 32 - 1" using False word_unat_eq_iff by metis
  moreover have "unat n < 2 ^ 32" using unsigned_less [of n] by simp
  ultimately have "unat n + 1 < 2 ^ 32" by simp
  then show ?thesis using False by (simp add: saturating_inc_def unat_word_ariths)
qed

lemma health_after_reflects: "reflects_health history (health_after history)"
proof (induction history)
  case Nil
  then show ?case by (simp add: reflects_health_def health_after_def qh_default_def failing_streak_def)
next
  case (Cons e history)
  obtain ok at where e: "e = (ok, at)" by fastforce
  have step: "health_after ((ok, at) # history)
      = (if ok then qh_record_success (health_after history) else snd (qh_record_failure at (health_after history)))"
    by (simp add: health_after_def)
  show ?case
    unfolding e
  proof (cases ok)
    case True
    then show "reflects_health ((ok, at) # history) (health_after ((ok, at) # history))"
      unfolding step by (simp add: reflects_health_def qh_record_success_def failing_streak_def)
  next
    case False
    then show "reflects_health ((ok, at) # history) (health_after ((ok, at) # history))"
      using Cons unfolding step
      by (auto simp: reflects_health_def qh_record_failure_def failing_streak_def unat_saturating_inc Let_def
          min_def split: option.splits if_splits)
  qed
qed


subsection \<open>The check period\<close>

lemma update_period_bounds:
  assumes "update_dynamic_check_interval peer period remaining d = (Inr (Some p), d')" and "6 * unat peer < 2 ^ 64"
  shows "min 10 (unat peer) \<le> unat p \<and> unat p \<le> 6 * unat peer"
proof -
  have six: "unat (UPPER_BOUND_CHECK_DURATION peer) = 6 * unat peer"
    using assms(2) by (simp add: UPPER_BOUND_CHECK_DURATION_def unat_word_ariths)
  have "p = peer \<or> p = UPPER_BOUND_CHECK_DURATION peer
      \<or> (\<exists>estimated. p = estimated div period \<and> 10 \<le> p \<and> estimated \<le> UPPER_BOUND_CHECK_DURATION peer)"
    using assms(1)
    by (auto simp: update_dynamic_check_interval_def checked_div_def Let_def word_le_nat_alt word_less_nat_alt
        split: if_splits option.splits)
  then show ?thesis
  proof (elim disjE exE conjE)
    fix estimated
    assume p: "p = estimated div period" "10 \<le> p" "estimated \<le> UPPER_BOUND_CHECK_DURATION peer"
    have "unat p \<le> unat estimated" by (simp add: p(1) unat_div div_le_dividend)
    then show ?thesis using p(2,3) six by (simp add: word_le_nat_alt)
  qed (use six in auto)
qed

lemma check_period_bounds:
  assumes "check_bandwidth peer entry period w bc = (fin, Some p, calls, bc')" and "6 * unat peer < 2 ^ 64"
  shows "min 10 (unat peer) \<le> unat p \<and> unat p \<le> 6 * unat peer"
  using assms(1)
  by (auto simp: check_bandwidth_def handle_bandwidth_query_def Let_def split: option.splits sum.splits prod.splits
      dest: update_period_bounds [OF _ assms(2)])

lemma both_period_bounds:
  assumes "check_both peer period we wx bc = (fin, Some p, calls, bc')" and "6 * unat peer < 2 ^ 64"
  shows "min 10 (unat peer) \<le> unat p \<and> unat p \<le> 6 * unat peer"
proof -
  obtain fin1 p1 calls1 bc1 where entry: "check_bandwidth peer True period we bc = (fin1, p1, calls1, bc1)"
    using prod_cases4 by blast
  obtain fin2 p2 calls2 bc2 where exit: "check_bandwidth peer False period wx bc1 = (fin2, p2, calls2, bc2)"
    using prod_cases4 by blast
  have "shorter_period p1 p2 = Some p" using assms(1) entry exit by (auto simp: check_both_def split: bool.splits)
  then have "p1 = Some p \<or> p2 = Some p"
    by (auto simp: shorter_period_def min_def split: option.splits if_splits)
  then show ?thesis using check_period_bounds [OF _ assms(2)] entry exit by metis
qed

lemma run_period_bounds:
  assumes "6 * unat peer < 2 ^ 64"
  shows "min 5 (unat peer) \<le> unat period \<and> unat period \<le> max 5 (6 * unat peer) \<Longrightarrow>
    min 5 (unat peer) \<le> unat (fst (bc_run peer period ticks bc)) \<and> unat (fst (bc_run peer period ticks bc)) \<le> max 5 (6 * unat peer)"
proof (induction ticks arbitrary: period bc)
  case (Cons tick ticks)
  obtain we wx where tick: "tick = (we, wx)" by fastforce
  obtain fin next_period calls bc' where both: "check_both peer period we wx bc = (fin, next_period, calls, bc')"
    using prod_cases4 by blast
  have "min 5 (unat peer) \<le> unat p \<and> unat p \<le> max 5 (6 * unat peer)" if "next_period = Some p" for p
    using both_period_bounds [OF _ assms] both that by fastforce
  then show ?case
    using Cons both by (cases next_period; cases fin) (simp_all add: tick split_def)
qed simp

text \<open>C39: the checks are neither too fast nor too slow. Through any session the period between two checks stays
  between the smaller of five seconds and the gateway's refresh interval, and the larger of five seconds and
  six refresh intervals. In particular it is never zero, on which the timer would panic.\<close>

theorem check_period_never_degenerate:
  assumes "0 < peer" and "6 * unat peer < 2 ^ 64"
  shows "0 < unat (fst (bc_run peer DEFAULT_BANDWIDTH_CHECK ticks bc))
    \<and> min 5 (unat peer) \<le> unat (fst (bc_run peer DEFAULT_BANDWIDTH_CHECK ticks bc))
    \<and> unat (fst (bc_run peer DEFAULT_BANDWIDTH_CHECK ticks bc)) \<le> max 5 (6 * unat peer)"
proof -
  have "0 < unat peer" using assms(1) by (simp add: word_less_nat_alt)
  moreover have "min 5 (unat peer) \<le> unat DEFAULT_BANDWIDTH_CHECK \<and> unat DEFAULT_BANDWIDTH_CHECK \<le> max 5 (6 * unat peer)"
    by (simp add: DEFAULT_BANDWIDTH_CHECK_def)
  note run_period_bounds [OF assms(2) this, of ticks bc]
  ultimately show ?thesis by linarith
qed

definition sample_side :: "i64 \<Rightarrow> side_world" where
  "sample_side bytes = \<lparr>sw_now = 0,
     sw_query = Some (\<lambda>_. \<lparr>qa_authenticator = Inl TimeoutWaitingForConnectResponse,
       qa_metadata = Inr \<lparr>ab_bytes = bytes, ab_upgrade_mode = None\<rparr>\<rparr>),
     sw_attested = Some False, sw_recheck = None, sw_upgrade_end_reported = None, sw_ticket = Some (Inr ()), sw_topup = None\<rparr>"

definition sample_controller :: bandwidth_controller where
  "sample_controller = bc_new (LatestClient ''A'') (LatestClient ''B'') True"

theorem check_period_never_degenerate_witness:
  "0 < unat (fst (bc_run 5 DEFAULT_BANDWIDTH_CHECK [(sample_side 0, sample_side 1000000000)] sample_controller))"
  using check_period_never_degenerate [of 5 "[(sample_side 0, sample_side 1000000000)]" sample_controller] by simp

subsection \<open>A balance that does not move\<close>

definition side_balance :: "bandwidth_client \<Rightarrow> side_world \<Rightarrow> i64 option" where
  "side_balance client w =
     (case sw_query w of
        None \<Rightarrow> None
      | Some answers \<Rightarrow>
          (case query_bandwidth_with_retries client answers DEFAULT_CLIENT_RETRIES of
             Inl _ \<Rightarrow> None
           | Inr result \<Rightarrow> Some (ab_bytes result)))"

text \<open>The last balance seen is none yet, or the one it always is.\<close>

definition unmoved :: "i64 \<Rightarrow> i64 \<Rightarrow> bandwidth_controller \<Rightarrow> bool" where
  "unmoved entry_balance exit_balance bc =
     (dr_available_bandwidth (bc_rate True bc) \<in> {0, entry_balance}
      \<and> dr_available_bandwidth (bc_rate False bc) \<in> {0, exit_balance} \<and> \<not> bc_stopped bc)"

lemma unmoved_update:
  assumes "dr_available_bandwidth d \<in> {0, balance}" and "0 < period"
  shows "update_dynamic_check_interval peer period balance d = (Inr (Some peer), d\<lparr>dr_available_bandwidth := balance\<rparr>)"
proof -
  have "saturating_sub_u64 (dr_available_bandwidth d) balance = 0"
    using assms(1) by (auto simp: saturating_sub_u64_def)
  then show ?thesis using assms(2) by (simp add: update_dynamic_check_interval_def checked_div_def)
qed

lemma unmoved_check:
  assumes "side_balance (bc_client entry bc) w = Some balance" and "dr_available_bandwidth (bc_rate entry bc) \<in> {0, balance}"
    and "0 < period"
  shows "check_bandwidth peer entry period w bc
    = (True, Some peer, [], bc_set_rate entry ((bc_rate entry bc)\<lparr>dr_available_bandwidth := balance\<rparr>)
        (bc_set_health entry (qh_record_success (bc_health entry bc)) bc))"
proof -
  obtain answers result where "sw_query w = Some answers" "ab_bytes result = balance"
    "query_bandwidth_with_retries (bc_client entry bc) answers DEFAULT_CLIENT_RETRIES = Inr result"
    using assms(1) by (auto simp: side_balance_def split: option.splits sum.splits)
  moreover have "bc_rate entry (bc_set_health entry h bc) = bc_rate entry bc" for h
    by (simp add: bc_rate_def bc_set_health_def)
  ultimately show ?thesis
    using unmoved_update [OF assms(2,3)] by (simp add: check_bandwidth_def handle_bandwidth_query_def)
qed

lemma unmoved_both:
  assumes "unmoved be bx bc" and "side_balance (bc_entry_client bc) we = Some be" and "side_balance (bc_exit_client bc) wx = Some bx"
    and "0 < period"
  shows "\<exists>bc'. check_both peer period we wx bc = (True, Some peer, [], bc') \<and> unmoved be bx bc'
    \<and> bc_entry_client bc' = bc_entry_client bc \<and> bc_exit_client bc' = bc_exit_client bc"
proof -
  let ?bc1 = "bc_set_rate True ((bc_rate True bc)\<lparr>dr_available_bandwidth := be\<rparr>)
        (bc_set_health True (qh_record_success (bc_health True bc)) bc)"
  have entry: "check_bandwidth peer True period we bc = (True, Some peer, [], ?bc1)"
    using assms by (intro unmoved_check) (simp_all add: unmoved_def bc_client_def)
  have "dr_available_bandwidth (bc_rate False ?bc1) \<in> {0, bx}" "side_balance (bc_client False ?bc1) wx = Some bx"
    using assms by (simp_all add: unmoved_def bc_rate_def bc_set_rate_def bc_set_health_def bc_client_def)
  from unmoved_check [OF this(2,1) assms(4)] entry assms(1) show ?thesis
    by (simp add: check_both_def shorter_period_def unmoved_def bc_rate_def bc_set_rate_def bc_set_health_def)
qed

lemma unmoved_run:
  assumes "0 < peer"
  shows "unmoved be bx bc \<Longrightarrow> 0 < period \<Longrightarrow>
    (\<And>we wx. (we, wx) \<in> set ticks \<Longrightarrow>
       side_balance (bc_entry_client bc) we = Some be \<and> side_balance (bc_exit_client bc) wx = Some bx) \<Longrightarrow>
    \<exists>bc'. bc_run peer period ticks bc = ((if ticks = [] then period else peer), [], bc') \<and> unmoved be bx bc'"
proof (induction ticks arbitrary: period bc)
  case (Cons tick ticks)
  obtain we wx where tick: "tick = (we, wx)" by fastforce
  obtain bc1 where both: "check_both peer period we wx bc = (True, Some peer, [], bc1)" "unmoved be bx bc1"
    "bc_entry_client bc1 = bc_entry_client bc" "bc_exit_client bc1 = bc_exit_client bc"
    using unmoved_both [OF Cons.prems(1) _ _ Cons.prems(2)] Cons.prems(3) [of we wx] tick by fastforce
  have "\<exists>bc'. bc_run peer peer ticks bc1 = ((if ticks = [] then peer else peer), [], bc') \<and> unmoved be bx bc'"
    using Cons.prems(3) both(3,4) by (intro Cons.IH [OF both(2) assms]) auto
  moreover have "\<not> bc_stopped bc" using Cons.prems(1) by (simp add: unmoved_def)
  ultimately show ?case using both(1) by (auto simp: tick)
qed simp

text \<open>C40: a gateway whose reported balance does not change is never topped up, however low the balance is. Through
  any session in which each gateway answers every check with the same balance, zero and negative ones
  included, no ticket is asked for.\<close>

theorem unmoved_balance_never_topped_up:
  assumes "0 < peer"
    and "\<And>we wx. (we, wx) \<in> set ticks \<Longrightarrow> side_balance entry_client we = Some be \<and> side_balance exit_client wx = Some bx"
  shows "fst (run_bandwidth_controller peer ticks (bc_new entry_client exit_client ends_session)) = []"
proof -
  have "unmoved be bx (bc_new entry_client exit_client ends_session)"
    by (simp add: unmoved_def bc_new_def dr_default_def bc_rate_def)
  from unmoved_run [OF assms(1) this, of DEFAULT_BANDWIDTH_CHECK ticks] assms(2) show ?thesis
    by (auto simp: run_bandwidth_controller_def DEFAULT_BANDWIDTH_CHECK_def bc_new_def)
qed

theorem unmoved_balance_never_topped_up_witness:
  "fst (run_bandwidth_controller 5 [(sample_side 0, sample_side (- 1)), (sample_side 0, sample_side (- 1))]
     (bc_new (LatestClient ''A'') (LatestClient ''B'') True)) = []"
  by (rule unmoved_balance_never_topped_up [where be = 0 and bx = "- 1"])
     (auto simp: side_balance_def sample_side_def query_bandwidth_with_retries_def DEFAULT_CLIENT_RETRIES_def)

end
