(* ===== verification/FW_Policy.thy ===== *)
theory FW_Policy
  imports FW_Types
begin

text \<open>
  \<open>nym-firewall/src/openwrt/policy.rs\<close>: the compilation of a \<open>FirewallPolicy\<close> into a rule set,
  one definition per function, in the order of the file. A function that takes
  \<open>&mut RuleSet\<close> returns the new rule set. Three things \<open>compile\<close> asks the running system for
  are arguments: the WAN zone devices and the route lookup (the source's own \<open>Uplink\<close>) and the
  addresses mwan3 pings; \<open>contains\<close> is \<open>IpNetwork::contains\<close>. The static network strings are
  parsed at load time in the source and are network values here.

  The second half states what each emitter appends to each chain (the collection
  \<open>emit_simps\<close>), from which the chains of a compiled policy are known as concatenations.
\<close>

subsection \<open>Constants\<close>

definition DHCPV4_CLIENT_PORT :: u16 where "DHCPV4_CLIENT_PORT = 68"
definition DHCPV4_SERVER_PORT :: u16 where "DHCPV4_SERVER_PORT = 67"
definition DHCPV6_CLIENT_PORT :: u16 where "DHCPV6_CLIENT_PORT = 546"
definition DHCPV6_SERVER_PORT :: u16 where "DHCPV6_SERVER_PORT = 547"
definition DNS_PORT :: u16 where "DNS_PORT = 53"
definition DOT_PORT :: u16 where "DOT_PORT = 853"
definition DOH_PORT :: u16 where "DOH_PORT = 443"
definition NTP_PORT :: u16 where "NTP_PORT = 123"
definition NTP_RATE_PER_MIN :: u32 where "NTP_RATE_PER_MIN = 12"
definition NTP_BURST :: u32 where "NTP_BURST = 8"
definition DNS_RATE_PER_MIN :: u32 where "DNS_RATE_PER_MIN = 30"
definition DNS_BURST :: u32 where "DNS_BURST = 20"
definition PROBE_RATE_PER_MIN :: u32 where "PROBE_RATE_PER_MIN = 3000"
definition PROBE_BURST :: u32 where "PROBE_BURST = 100"
definition EXEMPT_FWMARK :: u32 where "EXEMPT_FWMARK = 0x14e"

definition LAN_NETS_V4 :: "ip_network list" where
  "LAN_NETS_V4 = [IpNetwork (ipv4 10 0 0 0) 8, IpNetwork (ipv4 172 16 0 0) 12, IpNetwork (ipv4 192 168 0 0) 16]"

definition LAN_NETS_V6 :: "ip_network list" where
  "LAN_NETS_V6 = [IpNetwork (ipv6_of_segments [0xfe80, 0, 0, 0, 0, 0, 0, 0]) 10,
                  IpNetwork (ipv6_of_segments [0xfc00, 0, 0, 0, 0, 0, 0, 0]) 7]"

definition MULTICAST_V4 :: ip_network where "MULTICAST_V4 = IpNetwork (ipv4 224 0 0 0) 4"
definition MULTICAST_V6 :: ip_network where
  "MULTICAST_V6 = IpNetwork (ipv6_of_segments [0xff00, 0, 0, 0, 0, 0, 0, 0]) 8"

datatype dns_access = Daemon | RouterAndLan

record uplink =
  wan_devices :: "string list"
  route_device :: "ip_addr \<Rightarrow> string option"

subsection \<open>The emitters\<close>

fun family_of :: "ip_addr \<Rightarrow> family" where
  "family_of (IPv4 _) = V4"
| "family_of (IPv6 _) = V6"

fun proto_of :: "transport_protocol \<Rightarrow> proto" where
  "proto_of TTcp = Tcp"
| "proto_of TUdp = Udp"

definition is_private_dns :: "(ip_network \<Rightarrow> ip_addr \<Rightarrow> bool) \<Rightarrow> ip_addr \<Rightarrow> bool" where
  "is_private_dns contains a = (is_local_address contains a \<and> \<not> is_loopback a)"

definition mwan3_rule :: "ip_addr \<Rightarrow> rule" where
  "mwan3_rule ip =
     (case ip of
        IPv4 _ \<Rightarrow> with_daddr (AddrIp ip) (with_icmpv4_type EchoRequest4 (accept V4))
      | IPv6 _ \<Rightarrow> with_daddr (AddrIp ip) (with_icmpv6_type EchoRequest6 (accept V6)))"

definition base_rules :: "ip_addr list \<Rightarrow> rule_set \<Rightarrow> rule_set" where
  "base_rules mwan3 rs =
     (let rs = push_input (with_iif ''lo'' (accept Inet)) rs;
          rs = push_output (with_oif ''lo'' (accept Inet)) rs;
          rs = push_output (with_dport DHCPV4_SERVER_PORT (with_sport DHCPV4_CLIENT_PORT (with_proto Udp (accept V4)))) rs;
          rs = push_output (with_dport DHCPV4_CLIENT_PORT (with_sport DHCPV4_SERVER_PORT (with_proto Udp (accept V4)))) rs;
          rs = push_output (with_dport DHCPV6_SERVER_PORT (with_sport DHCPV6_CLIENT_PORT (with_proto Udp (accept V6)))) rs;
          rs = push_output (with_dport DHCPV6_CLIENT_PORT (with_sport DHCPV6_SERVER_PORT (with_proto Udp (accept V6)))) rs;
          rs = fold (\<lambda>t. push_output (with_icmpv6_type t (accept V6))) [RouterSolicit, NeighborSolicit, NeighborAdvert] rs
      in fold (\<lambda>ip. push_output (mwan3_rule ip)) mwan3 rs)"

definition exemption_filter_accepts :: "inbound_exemption list \<Rightarrow> rule_set \<Rightarrow> rule_set" where
  "exemption_filter_accepts exemptions rs =
     (if exemptions = [] then rs
      else push_output (mark_eq EXEMPT_FWMARK (accept Inet))
             (push_input (mark_eq EXEMPT_FWMARK (accept Inet)) rs))"

definition bypass_mark_forward_accept :: "rule_set \<Rightarrow> rule_set" where
  "bypass_mark_forward_accept rs = push_forward (mark_eq EXEMPT_FWMARK (accept Inet)) rs"

definition tunnel_interfaces :: "firewall_policy \<Rightarrow> string list" where
  "tunnel_interfaces policy =
     map t_interface
       (case policy of
          Connecting c \<Rightarrow> (case cg_tunnel c of None \<Rightarrow> [] | Some t \<Rightarrow> inner_metadatas t)
        | Connected c \<Rightarrow> inner_metadatas (cd_tunnel c)
        | Blocked b \<Rightarrow> [])"

definition untrusted_ingress_returns :: "string list \<Rightarrow> string list \<Rightarrow> rule_set \<Rightarrow> rule_set" where
  "untrusted_ingress_returns wans tunnels rs =
     (let ingress = wans @ tunnels;
          rs = fold (\<lambda>dev. fold (\<lambda>wan. push_forward (with_oif wan (with_iif dev (reject Inet)))) wans) ingress rs
      in fold (\<lambda>dev. push_forward (with_iif dev (return_rule Inet))) ingress rs)"

definition restore_exempt :: rule where
  "restore_exempt = ct_mark_eq EXEMPT_FWMARK (restore_mark Inet)"

definition set_exempt :: "string \<Rightarrow> inbound_exemption \<Rightarrow> rule" where
  "set_exempt wan ex =
     ct_new (with_dport (x_dport ex) (with_proto (proto_of (x_proto ex))
       (with_iif wan (set_ct_mark Inet EXEMPT_FWMARK))))"

definition exemption_mangle_rules :: "inbound_exemption list \<Rightarrow> string list \<Rightarrow> rule_set \<Rightarrow> rule_set" where
  "exemption_mangle_rules exemptions wans rs =
     (let rs = push_mangle_pre restore_exempt rs;
          rs = fold (\<lambda>wan. fold (\<lambda>ex. push_mangle_pre (set_exempt wan ex)) exemptions) wans rs;
          rs = push_mangle_pre restore_exempt rs
      in push_mangle_out restore_exempt rs)"

definition exemption_mangle :: "inbound_exemption list \<Rightarrow> string list \<Rightarrow> rule_set \<Rightarrow> rule_set" where
  "exemption_mangle exemptions wans rs =
     (if exemptions = [] then rs
      else if wans = [] then rs
      else exemption_mangle_rules exemptions wans rs)"

definition endpoint_rule :: "allowed_endpoint \<Rightarrow> rule" where
  "endpoint_rule ep =
     (let ip = e_ip (ae_endpoint ep);
          port = e_port (ae_endpoint ep);
          out = with_dport port (with_daddr (AddrIp ip)
                  (with_proto (proto_of (e_protocol (ae_endpoint ep))) (accept (family_of ip))))
      in if ae_clients ep = Root then with_skuid ROOT_UID out else out)"

definition allow_endpoint :: "allowed_endpoint \<Rightarrow> rule_set \<Rightarrow> rule_set" where
  "allow_endpoint ep rs = push_output (endpoint_rule ep) rs"

definition private_dns_device :: "ip_addr \<Rightarrow> uplink \<Rightarrow> string list \<Rightarrow> string option" where
  "private_dns_device dns u tunnel_ifaces =
     (if wan_devices u = [] then None
      else case route_device u dns of
        None \<Rightarrow> None
      | Some dev \<Rightarrow>
          if dev \<in> set (wan_devices u) then None
          else if dev \<in> set tunnel_ifaces then None
          else Some dev)"

definition dns_pairs :: "(proto \<times> u16) list" where
  "dns_pairs = [(Udp, DNS_PORT), (Tcp, DNS_PORT), (Tcp, DOT_PORT), (Tcp, DOH_PORT)]"

definition dns_rule :: "ip_addr \<Rightarrow> proto \<Rightarrow> u16 \<Rightarrow> rule" where
  "dns_rule dns q port = with_dport port (with_daddr (AddrIp dns) (with_proto q (accept (family_of dns))))"

definition allow_private_dns_server ::
  "(ip_network \<Rightarrow> ip_addr \<Rightarrow> bool) \<Rightarrow> ip_addr \<Rightarrow> uplink \<Rightarrow> string list \<Rightarrow> rule_set \<Rightarrow> bool \<times> rule_set" where
  "allow_private_dns_server contains dns u tunnel_ifaces rs =
     (if \<not> is_private_dns contains dns then (False, rs)
      else case private_dns_device dns u tunnel_ifaces of
        None \<Rightarrow> (False, rs)
      | Some dev \<Rightarrow>
          (True,
           fold (\<lambda>q. push_forward (with_oif dev (dns_rule dns q DNS_PORT))) [Udp, Tcp]
             (fold (\<lambda>(q, port). push_output (with_oif dev (dns_rule dns q port))) dns_pairs rs)))"

definition dns_server_rule :: "ip_addr \<Rightarrow> string option \<Rightarrow> dns_access \<Rightarrow> proto \<times> u16 \<Rightarrow> rule" where
  "dns_server_rule dns iface clients qp =
     (let out = dns_rule dns (fst qp) (snd qp);
          out = (case iface of None \<Rightarrow> out | Some i \<Rightarrow> with_oif i out)
      in case clients of Daemon \<Rightarrow> with_skuid ROOT_UID out | RouterAndLan \<Rightarrow> out)"

definition allow_dns_server_inner :: "ip_addr \<Rightarrow> string option \<Rightarrow> dns_access \<Rightarrow> rule_set \<Rightarrow> rule_set" where
  "allow_dns_server_inner dns iface clients rs =
     (let rs = fold (\<lambda>qp. push_output (dns_server_rule dns iface clients qp)) dns_pairs rs
      in if clients = RouterAndLan \<and> iface = None
         then fold (\<lambda>q. push_forward (dns_rule dns q DNS_PORT)) [Udp, Tcp] rs
         else rs)"

definition allow_dns_server_daemon_only :: "ip_addr \<Rightarrow> rule_set \<Rightarrow> rule_set" where
  "allow_dns_server_daemon_only dns rs = allow_dns_server_inner dns None Daemon rs"

definition allow_dns_server :: "ip_addr \<Rightarrow> string option \<Rightarrow> rule_set \<Rightarrow> rule_set" where
  "allow_dns_server dns iface rs = allow_dns_server_inner dns iface RouterAndLan rs"

definition allow_tunnel :: "string \<Rightarrow> rule_set \<Rightarrow> rule_set" where
  "allow_tunnel iface rs =
     push_forward (with_oif iface (accept Inet)) (push_output (with_oif iface (accept Inet)) rs)"

definition cve_2019_14899_protection :: "tunnel_metadata \<Rightarrow> rule_set \<Rightarrow> rule_set" where
  "cve_2019_14899_protection tun rs =
     fold (\<lambda>ip. push_input (with_daddr (AddrIp ip) (with_iif_not (t_interface tun) (drop_rule (family_of ip)))))
       (t_ips tun) rs"

definition dns_reject :: "proto \<Rightarrow> rule" where
  "dns_reject q = with_dport DNS_PORT (with_proto q (reject Inet))"

definition block_dns :: "rule_set \<Rightarrow> rule_set" where
  "block_dns rs = fold (\<lambda>q rs. push_forward (dns_reject q) (push_output (dns_reject q) rs)) [Udp, Tcp] rs"

definition ntp_escape_hatch :: "rule_set \<Rightarrow> rule_set" where
  "ntp_escape_hatch rs =
     push_output (with_rate_limit NTP_RATE_PER_MIN NTP_BURST (with_dport NTP_PORT (with_proto Udp (accept Inet)))) rs"

definition dns_hatch_rule :: "proto \<Rightarrow> rule" where
  "dns_hatch_rule q =
     with_skuid ROOT_UID (with_rate_limit DNS_RATE_PER_MIN DNS_BURST (with_dport DNS_PORT (with_proto q (accept Inet))))"

definition dns_escape_hatch :: "rule_set \<Rightarrow> rule_set" where
  "dns_escape_hatch rs = fold (\<lambda>q. push_output (dns_hatch_rule q)) [Udp, Tcp] rs"

definition probe_escape_hatch :: "rule_set \<Rightarrow> rule_set" where
  "probe_escape_hatch rs =
     push_output (with_rate_limit PROBE_RATE_PER_MIN PROBE_BURST (mark_eq TUNNEL_FWMARK (with_icmpv6_type EchoRequest6 (accept V6))))
       (push_output (with_rate_limit PROBE_RATE_PER_MIN PROBE_BURST (mark_eq TUNNEL_FWMARK (with_icmpv4_type EchoRequest4 (accept V4)))) rs)"

definition allow_lan_traffic :: "rule_set \<Rightarrow> rule_set" where
  "allow_lan_traffic rs =
     (let rs = fold (\<lambda>n rs. push_forward (with_daddr (AddrNet n) (return_rule V4))
                              (push_output (with_daddr (AddrNet n) (accept V4)) rs)) LAN_NETS_V4 rs;
          rs = fold (\<lambda>n rs. push_forward (with_daddr (AddrNet n) (return_rule V6))
                              (push_output (with_daddr (AddrNet n) (accept V6)) rs)) LAN_NETS_V6 rs;
          rs = push_output (with_daddr (AddrNet MULTICAST_V4) (accept V4)) rs
      in push_output (with_daddr (AddrNet MULTICAST_V6) (accept V6)) rs)"

definition final_reject :: "rule_set \<Rightarrow> rule_set" where
  "final_reject rs = push_forward (reject Inet) (push_output (reject Inet) rs)"

subsection \<open>compile_with\<close>

definition ifaces_of :: "tunnel_interface option \<Rightarrow> string list" where
  "ifaces_of t = map t_interface (case t of None \<Rightarrow> [] | Some t \<Rightarrow> inner_metadatas t)"

text \<open>One resolver of the Connecting and of the Blocked loop.\<close>

definition dns_down :: "(ip_network \<Rightarrow> ip_addr \<Rightarrow> bool) \<Rightarrow> uplink \<Rightarrow> string list \<Rightarrow> ip_addr \<Rightarrow> rule_set \<Rightarrow> rule_set" where
  "dns_down contains u ifaces dns rs =
     (case allow_private_dns_server contains dns u ifaces rs of
        (True, rs') \<Rightarrow> rs'
      | (False, rs') \<Rightarrow> allow_dns_server_daemon_only dns rs')"

text \<open>One non-tunnel resolver of the Connected loop.\<close>

definition dns_up :: "(ip_network \<Rightarrow> ip_addr \<Rightarrow> bool) \<Rightarrow> uplink \<Rightarrow> string list \<Rightarrow> ip_addr \<Rightarrow> rule_set \<Rightarrow> rule_set" where
  "dns_up contains u ifaces dns rs =
     (case allow_private_dns_server contains dns u ifaces rs of
        (True, rs') \<Rightarrow> rs'
      | (False, rs') \<Rightarrow>
          if is_private_dns contains dns
          then fold (\<lambda>i. allow_dns_server dns (Some i)) ifaces rs'
          else allow_dns_server dns None rs')"

text \<open>One tunnel of the Connected loop.\<close>

definition allow_tunnel_protected :: "bool \<Rightarrow> tunnel_metadata \<Rightarrow> rule_set \<Rightarrow> rule_set" where
  "allow_tunnel_protected lan m rs =
     (let rs = allow_tunnel (t_interface m) rs
      in if lan then cve_2019_14899_protection m rs else rs)"

definition compile_connecting ::
  "(ip_network \<Rightarrow> ip_addr \<Rightarrow> bool) \<Rightarrow> uplink \<Rightarrow> connecting_policy \<Rightarrow> rule_set \<Rightarrow> rule_set" where
  "compile_connecting contains u c rs =
     (let rs = fold allow_endpoint (cg_peer_endpoints c) rs;
          rs = fold allow_endpoint (cg_allowed_endpoints c) rs;
          ifaces = ifaces_of (cg_tunnel c);
          rs = fold (dns_down contains u ifaces) (d_non_tunnel (cg_dns_config c)) rs;
          rs = fold allow_tunnel ifaces rs;
          rs = exemption_filter_accepts (cg_inbound_exemptions c) rs;
          rs = dns_escape_hatch rs;
          rs = block_dns rs;
          rs = ntp_escape_hatch rs;
          rs = probe_escape_hatch rs;
          rs = (if cg_allow_lan c then allow_lan_traffic rs else rs)
      in exemption_mangle (cg_inbound_exemptions c) (wan_devices u) rs)"

definition compile_connected ::
  "(ip_network \<Rightarrow> ip_addr \<Rightarrow> bool) \<Rightarrow> uplink \<Rightarrow> connected_policy \<Rightarrow> rule_set \<Rightarrow> rule_set" where
  "compile_connected contains u c rs =
     (let rs = fold allow_endpoint (cd_peer_endpoints c) rs;
          rs = fold allow_endpoint (cd_allowed_endpoints c) rs;
          metas = inner_metadatas (cd_tunnel c);
          ifaces = map t_interface metas;
          rs = fold (\<lambda>dns. fold (\<lambda>i. allow_dns_server dns (Some i)) ifaces) (d_tunnel (cd_dns_config c)) rs;
          rs = fold (dns_up contains u ifaces) (d_non_tunnel (cd_dns_config c)) rs;
          rs = fold (allow_tunnel_protected (cd_allow_lan c)) metas rs;
          rs = exemption_filter_accepts (cd_inbound_exemptions c) rs;
          rs = block_dns rs;
          rs = probe_escape_hatch rs;
          rs = (if cd_allow_lan c then allow_lan_traffic rs else rs)
      in exemption_mangle (cd_inbound_exemptions c) (wan_devices u) rs)"

definition compile_blocked ::
  "(ip_network \<Rightarrow> ip_addr \<Rightarrow> bool) \<Rightarrow> uplink \<Rightarrow> blocked_policy \<Rightarrow> rule_set \<Rightarrow> rule_set" where
  "compile_blocked contains u b rs =
     (let rs = fold allow_endpoint (bl_allowed_endpoints b) rs;
          rs = fold (dns_down contains u []) (bl_dns_servers b) rs;
          rs = dns_escape_hatch rs;
          rs = block_dns rs;
          rs = ntp_escape_hatch rs;
          rs = probe_escape_hatch rs
      in (if bl_allow_lan b then allow_lan_traffic rs else rs))"

definition compile_with ::
  "(ip_network \<Rightarrow> ip_addr \<Rightarrow> bool) \<Rightarrow> ip_addr list \<Rightarrow> firewall_policy \<Rightarrow> uplink \<Rightarrow> rule_set" where
  "compile_with contains mwan3 policy u =
     (let rs = base_rules mwan3 rs_default;
          rs = untrusted_ingress_returns (wan_devices u) (tunnel_interfaces policy) rs;
          rs = bypass_mark_forward_accept rs;
          rs = (case policy of
                  Connecting c \<Rightarrow> compile_connecting contains u c rs
                | Connected c \<Rightarrow> compile_connected contains u c rs
                | Blocked b \<Rightarrow> compile_blocked contains u b rs)
      in final_reject rs)"

subsection \<open>What each emitter appends\<close>

definition base_out :: "ip_addr list \<Rightarrow> chain" where
  "base_out mwan3 =
     [with_oif ''lo'' (accept Inet),
      with_dport DHCPV4_SERVER_PORT (with_sport DHCPV4_CLIENT_PORT (with_proto Udp (accept V4))),
      with_dport DHCPV4_CLIENT_PORT (with_sport DHCPV4_SERVER_PORT (with_proto Udp (accept V4))),
      with_dport DHCPV6_SERVER_PORT (with_sport DHCPV6_CLIENT_PORT (with_proto Udp (accept V6))),
      with_dport DHCPV6_CLIENT_PORT (with_sport DHCPV6_SERVER_PORT (with_proto Udp (accept V6))),
      with_icmpv6_type RouterSolicit (accept V6), with_icmpv6_type NeighborSolicit (accept V6),
      with_icmpv6_type NeighborAdvert (accept V6)] @ map mwan3_rule mwan3"

definition ingress_fwd :: "string list \<Rightarrow> string list \<Rightarrow> chain" where
  "ingress_fwd wans tunnels =
     concat (map (\<lambda>dev. map (\<lambda>wan. with_oif wan (with_iif dev (reject Inet))) wans) (wans @ tunnels))
     @ map (\<lambda>dev. with_iif dev (return_rule Inet)) (wans @ tunnels)"

definition private_dns_out :: "(ip_network \<Rightarrow> ip_addr \<Rightarrow> bool) \<Rightarrow> uplink \<Rightarrow> string list \<Rightarrow> ip_addr \<Rightarrow> string option" where
  "private_dns_out contains u ifaces dns =
     (if is_private_dns contains dns then private_dns_device dns u ifaces else None)"

definition dns_down_out :: "(ip_network \<Rightarrow> ip_addr \<Rightarrow> bool) \<Rightarrow> uplink \<Rightarrow> string list \<Rightarrow> ip_addr \<Rightarrow> chain" where
  "dns_down_out contains u ifaces dns =
     (case private_dns_out contains u ifaces dns of
        Some dev \<Rightarrow> map (\<lambda>qp. with_oif dev (dns_rule dns (fst qp) (snd qp))) dns_pairs
      | None \<Rightarrow> map (dns_server_rule dns None Daemon) dns_pairs)"

definition dns_down_fwd :: "(ip_network \<Rightarrow> ip_addr \<Rightarrow> bool) \<Rightarrow> uplink \<Rightarrow> string list \<Rightarrow> ip_addr \<Rightarrow> chain" where
  "dns_down_fwd contains u ifaces dns =
     (case private_dns_out contains u ifaces dns of
        Some dev \<Rightarrow> map (\<lambda>q. with_oif dev (dns_rule dns q DNS_PORT)) [Udp, Tcp]
      | None \<Rightarrow> [])"

definition dns_up_out :: "(ip_network \<Rightarrow> ip_addr \<Rightarrow> bool) \<Rightarrow> uplink \<Rightarrow> string list \<Rightarrow> ip_addr \<Rightarrow> chain" where
  "dns_up_out contains u ifaces dns =
     (case private_dns_out contains u ifaces dns of
        Some dev \<Rightarrow> map (\<lambda>qp. with_oif dev (dns_rule dns (fst qp) (snd qp))) dns_pairs
      | None \<Rightarrow> if is_private_dns contains dns
          then concat (map (\<lambda>i. map (dns_server_rule dns (Some i) RouterAndLan) dns_pairs) ifaces)
          else map (dns_server_rule dns None RouterAndLan) dns_pairs)"

definition dns_up_fwd :: "(ip_network \<Rightarrow> ip_addr \<Rightarrow> bool) \<Rightarrow> uplink \<Rightarrow> string list \<Rightarrow> ip_addr \<Rightarrow> chain" where
  "dns_up_fwd contains u ifaces dns =
     (case private_dns_out contains u ifaces dns of
        Some dev \<Rightarrow> map (\<lambda>q. with_oif dev (dns_rule dns q DNS_PORT)) [Udp, Tcp]
      | None \<Rightarrow> if is_private_dns contains dns then []
          else map (\<lambda>q. dns_rule dns q DNS_PORT) [Udp, Tcp])"

definition exempt_chain :: "inbound_exemption list \<Rightarrow> chain" where
  "exempt_chain xs = (if xs = [] then [] else [mark_eq EXEMPT_FWMARK (accept Inet)])"

definition hatch_out :: chain where "hatch_out = map dns_hatch_rule [Udp, Tcp]"
definition block_dns_chain :: chain where "block_dns_chain = map dns_reject [Udp, Tcp]"

definition ntp_out :: chain where
  "ntp_out = [with_rate_limit NTP_RATE_PER_MIN NTP_BURST (with_dport NTP_PORT (with_proto Udp (accept Inet)))]"

definition probe_out :: chain where
  "probe_out =
     [with_rate_limit PROBE_RATE_PER_MIN PROBE_BURST (mark_eq TUNNEL_FWMARK (with_icmpv4_type EchoRequest4 (accept V4))),
      with_rate_limit PROBE_RATE_PER_MIN PROBE_BURST (mark_eq TUNNEL_FWMARK (with_icmpv6_type EchoRequest6 (accept V6)))]"

definition lan_out :: "bool \<Rightarrow> chain" where
  "lan_out on = (if on then
     map (\<lambda>n. with_daddr (AddrNet n) (accept V4)) LAN_NETS_V4 @
     map (\<lambda>n. with_daddr (AddrNet n) (accept V6)) LAN_NETS_V6 @
     [with_daddr (AddrNet MULTICAST_V4) (accept V4), with_daddr (AddrNet MULTICAST_V6) (accept V6)] else [])"

definition lan_fwd :: "bool \<Rightarrow> chain" where
  "lan_fwd on = (if on then
     map (\<lambda>n. with_daddr (AddrNet n) (return_rule V4)) LAN_NETS_V4 @
     map (\<lambda>n. with_daddr (AddrNet n) (return_rule V6)) LAN_NETS_V6 else [])"

definition tunnel_chain :: "string list \<Rightarrow> chain" where
  "tunnel_chain ifaces = map (\<lambda>i. with_oif i (accept Inet)) ifaces"

definition cve_in :: "tunnel_metadata list \<Rightarrow> chain" where
  "cve_in metas = concat (map (\<lambda>m. map (\<lambda>ip.
     with_daddr (AddrIp ip) (with_iif_not (t_interface m) (drop_rule (family_of ip)))) (t_ips m)) metas)"

definition exempt_pre :: "inbound_exemption list \<Rightarrow> string list \<Rightarrow> chain" where
  "exempt_pre xs wans = (if xs = [] \<or> wans = [] then []
     else restore_exempt # concat (map (\<lambda>wan. map (set_exempt wan) xs) wans) @ [restore_exempt])"

definition exempt_mout :: "inbound_exemption list \<Rightarrow> string list \<Rightarrow> chain" where
  "exempt_mout xs wans = (if xs = [] \<or> wans = [] then [] else [restore_exempt])"

subsection \<open>The emitter interface\<close>

text \<open>
  Every emitter of the file only appends to the three filter chains. The loops of \<open>compile_with\<close>
  rely on nothing else, so their effect is proved once for any emitter.
\<close>

locale chain_emitter =
  fixes emit :: "'a \<Rightarrow> rule_set \<Rightarrow> rule_set"
    and out fwd inp :: "'a \<Rightarrow> chain"
  assumes emit_output: "output_of (emit x rs) = output_of rs @ out x"
    and emit_forward: "forward_of (emit x rs) = forward_of rs @ fwd x"
    and emit_input: "input_of (emit x rs) = input_of rs @ inp x"
    and emit_mangle: "rs_mangle (emit x rs) = rs_mangle rs"
begin

lemma fold_output: "output_of (fold emit xs rs) = output_of rs @ concat (map out xs)"
  by (rule fold_append_emit) (rule emit_output)

lemma fold_forward: "forward_of (fold emit xs rs) = forward_of rs @ concat (map fwd xs)"
  by (rule fold_append_emit) (rule emit_forward)

lemma fold_input: "input_of (fold emit xs rs) = input_of rs @ concat (map inp xs)"
  by (rule fold_append_emit) (rule emit_input)

lemma fold_mangle: "rs_mangle (fold emit xs rs) = rs_mangle rs"
  by (rule fold_keeps) (rule emit_mangle)

lemmas one_simps = emit_output emit_forward emit_input emit_mangle
lemmas fold_simps = fold_output fold_forward fold_input fold_mangle

end

interpretation out_push: chain_emitter "\<lambda>x. push_output (g x)" "\<lambda>x. [g x]" "\<lambda>_. []" "\<lambda>_. []" for g
  by unfold_locales (simp_all add: emit_simps)

interpretation fwd_push: chain_emitter "\<lambda>x. push_forward (g x)" "\<lambda>_. []" "\<lambda>x. [g x]" "\<lambda>_. []" for g
  by unfold_locales (simp_all add: emit_simps)

interpretation inp_push: chain_emitter "\<lambda>x. push_input (g x)" "\<lambda>_. []" "\<lambda>_. []" "\<lambda>x. [g x]" for g
  by unfold_locales (simp_all add: emit_simps)

interpretation both_push: chain_emitter "\<lambda>x rs. push_forward (h x) (push_output (g x) rs)"
    "\<lambda>x. [g x]" "\<lambda>x. [h x]" "\<lambda>_. []" for g h
  by unfold_locales (simp_all add: emit_simps)

lemmas push_folds [emit_simps] = out_push.fold_simps fwd_push.fold_simps inp_push.fold_simps
  both_push.fold_simps

interpretation ingress: chain_emitter
  "\<lambda>dev. fold (\<lambda>wan. push_forward (with_oif wan (with_iif dev (reject Inet)))) wans" "\<lambda>_. []"
  "\<lambda>dev. map (\<lambda>wan. with_oif wan (with_iif dev (reject Inet))) wans" "\<lambda>_. []" for wans
  by unfold_locales (simp_all add: emit_simps)

interpretation endpoints: chain_emitter allow_endpoint "\<lambda>ep. [endpoint_rule ep]" "\<lambda>_. []" "\<lambda>_. []"
  by unfold_locales (simp_all add: allow_endpoint_def emit_simps)

interpretation tunnels: chain_emitter allow_tunnel "\<lambda>i. [with_oif i (accept Inet)]"
    "\<lambda>i. [with_oif i (accept Inet)]" "\<lambda>_. []"
  by unfold_locales (simp_all add: allow_tunnel_def emit_simps)

interpretation pinned_dns: chain_emitter "\<lambda>i. allow_dns_server dns (Some i)"
    "\<lambda>i. map (dns_server_rule dns (Some i) RouterAndLan) dns_pairs" "\<lambda>_. []" "\<lambda>_. []" for dns
  by unfold_locales
    (simp_all add: allow_dns_server_def allow_dns_server_inner_def Let_def emit_simps)

lemmas emitter_folds [emit_simps] = ingress.fold_simps endpoints.fold_simps tunnels.fold_simps
  pinned_dns.fold_simps

interpretation tunnel_dns: chain_emitter "\<lambda>dns. fold (\<lambda>i. allow_dns_server dns (Some i)) ifaces"
    "\<lambda>dns. concat (map (\<lambda>i. map (dns_server_rule dns (Some i) RouterAndLan) dns_pairs) ifaces)"
    "\<lambda>_. []" "\<lambda>_. []" for ifaces
  by unfold_locales (simp_all add: emit_simps)

lemma split_push_output: "(\<lambda>(q, port). push_output (f q port)) = (\<lambda>qp. push_output (f (fst qp) (snd qp)))"
  by (simp add: split_def)

lemma private_dns_server_cases:
  "allow_private_dns_server contains dns u ifaces rs =
     (case private_dns_out contains u ifaces dns of
        None \<Rightarrow> (False, rs)
      | Some dev \<Rightarrow>
          (True,
           fold (\<lambda>q. push_forward (with_oif dev (dns_rule dns q DNS_PORT))) [Udp, Tcp]
             (fold (\<lambda>qp. push_output (with_oif dev (dns_rule dns (fst qp) (snd qp)))) dns_pairs rs)))"
  unfolding allow_private_dns_server_def private_dns_out_def split_push_output
  by (auto split: option.split)

interpretation dns_while_down: chain_emitter "dns_down contains u ifaces"
    "dns_down_out contains u ifaces" "dns_down_fwd contains u ifaces" "\<lambda>_. []" for contains u ifaces
  by unfold_locales
    (simp_all add: dns_down_def private_dns_server_cases dns_down_out_def dns_down_fwd_def
      allow_dns_server_daemon_only_def allow_dns_server_inner_def Let_def emit_simps
      split: option.split)

interpretation dns_while_up: chain_emitter "dns_up contains u ifaces"
    "dns_up_out contains u ifaces" "dns_up_fwd contains u ifaces" "\<lambda>_. []" for contains u ifaces
  by unfold_locales
    (simp_all add: dns_up_def private_dns_server_cases dns_up_out_def dns_up_fwd_def
      allow_dns_server_def allow_dns_server_inner_def Let_def emit_simps
      split: option.split)

interpretation tunnel_up: chain_emitter "allow_tunnel_protected lan"
    "\<lambda>m. [with_oif (t_interface m) (accept Inet)]" "\<lambda>m. [with_oif (t_interface m) (accept Inet)]"
    "\<lambda>m. if lan then cve_in [m] else []" for lan
  by unfold_locales
    (simp_all add: allow_tunnel_protected_def Let_def cve_2019_14899_protection_def cve_in_def
      tunnels.one_simps emit_simps)

lemmas dns_folds [emit_simps] = tunnel_dns.fold_simps dns_while_down.fold_simps
  dns_while_up.fold_simps tunnel_up.fold_simps

subsection \<open>The single emitters\<close>

lemma base_rules_emit [emit_simps]:
  "output_of (base_rules mw rs) = output_of rs @ base_out mw"
  "input_of (base_rules mw rs) = input_of rs @ [with_iif ''lo'' (accept Inet)]"
  "forward_of (base_rules mw rs) = forward_of rs"
  "rs_mangle (base_rules mw rs) = rs_mangle rs"
  by (simp_all add: base_rules_def base_out_def Let_def emit_simps)

lemma ingress_emit [emit_simps]:
  "output_of (untrusted_ingress_returns w t rs) = output_of rs"
  "input_of (untrusted_ingress_returns w t rs) = input_of rs"
  "forward_of (untrusted_ingress_returns w t rs) = forward_of rs @ ingress_fwd w t"
  "rs_mangle (untrusted_ingress_returns w t rs) = rs_mangle rs"
  by (simp_all add: untrusted_ingress_returns_def ingress_fwd_def Let_def emit_simps)

lemma bypass_emit [emit_simps]:
  "output_of (bypass_mark_forward_accept rs) = output_of rs"
  "input_of (bypass_mark_forward_accept rs) = input_of rs"
  "forward_of (bypass_mark_forward_accept rs) = forward_of rs @ [mark_eq EXEMPT_FWMARK (accept Inet)]"
  "rs_mangle (bypass_mark_forward_accept rs) = rs_mangle rs"
  by (simp_all add: bypass_mark_forward_accept_def emit_simps)

lemma exemption_filter_emit [emit_simps]:
  "output_of (exemption_filter_accepts xs rs) = output_of rs @ exempt_chain xs"
  "input_of (exemption_filter_accepts xs rs) = input_of rs @ exempt_chain xs"
  "forward_of (exemption_filter_accepts xs rs) = forward_of rs"
  "rs_mangle (exemption_filter_accepts xs rs) = rs_mangle rs"
  by (simp_all add: exemption_filter_accepts_def exempt_chain_def emit_simps)

lemma hatch_emit [emit_simps]:
  "output_of (dns_escape_hatch rs) = output_of rs @ hatch_out"
  "input_of (dns_escape_hatch rs) = input_of rs"
  "forward_of (dns_escape_hatch rs) = forward_of rs"
  "rs_mangle (dns_escape_hatch rs) = rs_mangle rs"
  by (simp_all add: dns_escape_hatch_def hatch_out_def emit_simps)

lemma block_dns_emit [emit_simps]:
  "output_of (block_dns rs) = output_of rs @ block_dns_chain"
  "input_of (block_dns rs) = input_of rs"
  "forward_of (block_dns rs) = forward_of rs @ block_dns_chain"
  "rs_mangle (block_dns rs) = rs_mangle rs"
  by (simp_all add: block_dns_def block_dns_chain_def emit_simps)

lemma ntp_emit [emit_simps]:
  "output_of (ntp_escape_hatch rs) = output_of rs @ ntp_out"
  "input_of (ntp_escape_hatch rs) = input_of rs"
  "forward_of (ntp_escape_hatch rs) = forward_of rs"
  "rs_mangle (ntp_escape_hatch rs) = rs_mangle rs"
  by (simp_all add: ntp_escape_hatch_def ntp_out_def emit_simps)

lemma probe_emit [emit_simps]:
  "output_of (probe_escape_hatch rs) = output_of rs @ probe_out"
  "input_of (probe_escape_hatch rs) = input_of rs"
  "forward_of (probe_escape_hatch rs) = forward_of rs"
  "rs_mangle (probe_escape_hatch rs) = rs_mangle rs"
  by (simp_all add: probe_escape_hatch_def probe_out_def emit_simps)

lemma lan_emit [emit_simps]:
  "output_of (if on then allow_lan_traffic rs else rs) = output_of rs @ lan_out on"
  "input_of (if on then allow_lan_traffic rs else rs) = input_of rs"
  "forward_of (if on then allow_lan_traffic rs else rs) = forward_of rs @ lan_fwd on"
  "rs_mangle (if on then allow_lan_traffic rs else rs) = rs_mangle rs"
  by (simp_all add: allow_lan_traffic_def lan_out_def lan_fwd_def Let_def emit_simps)

lemma final_emit [emit_simps]:
  "output_of (final_reject rs) = output_of rs @ [reject Inet]"
  "input_of (final_reject rs) = input_of rs"
  "forward_of (final_reject rs) = forward_of rs @ [reject Inet]"
  "rs_mangle (final_reject rs) = rs_mangle rs"
  by (simp_all add: final_reject_def emit_simps)

lemma fold_push_pre [emit_simps]:
  "rs_filter (fold (\<lambda>x. push_mangle_pre (g x)) xs rs) = rs_filter rs"
  "mangle_pre_of (fold (\<lambda>x. push_mangle_pre (g x)) xs rs) = mangle_pre_of rs @ map g xs"
  "mangle_out_of (fold (\<lambda>x. push_mangle_pre (g x)) xs rs) = mangle_out_of rs"
  by (induction xs arbitrary: rs) (simp_all add: emit_simps push_mangle_pre_def)

lemma fold_fold_push_pre [emit_simps]:
  "rs_filter (fold (\<lambda>w. fold (\<lambda>x. push_mangle_pre (g w x)) xs) ws rs) = rs_filter rs"
  "mangle_pre_of (fold (\<lambda>w. fold (\<lambda>x. push_mangle_pre (g w x)) xs) ws rs) =
     mangle_pre_of rs @ concat (map (\<lambda>w. map (g w) xs) ws)"
  "mangle_out_of (fold (\<lambda>w. fold (\<lambda>x. push_mangle_pre (g w x)) xs) ws rs) = mangle_out_of rs"
  by (induction ws arbitrary: rs) (simp_all add: emit_simps)

lemma mangle_emit [emit_simps]:
  "rs_filter (exemption_mangle xs wans rs) = rs_filter rs"
  "mangle_pre_of (exemption_mangle xs wans rs) = mangle_pre_of rs @ exempt_pre xs wans"
  "mangle_out_of (exemption_mangle xs wans rs) = mangle_out_of rs @ exempt_mout xs wans"
  by (simp_all add: exemption_mangle_def exemption_mangle_rules_def exempt_pre_def exempt_mout_def
      Let_def emit_simps push_mangle_pre_def push_mangle_out_def)

subsection \<open>The chains of a compiled policy\<close>

text \<open>
  The three parts of the OUTPUT chain around \<open>block_dns\<close>: the accepts before it and the accepts
  after it. FORWARD is split the same way behind the ingress rules.
\<close>

fun accepts_before_dns_block :: "(ip_network \<Rightarrow> ip_addr \<Rightarrow> bool) \<Rightarrow> uplink \<Rightarrow> firewall_policy \<Rightarrow> chain" where
  "accepts_before_dns_block contains u (Connecting c) =
     map endpoint_rule (cg_peer_endpoints c) @ map endpoint_rule (cg_allowed_endpoints c)
     @ concat (map (dns_down_out contains u (ifaces_of (cg_tunnel c))) (d_non_tunnel (cg_dns_config c)))
     @ tunnel_chain (ifaces_of (cg_tunnel c)) @ exempt_chain (cg_inbound_exemptions c) @ hatch_out"
| "accepts_before_dns_block contains u (Connected c) =
     (let ifaces = map t_interface (inner_metadatas (cd_tunnel c)) in
      map endpoint_rule (cd_peer_endpoints c) @ map endpoint_rule (cd_allowed_endpoints c)
      @ concat (map (\<lambda>dns. concat (map (\<lambda>i. map (dns_server_rule dns (Some i) RouterAndLan) dns_pairs) ifaces))
          (d_tunnel (cd_dns_config c)))
      @ concat (map (dns_up_out contains u ifaces) (d_non_tunnel (cd_dns_config c)))
      @ tunnel_chain ifaces @ exempt_chain (cd_inbound_exemptions c))"
| "accepts_before_dns_block contains u (Blocked b) =
     map endpoint_rule (bl_allowed_endpoints b)
     @ concat (map (dns_down_out contains u []) (bl_dns_servers b)) @ hatch_out"

fun accepts_after_dns_block :: "firewall_policy \<Rightarrow> chain" where
  "accepts_after_dns_block (Connecting c) = ntp_out @ probe_out @ lan_out (cg_allow_lan c)"
| "accepts_after_dns_block (Connected c) = probe_out @ lan_out (cd_allow_lan c)"
| "accepts_after_dns_block (Blocked b) = ntp_out @ probe_out @ lan_out (bl_allow_lan b)"

fun forward_accepts :: "(ip_network \<Rightarrow> ip_addr \<Rightarrow> bool) \<Rightarrow> uplink \<Rightarrow> firewall_policy \<Rightarrow> chain" where
  "forward_accepts contains u (Connecting c) =
     concat (map (dns_down_fwd contains u (ifaces_of (cg_tunnel c))) (d_non_tunnel (cg_dns_config c)))
     @ tunnel_chain (ifaces_of (cg_tunnel c))"
| "forward_accepts contains u (Connected c) =
     (let ifaces = map t_interface (inner_metadatas (cd_tunnel c)) in
      concat (map (dns_up_fwd contains u ifaces) (d_non_tunnel (cd_dns_config c))) @ tunnel_chain ifaces)"
| "forward_accepts contains u (Blocked b) = concat (map (dns_down_fwd contains u []) (bl_dns_servers b))"

fun cve_drops :: "firewall_policy \<Rightarrow> chain" where
  "cve_drops (Connected c) = (if cd_allow_lan c then cve_in (inner_metadatas (cd_tunnel c)) else [])"
| "cve_drops _ = []"

lemma concat_map_single: "concat (map (\<lambda>x. [f x]) xs) = map f xs"
  by (induction xs) simp_all

lemma concat_map_Nil: "concat (map (\<lambda>x. []) xs) = []"
  by (induction xs) simp_all

lemma cve_in_concat: "concat (map (\<lambda>m. if lan then cve_in [m] else []) ms) = (if lan then cve_in ms else [])"
  by (induction ms) (simp_all add: cve_in_def)

lemmas chain_norm = concat_map_single concat_map_Nil cve_in_concat tunnel_chain_def map_concat

lemma compile_output:
  "output_of (compile_with contains mwan3 policy u) =
     base_out mwan3 @ accepts_before_dns_block contains u policy @ block_dns_chain
     @ accepts_after_dns_block policy @ [reject Inet]"
  by (cases policy)
    (simp_all add: compile_with_def compile_connecting_def compile_connected_def
      compile_blocked_def Let_def emit_simps chain_norm comp_def)

lemma compile_forward:
  "forward_of (compile_with contains mwan3 policy u) =
     ingress_fwd (wan_devices u) (tunnel_interfaces policy) @ [mark_eq EXEMPT_FWMARK (accept Inet)]
     @ forward_accepts contains u policy @ block_dns_chain @ lan_fwd (allow_lan policy) @ [reject Inet]"
  by (cases policy)
    (simp_all add: compile_with_def compile_connecting_def compile_connected_def
      compile_blocked_def Let_def emit_simps chain_norm comp_def)

lemma compile_input:
  "input_of (compile_with contains mwan3 policy u) =
     [with_iif ''lo'' (accept Inet)] @ cve_drops policy @ exempt_chain (inbound_exemptions policy)"
  by (cases policy)
    (simp_all add: compile_with_def compile_connecting_def compile_connected_def
      compile_blocked_def Let_def emit_simps chain_norm exempt_chain_def comp_def)

lemma compile_mangle_pre:
  "mangle_pre_of (compile_with contains mwan3 policy u) = exempt_pre (inbound_exemptions policy) (wan_devices u)"
  by (cases policy)
    (simp_all add: compile_with_def compile_connecting_def compile_connected_def
      compile_blocked_def Let_def emit_simps mangle_default_def exempt_pre_def)

lemma compile_mangle_out:
  "mangle_out_of (compile_with contains mwan3 policy u) = exempt_mout (inbound_exemptions policy) (wan_devices u)"
  by (cases policy)
    (simp_all add: compile_with_def compile_connecting_def compile_connected_def
      compile_blocked_def Let_def emit_simps mangle_default_def exempt_mout_def)

end
