(* ===== verification/Fault_Monad.thy ===== *)
theory Fault_Monad
  imports Main
begin

text \<open>
  Programs that act on an outside world one command at a time and can be stopped between any two of them.
  A run ends with a value, with an error the program reports, or by a crash; in each case the world is
  what the commands executed so far have made of it. A triple says what holds after a normal end and
  what holds after an error or a crash, so one rule per construct proves a statement about every point
  at which the program can stop.
\<close>

datatype ('a, 'e) outcome = Done 'a | Failed 'e | Crashed

type_synonym ('s, 'a, 'e) prog = "'s \<Rightarrow> ('a, 'e) outcome \<times> 's"

definition ret :: "'a \<Rightarrow> ('s, 'a, 'e) prog" where
  "ret a s = (Done a, s)"

definition fail :: "'e \<Rightarrow> ('s, 'a, 'e) prog" where
  "fail e s = (Failed e, s)"

definition bindp :: "('s, 'a, 'e) prog \<Rightarrow> ('a \<Rightarrow> ('s, 'b, 'e) prog) \<Rightarrow> ('s, 'b, 'e) prog" where
  "bindp m f s =
     (case m s of
        (Done a, t) \<Rightarrow> f a t
      | (Failed e, t) \<Rightarrow> (Failed e, t)
      | (Crashed, t) \<Rightarrow> (Crashed, t))"

definition thenp :: "('s, 'a, 'e) prog \<Rightarrow> ('s, 'b, 'e) prog \<Rightarrow> ('s, 'b, 'e) prog" where
  "thenp m n = bindp m (\<lambda>_. n)"

text \<open>A result that is thrown away: \<open>let _ = m\<close>. Only a crash stops the caller.\<close>

definition ignore_result :: "('s, 'a, 'e) prog \<Rightarrow> ('s, unit, 'e) prog" where
  "ignore_result m s =
     (case m s of (Done a, t) \<Rightarrow> (Done (), t) | (Failed e, t) \<Rightarrow> (Done (), t) | (Crashed, t) \<Rightarrow> (Crashed, t))"

definition asks :: "('s \<Rightarrow> 'a) \<Rightarrow> ('s, 'a, 'e) prog" where
  "asks f s = (Done (f s), s)"

definition catchp :: "('s, 'a, 'e) prog \<Rightarrow> ('e \<Rightarrow> ('s, 'a, 'e) prog) \<Rightarrow> ('s, 'a, 'e) prog" where
  "catchp m h s = (case m s of (Failed e, t) \<Rightarrow> h e t | r \<Rightarrow> r)"

fun for_each :: "('a \<Rightarrow> ('s, unit, 'e) prog) \<Rightarrow> 'a list \<Rightarrow> ('s, unit, 'e) prog" where
  "for_each f [] = ret ()"
| "for_each f (x # xs) = thenp (f x) (for_each f xs)"

subsection \<open>Triples\<close>

definition triple ::
  "('s \<Rightarrow> bool) \<Rightarrow> ('s, 'a, 'e) prog \<Rightarrow> ('a \<Rightarrow> 's \<Rightarrow> bool) \<Rightarrow> ('s \<Rightarrow> bool) \<Rightarrow> bool" where
  "triple P m Q E \<longleftrightarrow>
     (\<forall>s r s'. P s \<longrightarrow> m s = (r, s') \<longrightarrow> (case r of Done a \<Rightarrow> Q a s' | _ \<Rightarrow> E s'))"

lemma triple_ret: "(\<And>s. P s \<Longrightarrow> Q a s) \<Longrightarrow> triple P (ret a) Q E"
  by (simp add: triple_def ret_def)

lemma triple_fail: "(\<And>s. P s \<Longrightarrow> E s) \<Longrightarrow> triple P (fail e) Q E"
  by (simp add: triple_def fail_def)

lemma triple_bind:
  assumes "triple P m R E" and "\<And>a. triple (R a) (f a) Q E"
  shows "triple P (bindp m f) Q E"
proof -
  have "case r of Done a \<Rightarrow> Q a t | _ \<Rightarrow> E t" if "P s" "bindp m f s = (r, t)" for s r t
  proof (cases "m s")
    case (Pair o1 u)
    then have "case o1 of Done a \<Rightarrow> R a u | _ \<Rightarrow> E u"
      using assms(1) that(1) by (auto simp: triple_def)
    then show ?thesis
      using that(2) assms(2) Pair by (cases o1) (auto simp: bindp_def triple_def)
  qed
  then show ?thesis by (simp add: triple_def)
qed

lemma triple_then: "triple P m (\<lambda>_. R) E \<Longrightarrow> triple R n Q E \<Longrightarrow> triple P (thenp m n) Q E"
  unfolding thenp_def by (rule triple_bind)

lemma triple_ignore: "triple P m (\<lambda>_. R) E \<Longrightarrow> (\<And>s. E s \<Longrightarrow> R s) \<Longrightarrow> triple P (ignore_result m) (\<lambda>_. R) E"
  by (fastforce simp: triple_def ignore_result_def split: outcome.splits prod.splits)

lemma triple_asks: "(\<And>s. P s \<Longrightarrow> Q (f s) s) \<Longrightarrow> triple P (asks f) Q E"
  by (simp add: triple_def asks_def)

lemma triple_conseq:
  "triple P m Q E \<Longrightarrow> (\<And>s. P' s \<Longrightarrow> P s) \<Longrightarrow> (\<And>a s. Q a s \<Longrightarrow> Q' a s) \<Longrightarrow> (\<And>s. E s \<Longrightarrow> E' s) \<Longrightarrow> triple P' m Q' E'"
  unfolding triple_def by (metis (mono_tags, lifting) outcome.case outcome.exhaust)

lemma triple_if:
  "(c \<Longrightarrow> triple P m Q E) \<Longrightarrow> (\<not> c \<Longrightarrow> triple P n Q E) \<Longrightarrow> triple P (if c then m else n) Q E"
  by simp

lemma triple_pre: "(\<And>s. P s \<Longrightarrow> c) \<Longrightarrow> (c \<Longrightarrow> triple P m Q E) \<Longrightarrow> triple P m Q E"
  by (auto simp: triple_def)

lemma triple_bind_pure:
  assumes "triple P m (\<lambda>a s. R s \<and> ok a) E" and "\<And>a. ok a \<Longrightarrow> triple R (f a) Q E"
  shows "triple P (bindp m f) Q E"
  using assms(1)
proof (rule triple_bind)
  show "triple (\<lambda>s. R s \<and> ok a) (f a) Q E" for a
    using assms(2) [of a] by (auto simp: triple_def)
qed

text \<open>An invariant of a program holds wherever it stops.\<close>

definition keeps :: "('s \<Rightarrow> bool) \<Rightarrow> ('s, 'a, 'e) prog \<Rightarrow> bool" where
  "keeps I m = triple I m (\<lambda>_. I) I"

lemma keeps_ret [simp]: "keeps I (ret a)"
  by (simp add: keeps_def triple_ret)

lemma keeps_fail [simp]: "keeps I (fail e)"
  by (simp add: keeps_def triple_fail)

lemma keeps_bind: "keeps I m \<Longrightarrow> (\<And>a. keeps I (f a)) \<Longrightarrow> keeps I (bindp m f)"
  unfolding keeps_def by (rule triple_bind)

lemma keeps_then: "keeps I m \<Longrightarrow> keeps I n \<Longrightarrow> keeps I (thenp m n)"
  unfolding keeps_def by (rule triple_then)

lemma keeps_ignore: "keeps I m \<Longrightarrow> keeps I (ignore_result m)"
  unfolding keeps_def by (rule triple_ignore) simp_all

lemma keeps_for_each: "(\<And>x. x \<in> set xs \<Longrightarrow> keeps I (f x)) \<Longrightarrow> keeps I (for_each f xs)"
  by (induction xs) (simp_all add: keeps_then)

lemma keeps_if: "(c \<Longrightarrow> keeps I m) \<Longrightarrow> (\<not> c \<Longrightarrow> keeps I n) \<Longrightarrow> keeps I (if c then m else n)"
  by simp

lemma keeps_case_option:
  "(x = None \<Longrightarrow> keeps I m) \<Longrightarrow> (\<And>a. x = Some a \<Longrightarrow> keeps I (f a)) \<Longrightarrow> keeps I (case x of None \<Rightarrow> m | Some a \<Rightarrow> f a)"
  by (cases x) simp_all

lemma keeps_case_prod: "(\<And>a b. x = (a, b) \<Longrightarrow> keeps I (f a b)) \<Longrightarrow> keeps I (case x of (a, b) \<Rightarrow> f a b)"
  by (cases x) simp

lemma keeps_asks [simp]: "keeps I (asks f)"
  by (simp add: keeps_def triple_asks)

lemma keeps_catch:
  assumes "keeps I m" and "\<And>e. keeps I (h e)"
  shows "keeps I (catchp m h)"
proof -
  have "case r of Done a \<Rightarrow> I t | _ \<Rightarrow> I t" if "I s" "catchp m h s = (r, t)" for s r t
  proof (cases "m s")
    case (Pair o1 u)
    then have "I u"
      using assms(1) that(1) by (cases o1) (auto simp: keeps_def triple_def)
    then show ?thesis
      using that(2) assms(2) Pair by (cases o1) (auto simp: catchp_def keeps_def triple_def split: outcome.splits)
  qed
  then show ?thesis by (simp add: keeps_def triple_def)
qed

lemmas keeps_rules = keeps_ret keeps_fail keeps_bind keeps_then keeps_ignore keeps_for_each keeps_if keeps_case_option
  keeps_case_prod keeps_asks keeps_catch

text \<open>A triple whose error condition is an invariant, from one that the program keeps.\<close>

lemma keeps_triple: "keeps I m \<Longrightarrow> triple I m (\<lambda>_. I) I"
  by (simp add: keeps_def)

lemma keeps_conj: "keeps I m \<Longrightarrow> keeps J m \<Longrightarrow> keeps (\<lambda>s. I s \<and> J s) m"
  by (fastforce simp: keeps_def triple_def split: outcome.splits)

lemma triple_frame: "triple P m Q E \<Longrightarrow> keeps I m \<Longrightarrow> triple (\<lambda>s. P s \<and> I s) m (\<lambda>a s. Q a s \<and> I s) (\<lambda>s. E s \<and> I s)"
  by (fastforce simp: keeps_def triple_def split: outcome.splits)

lemma keeps_run: "keeps I m \<Longrightarrow> I s \<Longrightarrow> I (snd (m s))"
  by (cases "m s"; cases "fst (m s)") (auto simp: keeps_def triple_def)

end
