(* ===== verification/Routing.thy ===== *)
theory Routing
  imports FW_Policy Fault_Monad
begin

text \<open>
  Policy routing: the route manager of \<open>nym-routing/src/unix/linux.rs\<close> with the types of
  \<open>nym-routing/src/lib.rs\<close>, the route handler of \<open>nym-vpn-lib/src/tunnel_state_machine/route_handler.rs\<close> and the
  offline monitor of \<open>nym-offline-monitor\<close>, which asks the manager for routes. The kernel side of netlink is
  the world: its policy rules, its routes in all tables and its links, with one answer per request, so that every
  request can be refused or be the last.
\<close>

subsection \<open>Routes and nodes\<close>

record node =
  nd_ip :: "ip_addr option"
  nd_device :: "string option"

definition node_new :: "ip_addr \<Rightarrow> string \<Rightarrow> node" where
  "node_new address iface_name = \<lparr>nd_ip = Some address, nd_device = Some iface_name\<rparr>"

definition node_address :: "ip_addr \<Rightarrow> node" where
  "node_address address = \<lparr>nd_ip = Some address, nd_device = None\<rparr>"

definition node_device :: "string \<Rightarrow> node" where
  "node_device iface_name = \<lparr>nd_ip = None, nd_device = Some iface_name\<rparr>"

definition RT_TABLE_MAIN :: u32 where "RT_TABLE_MAIN = 254"

record route =
  rt_node :: node
  rt_prefix :: ip_network
  rt_metric :: "u32 option"
  rt_table_id :: u32
  rt_mtu :: "u32 option"

definition route_new :: "node \<Rightarrow> ip_network \<Rightarrow> route" where
  "route_new n prefix = \<lparr>rt_node = n, rt_prefix = prefix, rt_metric = None, rt_table_id = RT_TABLE_MAIN, rt_mtu = None\<rparr>"

definition route_table :: "u32 \<Rightarrow> route \<Rightarrow> route" where
  "route_table new_id r = r\<lparr>rt_table_id := new_id\<rparr>"

record required_route =
  rq_prefix :: ip_network
  rq_node :: node
  rq_main_table :: bool
  rq_mtu :: "u16 option"

definition required_route_new :: "ip_network \<Rightarrow> node \<Rightarrow> required_route" where
  "required_route_new prefix n = \<lparr>rq_prefix = prefix, rq_node = n, rq_main_table = True, rq_mtu = None\<rparr>"

definition use_main_table :: "bool \<Rightarrow> required_route \<Rightarrow> required_route" where
  "use_main_table main_table r = r\<lparr>rq_main_table := main_table\<rparr>"

definition with_mtu :: "u16 \<Rightarrow> required_route \<Rightarrow> required_route" where
  "with_mtu mtu r = r\<lparr>rq_mtu := Some mtu\<rparr>"

subsection \<open>Rules\<close>

datatype address_family = AfInet | AfInet6

fun ip_family :: "ip_addr \<Rightarrow> address_family" where
  "ip_family (IPv4 _) = AfInet"
| "ip_family (IPv6 _) = AfInet6"

datatype rule_attribute = RulePriority u32 | RuleSuppressPrefixLen u32 | RuleTable u32 | RuleFwMark u32 | RuleOther string

text \<open>Of the header the fields the code sets: the action is \<open>ToTable\<close> or another one.\<close>

record rule_message =
  ru_family :: address_family
  ru_to_table :: bool
  ru_invert :: bool
  ru_attributes :: "rule_attribute list"

definition EXEMPT_RULE_PRIORITY :: u32 where "EXEMPT_RULE_PRIORITY = 90"
definition EXEMPT_RULE_FWMARK :: u32 where "EXEMPT_RULE_FWMARK = 0x14e"
definition SUPPRESS_RULE_PRIORITY :: u32 where "SUPPRESS_RULE_PRIORITY = 100"
definition TUNNEL_RULE_PRIORITY :: u32 where "TUNNEL_RULE_PRIORITY = 200"

definition suppress_rule :: "address_family \<Rightarrow> rule_message" where
  "suppress_rule af = \<lparr>ru_family = af, ru_to_table = True, ru_invert = False,
     ru_attributes = [RulePriority SUPPRESS_RULE_PRIORITY, RuleSuppressPrefixLen 0, RuleTable RT_TABLE_MAIN]\<rparr>"

definition no_fwmark_rule :: "u32 \<Rightarrow> u32 \<Rightarrow> address_family \<Rightarrow> rule_message" where
  "no_fwmark_rule fwmark table af = \<lparr>ru_family = af, ru_to_table = True, ru_invert = True,
     ru_attributes = [RulePriority TUNNEL_RULE_PRIORITY, RuleFwMark fwmark, RuleTable table]\<rparr>"

definition exempt_rule :: "address_family \<Rightarrow> rule_message" where
  "exempt_rule af = \<lparr>ru_family = af, ru_to_table = True, ru_invert = False,
     ru_attributes = [RulePriority EXEMPT_RULE_PRIORITY, RuleFwMark EXEMPT_RULE_FWMARK, RuleTable RT_TABLE_MAIN]\<rparr>"

definition all_rules :: "u32 \<Rightarrow> u32 \<Rightarrow> bool \<Rightarrow> rule_message list" where
  "all_rules fwmark table enable_exempt =
     [no_fwmark_rule fwmark table AfInet, no_fwmark_rule fwmark table AfInet6, suppress_rule AfInet, suppress_rule AfInet6]
     @ (if enable_exempt then [exempt_rule AfInet, exempt_rule AfInet6] else [])"

subsection \<open>Route messages\<close>

datatype route_address = RouteIp ip_addr | RouteAddrOther string

datatype route_attribute =
  AttrDestination route_address | AttrOif u32 | AttrGateway route_address | AttrVia route_address | AttrPriority u32
| AttrTable u32 | AttrMtu u32 | AttrOther string

datatype route_scope = ScopeUniverse | ScopeLink

record route_message =
  rm_family :: "address_family option"
  rm_dst_len :: nat
  rm_table :: u8
  rm_scope :: route_scope
  rm_attributes :: "route_attribute list"

datatype route_error =
  Netlink int | InvalidRoute | ConvertRouteAddrToIp string | ConvertRouteViaToIp string | InvalidNetworkPrefix
| UnknownDeviceIndex u32 | GetRoute int | NoRoute | InvalidRouteNode | LinkNotFound | RouteShutdown

record network_interface =
  ni_name :: string
  ni_loopback :: bool

record link =
  ln_index :: u32
  ln_name :: "string option"
  ln_loopback :: bool
  ln_mtu :: "u32 option"

datatype netlink_answer = Acknowledged | Refused int | Killed

record route_world =
  rw_rules :: "rule_message list"
  rw_routes :: "route_message list"
  rw_links :: "link list"
  rw_answers :: "netlink_answer list"
  rw_iface_map :: "(u32 \<times> network_interface) list"
  rw_added_routes :: "route list"
  rw_table_id :: u32
  rw_fwmark :: u32

type_synonym 'a routing = "(route_world, 'a, route_error) prog"

text \<open>A request to the kernel: what it changes when acknowledged.\<close>

definition request :: "(route_world \<Rightarrow> route_world) \<Rightarrow> unit routing" where
  "request effect w =
     (case rw_answers w of
        [] \<Rightarrow> (Done (), effect w)
      | Acknowledged # as \<Rightarrow> (Done (), effect (w\<lparr>rw_answers := as\<rparr>))
      | Refused code # as \<Rightarrow> (Failed (Netlink code), w\<lparr>rw_answers := as\<rparr>)
      | Killed # as \<Rightarrow> (Crashed, w\<lparr>rw_answers := as\<rparr>))"

definition reply :: "(route_world \<Rightarrow> 'a) \<Rightarrow> 'a routing" where
  "reply f = thenp (request (\<lambda>w. w)) (asks f)"

subsection \<open>Installing and clearing rules\<close>

definition new_rule :: "rule_message \<Rightarrow> unit routing" where
  "new_rule r = request (\<lambda>w. w\<lparr>rw_rules := rw_rules w @ [r]\<rparr>)"

definition get_rules :: "rule_message list routing" where
  "get_rules = reply rw_rules"

definition ENOENT :: int where "ENOENT = 2"
definition ESRCH :: int where "ESRCH = 3"
definition ENETUNREACH :: int where "ENETUNREACH = 101"

definition delete_rule_if_exists :: "rule_message \<Rightarrow> unit routing" where
  "delete_rule_if_exists r =
     catchp (request (\<lambda>w. w\<lparr>rw_rules := remove1 r (rw_rules w)\<rparr>))
       (\<lambda>e. case e of Netlink code \<Rightarrow> if \<bar>code\<bar> = ENOENT then ret () else fail e | _ \<Rightarrow> fail e)"

definition rule_covers :: "rule_message \<Rightarrow> rule_message \<Rightarrow> bool" where
  "rule_covers found r =
     (ru_family found = ru_family r \<and> ru_to_table found = ru_to_table r \<and> (ru_invert r \<longrightarrow> ru_invert found)
      \<and> list_all (\<lambda>nla. nla \<in> set (ru_attributes found)) (ru_attributes r))"

definition delete_matching :: "rule_message list \<Rightarrow> rule_message \<Rightarrow> unit routing" where
  "delete_matching found r =
     (case List.find (\<lambda>f. rule_covers f r) found of
        Some f \<Rightarrow> delete_rule_if_exists f
      | None \<Rightarrow> ret ())"

definition clear_routing_rules :: "unit routing" where
  "clear_routing_rules =
     bindp get_rules (\<lambda>found.
     bindp (asks (\<lambda>w. all_rules (rw_fwmark w) (rw_table_id w) True)) (\<lambda>ours.
       for_each (delete_matching found) ours))"

definition create_routing_rules :: "bool \<Rightarrow> bool \<Rightarrow> unit routing" where
  "create_routing_rules enable_ipv6 enable_exempt =
     thenp clear_routing_rules
      (bindp (asks (\<lambda>w. all_rules (rw_fwmark w) (rw_table_id w) enable_exempt)) (\<lambda>ours.
         for_each new_rule (filter (\<lambda>r. ru_family r = AfInet \<or> enable_ipv6) ours)))"

definition exempt_covers :: "rule_message \<Rightarrow> rule_message \<Rightarrow> bool" where
  "exempt_covers found target =
     (ru_family found = ru_family target \<and> ru_to_table found = ru_to_table target
      \<and> list_all (\<lambda>nla. nla \<in> set (ru_attributes found)) (ru_attributes target))"

definition set_exempt_rule :: "bool \<Rightarrow> bool \<Rightarrow> unit routing" where
  "set_exempt_rule enable enable_ipv6 =
     (let rules = filter (\<lambda>r. ru_family r = AfInet \<or> enable_ipv6) [exempt_rule AfInet, exempt_rule AfInet6]
      in if enable then for_each new_rule rules
         else bindp get_rules (\<lambda>live.
           for_each (\<lambda>target. case List.find (\<lambda>f. exempt_covers f target) live of
               Some f \<Rightarrow> delete_rule_if_exists f
             | None \<Rightarrow> ret ()) rules))"

subsection \<open>Adding and deleting routes\<close>

definition RT_TABLE_COMPAT :: u8 where "RT_TABLE_COMPAT = 252"

definition compat_table_id :: "u32 \<Rightarrow> u8" where
  "compat_table_id i = (if 255 < i then RT_TABLE_COMPAT else ucast i)"

definition host_bits :: "ip_addr \<Rightarrow> nat" where
  "host_bits ip = (case ip of IPv4 _ \<Rightarrow> 32 | IPv6 _ \<Rightarrow> 128)"

definition prefix_scope :: "ip_network \<Rightarrow> route_scope" where
  "prefix_scope net = (if 0 < net_prefix net \<and> net_prefix net < host_bits (net_ip net) then ScopeLink else ScopeUniverse)"

definition find_iface_idx :: "(u32 \<times> network_interface) list \<Rightarrow> string \<Rightarrow> u32 option" where
  "find_iface_idx iface_map name = map_option fst (List.find (\<lambda>(_, iface). ni_name iface = name) iface_map)"

definition map_interface :: "link \<Rightarrow> (u32 \<times> network_interface) option" where
  "map_interface l =
     map_option (\<lambda>name. (ln_index l, \<lparr>ni_name = name, ni_loopback = ln_loopback l\<rparr>)) (ln_name l)"

text \<open>The map is ordered by the index, as a \<open>BTreeMap\<close> is.\<close>

definition iface_insert :: "u32 \<times> network_interface \<Rightarrow> (u32 \<times> network_interface) list \<Rightarrow> (u32 \<times> network_interface) list" where
  "iface_insert entry m = insort_key fst entry (filter (\<lambda>e. fst e \<noteq> fst entry) m)"

definition iface_remove :: "u32 \<Rightarrow> (u32 \<times> network_interface) list \<Rightarrow> (u32 \<times> network_interface) list" where
  "iface_remove idx m = filter (\<lambda>e. fst e \<noteq> idx) m"

definition link_map :: "link list \<Rightarrow> (u32 \<times> network_interface) list" where
  "link_map links = fold iface_insert (List.map_filter map_interface links) []"

definition initialize_link_map :: "(u32 \<times> network_interface) list routing" where
  "initialize_link_map = reply (\<lambda>w. link_map (rw_links w))"

definition find_iface_idx_or_refresh :: "string \<Rightarrow> u32 option routing" where
  "find_iface_idx_or_refresh name =
     bindp (asks (\<lambda>w. find_iface_idx (rw_iface_map w) name)) (\<lambda>idx.
       case idx of
         Some i \<Rightarrow> ret (Some i)
       | None \<Rightarrow>
           bindp (catchp (bindp initialize_link_map (\<lambda>m. ret (Some m))) (\<lambda>_. ret None)) (\<lambda>refreshed.
             case refreshed of
               None \<Rightarrow> ret None
             | Some m \<Rightarrow>
                 thenp (\<lambda>w. (Done (), w\<lparr>rw_iface_map := m\<rparr>)) (ret (find_iface_idx m name))))"

text \<open>
  What the kernel reads in a route message, and when two routes are the same for it: a replacing addition takes the
  place of the route with the same destination, table and metric.
\<close>

definition msg_destination :: "route_message \<Rightarrow> ip_addr option" where
  "msg_destination m =
     map_option (\<lambda>a. case a of AttrDestination (RouteIp ip) \<Rightarrow> ip)
       (List.find (\<lambda>a. case a of AttrDestination (RouteIp _) \<Rightarrow> True | _ \<Rightarrow> False) (rm_attributes m))"

definition msg_table :: "route_message \<Rightarrow> u32" where
  "msg_table m =
     (case List.find (\<lambda>a. case a of AttrTable _ \<Rightarrow> True | _ \<Rightarrow> False) (rm_attributes m) of
        Some (AttrTable i) \<Rightarrow> i
      | _ \<Rightarrow> ucast (rm_table m))"

definition msg_oif :: "route_message \<Rightarrow> u32 option" where
  "msg_oif m =
     map_option (\<lambda>a. case a of AttrOif i \<Rightarrow> i) (List.find (\<lambda>a. case a of AttrOif _ \<Rightarrow> True | _ \<Rightarrow> False) (rm_attributes m))"

definition msg_metric :: "route_message \<Rightarrow> u32" where
  "msg_metric m =
     (case List.find (\<lambda>a. case a of AttrPriority _ \<Rightarrow> True | _ \<Rightarrow> False) (rm_attributes m) of
        Some (AttrPriority i) \<Rightarrow> i
      | _ \<Rightarrow> 0)"

definition same_route :: "route_message \<Rightarrow> route_message \<Rightarrow> bool" where
  "same_route m n =
     (rm_family m = rm_family n \<and> rm_dst_len m = rm_dst_len n \<and> msg_destination m = msg_destination n
      \<and> msg_table m = msg_table n \<and> msg_metric m = msg_metric n)"

definition kernel_add :: "route_message \<Rightarrow> route_message list \<Rightarrow> route_message list" where
  "kernel_add m routes = filter (\<lambda>n. \<not> same_route m n) routes @ [m]"

definition del_matches :: "route_message \<Rightarrow> route_message \<Rightarrow> bool" where
  "del_matches del m =
     (rm_family del = rm_family m \<and> rm_dst_len del = rm_dst_len m \<and> msg_destination del = msg_destination m
      \<and> msg_table del = msg_table m \<and> (msg_metric del = 0 \<or> msg_metric del = msg_metric m)
      \<and> list_all (\<lambda>a. case a of AttrOif _ \<Rightarrow> a \<in> set (rm_attributes m)
          | AttrGateway _ \<Rightarrow> a \<in> set (rm_attributes m) | AttrVia _ \<Rightarrow> a \<in> set (rm_attributes m) | _ \<Rightarrow> True)
        (rm_attributes del))"

fun drop_first :: "('a \<Rightarrow> bool) \<Rightarrow> 'a list \<Rightarrow> 'a list" where
  "drop_first p [] = []"
| "drop_first p (x # xs) = (if p x then xs else x # drop_first p xs)"

definition route_base_message :: "route \<Rightarrow> route_attribute list \<Rightarrow> route_message" where
  "route_base_message r attrs =
     \<lparr>rm_family = Some (ip_family (net_ip (rt_prefix r))), rm_dst_len = net_prefix (rt_prefix r),
      rm_table = compat_table_id (rt_table_id r), rm_scope = prefix_scope (rt_prefix r),
      rm_attributes = AttrDestination (RouteIp (net_ip (rt_prefix r))) # attrs\<rparr>"

definition table_attribute :: "route \<Rightarrow> route_attribute list" where
  "table_attribute r = (if compat_table_id (rt_table_id r) = RT_TABLE_COMPAT then [AttrTable (rt_table_id r)] else [])"

definition optional_attribute :: "('a \<Rightarrow> route_attribute) \<Rightarrow> 'a option \<Rightarrow> route_attribute list" where
  "optional_attribute f x = (case x of None \<Rightarrow> [] | Some a \<Rightarrow> [f a])"

definition gateway_attribute :: "route \<Rightarrow> route_attribute list" where
  "gateway_attribute r =
     (case nd_ip (rt_node r) of
        Some gw \<Rightarrow> if ip_family gw = ip_family (net_ip (rt_prefix r)) then [AttrGateway (RouteIp gw)] else []
      | None \<Rightarrow> [])"

definition add_message :: "route \<Rightarrow> u32 option \<Rightarrow> route_message" where
  "add_message r idx =
     route_base_message r
       (gateway_attribute r
        @ optional_attribute AttrOif idx
        @ table_attribute r
        @ optional_attribute AttrPriority (rt_metric r)
        @ optional_attribute AttrMtu (rt_mtu r))"

text \<open>The kernel refuses a route that names neither a device nor a gateway.\<close>

definition ENODEV :: int where "ENODEV = 19"

definition add_route_direct :: "route \<Rightarrow> unit routing" where
  "add_route_direct r =
     bindp (case nd_device (rt_node r) of Some name \<Rightarrow> find_iface_idx_or_refresh name | None \<Rightarrow> ret None) (\<lambda>idx.
       if idx = None \<and> gateway_attribute r = [] then fail (Netlink (- ENODEV))
       else request (\<lambda>w. w\<lparr>rw_routes := kernel_add (add_message r idx) (rw_routes w)\<rparr>))"

definition add_route :: "route \<Rightarrow> unit routing" where
  "add_route r =
     thenp (add_route_direct r) (\<lambda>w. (Done (), w\<lparr>rw_added_routes := List.insert r (rw_added_routes w)\<rparr>))"

definition required_to_route :: "u32 \<Rightarrow> required_route \<Rightarrow> route" where
  "required_to_route table_id q =
     (route_table (if rq_main_table q then RT_TABLE_MAIN else table_id) (route_new (rq_node q) (rq_prefix q)))
       \<lparr>rt_mtu := map_option ucast (rq_mtu q)\<rparr>"

definition add_required_routes :: "required_route list \<Rightarrow> unit routing" where
  "add_required_routes required =
     bindp (asks (\<lambda>w. remdups (map (required_to_route (rw_table_id w)) required))) (for_each add_route)"

definition delete_message :: "(u32 \<times> network_interface) list \<Rightarrow> route \<Rightarrow> route_message" where
  "delete_message iface_map r =
     route_base_message r
       (table_attribute r
        @ (case nd_device (rt_node r) of
             None \<Rightarrow> []
           | Some name \<Rightarrow> optional_attribute AttrOif (find_iface_idx iface_map name))
        @ (case nd_ip (rt_node r) of
             None \<Rightarrow> []
           | Some gw \<Rightarrow> [if nd_device (rt_node r) \<noteq> None then AttrGateway (RouteIp gw) else AttrVia (RouteIp gw)])
        @ optional_attribute AttrPriority (rt_metric r))"

definition delete_route :: "route \<Rightarrow> unit routing" where
  "delete_route r =
     bindp (asks (\<lambda>w. delete_message (rw_iface_map w) r)) (\<lambda>m.
       request (\<lambda>w. w\<lparr>rw_routes := drop_first (del_matches m) (rw_routes w)\<rparr>))"

definition delete_route_if_exists :: "route \<Rightarrow> unit routing" where
  "delete_route_if_exists r = catchp (delete_route r) (\<lambda>e. if e = Netlink (- ESRCH) then ret () else fail e)"

definition cleanup_routes :: "unit routing" where
  "cleanup_routes =
     bindp (\<lambda>w. (Done (rw_added_routes w), w\<lparr>rw_added_routes := []\<rparr>))
       (for_each (\<lambda>r. ignore_result (delete_route_if_exists r)))"

subsection \<open>Reading routes\<close>

fun route_address_to_ip :: "route_address \<Rightarrow> route_error + ip_addr" where
  "route_address_to_ip (RouteIp ip) = Inr ip"
| "route_address_to_ip (RouteAddrOther other) = Inl (ConvertRouteAddrToIp other)"

fun route_via_to_ip :: "route_address \<Rightarrow> route_error + ip_addr" where
  "route_via_to_ip (RouteIp ip) = Inr ip"
| "route_via_to_ip (RouteAddrOther other) = Inl (ConvertRouteViaToIp other)"

definition network_new :: "ip_addr \<Rightarrow> nat \<Rightarrow> route_error + ip_network" where
  "network_new ip len = (if len \<le> host_bits ip then Inr (IpNetwork ip len) else Inl InvalidNetworkPrefix)"

fun unspecified :: "address_family \<Rightarrow> ip_addr" where
  "unspecified AfInet = IPv4 0"
| "unspecified AfInet6 = IPv6 0"

fun localhost :: "address_family \<Rightarrow> ip_addr" where
  "localhost AfInet = IPv4 0x7F000001"
| "localhost AfInet6 = IPv6 1"

text \<open>The variables of the attribute loop.\<close>

record parsed_route =
  pr_prefix :: ip_network
  pr_node_addr :: "ip_addr option"
  pr_device :: "network_interface option"
  pr_metric :: "u32 option"
  pr_gateway :: "ip_addr option"
  pr_table_id :: u32
  pr_mtu :: "u32 option"

fun parse_attribute ::
  "(u32 \<times> network_interface) list \<Rightarrow> address_family \<Rightarrow> nat \<Rightarrow> route_attribute \<Rightarrow> parsed_route \<Rightarrow> route_error + parsed_route" where
  "parse_attribute ifaces af len (AttrOif idx) p =
     (case map_of ifaces idx of
        None \<Rightarrow> Inl (UnknownDeviceIndex idx)
      | Some iface \<Rightarrow>
          Inr (if \<not> ni_loopback iface then p\<lparr>pr_device := Some iface\<rparr> else p\<lparr>pr_gateway := Some (localhost af)\<rparr>))"
| "parse_attribute ifaces af len (AttrVia addr) p =
     (case route_via_to_ip addr of Inl e \<Rightarrow> Inl e | Inr ip \<Rightarrow> Inr (p\<lparr>pr_node_addr := Some ip\<rparr>))"
| "parse_attribute ifaces af len (AttrDestination addr) p =
     (case route_address_to_ip addr of
        Inl e \<Rightarrow> Inl e
      | Inr ip \<Rightarrow> (case network_new ip len of Inl e \<Rightarrow> Inl e | Inr net \<Rightarrow> Inr (p\<lparr>pr_prefix := net\<rparr>)))"
| "parse_attribute ifaces af len (AttrGateway addr) p =
     (case route_address_to_ip addr of Inl e \<Rightarrow> Inl e | Inr ip \<Rightarrow> Inr (p\<lparr>pr_gateway := Some ip\<rparr>))"
| "parse_attribute ifaces af len (AttrPriority priority) p = Inr (p\<lparr>pr_metric := Some priority\<rparr>)"
| "parse_attribute ifaces af len (AttrTable i) p = Inr (p\<lparr>pr_table_id := i\<rparr>)"
| "parse_attribute ifaces af len (AttrMtu mtu) p = Inr (p\<lparr>pr_mtu := Some mtu\<rparr>)"
| "parse_attribute ifaces af len (AttrOther _) p = Inr p"

fun parse_attributes ::
  "(u32 \<times> network_interface) list \<Rightarrow> address_family \<Rightarrow> nat \<Rightarrow> route_attribute list \<Rightarrow> parsed_route \<Rightarrow> route_error + parsed_route" where
  "parse_attributes ifaces af len [] p = Inr p"
| "parse_attributes ifaces af len (a # as) p =
     (case parse_attribute ifaces af len a p of Inl e \<Rightarrow> Inl e | Inr p \<Rightarrow> parse_attributes ifaces af len as p)"

definition parsed_to_route :: "parsed_route \<Rightarrow> route_error + route" where
  "parsed_to_route p =
     (if pr_device p = None \<and> pr_node_addr p = None \<and> pr_gateway p = None then Inl InvalidRoute
      else Inr \<lparr>rt_node = \<lparr>nd_ip = (case pr_node_addr p of Some ip \<Rightarrow> Some ip | None \<Rightarrow> pr_gateway p),
                  nd_device = map_option ni_name (pr_device p)\<rparr>,
                rt_prefix = pr_prefix p, rt_metric = pr_metric p, rt_table_id = pr_table_id p, rt_mtu = pr_mtu p\<rparr>)"

definition parse_route_message :: "(u32 \<times> network_interface) list \<Rightarrow> route_message \<Rightarrow> route_error + route option" where
  "parse_route_message ifaces m =
     (case rm_family m of
        None \<Rightarrow> Inr None
      | Some af \<Rightarrow>
          (case network_new (unspecified af) (rm_dst_len m) of
             Inl e \<Rightarrow> Inl e
           | Inr net \<Rightarrow>
               (case parse_attributes ifaces af (rm_dst_len m) (rm_attributes m)
                       \<lparr>pr_prefix = net, pr_node_addr = None, pr_device = None, pr_metric = None, pr_gateway = None,
                        pr_table_id = ucast (rm_table m), pr_mtu = None\<rparr> of
                  Inl e \<Rightarrow> Inl e
                | Inr p \<Rightarrow> (case parsed_to_route p of Inl e \<Rightarrow> Inl e | Inr r \<Rightarrow> Inr (Some r)))))"

subsection \<open>How the kernel routes a packet\<close>

text \<open>
  The routing decision the rules and routes stand for: the rules by ascending priority; a rule that selects the
  packet looks its table up by the longest prefix, then the smallest metric; a suppressed or missing result goes on
  to the next rule.
\<close>

fun rule_priority :: "rule_attribute list \<Rightarrow> u32" where
  "rule_priority [] = 0"
| "rule_priority (RulePriority p # as) = p"
| "rule_priority (_ # as) = rule_priority as"

fun rule_table :: "rule_attribute list \<Rightarrow> u32 option" where
  "rule_table [] = None"
| "rule_table (RuleTable i # as) = Some i"
| "rule_table (_ # as) = rule_table as"

fun rule_fwmark :: "rule_attribute list \<Rightarrow> u32 option" where
  "rule_fwmark [] = None"
| "rule_fwmark (RuleFwMark i # as) = Some i"
| "rule_fwmark (_ # as) = rule_fwmark as"

fun rule_suppress :: "rule_attribute list \<Rightarrow> u32 option" where
  "rule_suppress [] = None"
| "rule_suppress (RuleSuppressPrefixLen i # as) = Some i"
| "rule_suppress (_ # as) = rule_suppress as"

definition priority_of :: "rule_message \<Rightarrow> u32" where
  "priority_of r = rule_priority (ru_attributes r)"

definition rule_selects :: "rule_message \<Rightarrow> u32 \<Rightarrow> ip_addr \<Rightarrow> bool" where
  "rule_selects r mark dst =
     (ru_to_table r \<and> ru_family r = ip_family dst
      \<and> (case rule_fwmark (ru_attributes r) of
           None \<Rightarrow> \<not> ru_invert r
         | Some m \<Rightarrow> (mark = m) \<noteq> ru_invert r))"

definition msg_network :: "route_message \<Rightarrow> ip_network option" where
  "msg_network m =
     (case rm_family m of
        None \<Rightarrow> None
      | Some af \<Rightarrow> Some (IpNetwork (case msg_destination m of Some ip \<Rightarrow> ip | None \<Rightarrow> unspecified af) (rm_dst_len m)))"

definition route_serves :: "u32 \<Rightarrow> ip_addr \<Rightarrow> route_message \<Rightarrow> bool" where
  "route_serves table dst m =
     (msg_table m = table \<and> rm_family m = Some (ip_family dst)
      \<and> (case msg_network m of None \<Rightarrow> False | Some net \<Rightarrow> cidr_contains net dst))"

definition route_preferred :: "route_message \<Rightarrow> route_message \<Rightarrow> bool" where
  "route_preferred m n = (rm_dst_len n < rm_dst_len m \<or> rm_dst_len m = rm_dst_len n \<and> msg_metric m < msg_metric n)"

fun best_route :: "route_message list \<Rightarrow> route_message option" where
  "best_route [] = None"
| "best_route (m # ms) =
     (case best_route ms of None \<Rightarrow> Some m | Some n \<Rightarrow> Some (if route_preferred n m then n else m))"

definition table_lookup :: "route_message list \<Rightarrow> u32 \<Rightarrow> ip_addr \<Rightarrow> route_message option" where
  "table_lookup routes table dst = best_route (filter (route_serves table dst) routes)"

definition rule_result ::
  "route_message list \<Rightarrow> u32 \<Rightarrow> ip_addr \<Rightarrow> rule_message \<Rightarrow> route_message option" where
  "rule_result routes mark dst r =
     (if \<not> rule_selects r mark dst then None
      else case rule_table (ru_attributes r) of
             None \<Rightarrow> None
           | Some table \<Rightarrow>
               (case table_lookup routes table dst of
                  None \<Rightarrow> None
                | Some m \<Rightarrow>
                    (case rule_suppress (ru_attributes r) of
                       Some len \<Rightarrow> if rm_dst_len m \<le> unat len then None else Some m
                     | None \<Rightarrow> Some m)))"

fun first_result :: "('a \<Rightarrow> 'b option) \<Rightarrow> 'a list \<Rightarrow> 'b option" where
  "first_result f [] = None"
| "first_result f (x # xs) = (case f x of None \<Rightarrow> first_result f xs | Some y \<Rightarrow> Some y)"

definition kernel_route ::
  "rule_message list \<Rightarrow> route_message list \<Rightarrow> u32 \<Rightarrow> ip_addr \<Rightarrow> route_message option" where
  "kernel_route rules routes mark dst =
     first_result (rule_result routes mark dst) (sort_key priority_of rules)"

subsection \<open>Questions to the route manager\<close>

definition get_destination_route ::
  "ip_addr \<Rightarrow> u32 option \<Rightarrow> route option routing" where
  "get_destination_route destination fwmark w =
     (case request (\<lambda>w. w) w of
        (Crashed, w) \<Rightarrow> (Crashed, w)
      | (Failed (Netlink code), w) \<Rightarrow> (if code = - ENETUNREACH then Done None else Failed (GetRoute code), w)
      | (Failed e, w) \<Rightarrow> (Failed e, w)
      | (Done _, w) \<Rightarrow>
          (case kernel_route (rw_rules w) (rw_routes w) (case fwmark of Some mark \<Rightarrow> mark | None \<Rightarrow> 0) destination of
             None \<Rightarrow> (Done None, w)
           | Some m \<Rightarrow>
               (case parse_route_message (rw_iface_map w) m of Inl e \<Rightarrow> (Failed e, w) | Inr r \<Rightarrow> (Done r, w))))"

text \<open>An MTU that does not fit 16 bits is a panic of the manager.\<close>

definition get_device_mtu :: "string \<Rightarrow> u16 routing" where
  "get_device_mtu device w =
     (case request (\<lambda>w. w) w of
        (Crashed, w) \<Rightarrow> (Crashed, w)
      | (Failed _, w) \<Rightarrow> (Failed LinkNotFound, w)
      | (Done _, w) \<Rightarrow>
          (case List.find (\<lambda>l. ln_name l = Some device \<and> ln_mtu l \<noteq> None) (rw_links w) of
             None \<Rightarrow> (Failed LinkNotFound, w)
           | Some l \<Rightarrow> (let mtu = the (ln_mtu l) in (if mtu < 2 ^ 16 then Done (ucast mtu) else Crashed, w))))"

definition RECURSION_LIMIT :: nat where "RECURSION_LIMIT = 10"

fun mtu_attempts :: "nat \<Rightarrow> ip_addr \<Rightarrow> u16 routing" where
  "mtu_attempts 0 ip = fail NoRoute"
| "mtu_attempts (Suc n) ip =
     bindp (\<lambda>w. get_destination_route ip (Some (rw_fwmark w)) w) (\<lambda>r.
       case r of
         None \<Rightarrow> fail NoRoute
       | Some r \<Rightarrow>
           (case (nd_device (rt_node r), nd_ip (rt_node r)) of
              (Some device, _) \<Rightarrow> get_device_mtu device
            | (None, Some address) \<Rightarrow> mtu_attempts n address
            | (None, None) \<Rightarrow> fail InvalidRouteNode))"

definition get_mtu_for_route :: "ip_addr \<Rightarrow> u16 routing" where
  "get_mtu_for_route ip = mtu_attempts RECURSION_LIMIT ip"

subsection \<open>The manager\<close>

datatype callback_message = CallbackNewRoute route | CallbackDelRoute route

datatype route_netlink_message = NewLink link | DelLink link | NewRoute route_message | DelRoute route_message | OtherMessage

text \<open>A message the kernel sends on its own. The callbacks are what the listeners receive; a message that does
  not parse is logged.\<close>

fun process_netlink_message :: "route_netlink_message \<Rightarrow> route_world \<Rightarrow> callback_message list \<times> route_world" where
  "process_netlink_message (NewLink l) w =
     (case map_interface l of
        None \<Rightarrow> ([], w)
      | Some entry \<Rightarrow> ([], w\<lparr>rw_iface_map := iface_insert entry (rw_iface_map w)\<rparr>))"
| "process_netlink_message (DelLink l) w =
     (case map_interface l of
        None \<Rightarrow> ([], w)
      | Some (idx, _) \<Rightarrow> ([], w\<lparr>rw_iface_map := iface_remove idx (rw_iface_map w)\<rparr>))"
| "process_netlink_message (NewRoute m) w =
     (case parse_route_message (rw_iface_map w) m of
        Inr (Some addition) \<Rightarrow> ([CallbackNewRoute addition], w)
      | _ \<Rightarrow> ([], w))"
| "process_netlink_message (DelRoute m) w =
     (case parse_route_message (rw_iface_map w) m of
        Inr (Some deletion) \<Rightarrow>
          ([CallbackDelRoute deletion], w\<lparr>rw_added_routes := removeAll deletion (rw_added_routes w)\<rparr>)
      | _ \<Rightarrow> ([], w))"
| "process_netlink_message OtherMessage w = ([], w)"

definition route_manager_new :: "u32 \<Rightarrow> u32 \<Rightarrow> unit routing" where
  "route_manager_new table_id fwmark =
     bindp initialize_link_map (\<lambda>m.
     thenp (\<lambda>w. (Done (), w\<lparr>rw_iface_map := m, rw_added_routes := [], rw_table_id := table_id, rw_fwmark := fwmark\<rparr>))
       clear_routing_rules)"

definition destructor :: "unit routing" where
  "destructor = thenp cleanup_routes (ignore_result clear_routing_rules)"

text \<open>The commands; what the sender is told of the outcome is dropped, as the manager itself drops it.\<close>

datatype route_manager_command =
  AddRoutesCommand "required_route list" | ClearRoutes | ShutdownCommand | CreateRoutingRules bool bool | SetExemptRule bool bool
| ClearRoutingRules | NewChangeListener | GetDestinationRoute ip_addr "u32 option" | GetMtuForRoute ip_addr

definition process_command :: "route_manager_command option \<Rightarrow> unit routing" where
  "process_command command =
     (case command of
        None \<Rightarrow> thenp destructor (fail RouteShutdown)
      | Some ShutdownCommand \<Rightarrow> thenp destructor (fail RouteShutdown)
      | Some (AddRoutesCommand routes) \<Rightarrow> ignore_result (add_required_routes routes)
      | Some (CreateRoutingRules enable_ipv6 enable_exempt) \<Rightarrow> ignore_result (create_routing_rules enable_ipv6 enable_exempt)
      | Some (SetExemptRule enable enable_ipv6) \<Rightarrow> ignore_result (set_exempt_rule enable enable_ipv6)
      | Some ClearRoutingRules \<Rightarrow> ignore_result clear_routing_rules
      | Some NewChangeListener \<Rightarrow> ret ()
      | Some (GetDestinationRoute destination mark) \<Rightarrow> ignore_result (get_destination_route destination mark)
      | Some (GetMtuForRoute ip) \<Rightarrow> ignore_result (get_mtu_for_route ip)
      | Some ClearRoutes \<Rightarrow> cleanup_routes)"

subsection \<open>The route handler\<close>

datatype routing_config =
  MixnetRouting string u16
| WireguardRouting string string u16 u16 ip_addr ip_addr

record routing_parameters =
  rp_table_id :: u32
  rp_fwmark :: u32

definition TUNNEL_TABLE_ID :: u32 where "TUNNEL_TABLE_ID = 0x14d"

definition routing_parameters_default :: routing_parameters where
  "routing_parameters_default = \<lparr>rp_table_id = TUNNEL_TABLE_ID, rp_fwmark = TUNNEL_FWMARK\<rparr>"

definition route_handler_new :: "routing_parameters \<Rightarrow> unit routing" where
  "route_handler_new p = route_manager_new (rp_table_id p) (rp_fwmark p)"

definition host_network :: "ip_addr \<Rightarrow> ip_network" where
  "host_network ip = IpNetwork ip (host_bits ip)"

definition get_in_tunnel_gateway_entry_route :: "ip_addr \<Rightarrow> string \<Rightarrow> u16 \<Rightarrow> required_route" where
  "get_in_tunnel_gateway_entry_route addr iface mtu =
     with_mtu mtu (use_main_table False (required_route_new (host_network addr) (node_device iface)))"

definition get_multihop_exit_route :: "ip_addr \<Rightarrow> string \<Rightarrow> u16 \<Rightarrow> required_route" where
  "get_multihop_exit_route addr iface mtu =
     with_mtu mtu (use_main_table False (required_route_new (host_network addr) (node_device iface)))"

definition get_default_routes :: "string \<Rightarrow> u16 \<Rightarrow> bool \<Rightarrow> required_route list" where
  "get_default_routes iface mtu enable_ipv6 =
     map (with_mtu mtu) (map (use_main_table False)
       (required_route_new (IpNetwork (IPv4 0) 0) (node_device iface)
        # (if enable_ipv6 then [required_route_new (IpNetwork (IPv6 0) 0) (node_device iface)] else [])))"

fun get_routes :: "routing_config \<Rightarrow> bool \<Rightarrow> bool \<Rightarrow> required_route list" where
  "get_routes (MixnetRouting tun mtu) enable_ipv6 legacy_split_tunnel =
     (if legacy_split_tunnel then [] else get_default_routes tun mtu enable_ipv6)"
| "get_routes (WireguardRouting entry_tun exit_tun entry_mtu exit_mtu private_entry exit_gateway) enable_ipv6 legacy_split_tunnel =
     [get_in_tunnel_gateway_entry_route private_entry entry_tun entry_mtu, get_multihop_exit_route exit_gateway entry_tun entry_mtu]
     @ (if legacy_split_tunnel then [] else get_default_routes exit_tun exit_mtu enable_ipv6)"

definition add_routes :: "routing_config \<Rightarrow> bool \<Rightarrow> bool \<Rightarrow> unit routing" where
  "add_routes config enable_ipv6 legacy_split_tunnel =
     thenp (create_routing_rules enable_ipv6 True)
       (add_required_routes (get_routes config enable_ipv6 legacy_split_tunnel))"

definition remove_routes :: "unit routing" where
  "remove_routes = thenp (ignore_result cleanup_routes) (ignore_result clear_routing_rules)"

subsection \<open>The offline monitor\<close>

datatype connectivity = ConnectivityStatus bool bool | PresumeOnline

fun is_offline :: "connectivity \<Rightarrow> bool" where
  "is_offline (ConnectivityStatus v4 v6) = (\<not> v4 \<and> \<not> v6)"
| "is_offline PresumeOnline = False"

definition PUBLIC_INTERNET_ADDRESS_V4 :: ip_addr where "PUBLIC_INTERNET_ADDRESS_V4 = ipv4 1 1 1 1"

definition PUBLIC_INTERNET_ADDRESS_V6 :: ip_addr where
  "PUBLIC_INTERNET_ADDRESS_V6 = ipv6_of_segments [0x2606, 0x4700, 0x4700, 0x0, 0x0, 0x0, 0x0, 0x1111]"

text \<open>A manager that is down answers both questions with an error.\<close>

definition check_connectivity :: "u32 option \<Rightarrow> route_world \<Rightarrow> connectivity" where
  "check_connectivity fwmark w =
     (case get_destination_route PUBLIC_INTERNET_ADDRESS_V4 fwmark w of
        (v4, w) \<Rightarrow>
          (case get_destination_route PUBLIC_INTERNET_ADDRESS_V6 fwmark w of
             (v6, w) \<Rightarrow>
               (case (v4, v6) of
                  (Done r4, Done r6) \<Rightarrow> ConnectivityStatus (r4 \<noteq> None) (r6 \<noteq> None)
                | (Done r4, _) \<Rightarrow> ConnectivityStatus (r4 \<noteq> None) False
                | _ \<Rightarrow> PresumeOnline)))"

text \<open>The loop: one check per route change, a report when the verdict changed.\<close>

fun offline_loop :: "connectivity \<Rightarrow> connectivity list \<Rightarrow> connectivity list" where
  "offline_loop last_verdict [] = []"
| "offline_loop last_verdict (c # cs) =
     (if c \<noteq> last_verdict then c # offline_loop c cs else offline_loop last_verdict cs)"

end
