(* ===== verification/Tunnel_Monitor.thy ===== *)
theory Tunnel_Monitor
  imports Tunnel_Machine Connection_Monitor Bandwidth Routing
begin

text \<open>
  The tunnel monitor (\<open>nym-vpn-lib/src/tunnel_state_machine/tunnel_monitor.rs\<close>): one connection attempt from the
  account check to the end of the session, with the account wait of
  \<open>nym-vpn-account-controller/src/state_receiver.rs\<close>, the parallel registration of \<open>lp_registration.rs\<close>, the
  WireGuard configuration of \<open>wg_config.rs\<close> and \<open>tunnel/wireguard\<close>, the bridge of \<open>tunnel/transports\<close>, and the
  reasons \<open>mod.rs\<close> gives for an error. A run writes down what it does step by step: the events it sends to the
  state machine, the devices, routes and tunnels it sets up. What other crates and the network answer is a
  record of answers; routes are added to the kernel of the route manager.
\<close>

subsection \<open>The account\<close>

datatype account_error_state_reason =
  StorageFailure string string
| ApiFailure string string
| InternalFailure string string
| AccountBandwidthExceeded string
| AccountStatusNotActive string
| SubscriptionInactive
| MaxDeviceReached
| DeviceTimeDesynced

fun is_retryable :: "account_error_state_reason \<Rightarrow> bool" where
  "is_retryable (ApiFailure _ _) = True"
| "is_retryable (InternalFailure _ _) = True"
| "is_retryable _ = False"

datatype account_controller_state =
  AccountOffline | Syncing | LoggedOut | RequestingZkNyms | ReadyToConnect | Decentralised | UpgradeMode
| AccountInError account_error_state_reason

datatype account_controller_error =
  ControllerOffline | NoAccountStored | ControllerInternal string | ErrorState account_error_state_reason

text \<open>
  What the receiver sees when it looks: a state and whether the account was validated recently, or that the sender
  is gone. \<open>None\<close> is a wait that has not ended.
\<close>

datatype account_observation = SeesState account_controller_state bool | SenderGone

fun wait_for_account_ready_to_connect :: "account_observation list \<Rightarrow> (account_controller_error + unit) option" where
  "wait_for_account_ready_to_connect [] = None"
| "wait_for_account_ready_to_connect (SenderGone # _) =
     Some (Inl (ControllerInternal ''Account controller state receiver has closed''))"
| "wait_for_account_ready_to_connect (SeesState st recently_validated # later) =
     (case st of
        AccountOffline \<Rightarrow> Some (Inl ControllerOffline)
      | LoggedOut \<Rightarrow> Some (Inl NoAccountStored)
      | AccountInError reason \<Rightarrow> Some (Inl (ErrorState reason))
      | Syncing \<Rightarrow> if recently_validated then Some (Inr ()) else wait_for_account_ready_to_connect later
      | RequestingZkNyms \<Rightarrow> if recently_validated then Some (Inr ()) else wait_for_account_ready_to_connect later
      | _ \<Rightarrow> Some (Inr ()))"

subsection \<open>Errors\<close>

text \<open>Of the registration client's errors the ones the code names.\<close>

datatype registration_error =
  EntryGatewayRegisterLp node_identity
| ExitGatewayRegisterLp node_identity
| WireguardExitRegistration
| WireguardEntryRegistrationCredentialSent
| WireguardExitRegistrationCredentialSent
| LpRegistrationNotPossible node_identity
| RegistrationCancelled
| RegistrationTimeout
| OtherRegistrationError string

datatype transport_error =
  Quic string | QuicProto string | SocketIo string | TransportConfig string | TransportCancelled | TimedOut | OtherTransport string

datatype tunnel_error =
  SelectGateways select_error
| MixnetClient string
| NoIpAddressAnnounced node_identity
| BandwidthControllerFailed bandwidth_error
| RegistrationClient registration_error
| WireguardFailed string
| DupFd string
| Transport transport_error
| TunnelCancelled

datatype account_error = AccountCancelled | AccountCommand string | ControllerState account_controller_error

datatype monitor_error =
  CreateRouteHandler
| CreateDnsHandler
| CreateFirewall
| SetFirewallPolicyFailed
| ResolveApiHostnames
| ResolveApiHostnamesTimeout
| CreateTunDevice string
| GetRouteHandle string
| GetTunDeviceName string
| GetInterfaceIpSender
| SetTunDeviceIpv6Addr string
| AddRoutes "route_error option"
| SetDnsFailed
| TunnelFailed tunnel_error
| AccountFailed account_error
| Ipv6Disabled
| WireguardKeyDb string
| GatewayDirectoryClient string
| CreateIcmpProbe string
| CreateTcpProbe string
| ProbeRequiresIPv4Addr

fun account_error_state_reason_of :: "account_error \<Rightarrow> error_state_reason option" where
  "account_error_state_reason_of (AccountCommand e) = Some (Internal e)"
| "account_error_state_reason_of AccountCancelled = None"
| "account_error_state_reason_of (ControllerState e) =
     (case e of
        ControllerOffline \<Rightarrow> None
      | NoAccountStored \<Rightarrow> Some DeviceLoggedOut
      | ControllerInternal text \<Rightarrow> Some (Internal text)
      | ErrorState (AccountStatusNotActive _) \<Rightarrow> Some InactiveAccount
      | ErrorState (AccountBandwidthExceeded _) \<Rightarrow> Some BandwidthExceeded
      | ErrorState SubscriptionInactive \<Rightarrow> Some InactiveSubscription
      | ErrorState MaxDeviceReached \<Rightarrow> Some MaxDevicesReached
      | ErrorState DeviceTimeDesynced \<Rightarrow> Some DeviceTimeOutOfSync
      | ErrorState (InternalFailure ctx details) \<Rightarrow>
          Some (Internal (''Internal account controller error: '' @ ctx @ '' '' @ details))
      | ErrorState (StorageFailure ctx details) \<Rightarrow>
          Some (Internal (''Failed to initialize account storage: '' @ ctx @ '' '' @ details))
      | ErrorState (ApiFailure ctx details) \<Rightarrow> Some (Internal (''Account API failure: '' @ ctx @ '' '' @ details)))"

definition select_error_state_reason :: "select_error \<Rightarrow> error_state_reason option" where
  "select_error_state_reason e =
     (case e of
        SameEntryAndExitGateway _ \<Rightarrow> Some SameEntryAndExit
      | NeedsRelaxedIndependenceCriteria _ \<Rightarrow> Some NeedsRelaxedIndependence
      | EntryGatewayUnavailable _ \<Rightarrow> Some PerformantEntryGatewayUnavailable
      | ExitGatewayUnavailable _ \<Rightarrow> Some PerformantExitGatewayUnavailable
      | SelectEntryGateway source \<Rightarrow>
          (case source of
             NoMatchingEntryGatewayForLocation _ _ \<Rightarrow> Some InvalidEntryGatewayCountry
           | NoMatchingGateway _ \<Rightarrow> Some InvalidEntryGatewayIdentity
           | _ \<Rightarrow> None)
      | SelectExitGateway source \<Rightarrow>
          (case source of
             NoMatchingExitGatewayForLocation _ _ \<Rightarrow> Some InvalidExitGatewayCountry
           | NoMatchingGateway _ \<Rightarrow> Some InvalidExitGatewayIdentity
           | _ \<Rightarrow> None)
      | _ \<Rightarrow> None)"

fun tunnel_error_state_reason :: "tunnel_error \<Rightarrow> error_state_reason option" where
  "tunnel_error_state_reason (SelectGateways e) = select_error_state_reason e"
| "tunnel_error_state_reason (BandwidthControllerFailed e) =
     (case e of
        EntryGatewayError err \<Rightarrow> if is_no_retry err then Some CredentialWastedOnEntryGateway else None
      | ExitGatewayError err \<Rightarrow> if is_no_retry err then Some CredentialWastedOnExitGateway else None
      | _ \<Rightarrow> None)"
| "tunnel_error_state_reason (RegistrationClient e) =
     (case e of
        WireguardEntryRegistrationCredentialSent \<Rightarrow> Some CredentialWastedOnEntryGateway
      | WireguardExitRegistrationCredentialSent \<Rightarrow> Some CredentialWastedOnExitGateway
      | _ \<Rightarrow> None)"
| "tunnel_error_state_reason (DupFd _) = Some (Internal ''Failed to dup tunnel fd'')"
| "tunnel_error_state_reason (NoIpAddressAnnounced _) = None"
| "tunnel_error_state_reason (MixnetClient _) = None"
| "tunnel_error_state_reason (WireguardFailed _) = None"
| "tunnel_error_state_reason TunnelCancelled = None"
| "tunnel_error_state_reason (Transport _) = None"

fun error_state_reason_of :: "monitor_error \<Rightarrow> error_state_reason option" where
  "error_state_reason_of CreateRouteHandler = None"
| "error_state_reason_of CreateDnsHandler = None"
| "error_state_reason_of CreateFirewall = None"
| "error_state_reason_of (AddRoutes _) = Some SetRouting"
| "error_state_reason_of SetDnsFailed = Some SetDns"
| "error_state_reason_of SetFirewallPolicyFailed = Some SetFirewallPolicy"
| "error_state_reason_of (CreateTunDevice _) = Some TunDevice"
| "error_state_reason_of (SetTunDeviceIpv6Addr _) = Some TunDevice"
| "error_state_reason_of (GetTunDeviceName _) = Some TunDevice"
| "error_state_reason_of GetInterfaceIpSender = Some (Internal ''failed to get the interface IP sender'')"
| "error_state_reason_of ResolveApiHostnames = None"
| "error_state_reason_of ResolveApiHostnamesTimeout = None"
| "error_state_reason_of (TunnelFailed e) = tunnel_error_state_reason e"
| "error_state_reason_of (GetRouteHandle e) = Some (Internal e)"
| "error_state_reason_of (AccountFailed e) = account_error_state_reason_of e"
| "error_state_reason_of Ipv6Disabled = Some Ipv6Unavailable"
| "error_state_reason_of (WireguardKeyDb e) = Some (Internal e)"
| "error_state_reason_of (GatewayDirectoryClient e) = Some (Internal e)"
| "error_state_reason_of (CreateIcmpProbe e) = Some (Internal e)"
| "error_state_reason_of (CreateTcpProbe e) = Some (Internal e)"
| "error_state_reason_of ProbeRequiresIPv4Addr =
     Some (Internal ''failed to configure probe due to missing IPv4 interface address'')"

subsection \<open>WireGuard configuration\<close>

definition ETHERNET_V2_MTU :: u16 where "ETHERNET_V2_MTU = 1500"
definition WG_TUNNEL_OVERHEAD :: u16 where "WG_TUNNEL_OVERHEAD = 80"
definition ENTRY_MTU :: u16 where "ENTRY_MTU = ETHERNET_V2_MTU - WG_TUNNEL_OVERHEAD"
definition EXIT_MTU :: u16 where "EXIT_MTU = ETHERNET_V2_MTU - WG_TUNNEL_OVERHEAD * 2"

text \<open>What a gateway assigns at registration (\<open>WireguardConfiguration\<close> of another crate).\<close>

record wireguard_configuration =
  wc_public_key :: string
  wc_psk :: "string option"
  wc_endpoint :: socket_addr
  wc_private_ipv4 :: "32 word"
  wc_private_ipv6 :: "128 word"

record bridge_address =
  ba_listen_addr :: socket_addr
  ba_remote_addr :: socket_addr

record wg_session =
  wg_entry_bridge_addr :: "bridge_address option"
  wg_entry :: wireguard_configuration
  wg_exit :: wireguard_configuration
  wg_lewes_protocol :: bool

definition effective_entry_endpoint :: "wg_session \<Rightarrow> socket_addr" where
  "effective_entry_endpoint d =
     (case wg_entry_bridge_addr d of Some addr \<Rightarrow> ba_listen_addr addr | None \<Rightarrow> wc_endpoint (wg_entry d))"

definition effective_remote_entry_endpoint :: "wg_session \<Rightarrow> socket_addr" where
  "effective_remote_entry_endpoint d =
     (case wg_entry_bridge_addr d of Some addr \<Rightarrow> ba_remote_addr addr | None \<Rightarrow> wc_endpoint (wg_entry d))"

datatype allowed_ips = AllIps | SpecificIps "ip_network list"

record wg_node_config =
  wn_private_key :: key_pair
  wn_addresses :: "ip_network list"
  wn_dns :: "ip_addr list"
  wn_mtu :: u16
  wn_fwmark :: "u32 option"
  wn_amnezia :: bool
  wn_public_key :: string
  wn_preshared_key :: "string option"
  wn_endpoint :: socket_addr
  wn_allowed_ips :: allowed_ips

definition with_gateway_data ::
  "wireguard_configuration \<Rightarrow> socket_addr \<Rightarrow> key_pair \<Rightarrow> allowed_ips \<Rightarrow> ip_addr list \<Rightarrow> u16 \<Rightarrow> bool \<Rightarrow> u32 option \<Rightarrow> wg_node_config" where
  "with_gateway_data gateway_data endpoint private_key allowed dns mtu enable_ipv6 fwmark =
     \<lparr>wn_private_key = private_key,
      wn_addresses = host_network (IPv4 (wc_private_ipv4 gateway_data))
        # (if enable_ipv6 then [host_network (IPv6 (wc_private_ipv6 gateway_data))] else []),
      wn_dns = dns, wn_mtu = mtu, wn_fwmark = fwmark, wn_amnezia = False,
      wn_public_key = wc_public_key gateway_data, wn_preshared_key = wc_psk gateway_data, wn_endpoint = endpoint,
      wn_allowed_ips = allowed\<rparr>"

definition wg_allowed_ips :: "wg_node_config \<Rightarrow> ip_network list" where
  "wg_allowed_ips c =
     (case wn_allowed_ips c of
        AllIps \<Rightarrow>
          (if list_ex (\<lambda>net. is_v4 (net_ip net)) (wn_addresses c) then [IpNetwork (IPv4 0) 0] else [])
          @ (if list_ex (\<lambda>net. \<not> is_v4 (net_ip net)) (wn_addresses c) then [IpNetwork (IPv6 0) 0] else [])
      | SpecificIps ips \<Rightarrow> ips)"

record tunnel_constants =
  tk_private_entry_gateway_address :: ip_addr
  tk_bandwidth_metadata_endpoint :: socket_addr
  tk_fwmark :: u32

text \<open>The in-tunnel address and port of the gateways are constants of another crate.\<close>

definition tunnel_constants_default :: "32 word \<Rightarrow> u16 \<Rightarrow> tunnel_constants" where
  "tunnel_constants_default device_ip metadata_port =
     \<lparr>tk_private_entry_gateway_address = IPv4 device_ip,
      tk_bandwidth_metadata_endpoint = (IPv4 device_ip, metadata_port),
      tk_fwmark = TUNNEL_FWMARK\<rparr>"

definition wg_entry_config :: "tunnel_constants \<Rightarrow> wg_session \<Rightarrow> key_pair \<Rightarrow> ip_addr list \<Rightarrow> bool \<Rightarrow> wg_node_config" where
  "wg_entry_config constants d entry_keys dns entry_amnezia =
     (let config = with_gateway_data (wg_entry d) (effective_entry_endpoint d) entry_keys
        (SpecificIps [host_network (fst (wc_endpoint (wg_exit d))), host_network (fst (tk_bandwidth_metadata_endpoint constants))])
        dns ENTRY_MTU True (Some (tk_fwmark constants))
      in if entry_amnezia then config\<lparr>wn_amnezia := True\<rparr> else config)"

definition wg_exit_config :: "wg_session \<Rightarrow> key_pair \<Rightarrow> ip_addr list \<Rightarrow> wg_node_config" where
  "wg_exit_config d exit_keys dns =
     with_gateway_data (wg_exit d) (wc_endpoint (wg_exit d)) exit_keys AllIps dns EXIT_MTU True None"

subsection \<open>Registration\<close>

text \<open>
  A node to register with. The keys a gateway announces for the Lewes protocol are opaque; reading them, the
  ciphersuite of a version and the signature check belong to other crates.
\<close>

record registration_node =
  rn_identity :: node_identity
  rn_ipr_address :: "recipient option"
  rn_authenticator_address :: "string option"
  rn_ip_address :: ip_addr
  rn_version :: "string option"
  rn_lp_data :: "(socket_addr \<times> string) option"
  rn_keys :: key_pair

record registration_request =
  rr_entry :: registration_node
  rr_exit :: registration_node
  rr_mode :: tunnel_type

record mixnet_registration =
  mr_entry_ip :: ip_addr
  mr_exit_ip :: ip_addr
  mr_ipv4 :: "32 word"
  mr_ipv6 :: "128 word"

text \<open>A WireGuard registration over the old path keeps authenticator clients, one over the Lewes protocol has none.\<close>

record wireguard_registration =
  wr_entry :: wireguard_configuration
  wr_exit :: wireguard_configuration
  wr_lewes_protocol :: bool

datatype registration_result = MixnetRegistered mixnet_registration | WireguardRegistered wireguard_registration

text \<open>
  How the two legs of a parallel registration end. The legs run at once; when both fail the one that fails first
  is reported, and a leg still running is dropped. \<open>la_stopped\<close> is a timeout or a cancellation before the end.
\<close>

record lp_answers =
  la_stopped :: "registration_error option"
  la_forwarding_handshake :: bool
  la_exit_registration :: "wireguard_configuration option"
  la_entry_handshake :: bool
  la_entry_registration :: "wireguard_configuration option"
  la_exit_leg_first :: bool

definition lp_data :: "registration_node \<Rightarrow> registration_error + (socket_addr \<times> string)" where
  "lp_data node =
     (case rn_lp_data node of Some d \<Rightarrow> Inr d | None \<Rightarrow> Inl (LpRegistrationNotPossible (rn_identity node)))"

definition exit_leg :: "registration_request \<Rightarrow> lp_answers \<Rightarrow> registration_error + wireguard_configuration" where
  "exit_leg req answers =
     (if \<not> la_forwarding_handshake answers then Inl (EntryGatewayRegisterLp (rn_identity (rr_entry req)))
      else case la_exit_registration answers of
             Some gateway_data \<Rightarrow> Inr gateway_data
           | None \<Rightarrow> Inl (ExitGatewayRegisterLp (rn_identity (rr_exit req))))"

definition entry_leg :: "registration_request \<Rightarrow> lp_answers \<Rightarrow> registration_error + wireguard_configuration" where
  "entry_leg req answers =
     (if \<not> la_entry_handshake answers then Inl (EntryGatewayRegisterLp (rn_identity (rr_entry req)))
      else case la_entry_registration answers of
             Some gateway_data \<Rightarrow> Inr gateway_data
           | None \<Rightarrow> Inl (EntryGatewayRegisterLp (rn_identity (rr_entry req))))"

definition try_join :: "bool \<Rightarrow> 'e + 'a \<Rightarrow> 'e + 'b \<Rightarrow> 'e + 'a \<times> 'b" where
  "try_join first_wins a b =
     (case (a, b) of
        (Inr x, Inr y) \<Rightarrow> Inr (x, y)
      | (Inl e, Inr _) \<Rightarrow> Inl e
      | (Inr _, Inl e) \<Rightarrow> Inl e
      | (Inl e, Inl f) \<Rightarrow> Inl (if first_wins then e else f))"

definition register_wg :: "registration_request \<Rightarrow> lp_answers \<Rightarrow> registration_error + registration_result" where
  "register_wg req answers =
     (case lp_data (rr_entry req) of
        Inl e \<Rightarrow> Inl e
      | Inr _ \<Rightarrow>
          (case lp_data (rr_exit req) of
             Inl e \<Rightarrow> Inl e
           | Inr _ \<Rightarrow>
               (case try_join (la_exit_leg_first answers) (exit_leg req answers) (entry_leg req answers) of
                  Inl e \<Rightarrow> Inl e
                | Inr (exit_data, entry_data) \<Rightarrow>
                    Inr (WireguardRegistered \<lparr>wr_entry = entry_data, wr_exit = exit_data, wr_lewes_protocol = True\<rparr>))))"

definition register_lp :: "registration_request \<Rightarrow> lp_answers \<Rightarrow> registration_error + registration_result" where
  "register_lp req answers = (case la_stopped answers of Some e \<Rightarrow> Inl e | None \<Rightarrow> register_wg req answers)"

fun registration_entry_culpable :: "registration_error \<Rightarrow> bool" where
  "registration_entry_culpable (ExitGatewayRegisterLp _) = False"
| "registration_entry_culpable WireguardExitRegistration = False"
| "registration_entry_culpable WireguardExitRegistrationCredentialSent = False"
| "registration_entry_culpable _ = True"

subsection \<open>The session\<close>

record device_config =
  dc_name :: string
  dc_ipv4 :: "32 word"
  dc_ipv6 :: "128 word option"
  dc_destination :: "ip_addr option"
  dc_mtu :: u16

datatype monitor_step =
  Sent monitor_event
| StaleDeviceRemoved string
| DeviceCreated device_config
| RoutesAdded routing_config
| WireguardStarted string wg_node_config
| MixnetStarted
| BridgeOpened socket_addr

text \<open>The branches of the loop that watches the running tunnel.\<close>

datatype session_event =
  ConnectionStatus connection_status_event | ConnectionMonitorGone | BridgeClosed | MixnetClientExited | SessionCancelled

text \<open>
  The answers a session meets. \<open>None\<close> for a wait that was cancelled, a text for another crate's error. Device
  creation answers with the name the kernel gave.
\<close>

record ('r, 'v) session_env =
  se_ipv6_enabled_in_os :: bool
  se_account :: "account_observation list"
  se_account_refresh :: "(string + unit) option"
  se_account_after_refresh :: "account_observation list"
  se_directory :: "gateway_performance_options \<Rightarrow> resolved_config option \<Rightarrow> string + (gateway_type \<Rightarrow> directory_error + gateway_list)"
  se_selector :: "'r selector_env"
  se_rng :: 'r
  se_keys :: "node_identity \<Rightarrow> (key_pair \<times> key_pair) option"
  se_selection_cancelled :: bool
  se_lp_verified :: "gateway \<Rightarrow> bool"
  se_lp_keys :: "gateway \<Rightarrow> string option"
  se_use_lp :: "registration_request \<Rightarrow> bool"
  se_lp_setup :: "registration_error option"
  se_lp_answers :: lp_answers
  se_build :: "registration_error option"
  se_register :: "registration_request \<Rightarrow> registration_error + registration_result"
  se_constants :: tunnel_constants
  se_lib :: lib_env
  se_stale_device :: "string \<Rightarrow> bool"
  se_create_device :: "device_config \<Rightarrow> string + string"
  se_device_name :: "string \<Rightarrow> string + string"
  se_set_ipv6 :: "string \<Rightarrow> string option"
  se_bridge_key :: "string \<Rightarrow> transport_error option"
  se_bridge_connect :: "socket_addr \<Rightarrow> transport_error option"
  se_forwarder :: "transport_error + socket_addr"
  se_wireguard_start :: "wg_node_config \<Rightarrow> string option"
  se_parse_version :: "string \<Rightarrow> 'v option"
  se_version_at_least :: "'v \<Rightarrow> 'v \<Rightarrow> bool"
  se_update_version :: "'v option"
  se_icmp_probe :: "string option"
  se_tcp_probe :: "string option"
  se_events :: "session_event list"
  se_bandwidth_peer :: u64
  se_bandwidth_ticks :: "(side_world \<times> side_world) list"
  se_bandwidth_joined :: bool

text \<open>What a session has done and the kernel of the route manager, which answers no more once it died.\<close>

record session_world =
  sw_log :: "monitor_step list"
  sw_net :: route_world
  sw_manager_down :: bool

type_synonym 'a session = "(session_world, 'a, monitor_error) prog"

definition perform :: "monitor_step \<Rightarrow> unit session" where
  "perform step w = (Done (), w\<lparr>sw_log := sw_log w @ [step]\<rparr>)"

definition send_event :: "monitor_event \<Rightarrow> unit session" where
  "send_event ev = perform (Sent ev)"

definition still_running :: "'a session" where
  "still_running w = (Crashed, w)"

definition route_call :: "'a routing \<Rightarrow> (route_error option + 'a) session" where
  "route_call m w =
     (if sw_manager_down w then (Done (Inl None), w)
      else case m (sw_net w) of
             (Done a, net) \<Rightarrow> (Done (Inr a), w\<lparr>sw_net := net\<rparr>)
           | (Failed e, net) \<Rightarrow> (Done (Inl (Some e)), w\<lparr>sw_net := net\<rparr>)
           | (Crashed, net) \<Rightarrow> (Done (Inl None), w\<lparr>sw_net := net, sw_manager_down := True\<rparr>))"

definition await_account_readiness_with_retry :: "('r, 'v) session_env \<Rightarrow> (monitor_error + unit) option" where
  "await_account_readiness_with_retry env =
     (let failed = (\<lambda>e. Inl (AccountFailed (ControllerState e)))
      in case wait_for_account_ready_to_connect (se_account env) of
           None \<Rightarrow> None
         | Some (Inr ()) \<Rightarrow> Some (Inr ())
         | Some (Inl e) \<Rightarrow>
             if (case e of ErrorState reason \<Rightarrow> is_retryable reason | _ \<Rightarrow> False)
             then (case se_account_refresh env of
                     None \<Rightarrow> None
                   | Some (Inl err) \<Rightarrow> Some (Inl (AccountFailed (AccountCommand err)))
                   | Some (Inr ()) \<Rightarrow>
                       (case wait_for_account_ready_to_connect (se_account_after_refresh env) of
                          None \<Rightarrow> None
                        | Some (Inr ()) \<Rightarrow> Some (Inr ())
                        | Some (Inl e) \<Rightarrow> Some (failed e)))
             else Some (failed e))"

definition await_account :: "('r, 'v) session_env \<Rightarrow> unit session" where
  "await_account env =
     thenp (send_event AwaitingAccountReadiness)
      (case await_account_readiness_with_retry env of
         None \<Rightarrow> fail (TunnelFailed TunnelCancelled)
       | Some (Inl e) \<Rightarrow> fail e
       | Some (Inr ()) \<Rightarrow> ret ())"

definition obtain_gateways :: "('r, 'v) session_env \<Rightarrow> tunnel_parameters \<Rightarrow> selected_gateways session" where
  "obtain_gateways env p =
     thenp (send_event RefreshingGateways)
      (case se_directory env (ts_performance_options (tp_settings p)) (tp_resolved p) of
         Inl e \<Rightarrow> fail (GatewayDirectoryClient e)
       | Inr lookup \<Rightarrow>
           (case tp_selected_gateways p of
              Some gateways \<Rightarrow> ret gateways
            | None \<Rightarrow>
                thenp (send_event SelectingGateways)
                 (if se_selection_cancelled env then fail (TunnelFailed TunnelCancelled)
                  else case fst (select_gateways (se_selector env) lookup (se_keys env) (tp_blacklist p)
                         (selection_of (tp_settings p)) (independence_criteria (tp_relax_independence p) (tp_settings p)) (se_rng env)) of
                         Inl e \<Rightarrow> fail (TunnelFailed (SelectGateways e))
                       | Inr gateways \<Rightarrow> thenp (send_event (SelectedGateways gateways)) (ret gateways))))"

definition announced_ip :: "gateway \<Rightarrow> ip_addr session" where
  "announced_ip g =
     (case lookup_ip g of Some ip \<Rightarrow> ret ip | None \<Rightarrow> fail (TunnelFailed (NoIpAddressAnnounced (g_identity g))))"

definition check_lp_details :: "('r, 'v) session_env \<Rightarrow> gateway \<Rightarrow> unit session" where
  "check_lp_details env g =
     (if g_lp_control_port g \<noteq> None \<and> \<not> se_lp_verified env g
      then fail (TunnelFailed (SelectGateways (MalformedLewesProtocolInfo (g_identity g))))
      else ret ())"

definition registration_node_of :: "('r, 'v) session_env \<Rightarrow> gateway_with_keys \<Rightarrow> ip_addr \<Rightarrow> registration_node" where
  "registration_node_of env gk ip =
     (let g = gk_gateway gk in
      \<lparr>rn_identity = g_identity g, rn_ipr_address = g_ipr_address g, rn_authenticator_address = g_authenticator_address g,
       rn_ip_address = ip, rn_version = g_version g,
       rn_lp_data = (case g_lp_control_port g of
                       None \<Rightarrow> None
                     | Some port \<Rightarrow> map_option (\<lambda>keys. ((ip, port), keys)) (se_lp_keys env g)),
       rn_keys = gk_keys gk\<rparr>)"

definition registration_request_of :: "('r, 'v) session_env \<Rightarrow> tunnel_parameters \<Rightarrow> selected_gateways \<Rightarrow> registration_request session" where
  "registration_request_of env p gateways =
     bindp (announced_ip (entry_gateway gateways)) (\<lambda>entry_ip.
     bindp (announced_ip (exit_gateway gateways)) (\<lambda>exit_ip.
     thenp (check_lp_details env (entry_gateway gateways))
     (thenp (check_lp_details env (exit_gateway gateways))
       (ret \<lparr>rr_entry = registration_node_of env (sg_entry gateways) entry_ip,
             rr_exit = registration_node_of env (sg_exit gateways) exit_ip,
             rr_mode = ts_tunnel_type (tp_settings p)\<rparr>))))"

fun registered_tunnel_data :: "registration_result \<Rightarrow> tunnel_connection_data" where
  "registered_tunnel_data (MixnetRegistered _) = MixnetData"
| "registered_tunnel_data (WireguardRegistered r) =
     WireguardData \<lparr>wd_entry_bridge = None, wd_entry_endpoint = wc_endpoint (wr_entry r)\<rparr>"

definition establish_data :: "selected_gateways \<Rightarrow> tunnel_connection_data \<Rightarrow> establish_connection_data" where
  "establish_data gateways tunnel =
     \<lparr>ed_entry_gateway = entry_gateway gateways, ed_exit_gateway = exit_gateway gateways, ed_tunnel = Some tunnel\<rparr>"

definition register_gateways :: "('r, 'v) session_env \<Rightarrow> tunnel_parameters \<Rightarrow> selected_gateways \<Rightarrow> registration_result session" where
  "register_gateways env p gateways =
     thenp (send_event RegisteringWithGateways)
      (bindp (registration_request_of env p gateways) (\<lambda>req.
         case (if se_use_lp env req then se_lp_setup env else se_build env) of
           Some e \<Rightarrow> fail (TunnelFailed (RegistrationClient e))
         | None \<Rightarrow>
             (case (if se_use_lp env req then register_lp req (se_lp_answers env) else se_register env req) of
                Inl e \<Rightarrow>
                  thenp (send_event (RegistrationFailed (registration_entry_culpable e))) (fail (TunnelFailed (RegistrationClient e)))
              | Inr result \<Rightarrow>
                  thenp (send_event (RegisteredWithGateways (establish_data gateways (registered_tunnel_data result)))) (ret result))))"

subsection \<open>Starting the tunnel\<close>

definition DEFAULT_TUN_MTU :: u16 where "DEFAULT_TUN_MTU = 1500"

record start_tunnel_result =
  sr_interface :: tunnel_interface
  sr_conn_data :: tunnel_connection_data

definition announce_interface_up :: "selected_gateways \<Rightarrow> tunnel_interface \<Rightarrow> tunnel_connection_data \<Rightarrow> unit session" where
  "announce_interface_up gateways interface tunnel_conn_data =
     send_event (InterfaceUp interface (establish_data gateways tunnel_conn_data))"

definition device_name :: "('r, 'v) session_env \<Rightarrow> string \<Rightarrow> string session" where
  "device_name env device =
     (case se_device_name env device of Inl e \<Rightarrow> fail (GetTunDeviceName e) | Inr name \<Rightarrow> ret name)"

definition create_device :: "('r, 'v) session_env \<Rightarrow> device_config \<Rightarrow> string session" where
  "create_device env config =
     (case se_create_device env config of
        Inl e \<Rightarrow> fail (CreateTunDevice e)
      | Inr device \<Rightarrow>
          thenp (perform (DeviceCreated config))
           (bindp (device_name env device) (\<lambda>name.
              case dc_ipv6 config of
                None \<Rightarrow> ret device
              | Some _ \<Rightarrow> (case se_set_ipv6 env name of None \<Rightarrow> ret device | Some e \<Rightarrow> fail (SetTunDeviceIpv6Addr e)))))"

definition create_mixnet_device :: "('r, 'v) session_env \<Rightarrow> 32 word \<Rightarrow> 128 word option \<Rightarrow> u16 \<Rightarrow> string session" where
  "create_mixnet_device env ip4 ip6 mtu =
     create_device env \<lparr>dc_name = ''nym0'', dc_ipv4 = ip4, dc_ipv6 = ip6, dc_destination = None, dc_mtu = mtu\<rparr>"

definition create_wireguard_device ::
  "('r, 'v) session_env \<Rightarrow> 32 word \<Rightarrow> 128 word option \<Rightarrow> ip_addr option \<Rightarrow> u16 \<Rightarrow> string \<Rightarrow> string session" where
  "create_wireguard_device env ip4 ip6 destination mtu name =
     create_device env \<lparr>dc_name = name, dc_ipv4 = ip4, dc_ipv6 = ip6, dc_destination = destination, dc_mtu = mtu\<rparr>"

definition cleanup_stale_tun_devices :: "('r, 'v) session_env \<Rightarrow> unit session" where
  "cleanup_stale_tun_devices env =
     for_each (\<lambda>name. if se_stale_device env name then perform (StaleDeviceRemoved name) else ret ())
       [''nym0'', ''nym1'', ''tun0'', ''tun1'']"

definition set_routes :: "tunnel_settings \<Rightarrow> routing_config \<Rightarrow> unit session" where
  "set_routes settings config =
     bindp (route_call (add_routes config (ts_enable_ipv6 settings) (ts_legacy_split_tunnel settings))) (\<lambda>r.
       case r of Inl e \<Rightarrow> fail (AddRoutes e) | Inr () \<Rightarrow> perform (RoutesAdded config))"

definition then_some :: "bool \<Rightarrow> 'a \<Rightarrow> 'a option" where
  "then_some b x = (if b then Some x else None)"

definition interface_ips :: "tunnel_settings \<Rightarrow> 32 word \<Rightarrow> 128 word \<Rightarrow> ip_addr list" where
  "interface_ips settings ip4 ip6 = IPv4 ip4 # (if ts_enable_ipv6 settings then [IPv6 ip6] else [])"

definition mixnet_mtu :: "tunnel_settings \<Rightarrow> ip_addr \<Rightarrow> u16 session" where
  "mixnet_mtu settings entry_ip =
     (case ts_mixnet_mtu settings of
        Some mtu \<Rightarrow> ret mtu
      | None \<Rightarrow> bindp (route_call (get_mtu_for_route entry_ip)) (\<lambda>r. ret (case r of Inr mtu \<Rightarrow> mtu | Inl _ \<Rightarrow> DEFAULT_TUN_MTU)))"

definition start_mixnet_tunnel ::
  "('r, 'v) session_env \<Rightarrow> tunnel_settings \<Rightarrow> mixnet_registration \<Rightarrow> selected_gateways \<Rightarrow> start_tunnel_result session" where
  "start_mixnet_tunnel env settings r gateways =
     bindp (mixnet_mtu settings (mr_entry_ip r)) (\<lambda>mtu.
     bindp (create_mixnet_device env (mr_ipv4 r) (then_some (ts_enable_ipv6 settings) (mr_ipv6 r)) mtu) (\<lambda>device.
     bindp (device_name env device) (\<lambda>tun_name.
     thenp (set_routes settings (MixnetRouting tun_name mtu))
     (let interface = One \<lparr>t_interface = tun_name, t_ips = interface_ips settings (mr_ipv4 r) (mr_ipv6 r),
                           t_ipv4_gateway = None, t_ipv6_gateway = None\<rparr>
      in thenp (announce_interface_up gateways interface MixnetData)
          (thenp (perform MixnetStarted) (ret \<lparr>sr_interface = interface, sr_conn_data = MixnetData\<rparr>))))))"

definition get_ipv4 :: "quic_client_options \<Rightarrow> socket_addr option" where
  "get_ipv4 options = List.find (\<lambda>(ip, _). is_v4 ip) (q_addresses options)"

fun try_connect :: "('r, 'v) session_env \<Rightarrow> bridge_parameters \<Rightarrow> transport_error + socket_addr" where
  "try_connect env (QuicPlain options) =
     (case se_bridge_key env (q_id_pubkey options) of
        Some e \<Rightarrow> Inl e
      | None \<Rightarrow>
          (case get_ipv4 options of
             None \<Rightarrow> Inl (TransportConfig ''No IPv4 endpoint provided'')
           | Some endpoint \<Rightarrow> (case se_bridge_connect env endpoint of Some e \<Rightarrow> Inl e | None \<Rightarrow> Inr endpoint)))"

definition start_bridges :: "('r, 'v) session_env \<Rightarrow> selected_gateways \<Rightarrow> bridge_address session" where
  "start_bridges env gateways =
     (case get_bridge_params (entry_gateway gateways) of
        None \<Rightarrow> fail (TunnelFailed (Transport (TransportConfig ''attempted to open transport connection without bridge params'')))
      | Some params \<Rightarrow>
          (case try_connect env params of
             Inl e \<Rightarrow> fail (TunnelFailed (Transport e))
           | Inr remote_addr \<Rightarrow>
               (case se_forwarder env of
                  Inl e \<Rightarrow> fail (TunnelFailed (Transport e))
                | Inr listen_addr \<Rightarrow>
                    thenp (perform (BridgeOpened remote_addr))
                      (ret \<lparr>ba_listen_addr = listen_addr, ba_remote_addr = remote_addr\<rparr>))))"

definition start_wireguard :: "('r, 'v) session_env \<Rightarrow> string \<Rightarrow> wg_node_config \<Rightarrow> unit session" where
  "start_wireguard env device config =
     (case se_wireguard_start env config of
        Some e \<Rightarrow> fail (TunnelFailed (WireguardFailed e))
      | None \<Rightarrow> perform (WireguardStarted device config))"

definition wireguard_conn_data :: "wg_session \<Rightarrow> tunnel_connection_data" where
  "wireguard_conn_data d =
     WireguardData \<lparr>wd_entry_bridge = map_option ba_remote_addr (wg_entry_bridge_addr d), wd_entry_endpoint = wc_endpoint (wg_entry d)\<rparr>"

definition start_wireguard_tunnel ::
  "('r, 'v) session_env \<Rightarrow> tunnel_settings \<Rightarrow> wg_session \<Rightarrow> selected_gateways \<Rightarrow> start_tunnel_result session" where
  "start_wireguard_tunnel env settings d gateways =
     (let ip6 = (\<lambda>c. then_some (ts_enable_ipv6 settings) (wc_private_ipv6 c));
          dns = d_tunnel (resolved_dns_config (se_lib env) settings)
      in thenp (cleanup_stale_tun_devices env)
     (bindp (create_wireguard_device env (wc_private_ipv4 (wg_entry d)) (ip6 (wg_entry d)) None ENTRY_MTU ''nym0'') (\<lambda>entry_device.
      bindp (device_name env entry_device) (\<lambda>entry_tun.
      bindp (create_wireguard_device env (wc_private_ipv4 (wg_exit d)) (ip6 (wg_exit d))
               (Some (IPv4 (wc_private_ipv4 (wg_entry d)))) EXIT_MTU ''nym1'') (\<lambda>exit_device.
      bindp (device_name env exit_device) (\<lambda>exit_tun.
      thenp (set_routes settings (WireguardRouting entry_tun exit_tun ENTRY_MTU EXIT_MTU
               (tk_private_entry_gateway_address (se_constants env)) (fst (wc_endpoint (wg_exit d)))))
      (let interface =
             Two \<lparr>t_interface = entry_tun, t_ips = interface_ips settings (wc_private_ipv4 (wg_entry d)) (wc_private_ipv6 (wg_entry d)),
                  t_ipv4_gateway = None, t_ipv6_gateway = None\<rparr>
                 \<lparr>t_interface = exit_tun, t_ips = interface_ips settings (wc_private_ipv4 (wg_exit d)) (wc_private_ipv6 (wg_exit d)),
                  t_ipv4_gateway = Some (wc_private_ipv4 (wg_entry d)), t_ipv6_gateway = ip6 (wg_entry d)\<rparr>
       in thenp (announce_interface_up gateways interface (wireguard_conn_data d))
          (thenp (start_wireguard env entry_tun (wg_entry_config (se_constants env) d (gk_keys (sg_entry gateways)) dns (\<not> bridges_enabled settings)))
          (thenp (start_wireguard env exit_tun (wg_exit_config d (gk_keys (sg_exit gateways)) dns))
            (ret \<lparr>sr_interface = interface, sr_conn_data = wireguard_conn_data d\<rparr>))))))))))"

definition bandwidth_controller_create ::
  "('r, 'v) session_env \<Rightarrow> tunnel_parameters \<Rightarrow> wireguard_registration \<Rightarrow> selected_gateways \<Rightarrow> bandwidth_controller" where
  "bandwidth_controller_create env p r gateways =
     (let client = (\<lambda>g. bandwidth_client_new (se_parse_version env) (se_version_at_least env) g (\<not> wr_lewes_protocol r)
                          (se_update_version env))
      in bc_new (client (entry_gateway gateways)) (client (exit_gateway gateways)) (tp_bandwidth_failures_end_session p))"

text \<open>The session data, the controller, and whether the mixnet client of the old registration still runs.\<close>

definition setup_wireguard_tunnel ::
  "('r, 'v) session_env \<Rightarrow> tunnel_parameters \<Rightarrow> wireguard_registration \<Rightarrow> selected_gateways \<Rightarrow> wg_session \<times> bandwidth_controller \<times> bool" where
  "setup_wireguard_tunnel env p r gateways =
     (let bw = bandwidth_controller_create env p r gateways
      in (\<lparr>wg_entry_bridge_addr = None, wg_entry = wr_entry r, wg_exit = wr_exit r, wg_lewes_protocol = wr_lewes_protocol r\<rparr>,
          bw, \<not> wr_lewes_protocol r \<and> \<not> is_using_latest_client bw))"

text \<open>The started tunnel, its bandwidth controller, and whether a mixnet client is to be watched.\<close>

definition start_tunnel ::
  "('r, 'v) session_env \<Rightarrow> tunnel_parameters \<Rightarrow> selected_gateways \<Rightarrow> registration_result
   \<Rightarrow> (start_tunnel_result \<times> bandwidth_controller option \<times> bool) session" where
  "start_tunnel env p gateways result =
     (case result of
        MixnetRegistered r \<Rightarrow>
          bindp (start_mixnet_tunnel env (tp_settings p) r gateways) (\<lambda>started. ret (started, None, True))
      | WireguardRegistered r \<Rightarrow>
          (case setup_wireguard_tunnel env p r gateways of
             (d, bw, mixnet_client) \<Rightarrow>
               bindp (if bridges_enabled (tp_settings p)
                      then bindp (start_bridges env gateways) (\<lambda>addr. ret (d\<lparr>wg_entry_bridge_addr := Some addr\<rparr>))
                      else ret d) (\<lambda>d.
               bindp (start_wireguard_tunnel env (tp_settings p) d gateways) (\<lambda>started. ret (started, Some bw, mixnet_client)))))"

subsection \<open>Watching the tunnel\<close>

definition create_tunnel_connection_monitor :: "('r, 'v) session_env \<Rightarrow> unit session" where
  "create_tunnel_connection_monitor env =
     (case se_icmp_probe env of
        None \<Rightarrow> ret ()
      | Some _ \<Rightarrow> (case se_tcp_probe env of None \<Rightarrow> ret () | Some e \<Rightarrow> fail (CreateTcpProbe e)))"

text \<open>The loop gives the last status. A mixnet client that is not watched never ends it.\<close>

fun watch_tunnel ::
  "bool \<Rightarrow> monitor_event \<Rightarrow> connection_status_event option \<Rightarrow> bool \<Rightarrow> session_event list \<Rightarrow> connection_status_event option session" where
  "watch_tunnel mixnet_client up last_connection_status has_sent_up_event [] = still_running"
| "watch_tunnel mixnet_client up last_connection_status has_sent_up_event (ev # evs) =
     (case ev of
        ConnectionMonitorGone \<Rightarrow> ret last_connection_status
      | ConnectionStatus status \<Rightarrow>
          (if last_connection_status = Some status
           then watch_tunnel mixnet_client up last_connection_status has_sent_up_event evs
           else case status of
                  Viable \<Rightarrow>
                    if \<not> has_sent_up_event then thenp (send_event up) (watch_tunnel mixnet_client up (Some status) True evs)
                    else watch_tunnel mixnet_client up (Some status) has_sent_up_event evs
                | IntermittentFailure _ \<Rightarrow> watch_tunnel mixnet_client up (Some status) has_sent_up_event evs
                | ConnFailed \<Rightarrow> thenp (send_event ConnectionFailed) (ret (Some status)))
      | BridgeClosed \<Rightarrow> ret last_connection_status
      | MixnetClientExited \<Rightarrow>
          (if mixnet_client then ret last_connection_status
           else watch_tunnel mixnet_client up last_connection_status has_sent_up_event evs)
      | SessionCancelled \<Rightarrow> ret last_connection_status)"

definition tunnel_failing :: "connection_status_event option \<Rightarrow> bool" where
  "tunnel_failing status = (case status of Some (IntermittentFailure _) \<Rightarrow> True | Some ConnFailed \<Rightarrow> True | _ \<Rightarrow> False)"

definition report_bandwidth_checks :: "bandwidth_outcome \<Rightarrow> connection_status_event option \<Rightarrow> unit session" where
  "report_bandwidth_checks outcome last_connection_status =
     send_event (BandwidthChecks
       (case bo_failure outcome of
          None \<Rightarrow> None
        | Some err \<Rightarrow> if tunnel_failing last_connection_status then None else Some (entry_culpable err))
       (bo_worked outcome))"

definition finish_session :: "('r, 'v) session_env \<Rightarrow> bandwidth_controller option \<Rightarrow> connection_status_event option \<Rightarrow> unit session" where
  "finish_session env bw last_connection_status =
     (case bw of
        None \<Rightarrow> ret ()
      | Some bc \<Rightarrow>
          if se_bandwidth_joined env
          then report_bandwidth_checks (snd (run_bandwidth_controller (se_bandwidth_peer env) (se_bandwidth_ticks env) bc))
                 last_connection_status
          else ret ())"

definition run_inner :: "('r, 'v) session_env \<Rightarrow> tunnel_parameters \<Rightarrow> unit session" where
  "run_inner env p =
     (if ts_enable_ipv6 (tp_settings p) \<and> \<not> se_ipv6_enabled_in_os env then fail Ipv6Disabled
      else thenp (await_account env)
       (bindp (obtain_gateways env p) (\<lambda>gateways.
        bindp (register_gateways env p gateways) (\<lambda>result.
        bindp (start_tunnel env p gateways result) (\<lambda>(started, bw, mixnet_client).
        thenp (create_tunnel_connection_monitor env)
        (bindp (watch_tunnel mixnet_client
                  (Up (sr_interface started) \<lparr>cn_entry_gateway = entry_gateway gateways, cn_exit_gateway = exit_gateway gateways,
                                              cn_tunnel = sr_conn_data started\<rparr>)
                  None False (se_events env)) (\<lambda>last_connection_status.
           finish_session env bw last_connection_status)))))))"

definition run_monitor :: "('r, 'v) session_env \<Rightarrow> tunnel_parameters \<Rightarrow> session_world \<Rightarrow> session_world" where
  "run_monitor env p w =
     (case run_inner env p w of
        (Done (), w) \<Rightarrow> snd (send_event (Down None) w)
      | (Failed e, w) \<Rightarrow> snd (send_event (Down (error_state_reason_of e)) w)
      | (Crashed, w) \<Rightarrow> w)"

end
