(* ===== verification/Tunnel_Contract.thy ===== *)
theory Tunnel_Contract
  imports Tunnel_Machine
begin

text \<open>
  What the tunnel state machine promises of the firewall. \<open>firewall_world\<close> is what it relies on: the firewall
  is one part of the world, the other operations leave it alone, and an apply or a reset that reports success
  puts its target in force. Over it: the policy each state enforces (the table at the head of \<open>mod.rs\<close>), and
  that with the kill-switch on the router stays sealed through every event.
\<close>

lemma wp_query [wp_rules]: "wp (query f) Q = (\<lambda>s. case f (sh_world s) of (a, w) \<Rightarrow> Q a (s\<lparr>sh_world := w\<rparr>))"
  by (simp add: wp_def query_def fun_eq_iff split: prod.splits)

lemma wp_act [wp_rules]: "wp (act f) Q = (\<lambda>s. Q () (s\<lparr>sh_world := f (sh_world s)\<rparr>))"
  by (simp add: act_def wp_rules)

lemma wp_ignore [wp_rules]: "wp (ignore m) Q = wp m (\<lambda>_. Q ())"
  by (simp add: ignore_def wp_rules)

subsection \<open>Quiet programs\<close>

text \<open>
  The part of the shared state the promises are about: the firewall, the settings and the endpoints the idle
  policy admits. A program that leaves it alone is quiet.
\<close>

definition view :: "('w \<Rightarrow> 'f) \<Rightarrow> 'w shared_state \<Rightarrow> 'f \<times> tunnel_settings \<times> socket_addr list" where
  "view fw s = (fw (sh_world s), sh_settings s, sh_api_endpoints s)"

definition quiet :: "('w \<Rightarrow> 'f) \<Rightarrow> ('w shared_state, 'a) state \<Rightarrow> bool" where
  "quiet fw m = (\<forall>v. keeping (\<lambda>s. view fw s = v) m)"

named_theorems quiet_rules

lemma quiet_return [quiet_rules]: "quiet fw (State_Monad.return a)"
  by (simp add: quiet_def keeping_rules)

lemma quiet_bind [quiet_rules]: "quiet fw m \<Longrightarrow> (\<And>a. quiet fw (f a)) \<Longrightarrow> quiet fw (State_Monad.bind m f)"
  by (simp add: quiet_def keeping_rules)

lemma quiet_gets [quiet_rules]: "quiet fw (gets f)"
  by (simp add: quiet_def keeping_rules)

lemma quiet_if [quiet_rules]: "quiet fw m \<Longrightarrow> quiet fw n \<Longrightarrow> quiet fw (if b then m else n)"
  by simp

lemma quiet_option [quiet_rules]: "quiet fw m \<Longrightarrow> (\<And>y. quiet fw (f y)) \<Longrightarrow> quiet fw (case x of None \<Rightarrow> m | Some y \<Rightarrow> f y)"
  by (simp split: option.splits)

lemma quiet_prod [quiet_rules]: "(\<And>a b. quiet fw (f a b)) \<Longrightarrow> quiet fw (case x of (a, b) \<Rightarrow> f a b)"
  by (simp split: prod.splits)

lemma quiet_let [quiet_rules]: "quiet fw (f a) \<Longrightarrow> quiet fw (let x = a in f x)"
  by simp

lemma quiet_ignore [quiet_rules]: "quiet fw m \<Longrightarrow> quiet fw (ignore m)"
  unfolding ignore_def by (intro quiet_rules)

lemma quiet_modify: "(\<And>s. view fw (f s) = view fw s) \<Longrightarrow> quiet fw (modify f)"
  by (simp add: quiet_def keeping_def wp_rules)

lemma quiet_act: "(\<And>w. fw (f w) = fw w) \<Longrightarrow> quiet fw (act f)"
  unfolding act_def by (rule quiet_modify) (simp add: view_def)

lemma quiet_query: "(\<And>w a w'. f w = (a, w') \<Longrightarrow> fw w' = fw w) \<Longrightarrow> quiet fw (query f)"
  by (auto simp: quiet_def keeping_def wp_def query_def view_def split: prod.splits)

lemma wp_quiet: "quiet fw m \<Longrightarrow> (\<And>a t. view fw t = view fw s \<Longrightarrow> Q a t) \<Longrightarrow> wp m Q s"
  unfolding quiet_def by (rule wp_mono [OF keeping_wp [of "\<lambda>t. view fw t = view fw s"]]) blast+

text \<open>Programs that touch no world at all.\<close>

lemma quiet_bookkeeping [quiet_rules]:
  "quiet fw (clock io)" "quiet fw clear_short_session_strikes" "quiet fw (set_relax b)" "quiet fw (blacklist_entry_gateway io e)"
  "quiet fw (api_endpoints_refresh_due io)" "quiet fw (schedule io a)" "quiet fw (start_access io)"
  unfolding clock_def clear_short_session_strikes_def set_relax_def blacklist_entry_gateway_def api_endpoints_refresh_due_def
    schedule_def start_access_def
  by (intro quiet_rules quiet_modify; simp add: view_def)+

subsection \<open>The policy of each state\<close>

text \<open>What an apply asks for: the policy with the kill-switch on, an open firewall with it off.\<close>

definition in_force ::
  "(firewall_policy option \<Rightarrow> 'f \<Rightarrow> bool) \<Rightarrow> ('w \<Rightarrow> 'f) \<Rightarrow> firewall_policy \<Rightarrow> 'w shared_state \<Rightarrow> bool" where
  "in_force enforced fw p s = enforced (if ts_killswitch (sh_settings s) then Some p else None) (fw (sh_world s))"

definition idle_policy :: "lib_env \<Rightarrow> 'w shared_state \<Rightarrow> firewall_policy" where
  "idle_policy le s = idle_blocked_policy le (sh_settings s) (sh_api_endpoints s)"

definition connecting_current :: "lib_env \<Rightarrow> connecting_params \<Rightarrow> 'w shared_state \<Rightarrow> bool" where
  "connecting_current le p s =
     (cp_enable_ipv6 p = ts_enable_ipv6 (sh_settings s) \<and> cp_allow_lan p = ts_allow_lan (sh_settings s)
      \<and> cp_inbound_exemptions p = ts_inbound_exemptions (sh_settings s) \<and> cp_dns_servers p = idle_dns_ips le (sh_settings s)
      \<and> cp_api_endpoints p = sh_api_endpoints s)"

definition connecting_in_force ::
  "(firewall_policy option \<Rightarrow> 'f \<Rightarrow> bool) \<Rightarrow> ('w \<Rightarrow> 'f) \<Rightarrow> connecting_params \<Rightarrow> 'w shared_state \<Rightarrow> bool" where
  "connecting_in_force enforced fw p s =
     (\<exists>e. in_force enforced fw (connecting_policy_of (p\<lparr>cp_wg_entry_endpoint := e\<rparr>)) s)"

definition connected_current :: "lib_env \<Rightarrow> connected_params \<Rightarrow> 'w shared_state \<Rightarrow> bool" where
  "connected_current le p s =
     (dp_enable_ipv6 p = ts_enable_ipv6 (sh_settings s) \<and> dp_allow_lan p = ts_allow_lan (sh_settings s)
      \<and> dp_inbound_exemptions p = ts_inbound_exemptions (sh_settings s) \<and> dp_dns_config p = resolved_dns_config le (sh_settings s)
      \<and> dp_allowed_endpoints p = [])"

text \<open>
  The table at the head of \<open>mod.rs\<close>. While connecting, the WireGuard endpoint learnt at registration is admitted
  with the next apply. Error and offline states only log a refused apply; there the promise holds whenever
  the firewall handle remembers a successful apply.
\<close>

fun state_contract ::
  "lib_env \<Rightarrow> ('w \<Rightarrow> 'f) \<Rightarrow> ('f \<Rightarrow> bool) \<Rightarrow> (firewall_policy option \<Rightarrow> 'f \<Rightarrow> bool) \<Rightarrow> tunnel_state \<Rightarrow> 'w shared_state \<Rightarrow> bool" where
  "state_contract le fw confident enforced (StDisconnected a) s = in_force enforced fw (idle_policy le s) s"
| "state_contract le fw confident enforced (StConnecting cs) s =
     (connecting_current le (cs_params cs) s \<and> connecting_in_force enforced fw (cs_params cs) s)"
| "state_contract le fw confident enforced (StConnected ds) s =
     (connected_current le (ds_params ds) s \<and> in_force enforced fw (connected_policy_of (ds_params ds)) s)"
| "state_contract le fw confident enforced (StDisconnecting after waiting) s = True"
| "state_contract le fw confident enforced (StError reason a) s =
     (confident (fw (sh_world s)) \<longrightarrow> in_force enforced fw (idle_policy le s) s)"
| "state_contract le fw confident enforced (StOffline reconnect gateways lan) s =
     (lan = ts_allow_lan (sh_settings s)
      \<and> (confident (fw (sh_world s)) \<longrightarrow> in_force enforced fw (offline_policy_of lan) s))"

fun next_holds :: "(tunnel_state \<Rightarrow> 'w shared_state \<Rightarrow> bool) \<Rightarrow> next_tunnel_state \<Rightarrow> 'w shared_state \<Rightarrow> bool" where
  "next_holds P (NewState st private) s = P st s"
| "next_holds P (SameState st) s = P st s"
| "next_holds P Finished s = True"
| "next_holds P Panicked s = True"

lemma connecting_in_forceI: "in_force enforced fw (connecting_policy_of p) s \<Longrightarrow> connecting_in_force enforced fw p s"
  unfolding connecting_in_force_def by (rule exI [of _ "cp_wg_entry_endpoint p"]) simp

lemma connecting_in_force_wg [simp]:
  "connecting_in_force enforced fw (p\<lparr>cp_wg_entry_endpoint := e\<rparr>) s = connecting_in_force enforced fw p s"
  by (simp add: connecting_in_force_def)

lemma in_force_view: "view fw t = view fw s \<Longrightarrow> in_force enforced fw p t = in_force enforced fw p s"
  by (auto simp: in_force_def view_def)

lemma initial_connecting_current:
  "sh_settings t = sh_settings s \<Longrightarrow> sh_api_endpoints t = sh_api_endpoints s \<Longrightarrow>
     connecting_current le (initial_connecting_params le selected s) t"
  by (simp add: connecting_current_def initial_connecting_params_def Let_def)

lemma initial_connected_current:
  "sh_settings t = settings \<Longrightarrow> connected_current le (initial_connected_params le interface data gateways settings) t"
  by (simp add: connected_current_def initial_connected_params_def)

lemma view_eq: "view fw t = view fw s \<longleftrightarrow>
    fw (sh_world t) = fw (sh_world s) \<and> sh_settings t = sh_settings s \<and> sh_api_endpoints t = sh_api_endpoints s"
  by (auto simp: view_def)

lemma state_contract_view:
  assumes "view fw t = view fw s"
  shows "state_contract le fw confident enforced st t = state_contract le fw confident enforced st s"
  using assms
  by (cases st) (simp_all add: view_eq in_force_def connecting_in_force_def idle_policy_def connecting_current_def
      connected_current_def)

lemma wp_new_state: "wp m (\<lambda>(st, private). Q (NewState st private)) s \<Longrightarrow> wp (new_state m) Q s"
  by (simp add: new_state_def wp_rules wp_def split_def)

lemma wp_same_state: "Q (SameState st) s \<Longrightarrow> wp (same_state st) Q s"
  by (simp add: same_state_def wp_rules)

text \<open>What the policies read of the settings.\<close>

lemma dns_settings:
  assumes "ts_dns s = ts_dns t" and "ts_enable_ipv6 s = ts_enable_ipv6 t"
  shows "idle_dns_ips le s = idle_dns_ips le t" and "resolved_dns_config le s = resolved_dns_config le t"
proof -
  have ips: "dns_ips le s = dns_ips le t" "default_dns_ips le s = default_dns_ips le t"
    by (simp_all add: dns_ips_def default_dns_ips_def assms split: dns_options.splits)
  show "idle_dns_ips le s = idle_dns_ips le t"
    by (simp add: idle_dns_ips_def local_custom_dns_ips_def ips assms(1) split: dns_options.splits)
  show "resolved_dns_config le s = resolved_dns_config le t"
    by (simp add: resolved_dns_config_def ips assms(1))
qed

lemma idle_policy_settings:
  assumes "settings_diff old settings = Some d" "\<not> (FAllowLan \<in> d \<or> FKillswitch \<in> d \<or> FEnableIpv6 \<in> d \<or> FDns \<in> d)"
  shows "idle_blocked_policy le settings eps = idle_blocked_policy le old eps" "ts_killswitch settings = ts_killswitch old"
proof -
  have same: "ts_allow_lan settings = ts_allow_lan old" "ts_killswitch settings = ts_killswitch old"
    "ts_enable_ipv6 settings = ts_enable_ipv6 old" "ts_dns settings = ts_dns old"
    using assms by (auto simp: settings_diff_Some in_changed_fields)
  show "idle_blocked_policy le settings eps = idle_blocked_policy le old eps"
    by (simp add: idle_blocked_policy_def same dns_settings(1) [OF same(4,3)])
  show "ts_killswitch settings = ts_killswitch old" by (rule same(2))
qed

lemma no_reconnect_same:
  assumes "settings_diff old settings = Some d" "needs_no_reconnect d settings"
  shows "ts_enable_ipv6 settings = ts_enable_ipv6 old" "ts_dns settings = ts_dns old" "ts_killswitch settings = ts_killswitch old"
proof -
  have "FEnableIpv6 \<notin> d" "FDns \<notin> d" "FKillswitch \<notin> d"
    using assms(2) hot_changes_only [of d]
    by (auto simp: needs_no_reconnect_def only_mixnet_performance_options_changed_def only_field_singleton)
  then show "ts_enable_ipv6 settings = ts_enable_ipv6 old" "ts_dns settings = ts_dns old" "ts_killswitch settings = ts_killswitch old"
    using assms(1) by (auto simp: settings_diff_Some in_changed_fields)
qed

lemma connecting_current_hot:
  assumes "settings_diff (sh_settings s) settings = Some d" "needs_no_reconnect d settings" "connecting_current le p s"
    and "sh_settings t = settings" "sh_api_endpoints t = sh_api_endpoints s"
  shows "connecting_current le (hot_connecting_params d settings p) t"
  using assms(1,3-) no_reconnect_same [OF assms(1,2)] dns_settings(1) [of settings "sh_settings s" le]
  by (auto simp: connecting_current_def hot_connecting_params_def settings_diff_Some in_changed_fields Let_def)

lemma connected_current_hot:
  assumes "settings_diff (sh_settings s) settings = Some d" "needs_no_reconnect d settings" "connected_current le p s"
    and "sh_settings t = settings"
  shows "connected_current le (hot_connected_params d settings p) t"
  using assms(1,3-) no_reconnect_same [OF assms(1,2)] dns_settings(2) [of settings "sh_settings s" le]
  by (auto simp: connected_current_def hot_connected_params_def settings_diff_Some in_changed_fields Let_def)

lemma hot_params_unchanged:
  "FAllowLan \<notin> d \<Longrightarrow> FInboundExemptions \<notin> d \<Longrightarrow> hot_connecting_params d settings p = p"
  "FAllowLan \<notin> d \<Longrightarrow> FInboundExemptions \<notin> d \<Longrightarrow> hot_connected_params d settings q = q"
  by (simp_all add: hot_connecting_params_def hot_connected_params_def)

text \<open>The blame handlers keep the policy parameters.\<close>

lemma failure_params: "wp (handle_gateway_failure io c cs) (\<lambda>cs' _. cs_params cs' = cs_params cs) s"
  unfolding handle_gateway_failure_def clock_def any_api_endpoint_reachable_def blacklist_entry_gateway_def
  by (auto simp: wp_rules split: option.splits prod.splits)

lemma settle_params: "wp (settle_entry_gateway_suspect io cs) (\<lambda>cs' _. cs_params cs' = cs_params cs) s"
  unfolding settle_entry_gateway_suspect_def clock_def any_api_endpoint_reachable_def blacklist_entry_gateway_def
    clear_short_session_strikes_def
  by (auto simp: wp_rules split: option.splits prod.splits)

lemma bandwidth_params: "wp (connecting_bandwidth io f b cs) (\<lambda>cs' _. cs_params cs' = cs_params cs) s"
  unfolding connecting_bandwidth_def by (auto simp: wp_rules failure_params split: option.splits)

subsection \<open>The firewall as the machine sees it\<close>

locale firewall_world =
  fixes io :: "'w world_ops"
    and fw :: "'w \<Rightarrow> 'f"
    and sane :: "'f \<Rightarrow> bool"
    and flag :: "'f \<Rightarrow> bool"
    and confident :: "'f \<Rightarrow> bool"
    and enforced :: "firewall_policy option \<Rightarrow> 'f \<Rightarrow> bool"
    and sealed :: "'f \<Rightarrow> bool"
  assumes frame_offline: "w_offline io w = (b, w') \<Longrightarrow> fw w' = fw w"
    and frame_dns_set: "w_dns_set io i c w = (b, w') \<Longrightarrow> fw w' = fw w"
    and frame_dns_reset: "w_dns_reset io w = (b, w') \<Longrightarrow> fw w' = fw w"
    and frame_dns_reset_idle: "w_dns_reset_idle io d w = (b, w') \<Longrightarrow> fw w' = fw w"
    and frame_dns_removal: "w_dns_reset_before_interface_removal io w = (b, w') \<Longrightarrow> fw w' = fw w"
    and frame_routes: "fw (w_remove_routes io w) = fw w"
    and frame_discovery: "fw (w_discovery io dc w) = fw w"
    and frame_account_overrides: "w_account_overrides io o' w = (b, w') \<Longrightarrow> fw w' = fw w"
    and frame_account_firewall: "fw (w_account_firewall io up w) = fw w"
    and frame_account_refresh: "fw (w_account_refresh io w) = fw w"
    and frame_reachable: "w_api_reachable io addrs w = (b, w') \<Longrightarrow> fw w' = fw w"
    and frame_save: "fw (w_save_endpoints io addrs w) = fw w"
    and frame_start: "w_start_monitor io ps w = (m, w') \<Longrightarrow> fw w' = fw w"
    and frame_cancel: "fw (w_cancel_monitor io m w) = fw w"
    and set_flag: "sane (fw w) \<Longrightarrow> sane (fw (w_fw_set_killswitch io b w)) \<and> flag (fw (w_fw_set_killswitch io b w)) = b
      \<and> sealed (fw (w_fw_set_killswitch io b w)) = sealed (fw w)"
    and apply_sane: "w_fw_apply io p w = (ok, w') \<Longrightarrow> sane (fw w) \<Longrightarrow> sane (fw w')"
    and apply_enforces: "w_fw_apply io p w = (True, w') \<Longrightarrow> sane (fw w) \<Longrightarrow>
      enforced (if flag (fw w) then Some p else None) (fw w')"
    and apply_refused: "w_fw_apply io p w = (False, w') \<Longrightarrow> \<not> confident (fw w')"
    and apply_seals: "w_fw_apply io p w = (ok, w') \<Longrightarrow> sane (fw w) \<Longrightarrow> flag (fw w) \<Longrightarrow> ok \<or> sealed (fw w) \<Longrightarrow> sealed (fw w')"
    and reset_sane: "w_fw_reset io w = (ok, w') \<Longrightarrow> sane (fw w) \<Longrightarrow> sane (fw w')"
    and reset_opens: "w_fw_reset io w = (True, w') \<Longrightarrow> sane (fw w) \<Longrightarrow> enforced None (fw w')"
    and reset_refused: "w_fw_reset io w = (False, w') \<Longrightarrow> \<not> confident (fw w')"
begin

lemmas frames = frame_offline frame_dns_set frame_dns_reset frame_dns_reset_idle frame_dns_removal frame_routes frame_discovery
  frame_account_overrides frame_account_firewall frame_account_refresh frame_reachable frame_save frame_start frame_cancel

lemma quiet_world:
  "quiet fw (query (w_offline io))" "quiet fw (query (w_dns_set io i c))" "quiet fw (query (w_dns_reset io))"
  "quiet fw (query (w_dns_reset_idle io d))" "quiet fw (query (w_dns_reset_before_interface_removal io))"
  "quiet fw (query (w_account_overrides io pins))" "quiet fw (query (w_api_reachable io addrs))"
  "quiet fw (query (w_start_monitor io ps))" "quiet fw (act (w_remove_routes io))" "quiet fw (act (w_discovery io dc))"
  "quiet fw (act (w_account_firewall io up))" "quiet fw (act (w_account_refresh io))" "quiet fw (act (w_save_endpoints io addrs))"
  "quiet fw (act (w_cancel_monitor io m))"
  by (rule quiet_query quiet_act; (erule frames | rule frames))+

lemma quiet_calls:
  "quiet fw (allow_networking io)" "quiet fw (disallow_networking io)" "quiet fw (set_resolver_overrides io pins)"
  "quiet fw (reset_resolver_overrides io)" "quiet fw (disconnected_reset_dns io)" "quiet fw (plain_reset_dns io)"
  "quiet fw (connected_set_dns io t)" "quiet fw (connected_teardown io)" "quiet fw (any_api_endpoint_reachable io)"
  "quiet fw (force_account_refresh_if_time_desynced io n)"
  unfolding allow_networking_def disallow_networking_def set_resolver_overrides_def reset_resolver_overrides_def
    disconnected_reset_dns_def plain_reset_dns_def connected_set_dns_def connected_teardown_def any_api_endpoint_reachable_def
    force_account_refresh_if_time_desynced_def
  by (intro quiet_rules quiet_world)+

lemma quiet_settle: "quiet fw (settle_entry_gateway_suspect io cs)" and quiet_failure: "quiet fw (handle_gateway_failure io c cs)"
  unfolding settle_entry_gateway_suspect_def handle_gateway_failure_def
  by (intro quiet_rules quiet_calls quiet_modify; simp add: view_def)+

lemma quiet_bandwidth: "quiet fw (connecting_bandwidth io f b cs)"
  unfolding connecting_bandwidth_def by (intro quiet_rules quiet_failure quiet_modify; simp add: view_def)

abbreviation in_place :: "firewall_policy \<Rightarrow> 'w shared_state \<Rightarrow> bool" where
  "in_place \<equiv> in_force enforced fw"

abbreviation is_sane :: "'w shared_state \<Rightarrow> bool" where
  "is_sane s \<equiv> sane (fw (sh_world s))"

definition good :: "tunnel_state \<Rightarrow> 'w shared_state \<Rightarrow> bool" where
  "good st s = (is_sane s \<and> state_contract (w_lib io) fw confident enforced st s)"

lemma wp_apply_policy:
  assumes "is_sane s"
    and "\<And>ok t. is_sane t \<Longrightarrow> sh_settings t = sh_settings s \<Longrightarrow> sh_api_endpoints t = sh_api_endpoints s \<Longrightarrow>
      (ok \<longrightarrow> in_place p t) \<Longrightarrow> (\<not> ok \<longrightarrow> \<not> confident (fw (sh_world t))) \<Longrightarrow> Q ok t"
  shows "wp (apply_policy io p) Q s"
proof -
  let ?ks = "ts_killswitch (sh_settings s)"
  let ?w = "w_fw_set_killswitch io ?ks (sh_world s)"
  obtain ok w' where run: "w_fw_apply io p ?w = (ok, w')" by fastforce
  have flag: "sane (fw ?w)" "flag (fw ?w) = ?ks" using set_flag assms(1) by auto
  have "Q ok (s\<lparr>sh_world := w'\<rparr>)"
    using apply_sane [OF run flag(1)] apply_enforces [of p ?w w'] apply_refused [of p ?w w'] run flag
    by (intro assms(2)) (auto simp: in_force_def)
  then show ?thesis
    by (simp add: apply_policy_def wp_rules run)
qed

lemma wp_enter_idle:
  assumes "is_sane s"
    and "\<And>ok t. is_sane t \<Longrightarrow> sh_settings t = sh_settings s \<Longrightarrow> sh_api_endpoints t = sh_api_endpoints s \<Longrightarrow>
      (ok \<longrightarrow> in_place (idle_policy (w_lib io) s) t) \<Longrightarrow> (\<not> ok \<longrightarrow> \<not> confident (fw (sh_world t))) \<Longrightarrow> Q ok t"
  shows "wp (enter_idle_firewall io) Q s"
proof -
  let ?ks = "ts_killswitch (sh_settings s)"
  let ?w = "w_fw_set_killswitch io ?ks (sh_world s)"
  let ?op = "if ?ks then w_fw_apply io (idle_policy (w_lib io) s) else w_fw_reset io"
  obtain ok w' where run: "?op ?w = (ok, w')" by fastforce
  let ?t = "s\<lparr>sh_world := w'\<rparr>"
  have flag: "sane (fw ?w)" "flag (fw ?w) = ?ks" using set_flag assms(1) by auto
  have t: "is_sane ?t" "ok \<Longrightarrow> in_place (idle_policy (w_lib io) s) ?t" "\<not> ok \<Longrightarrow> \<not> confident (fw (sh_world ?t))"
    using run flag apply_sane [of _ ?w ok w'] apply_enforces [of _ ?w w'] apply_refused [of _ ?w w']
      reset_sane [of ?w ok w'] reset_opens [of ?w w'] reset_refused [of ?w w']
    by (auto simp: in_force_def split: if_splits)
  have after: "Q True t" if ok "view fw t = view fw ?t" for t
    using t that by (auto intro!: assms(2) simp: view_eq in_force_def)
  have pins: "wp (set_resolver_overrides io p) (\<lambda>_. Q True) ?t" "wp (reset_resolver_overrides io) (\<lambda>_. Q True) ?t" if ok for p
    using after [OF that] by (auto intro: wp_quiet quiet_calls)
  have refused: "Q False ?t" if "\<not> ok" by (rule assms(2)) (use t that in auto)
  show ?thesis
  proof (cases ?ks)
    case True
    with run have "w_fw_apply io (idle_blocked_policy (w_lib io) (sh_settings s) (sh_api_endpoints s)) ?w = (ok, w')"
      by (simp add: idle_policy_def)
    with True show ?thesis
      using pins refused by (auto simp: enter_idle_firewall_def wp_rules split: option.splits)
  next
    case False
    with run show ?thesis
      using pins refused by (auto simp: enter_idle_firewall_def wp_rules split: option.splits)
  qed
qed

lemmas wp_flow = wp_bind wp_return wp_gets wp_modify wp_ignore wp_let

lemmas quiet_steps = quiet_calls [THEN wp_quiet] quiet_bookkeeping [where fw = fw, THEN wp_quiet] quiet_world [THEN wp_quiet]
  quiet_settle [THEN wp_quiet] quiet_failure [THEN wp_quiet] quiet_bandwidth [THEN wp_quiet]

lemmas contract_simps = good_def view_eq in_force_def idle_policy_def

lemma wp_enter_error:
  assumes "is_sane s" and "\<And>st p t. good st t \<Longrightarrow> sh_settings t = sh_settings s \<Longrightarrow> Q (st, p) t"
  shows "wp (enter_error io reason) Q s"
  unfolding enter_error_def wp_flow
  by (rule wp_enter_idle [OF assms(1)]) (auto intro!: quiet_steps assms(2) simp: contract_simps)

lemma wp_enter_disconnected:
  assumes "is_sane s" and "\<And>st p t. good st t \<Longrightarrow> sh_settings t = sh_settings s \<Longrightarrow> Q (st, p) t"
  shows "wp (enter_disconnected io) Q s"
  unfolding enter_disconnected_def wp_flow
  by (auto intro!: quiet_steps wp_enter_idle wp_enter_error assms simp: wp_flow contract_simps)

lemma wp_enter_offline:
  assumes "is_sane s" and "\<And>st p t. good st t \<Longrightarrow> sh_settings t = sh_settings s \<Longrightarrow> Q (st, p) t"
  shows "wp (enter_offline io reconnect gateways) Q s"
  unfolding enter_offline_def wp_flow
  by (auto intro!: quiet_steps wp_apply_policy assms simp: wp_flow contract_simps)

lemma wp_enter_disconnecting:
  assumes "is_sane s" and "\<And>st p t. good st t \<Longrightarrow> sh_settings t = sh_settings s \<Longrightarrow> Q (st, p) t"
  shows "wp (enter_disconnecting io after monitor) Q s"
  unfolding enter_disconnecting_def wp_flow
  by (auto intro!: quiet_steps assms simp: wp_flow contract_simps)

lemma wp_enter_connecting:
  assumes "is_sane s" and "\<And>st p t. good st t \<Longrightarrow> sh_settings t = sh_settings s \<Longrightarrow> Q (st, p) t"
  shows "wp (enter_connecting io retry selected) Q s"
  unfolding enter_connecting_def wp_flow
  by (auto intro!: quiet_steps wp_enter_offline wp_enter_error wp_apply_policy assms
      simp: wp_flow contract_simps intro!: connecting_in_forceI initial_connecting_current)

lemma wp_enter_connected:
  assumes "is_sane s" and "\<And>st p t. good st t \<Longrightarrow> sh_settings t = sh_settings s \<Longrightarrow> Q (st, p) t"
  shows "wp (enter_connected io interface data gateways monitor) Q s"
  unfolding enter_connected_def wp_flow
  by (auto intro!: quiet_steps wp_enter_disconnecting wp_apply_policy assms
      simp: wp_flow contract_simps intro!: initial_connected_current)

lemma wp_assign [wp_rules]: "wp (assign_settings settings) Q = (\<lambda>s. Q () (s\<lparr>sh_settings := settings\<rparr>))"
  by (simp add: assign_settings_def wp_rules)

lemma wp_adopt:
  assumes "\<And>t. fw (sh_world t) = fw (sh_world s) \<Longrightarrow> sh_settings t = sh_settings s \<Longrightarrow> Q () t"
  shows "wp (adopt_resolved_api_endpoints io resolved) Q s"
  unfolding adopt_resolved_api_endpoints_def clock_def wp_flow wp_act
  by (rule assms) (simp_all add: frames)

lemma wp_release: "(\<And>ok t. Q ok t) \<Longrightarrow> wp (release_firewall_on_shutdown io) Q s"
  by (rule wp_runI)

lemmas entering = wp_enter_error wp_enter_disconnected wp_enter_offline wp_enter_disconnecting wp_enter_connecting
  wp_enter_connected

lemma good_sane: "good st s \<Longrightarrow> is_sane s"
  by (simp add: good_def)

lemma good_view: "view fw t = view fw s \<Longrightarrow> good st t = good st s"
  using state_contract_view [of fw t s] by (simp add: good_def view_eq)

lemma wp_handle_resolved:
  assumes "is_sane s"
    and "\<And>ok a t. is_sane t \<Longrightarrow> sh_settings t = sh_settings s \<Longrightarrow> (ok \<longrightarrow> result \<noteq> None \<longrightarrow> in_place (idle_policy (w_lib io) t) t) \<Longrightarrow>
      (result = None \<longrightarrow> view fw t = view fw s) \<Longrightarrow> (\<not> ok \<longrightarrow> \<not> confident (fw (sh_world t))) \<Longrightarrow> (result = None \<longrightarrow> ok) \<Longrightarrow> Q (ok, a) t"
  shows "wp (handle_resolved io result a) Q s"
  unfolding handle_resolved_def Let_def install_idle_api_access_def
  by (auto simp: wp_flow wp_option contract_simps split: option.splits
      intro!: quiet_steps wp_adopt wp_enter_idle assms)

lemma good_disconnected:
  assumes "good (StDisconnected a) s"
  shows "wp (handle_disconnected io a ev) (next_holds good) s"
  using assms good_sane [OF assms] unfolding handle_disconnected_def
  by (auto split: event.splits tunnel_command.splits simp: wp_flow wp_assign contract_simps
      intro!: quiet_steps wp_new_state wp_same_state entering wp_enter_idle wp_handle_resolved)

lemma good_error:
  assumes "good (StError reason a) s"
  shows "wp (handle_error io reason a ev) (next_holds good) s"
  using assms good_sane [OF assms] unfolding handle_error_def
  by (auto split: event.splits tunnel_command.splits option.splits simp: wp_flow wp_assign contract_simps idle_policy_settings
      intro!: quiet_steps wp_release wp_new_state wp_same_state entering wp_enter_idle wp_handle_resolved)

lemma good_offline:
  assumes "good (StOffline reconnect gateways lan) s"
  shows "wp (handle_offline io reconnect gateways lan ev) (next_holds good) s"
  using assms good_sane [OF assms] unfolding handle_offline_def
  by (auto split: event.splits tunnel_command.splits option.splits simp: wp_flow wp_assign contract_simps
      settings_diff_Some in_changed_fields
      intro!: quiet_steps wp_release wp_new_state wp_same_state entering wp_apply_policy)

lemma good_disconnecting:
  assumes "is_sane s"
  shows "wp (handle_disconnecting io after waiting ev) (next_holds good) s"
  using assms unfolding handle_disconnecting_def leave_disconnecting_def
  by (auto split: event.splits tunnel_command.splits option.splits after_disconnect.splits simp: wp_flow wp_assign contract_simps
      intro!: quiet_steps wp_new_state wp_same_state entering)

lemma good_reconnect: "is_sane s \<Longrightarrow> wp (reconnect_attempt io cs) (next_holds good) s"
  unfolding reconnect_attempt_def
  by (auto simp: wp_flow view_eq Let_def intro!: quiet_steps wp_new_state entering)

lemma good_connecting_disconnect: "is_sane s \<Longrightarrow> wp (connecting_disconnect io after monitor) (next_holds good) s"
  unfolding connecting_disconnect_def
  by (auto simp: wp_flow view_eq intro!: quiet_steps wp_new_state entering)

lemma good_connecting_stop: "is_sane s \<Longrightarrow> wp (connecting_stop io cs) (next_holds good) s"
  unfolding connecting_stop_def
  by (auto simp: wp_flow view_eq split: option.splits intro!: quiet_steps wp_new_state entering good_connecting_disconnect)

lemma good_policy_failed: "is_sane s \<Longrightarrow> wp (connecting_policy_failed io cs) (next_holds good) s"
  unfolding connecting_policy_failed_def by (auto split: option.splits intro!: wp_new_state entering)

lemma good_report: "good (StConnecting cs) s \<Longrightarrow> wp (report_progress progress cs) (next_holds good) s"
  unfolding report_progress_def by (simp add: wp_flow)

lemma good_connecting_up: "is_sane s \<Longrightarrow> wp (connecting_up io interface data cs) (next_holds good) s"
  unfolding connecting_up_def
  by (auto simp: wp_flow split: option.splits bool.splits intro!: wp_new_state entering)

lemma good_connecting_down: "is_sane s \<Longrightarrow> wp (connecting_down io reason cs) (next_holds good) s"
  unfolding connecting_down_def
  by (auto simp: wp_flow view_eq split: option.splits intro!: quiet_steps wp_new_state entering good_reconnect)

lemma wp_blame:
  assumes "quiet fw m" "wp m (\<lambda>cs' _. cs_params cs' = cs_params cs) s"
    and "\<And>cs' t. view fw t = view fw s \<Longrightarrow> cs_params cs' = cs_params cs \<Longrightarrow> Q cs' t"
  shows "wp m Q s"
proof -
  have "wp m (\<lambda>_ t. view fw t = view fw s) s" by (rule wp_quiet [OF assms(1)])
  with assms(2) have "wp m (\<lambda>cs' t. cs_params cs' = cs_params cs \<and> view fw t = view fw s) s" by (simp add: wp_conj)
  then show ?thesis by (rule wp_mono) (simp add: assms(3))
qed

lemmas blaming = wp_blame [OF quiet_failure failure_params] wp_blame [OF quiet_settle settle_params]
  wp_blame [OF quiet_bandwidth bandwidth_params]

lemma good_connecting_params: "good (StConnecting cs) s \<Longrightarrow> view fw t = view fw s \<Longrightarrow> cs_params cs' = cs_params cs \<Longrightarrow>
    good (StConnecting cs') t"
  using good_view [of t s "StConnecting cs"] by (simp add: good_def)

lemma good_start_monitor:
  assumes "good (StConnecting cs) s"
  shows "wp (start_tunnel_monitor io resolved cs) (next_holds good) s"
  unfolding start_tunnel_monitor_def using good_sane [OF assms]
  by (auto simp: wp_flow intro!: quiet_steps wp_new_state wp_same_state entering good_connecting_params [OF assms])

lemma good_resolved:
  assumes "good (StConnecting cs) s"
  shows "wp (handle_resolved_gateway_config io result cs) (next_holds good) s"
proof (cases result)
  case None
  then show ?thesis
    using good_sane [OF assms] by (simp add: handle_resolved_gateway_config_def good_reconnect)
next
  case (Some resolved)
  let ?cs = "\<lambda>eps. cs\<lparr>cs_resolving := False, cs_params := (cs_params cs)\<lparr>cp_api_endpoints := eps\<rparr>\<rparr>"
  have rest: "wp (do { allow_networking io; cs \<leftarrow> settle_entry_gateway_suspect io c;
      force_account_refresh_if_time_desynced io (cs_retry_attempt cs); start_tunnel_monitor io (Some resolved) cs }) (next_holds good) t"
    if "good (StConnecting c) t" for c t
    unfolding wp_flow
    by (intro quiet_steps blaming good_start_monitor) (auto intro: good_connecting_params [OF that] simp: view_eq)
  show ?thesis
    unfolding handle_resolved_gateway_config_def connecting_set_policy_def
    by (use assms Some in \<open>auto simp: wp_flow contract_simps connecting_current_def
      intro!: quiet_steps wp_adopt wp_apply_policy wp_new_state entering rest [unfolded wp_flow] connecting_in_forceI\<close>)
qed

lemma good_selected:
  assumes "good (StConnecting cs) s"
  shows "wp (connecting_monitor_event io (SelectedGateways gateways) cs) (next_holds good) s"
  unfolding connecting_monitor_event_def connecting_selected_gateways_def connecting_set_policy_def
  by (use assms in \<open>auto simp: wp_flow contract_simps connecting_current_def
    intro!: wp_apply_policy wp_same_state good_policy_failed connecting_in_forceI\<close>)

lemma good_interface_up:
  assumes "good (StConnecting cs) s"
  shows "wp (connecting_monitor_event io (InterfaceUp interface data) cs) (next_holds good) s"
  unfolding connecting_monitor_event_def connecting_set_policy_def
  by (use assms in \<open>auto simp: wp_flow contract_simps connecting_current_def
    intro!: wp_apply_policy good_report good_policy_failed connecting_in_forceI\<close>)

lemma good_registered:
  assumes "good (StConnecting cs) s"
  shows "wp (connecting_monitor_event io (RegisteredWithGateways data) cs) (next_holds good) s"
  unfolding connecting_monitor_event_def
  by (use assms in \<open>auto simp: wp_flow contract_simps connecting_current_def connecting_registered_def intro!: good_report\<close>)

lemma good_monitor_event:
  assumes "good (StConnecting cs) s"
  shows "wp (connecting_monitor_event io ev cs) (next_holds good) s"
proof (cases ev)
  case (Up interface data)
  then show ?thesis using good_connecting_up good_sane [OF assms] by (simp add: connecting_monitor_event_def)
next
  case (Down reason)
  then show ?thesis using good_connecting_down good_sane [OF assms] by (simp add: connecting_monitor_event_def)
next
  case (RegisteredWithGateways data)
  then show ?thesis using good_registered [OF assms] by simp
next
  case (SelectedGateways gateways)
  then show ?thesis using good_selected [OF assms] by simp
next
  case (InterfaceUp interface data)
  then show ?thesis using good_interface_up [OF assms] by simp
qed (use assms in \<open>auto simp: connecting_monitor_event_def wp_flow
    intro!: good_report blaming wp_same_state good_connecting_params [OF assms]\<close>)

lemma good_connecting_settings:
  assumes "good (StConnecting cs) s"
  shows "wp (connecting_set_settings io settings cs) (next_holds good) s"
proof (cases "settings_diff (sh_settings s) settings")
  case None
  then show ?thesis using assms by (simp add: connecting_set_settings_def wp_flow same_state_def)
next
  case (Some d)
  let ?p = "hot_connecting_params d settings (cs_params cs)"
  let ?cs = "cs\<lparr>cs_params := ?p\<rparr>"
  have current: "connecting_current (w_lib io) ?p t"
    if "needs_no_reconnect d settings" "sh_settings t = settings" "sh_api_endpoints t = sh_api_endpoints s" for t :: "'w shared_state"
    using assms by (intro connecting_current_hot [OF Some that(1) _ that(2,3)]) (simp add: good_def)
  show ?thesis
  proof (cases "FAllowLan \<in> d \<or> FInboundExemptions \<in> d \<or> FKillswitch \<in> d")
    case True
    have "\<forall>t :: 'w shared_state. needs_no_reconnect d settings \<longrightarrow> sh_settings t = settings \<longrightarrow> sh_api_endpoints t = sh_api_endpoints s \<longrightarrow>
        connecting_current (w_lib io) ?p t"
      by (intro allI impI current)
    with True show ?thesis
      using good_sane [OF assms] Some
      by (auto simp: connecting_set_settings_def wp_flow wp_assign connecting_set_policy_def good_def
          split: option.splits
          intro!: wp_apply_policy wp_new_state wp_same_state entering good_connecting_disconnect connecting_in_forceI)
  next
    case False
    have "good (StConnecting ?cs) (s\<lparr>sh_settings := settings\<rparr>)" if "needs_no_reconnect d settings"
      using assms current [OF that] no_reconnect_same(3) [OF Some that] False
      by (auto simp: good_def hot_params_unchanged connecting_in_force_def in_force_def)
    with False show ?thesis
      using good_sane [OF assms] Some
      by (auto simp: connecting_set_settings_def wp_flow wp_assign split: option.splits
          intro!: wp_new_state wp_same_state entering good_connecting_disconnect)
  qed
qed

lemma good_connecting:
  assumes "good (StConnecting cs) s"
  shows "wp (handle_connecting io cs ev) (next_holds good) s"
  using assms good_sane [OF assms] unfolding handle_connecting_def
  by (auto split: event.splits tunnel_command.splits option.splits simp: wp_flow view_eq
      intro!: quiet_steps wp_new_state wp_same_state entering good_resolved good_monitor_event good_connecting_settings
        good_connecting_stop good_connecting_disconnect good_connecting_params [OF assms])

lemma good_connected_disconnect: "is_sane s \<Longrightarrow> wp (connected_disconnect io after ds) (next_holds good) s"
  unfolding connected_disconnect_def
  by (auto simp: wp_flow view_eq intro!: quiet_steps wp_new_state entering)

lemma good_tunnel_down: "is_sane s \<Longrightarrow> wp (handle_tunnel_down io reason ds) (next_holds good) s"
  unfolding handle_tunnel_down_def bandwidth_failure_end_def ordinary_end_def
  by (auto simp: wp_flow wp_prod view_eq Let_def split: option.splits prod.splits intro!: quiet_steps wp_new_state entering)

lemma good_connected_settings:
  assumes "good (StConnected ds) s"
  shows "wp (connected_set_settings io settings ds) (next_holds good) s"
proof (cases "settings_diff (sh_settings s) settings")
  case None
  then show ?thesis using assms by (simp add: connected_set_settings_def wp_flow same_state_def)
next
  case (Some d)
  let ?p = "hot_connected_params d settings (ds_params ds)"
  have current: "connected_current (w_lib io) ?p t" if "needs_no_reconnect d settings" "sh_settings t = settings" for t :: "'w shared_state"
    using assms by (intro connected_current_hot [OF Some that(1) _ that(2)]) (simp add: good_def)
  show ?thesis
  proof (cases "FAllowLan \<in> d \<or> FInboundExemptions \<in> d")
    case True
    then show ?thesis
      using good_sane [OF assms] Some no_reconnect_same(3) [OF Some] current [of "t\<lparr>sh_settings := settings\<rparr>" for t]
      by (auto simp: connected_set_settings_def wp_flow wp_assign good_def in_force_def
          intro!: wp_apply_policy wp_new_state wp_same_state entering good_connected_disconnect)
  next
    case False
    then show ?thesis
      using assms Some no_reconnect_same(3) [OF Some] current [of "s\<lparr>sh_settings := settings\<rparr>"]
      by (auto simp: connected_set_settings_def wp_flow wp_assign hot_params_unchanged good_def in_force_def
          intro!: wp_same_state good_connected_disconnect)
  qed
qed

lemma good_connected:
  assumes "good (StConnected ds) s"
  shows "wp (handle_connected io ds ev) (next_holds good) s"
proof -
  have data: "good (StConnected (ds\<lparr>ds_bandwidth_failure := f, ds_bandwidth_checks_worked := b\<rparr>)) s" for f b
    using assms by (simp add: good_def)
  show ?thesis
    using assms good_sane [OF assms] data unfolding handle_connected_def
    by (auto split: event.splits tunnel_command.splits monitor_event.splits simp: wp_flow view_eq
        intro!: quiet_steps wp_same_state good_connected_settings good_connected_disconnect good_tunnel_down)
qed

theorem handle_event_good:
  assumes "good st s"
  shows "wp (handle_event io st ev) (next_holds good) s"
  using assms good_sane [OF assms]
  by (cases st) (simp_all add: handle_event_def good_disconnected good_connecting good_connected good_disconnecting
      good_error good_offline)

lemma spawn_good:
  assumes "is_sane s"
  shows "wp (spawn_machine io) (\<lambda>(st, private). good st) s"
  unfolding spawn_machine_def
  by (use assms in \<open>auto simp: wp_flow view_eq intro!: quiet_steps entering\<close>)

end

subsection \<open>Staying sealed\<close>

context firewall_world
begin

definition held :: "'w shared_state \<Rightarrow> bool" where
  "held s = (is_sane s \<and> sealed (fw (sh_world s)) \<and> ts_killswitch (sh_settings s))"

lemma held_quiet: "quiet fw m \<Longrightarrow> keeping held m"
  unfolding keeping_def by (auto simp: held_def view_eq intro: wp_quiet)

lemma held_apply: "keeping held (apply_policy io p)"
  unfolding keeping_def apply_policy_def
  using set_flag by (auto simp: wp_rules held_def split: prod.splits intro: apply_sane apply_seals)

lemma held_idle: "keeping held (enter_idle_firewall io)"
  unfolding keeping_def
proof (intro allI impI)
  fix s
  assume held: "held s"
  let ?p = "idle_blocked_policy (w_lib io) (sh_settings s) (sh_api_endpoints s)"
  let ?w = "w_fw_set_killswitch io True (sh_world s)"
  obtain ok w' where run: "w_fw_apply io ?p ?w = (ok, w')" by fastforce
  have w: "sane (fw ?w)" "flag (fw ?w)" "sealed (fw ?w)"
    using held set_flag [of "sh_world s" True] by (auto simp: held_def)
  have after: "held (s\<lparr>sh_world := w'\<rparr>)"
    using held apply_sane [OF run w(1)] apply_seals [OF run w(1,2)] w(3) by (simp add: held_def)
  have ks: "ts_killswitch (sh_settings s)" using held by (simp add: held_def)
  show "wp (enter_idle_firewall io) (\<lambda>_. held) s"
    using after run keeping_wp [OF held_quiet [OF quiet_calls(3)] after] keeping_wp [OF held_quiet [OF quiet_calls(4)] after]
    by (simp add: enter_idle_firewall_def wp_flow wp_query wp_act ks split: option.splits)
qed

lemma held_release: "keeping held (release_firewall_on_shutdown io)"
  by (simp add: keeping_def release_firewall_on_shutdown_def wp_rules held_def)

lemma held_adopt: "keeping held (adopt_resolved_api_endpoints io resolved)"
  unfolding keeping_def by (auto intro!: wp_adopt simp: held_def)

lemma held_assign: "ts_killswitch settings \<Longrightarrow> keeping held (assign_settings settings)"
  by (simp add: keeping_def wp_assign held_def)

lemma held_modify: "(\<And>s. view fw (f s) = view fw s) \<Longrightarrow> keeping held (modify f)"
  by (rule held_quiet [OF quiet_modify])

lemma keeping_steps:
  "keeping P m \<Longrightarrow> keeping P (ignore m)" "keeping P n \<Longrightarrow> keeping P (new_state n)" "keeping P (same_state st)"
  unfolding ignore_def new_state_def same_state_def by (intro keeping_rules; simp)+

lemmas held_rules = keeping_steps held_apply held_idle held_release held_adopt quiet_calls [THEN held_quiet]
  quiet_bookkeeping [where fw = fw, THEN held_quiet] quiet_world [THEN held_quiet] quiet_settle [THEN held_quiet]
  quiet_failure [THEN held_quiet] quiet_bandwidth [THEN held_quiet]

lemma held_entering:
  "keeping held (enter_error io reason)" "keeping held (enter_offline io reconnect gateways)"
  "keeping held (enter_disconnecting io after monitor)"
  unfolding enter_error_def enter_offline_def enter_disconnecting_def
  by (intro keeping_rules held_rules)+

lemma held_entering_more:
  "keeping held (enter_disconnected io)" "keeping held (enter_connecting io retry selected)"
  "keeping held (enter_connected io interface data selected' monitor)"
  unfolding enter_disconnected_def enter_connecting_def enter_connected_def
  by (intro keeping_rules held_rules held_entering held_modify; simp add: view_def)+

lemmas held_enter = held_entering held_entering_more

abbreviation keeps_killswitch :: "event \<Rightarrow> bool" where
  "keeps_killswitch ev \<equiv> (\<forall>settings. ev = Command (SetTunnelSettings settings) \<longrightarrow> ts_killswitch settings)"

lemma held_resolved_idle: "keeping held (handle_resolved io result a)"
  unfolding handle_resolved_def install_idle_api_access_def by (intro keeping_rules held_rules)

lemma held_disconnected: "keeps_killswitch ev \<Longrightarrow> keeping held (handle_disconnected io a ev)"
  unfolding handle_disconnected_def
  by (auto split: event.splits tunnel_command.splits intro!: keeping_rules held_rules held_enter held_assign held_resolved_idle)

lemma held_error: "keeps_killswitch ev \<Longrightarrow> keeping held (handle_error io reason a ev)"
  unfolding handle_error_def
  by (auto split: event.splits tunnel_command.splits intro!: keeping_rules held_rules held_enter held_assign held_resolved_idle)

lemma held_offline: "keeps_killswitch ev \<Longrightarrow> keeping held (handle_offline io reconnect gateways lan ev)"
  unfolding handle_offline_def
  by (auto split: event.splits tunnel_command.splits simp: view_def
      intro!: keeping_rules held_rules held_enter held_assign held_modify)

lemma held_disconnecting: "keeps_killswitch ev \<Longrightarrow> keeping held (handle_disconnecting io after waiting ev)"
  unfolding handle_disconnecting_def leave_disconnecting_def
  by (auto split: event.splits tunnel_command.splits after_disconnect.splits
      intro!: keeping_rules held_rules held_enter held_assign)

lemma held_connecting_parts:
  "keeping held (reconnect_attempt io cs)" "keeping held (connecting_disconnect io after monitor)"
  "keeping held (connecting_policy_failed io cs)" "keeping held (report_progress progress cs)"
  "keeping held (start_tunnel_monitor io resolved cs)"
  unfolding reconnect_attempt_def connecting_disconnect_def connecting_policy_failed_def report_progress_def start_tunnel_monitor_def
  by (auto split: option.splits intro!: keeping_rules held_rules held_enter)

lemma held_connecting_stop: "keeping held (connecting_stop io cs)"
  unfolding connecting_stop_def
  by (intro keeping_rules held_rules held_enter held_connecting_parts)

lemma held_resolved: "keeping held (handle_resolved_gateway_config io result cs)"
  unfolding handle_resolved_gateway_config_def connecting_set_policy_def
  by (intro keeping_rules held_rules held_enter held_connecting_parts)

lemma held_connecting_settings: "ts_killswitch settings \<Longrightarrow> keeping held (connecting_set_settings io settings cs)"
  unfolding connecting_set_settings_def connecting_set_policy_def
  by (intro keeping_rules held_rules held_enter held_connecting_parts held_assign)

lemma held_monitor_event: "keeping held (connecting_monitor_event io ev cs)"
  unfolding connecting_monitor_event_def connecting_selected_gateways_def connecting_set_policy_def connecting_up_def connecting_down_def
  by (auto split: monitor_event.splits option.splits bool.splits simp: view_def
      intro!: keeping_rules held_rules held_enter held_connecting_parts held_modify)

lemma held_connecting: "keeps_killswitch ev \<Longrightarrow> keeping held (handle_connecting io cs ev)"
  unfolding handle_connecting_def
  by (auto split: event.splits tunnel_command.splits intro!: keeping_rules held_rules held_enter held_connecting_parts
      held_connecting_stop held_resolved held_connecting_settings held_monitor_event)

lemma held_connected_disconnect: "keeping held (connected_disconnect io after ds)"
  unfolding connected_disconnect_def by (intro keeping_rules held_rules held_enter)

lemma held_tunnel_down: "keeping held (handle_tunnel_down io reason ds)"
  unfolding handle_tunnel_down_def bandwidth_failure_end_def ordinary_end_def
  by (auto split: option.splits prod.splits simp: view_def
      intro!: keeping_rules held_rules held_enter held_modify)

lemma held_connected: "keeps_killswitch ev \<Longrightarrow> keeping held (handle_connected io ds ev)"
  unfolding handle_connected_def connected_set_settings_def
  by (auto split: event.splits tunnel_command.splits monitor_event.splits
      intro!: keeping_rules held_rules held_enter held_assign held_connected_disconnect held_tunnel_down)

theorem handle_event_held: "keeps_killswitch ev \<Longrightarrow> keeping held (handle_event io st ev)"
  unfolding handle_event_def
  by (cases st) (simp_all add: held_disconnected held_connecting held_connected held_disconnecting held_error held_offline)

end

subsection \<open>Runs\<close>

locale machine_environment = firewall_world io fw sane flag confident enforced sealed
  for io :: "'w world_ops" and fw :: "'w \<Rightarrow> 'f" and sane flag confident enforced sealed +
  fixes env :: "'w \<Rightarrow> 'w \<Rightarrow> bool"
  assumes env_frame: "env w w' \<Longrightarrow> fw w' = fw w"
begin

lemma run_good: "machine_run io env st0 s0 evs n s \<Longrightarrow> good st0 s0 \<Longrightarrow> next_holds good n s"
proof (induction rule: machine_run.induct)
  case (run_event evs n s st w ev n' s')
  then have "good st s" by (cases n) auto
  moreover have "view fw (s\<lparr>sh_world := w\<rparr>) = view fw s"
    using env_frame [OF run_event.hyps(3)] by (simp add: view_def)
  ultimately have "good st (s\<lparr>sh_world := w\<rparr>)" using good_view by blast
  from wp_run [OF handle_event_good [OF this] run_event.hyps(4)] show ?case .
qed simp

lemma run_held:
  "machine_run io env st0 s0 evs n s \<Longrightarrow> held s0 \<Longrightarrow> \<forall>ev\<in>set evs. keeps_killswitch ev \<Longrightarrow> held s"
proof (induction rule: machine_run.induct)
  case (run_event evs n s st w ev n' s')
  then have "held s" by simp
  then have "held (s\<lparr>sh_world := w\<rparr>)"
    using env_frame [OF run_event.hyps(3)] by (simp add: held_def)
  moreover have "keeping held (handle_event io st ev)"
    using run_event.prems(2) by (intro handle_event_held) simp
  ultimately show ?case
    using wp_run [OF keeping_wp run_event.hyps(4)] by blast
qed

lemma spawned_good:
  assumes "is_sane s" and "run_state (spawn_machine io) s = ((st0, private), s0)" and "machine_run io env st0 s0 evs n t"
  shows "next_holds good n t"
  using run_good [OF assms(3)] wp_run [OF spawn_good [OF assms(1)] assms(2)] by simp

lemma spawn_held: "keeping held (spawn_machine io)"
  unfolding spawn_machine_def by (intro keeping_rules held_rules held_enter)

lemma spawned_held:
  assumes "held s" and "run_state (spawn_machine io) s = ((st0, private), s0)" and "machine_run io env st0 s0 evs n t"
    and "\<forall>ev\<in>set evs. keeps_killswitch ev"
  shows "held t"
  using run_held [OF assms(3) _ assms(4)] wp_run [OF keeping_wp [OF spawn_held assms(1)] assms(2)] by simp

end

end
