(* ===== verification/FW_Killswitch.thy ===== *)
theory FW_Killswitch
  imports FW_Policy
begin

text \<open>
  What a compiled policy does to packets. An abstract kill-switch (\<open>egress_allowed\<close>,
  \<open>forward_spec\<close>, \<open>input_spec\<close>) says in terms of packets what each policy lets through; the
  chains of \<open>compile_with\<close> are shown to implement it exactly, and the guarantees tabulated in
  \<open>docs/architecture/killswitch-contract.md\<close> (no DNS leak, no LAN-to-WAN forward, no accept for
  traffic arriving from outside, CVE-2019-14899, inbound exemptions) are proved from it.
\<close>

subsection \<open>Kinds of packets\<close>

definition dns_packet :: "packet \<Rightarrow> bool" where
  "dns_packet p = ((p_proto p = Some Udp \<or> p_proto p = Some Tcp) \<and> p_dport p = DNS_PORT)"

definition dhcp_packet :: "packet \<Rightarrow> bool" where
  "dhcp_packet p =
     (p_proto p = Some Udp \<and>
      (if is_v4 (p_daddr p)
       then (p_sport p, p_dport p) \<in> {(DHCPV4_CLIENT_PORT, DHCPV4_SERVER_PORT), (DHCPV4_SERVER_PORT, DHCPV4_CLIENT_PORT)}
       else (p_sport p, p_dport p) \<in> {(DHCPV6_CLIENT_PORT, DHCPV6_SERVER_PORT), (DHCPV6_SERVER_PORT, DHCPV6_CLIENT_PORT)}))"

definition ndp_packet :: "packet \<Rightarrow> bool" where
  "ndp_packet p = (\<not> is_v4 (p_daddr p) \<and> p_proto p = Some IcmpV6 \<and>
     p_icmpv6 p \<in> {Some RouterSolicit, Some NeighborSolicit, Some NeighborAdvert})"

definition echo_request :: "packet \<Rightarrow> bool" where
  "echo_request p =
     (if is_v4 (p_daddr p) then p_proto p = Some Icmp \<and> p_icmpv4 p = Some EchoRequest4
      else p_proto p = Some IcmpV6 \<and> p_icmpv6 p = Some EchoRequest6)"

definition base_allowed :: "netfilter \<Rightarrow> ip_addr list \<Rightarrow> packet \<Rightarrow> bool" where
  "base_allowed nf mwan3 p =
     (nf_iface nf ''lo'' (p_oif p) \<or> dhcp_packet p \<or> ndp_packet p
      \<or> (echo_request p \<and> p_daddr p \<in> set mwan3))"

definition endpoint_allows :: "allowed_endpoint \<Rightarrow> packet \<Rightarrow> bool" where
  "endpoint_allows ep p =
     (p_daddr p = e_ip (ae_endpoint ep) \<and> p_dport p = e_port (ae_endpoint ep)
      \<and> p_proto p = Some (proto_of (e_protocol (ae_endpoint ep)))
      \<and> (ae_clients ep = Root \<longrightarrow> p_uid p = Some ROOT_UID))"

text \<open>A query to a resolver: plain DNS, DNS over TLS or DNS over HTTPS.\<close>

definition resolver_query :: "ip_addr \<Rightarrow> packet \<Rightarrow> bool" where
  "resolver_query dns p =
     (p_daddr p = dns \<and>
      (dns_packet p \<or> (p_proto p = Some Tcp \<and> (p_dport p = DOT_PORT \<or> p_dport p = DOH_PORT))))"

definition ntp_allowed :: "netfilter \<Rightarrow> packet \<Rightarrow> bool" where
  "ntp_allowed nf p =
     (p_proto p = Some Udp \<and> p_dport p = NTP_PORT
      \<and> nf_limit nf \<lparr>per_minute = NTP_RATE_PER_MIN, burst = NTP_BURST\<rparr> p)"

definition hatch_allowed :: "netfilter \<Rightarrow> packet \<Rightarrow> bool" where
  "hatch_allowed nf p =
     (dns_packet p \<and> p_uid p = Some ROOT_UID
      \<and> nf_limit nf \<lparr>per_minute = DNS_RATE_PER_MIN, burst = DNS_BURST\<rparr> p)"

definition probe_allowed :: "netfilter \<Rightarrow> packet \<Rightarrow> bool" where
  "probe_allowed nf p =
     (echo_request p \<and> p_mark p = TUNNEL_FWMARK
      \<and> nf_limit nf \<lparr>per_minute = PROBE_RATE_PER_MIN, burst = PROBE_BURST\<rparr> p)"

definition lan_dest :: "netfilter \<Rightarrow> packet \<Rightarrow> bool" where
  "lan_dest nf p =
     (if is_v4 (p_daddr p) then \<exists>n\<in>set LAN_NETS_V4. nf_net nf n (p_daddr p)
      else \<exists>n\<in>set LAN_NETS_V6. nf_net nf n (p_daddr p))"

definition multicast_dest :: "netfilter \<Rightarrow> packet \<Rightarrow> bool" where
  "multicast_dest nf p =
     nf_net nf (if is_v4 (p_daddr p) then MULTICAST_V4 else MULTICAST_V6) (p_daddr p)"

subsection \<open>The abstract kill-switch\<close>

text \<open>A resolver while the tunnel is down: pinned to its LAN device, or for the daemon alone.\<close>

definition resolver_down :: "netfilter \<Rightarrow> (ip_network \<Rightarrow> ip_addr \<Rightarrow> bool) \<Rightarrow> uplink \<Rightarrow> string list \<Rightarrow> ip_addr \<Rightarrow> packet \<Rightarrow> bool" where
  "resolver_down nf contains u ifaces dns p =
     (resolver_query dns p \<and>
      (case private_dns_out contains u ifaces dns of
         Some dev \<Rightarrow> nf_iface nf dev (p_oif p)
       | None \<Rightarrow> p_uid p = Some ROOT_UID))"

text \<open>A non-tunnel resolver while connected: pinned, through the tunnel, or anywhere if public.\<close>

definition resolver_up :: "netfilter \<Rightarrow> (ip_network \<Rightarrow> ip_addr \<Rightarrow> bool) \<Rightarrow> uplink \<Rightarrow> string list \<Rightarrow> ip_addr \<Rightarrow> packet \<Rightarrow> bool" where
  "resolver_up nf contains u ifaces dns p =
     (resolver_query dns p \<and>
      (case private_dns_out contains u ifaces dns of
         Some dev \<Rightarrow> nf_iface nf dev (p_oif p)
       | None \<Rightarrow> is_private_dns contains dns \<longrightarrow> (\<exists>i\<in>set ifaces. nf_iface nf i (p_oif p))))"

definition via_tunnel :: "netfilter \<Rightarrow> string list \<Rightarrow> packet \<Rightarrow> bool" where
  "via_tunnel nf ifaces p = (\<exists>i\<in>set ifaces. nf_iface nf i (p_oif p))"

definition exempt_marked :: "inbound_exemption list \<Rightarrow> packet \<Rightarrow> bool" where
  "exempt_marked xs p = (xs \<noteq> [] \<and> p_mark p = EXEMPT_FWMARK)"

text \<open>Allowances that come before the DNS block, and those that come after it.\<close>

fun allowed_before_dns :: "netfilter \<Rightarrow> (ip_network \<Rightarrow> ip_addr \<Rightarrow> bool) \<Rightarrow> uplink \<Rightarrow> firewall_policy \<Rightarrow> packet \<Rightarrow> bool" where
  "allowed_before_dns nf contains u (Connecting c) p =
     ((\<exists>ep\<in>set (cg_peer_endpoints c @ cg_allowed_endpoints c). endpoint_allows ep p)
      \<or> (\<exists>dns\<in>set (d_non_tunnel (cg_dns_config c)). resolver_down nf contains u (ifaces_of (cg_tunnel c)) dns p)
      \<or> via_tunnel nf (ifaces_of (cg_tunnel c)) p
      \<or> exempt_marked (cg_inbound_exemptions c) p
      \<or> hatch_allowed nf p)"
| "allowed_before_dns nf contains u (Connected c) p =
     (let ifaces = map t_interface (inner_metadatas (cd_tunnel c)) in
      (\<exists>ep\<in>set (cd_peer_endpoints c @ cd_allowed_endpoints c). endpoint_allows ep p)
      \<or> (\<exists>dns\<in>set (d_non_tunnel (cd_dns_config c)). resolver_up nf contains u ifaces dns p)
      \<or> via_tunnel nf ifaces p
      \<or> exempt_marked (cd_inbound_exemptions c) p)"
| "allowed_before_dns nf contains u (Blocked b) p =
     ((\<exists>ep\<in>set (bl_allowed_endpoints b). endpoint_allows ep p)
      \<or> (\<exists>dns\<in>set (bl_dns_servers b). resolver_down nf contains u [] dns p)
      \<or> hatch_allowed nf p)"

fun has_ntp_hatch :: "firewall_policy \<Rightarrow> bool" where
  "has_ntp_hatch (Connected _) = False"
| "has_ntp_hatch _ = True"

definition allowed_after_dns :: "netfilter \<Rightarrow> firewall_policy \<Rightarrow> packet \<Rightarrow> bool" where
  "allowed_after_dns nf policy p =
     ((has_ntp_hatch policy \<and> ntp_allowed nf p) \<or> probe_allowed nf p
      \<or> (allow_lan policy \<and> (lan_dest nf p \<or> multicast_dest nf p)))"

definition egress_allowed ::
  "netfilter \<Rightarrow> (ip_network \<Rightarrow> ip_addr \<Rightarrow> bool) \<Rightarrow> ip_addr list \<Rightarrow> uplink \<Rightarrow> firewall_policy \<Rightarrow> packet \<Rightarrow> bool" where
  "egress_allowed nf contains mwan3 u policy p =
     (base_allowed nf mwan3 p \<or> allowed_before_dns nf contains u policy p
      \<or> (\<not> dns_packet p \<and> allowed_after_dns nf policy p))"

text \<open>Forwarding: which resolvers LAN clients reach directly, and the decision as a whole.\<close>

definition fwd_resolver :: "netfilter \<Rightarrow> (ip_network \<Rightarrow> ip_addr \<Rightarrow> bool) \<Rightarrow> uplink \<Rightarrow> string list \<Rightarrow> bool \<Rightarrow> ip_addr \<Rightarrow> packet \<Rightarrow> bool" where
  "fwd_resolver nf contains u ifaces connected dns p =
     (p_daddr p = dns \<and> dns_packet p \<and>
      (case private_dns_out contains u ifaces dns of
         Some dev \<Rightarrow> nf_iface nf dev (p_oif p)
       | None \<Rightarrow> connected \<and> \<not> is_private_dns contains dns))"

fun forward_allowed :: "netfilter \<Rightarrow> (ip_network \<Rightarrow> ip_addr \<Rightarrow> bool) \<Rightarrow> uplink \<Rightarrow> firewall_policy \<Rightarrow> packet \<Rightarrow> bool" where
  "forward_allowed nf contains u (Connecting c) p =
     ((\<exists>dns\<in>set (d_non_tunnel (cg_dns_config c)). fwd_resolver nf contains u (ifaces_of (cg_tunnel c)) False dns p)
      \<or> via_tunnel nf (ifaces_of (cg_tunnel c)) p)"
| "forward_allowed nf contains u (Connected c) p =
     (let ifaces = map t_interface (inner_metadatas (cd_tunnel c)) in
      (\<exists>dns\<in>set (d_non_tunnel (cd_dns_config c)). fwd_resolver nf contains u ifaces True dns p)
      \<or> via_tunnel nf ifaces p)"
| "forward_allowed nf contains u (Blocked b) p =
     (\<exists>dns\<in>set (bl_dns_servers b). fwd_resolver nf contains u [] False dns p)"

definition from_outside :: "netfilter \<Rightarrow> uplink \<Rightarrow> firewall_policy \<Rightarrow> packet \<Rightarrow> bool" where
  "from_outside nf u policy p =
     (\<exists>d\<in>set (wan_devices u @ tunnel_interfaces policy). nf_iface nf d (p_iif p))"

definition to_wan :: "netfilter \<Rightarrow> uplink \<Rightarrow> packet \<Rightarrow> bool" where
  "to_wan nf u p = (\<exists>w\<in>set (wan_devices u). nf_iface nf w (p_oif p))"

definition forward_spec ::
  "netfilter \<Rightarrow> (ip_network \<Rightarrow> ip_addr \<Rightarrow> bool) \<Rightarrow> uplink \<Rightarrow> firewall_policy \<Rightarrow> packet \<Rightarrow> verdict" where
  "forward_spec nf contains u policy p =
     (if from_outside nf u policy p then (if to_wan nf u p then Reject else Return)
      else if p_mark p = EXEMPT_FWMARK then Accept
      else if forward_allowed nf contains u policy p then Accept
      else if dns_packet p then Reject
      else if allow_lan policy \<and> lan_dest nf p then Return
      else Reject)"

text \<open>A tunnel address reached from an interface that is not that tunnel.\<close>

definition cve_probe :: "netfilter \<Rightarrow> tunnel_metadata list \<Rightarrow> packet \<Rightarrow> bool" where
  "cve_probe nf metas p =
     (\<exists>m\<in>set metas. p_daddr p \<in> set (t_ips m) \<and> \<not> nf_iface nf (t_interface m) (p_iif p))"

definition protected_tunnels :: "firewall_policy \<Rightarrow> tunnel_metadata list" where
  "protected_tunnels policy =
     (case policy of Connected c \<Rightarrow> if cd_allow_lan c then inner_metadatas (cd_tunnel c) else [] | _ \<Rightarrow> [])"

definition input_spec :: "netfilter \<Rightarrow> firewall_policy \<Rightarrow> packet \<Rightarrow> verdict option" where
  "input_spec nf policy p =
     (if nf_iface nf ''lo'' (p_iif p) then Some Accept
      else if cve_probe nf (protected_tunnels policy) p then Some Drop
      else if exempt_marked (inbound_exemptions policy) p then Some Accept
      else None)"

subsection \<open>Verdicts of the chain parts\<close>

lemma family_of_ok [simp]: "family_ok (family_of a) p \<longleftrightarrow> is_v4 a = is_v4 (p_daddr p)"
  by (cases a) auto

lemma mwan3_verdict [simp]: "r_verdict (mwan3_rule ip) = Accept"
  by (cases ip) (simp_all add: mwan3_rule_def)

lemma endpoint_verdict [simp]: "r_verdict (endpoint_rule ep) = Accept"
  by (simp add: endpoint_rule_def Let_def)

lemma dns_rule_verdict [simp]: "r_verdict (dns_rule dns q port) = Accept"
  by (simp add: dns_rule_def)

lemma dns_server_verdict [simp]: "r_verdict (dns_server_rule dns i c qp) = Accept"
  by (simp add: dns_server_rule_def Let_def split: option.split dns_access.split)

lemma hatch_verdict [simp]: "r_verdict (dns_hatch_rule q) = Accept"
  by (simp add: dns_hatch_rule_def)

lemma dns_reject_verdict [simp]: "r_verdict (dns_reject q) = Reject"
  by (simp add: dns_reject_def)

lemma base_out_accepts: "\<forall>r\<in>set (base_out mwan3). r_verdict r = Accept"
  by (auto simp: base_out_def)

lemma dns_down_out_accepts: "r \<in> set (dns_down_out contains u ifaces dns) \<Longrightarrow> r_verdict r = Accept"
  by (auto simp: dns_down_out_def split: option.splits)

lemma dns_up_out_accepts: "r \<in> set (dns_up_out contains u ifaces dns) \<Longrightarrow> r_verdict r = Accept"
  by (auto simp: dns_up_out_def split: option.splits if_splits)

lemma dns_down_fwd_accepts: "r \<in> set (dns_down_fwd contains u ifaces dns) \<Longrightarrow> r_verdict r = Accept"
  by (auto simp: dns_down_fwd_def split: option.splits)

lemma dns_up_fwd_accepts: "r \<in> set (dns_up_fwd contains u ifaces dns) \<Longrightarrow> r_verdict r = Accept"
  by (auto simp: dns_up_fwd_def split: option.splits if_splits)

lemmas part_accepts = dns_down_out_accepts dns_up_out_accepts dns_down_fwd_accepts dns_up_fwd_accepts

lemma before_accepts: "\<forall>r\<in>set (accepts_before_dns_block contains u policy). r_verdict r = Accept"
  by (cases policy) (auto simp: Let_def tunnel_chain_def exempt_chain_def hatch_out_def dest: part_accepts)

lemma after_accepts: "\<forall>r\<in>set (accepts_after_dns_block policy). r_verdict r = Accept"
  by (cases policy) (auto simp: ntp_out_def probe_out_def lan_out_def)

lemma forward_accepts_accept: "\<forall>r\<in>set (forward_accepts contains u policy). r_verdict r = Accept"
  by (cases policy) (auto simp: Let_def tunnel_chain_def dest: part_accepts)

lemma block_dns_rejects: "\<forall>r\<in>set block_dns_chain. r_verdict r = Reject"
  by (simp add: block_dns_chain_def)

lemma lan_fwd_returns: "\<forall>r\<in>set (lan_fwd on). r_verdict r = Return"
  by (auto simp: lan_fwd_def)

lemma cve_drops_drop: "\<forall>r\<in>set (cve_drops policy). r_verdict r = Drop"
  by (cases policy) (auto simp: cve_in_def)

subsection \<open>Which packets the chain parts match\<close>

lemma icmp_types [simp]: "(t :: icmpv4_type) = EchoRequest4"
  by (cases t) simp

lemma base_out_matches: "matched_by nf (base_out mwan3) p \<longleftrightarrow> base_allowed nf mwan3 p"
proof -
  have mwan: "matched_by nf (map mwan3_rule mwan3) p \<longleftrightarrow> echo_request p \<and> p_daddr p \<in> set mwan3"
    by (induction mwan3)
      (auto simp: mwan3_rule_def built_match_defs echo_request_def split: ip_addr.splits)
  show ?thesis
    unfolding base_out_def base_allowed_def matched_by_append mwan
    by (auto simp: built_match_defs dhcp_packet_def ndp_packet_def)
qed

lemma endpoint_matches: "rule_matches nf (endpoint_rule ep) p \<longleftrightarrow> endpoint_allows ep p"
  by (auto simp: endpoint_rule_def Let_def built_match_defs endpoint_allows_def rule_matches_def)

lemma endpoints_match: "matched_by nf (map endpoint_rule eps) p \<longleftrightarrow> (\<exists>ep\<in>set eps. endpoint_allows ep p)"
  by (auto simp: matched_by_def endpoint_matches)

lemma dns_rule_matches:
  "rule_matches nf (dns_rule dns q port) p \<longleftrightarrow> p_daddr p = dns \<and> p_proto p = Some q \<and> p_dport p = port"
  by (auto simp: dns_rule_def built_match_defs)

lemma oif_dns_rule_matches:
  "rule_matches nf (with_oif i (dns_rule dns q port)) p \<longleftrightarrow>
     nf_iface nf i (p_oif p) \<and> p_daddr p = dns \<and> p_proto p = Some q \<and> p_dport p = port"
  by (auto simp: dns_rule_def built_match_defs)

lemma dns_server_matches:
  "rule_matches nf (dns_server_rule dns i c qp) p \<longleftrightarrow>
     p_daddr p = dns \<and> p_proto p = Some (fst qp) \<and> p_dport p = snd qp
     \<and> (case i of None \<Rightarrow> True | Some d \<Rightarrow> nf_iface nf d (p_oif p))
     \<and> (c = Daemon \<longrightarrow> p_uid p = Some ROOT_UID)"
  by (cases i; cases c) (auto simp: dns_server_rule_def dns_rule_def Let_def built_match_defs)

lemma pairs_query:
  "(\<exists>qp\<in>set dns_pairs. p_daddr p = dns \<and> p_proto p = Some (fst qp) \<and> p_dport p = snd qp) \<longleftrightarrow> resolver_query dns p"
  by (auto simp: dns_pairs_def resolver_query_def dns_packet_def)

lemma dns_servers_match:
  "matched_by nf (map (dns_server_rule dns i c) dns_pairs) p \<longleftrightarrow>
     resolver_query dns p \<and> (case i of None \<Rightarrow> True | Some d \<Rightarrow> nf_iface nf d (p_oif p))
     \<and> (c = Daemon \<longrightarrow> p_uid p = Some ROOT_UID)"
  unfolding pairs_query [symmetric] matched_by_def by (auto simp: dns_server_matches)

lemma pinned_pairs_match:
  "matched_by nf (map (\<lambda>qp. with_oif dev (dns_rule dns (fst qp) (snd qp))) dns_pairs) p \<longleftrightarrow>
     resolver_query dns p \<and> nf_iface nf dev (p_oif p)"
  unfolding pairs_query [symmetric] matched_by_def by (auto simp: oif_dns_rule_matches)

lemma dns_down_matches: "matched_by nf (dns_down_out contains u ifaces dns) p \<longleftrightarrow> resolver_down nf contains u ifaces dns p"
  by (auto simp: dns_down_out_def resolver_down_def pinned_pairs_match dns_servers_match split: option.splits)

lemma tunnel_dns_match:
  "matched_by nf (concat (map (\<lambda>i. map (dns_server_rule dns (Some i) RouterAndLan) dns_pairs) ifaces)) p \<longleftrightarrow>
     resolver_query dns p \<and> via_tunnel nf ifaces p"
  by (auto simp: matched_by_concat dns_servers_match via_tunnel_def)

lemma dns_up_matches: "matched_by nf (dns_up_out contains u ifaces dns) p \<longleftrightarrow> resolver_up nf contains u ifaces dns p"
  by (auto simp: dns_up_out_def resolver_up_def pinned_pairs_match dns_servers_match tunnel_dns_match
      via_tunnel_def split: option.splits)

lemma dns_ports_match:
  "matched_by nf (map (\<lambda>q. dns_rule dns q DNS_PORT) [Udp, Tcp]) p \<longleftrightarrow> p_daddr p = dns \<and> dns_packet p"
  "matched_by nf (map (\<lambda>q. with_oif dev (dns_rule dns q DNS_PORT)) [Udp, Tcp]) p \<longleftrightarrow>
     p_daddr p = dns \<and> dns_packet p \<and> nf_iface nf dev (p_oif p)"
  by (auto simp: dns_rule_matches oif_dns_rule_matches dns_packet_def)

lemma dns_down_fwd_matches:
  "matched_by nf (dns_down_fwd contains u ifaces dns) p \<longleftrightarrow> fwd_resolver nf contains u ifaces False dns p"
  unfolding dns_down_fwd_def fwd_resolver_def
  by (cases "private_dns_out contains u ifaces dns") (simp_all only: option.case dns_ports_match, auto)

lemma dns_up_fwd_matches:
  "matched_by nf (dns_up_fwd contains u ifaces dns) p \<longleftrightarrow> fwd_resolver nf contains u ifaces True dns p"
  unfolding dns_up_fwd_def fwd_resolver_def
  by (cases "private_dns_out contains u ifaces dns"; cases "is_private_dns contains dns")
    (simp_all only: option.case dns_ports_match if_True if_False, auto)

lemma tunnel_chain_matches: "matched_by nf (tunnel_chain ifaces) p \<longleftrightarrow> via_tunnel nf ifaces p"
  by (auto simp: tunnel_chain_def matched_by_def via_tunnel_def built_match_defs)

lemma exempt_chain_matches: "matched_by nf (exempt_chain xs) p \<longleftrightarrow> exempt_marked xs p"
  by (auto simp: exempt_chain_def exempt_marked_def built_match_defs)

lemma hatch_matches: "matched_by nf hatch_out p \<longleftrightarrow> hatch_allowed nf p"
  by (auto simp: hatch_out_def dns_hatch_rule_def hatch_allowed_def dns_packet_def built_match_defs)

lemma block_dns_matches: "matched_by nf block_dns_chain p \<longleftrightarrow> dns_packet p"
  by (auto simp: block_dns_chain_def dns_reject_def dns_packet_def built_match_defs)

lemma ntp_matches: "matched_by nf ntp_out p \<longleftrightarrow> ntp_allowed nf p"
  by (auto simp: ntp_out_def ntp_allowed_def built_match_defs)

lemma probe_matches: "matched_by nf probe_out p \<longleftrightarrow> probe_allowed nf p"
  by (auto simp: probe_out_def probe_allowed_def echo_request_def built_match_defs)

lemma net_accept_matches:
  "matched_by nf (map (\<lambda>n. with_daddr (AddrNet n) (rule_new f v)) ns) p \<longleftrightarrow>
     family_ok f p \<and> (\<exists>n\<in>set ns. nf_net nf n (p_daddr p))"
  by (auto simp: matched_by_def built_match_defs)

lemma lan_out_matches: "matched_by nf (lan_out on) p \<longleftrightarrow> on \<and> (lan_dest nf p \<or> multicast_dest nf p)"
  by (auto simp: lan_out_def accept_def net_accept_matches lan_dest_def multicast_dest_def)
    (auto simp: built_match_defs)

lemma lan_fwd_matches: "matched_by nf (lan_fwd on) p \<longleftrightarrow> on \<and> lan_dest nf p"
  by (auto simp: lan_fwd_def return_rule_def net_accept_matches lan_dest_def)

lemma cve_drops_match: "matched_by nf (cve_drops policy) p \<longleftrightarrow> cve_probe nf (protected_tunnels policy) p"
proof -
  have "matched_by nf (cve_in ms) p \<longleftrightarrow> cve_probe nf ms p" for ms
    by (auto simp: cve_in_def cve_probe_def matched_by_def built_match_defs)
  moreover have "\<not> cve_probe nf [] p" by (simp add: cve_probe_def)
  ultimately show ?thesis by (cases policy) (simp_all add: protected_tunnels_def)
qed

lemmas part_matches = base_out_matches endpoints_match dns_down_matches dns_up_matches tunnel_dns_match
  dns_down_fwd_matches dns_up_fwd_matches tunnel_chain_matches exempt_chain_matches hatch_matches
  block_dns_matches ntp_matches probe_matches lan_out_matches lan_fwd_matches cve_drops_match

lemma before_matches:
  "matched_by nf (accepts_before_dns_block contains u policy) p \<longleftrightarrow> allowed_before_dns nf contains u policy p"
  by (cases policy) (auto simp: Let_def matched_by_concat part_matches dns_servers_match via_tunnel_def)

lemma after_matches: "matched_by nf (accepts_after_dns_block policy) p \<longleftrightarrow> allowed_after_dns nf policy p"
  by (cases policy) (auto simp: part_matches allowed_after_dns_def)

lemma forward_accepts_match:
  "matched_by nf (forward_accepts contains u policy) p \<longleftrightarrow> forward_allowed nf contains u policy p"
  by (cases policy) (auto simp: Let_def matched_by_concat part_matches)

lemma ingress_first_match:
  "first_match nf (ingress_fwd wans tunnels) p =
     (if \<exists>d\<in>set (wans @ tunnels). nf_iface nf d (p_iif p)
      then Some (if \<exists>w\<in>set wans. nf_iface nf w (p_oif p) then Reject else Return) else None)"
proof -
  let ?rejects = "concat (map (\<lambda>dev. map (\<lambda>wan. with_oif wan (with_iif dev (reject Inet))) wans) (wans @ tunnels))"
  let ?returns = "map (\<lambda>dev. with_iif dev (return_rule Inet)) (wans @ tunnels)"
  have "first_match nf ?rejects p = (if matched_by nf ?rejects p then Some Reject else None)"
    by (rule first_match_uniform) auto
  moreover have "first_match nf ?returns p = (if matched_by nf ?returns p then Some Return else None)"
    by (rule first_match_uniform) auto
  moreover have "rule_matches nf (with_oif w (with_iif d (reject Inet))) p \<longleftrightarrow>
      nf_iface nf d (p_iif p) \<and> nf_iface nf w (p_oif p)" for d w
    by (auto simp: built_match_defs)
  then have rejects: "matched_by nf ?rejects p \<longleftrightarrow>
      (\<exists>d\<in>set (wans @ tunnels). nf_iface nf d (p_iif p)) \<and> (\<exists>w\<in>set wans. nf_iface nf w (p_oif p))"
    by (auto simp: matched_by_concat) (auto simp: matched_by_def)
  moreover have "rule_matches nf (with_iif d (return_rule Inet)) p \<longleftrightarrow> nf_iface nf d (p_iif p)" for d
    by (auto simp: built_match_defs)
  then have returns: "matched_by nf ?returns p \<longleftrightarrow> (\<exists>d\<in>set (wans @ tunnels). nf_iface nf d (p_iif p))"
    by (auto simp: matched_by_def)
  ultimately show ?thesis
    unfolding ingress_fwd_def first_match_append by (simp add: rejects returns split: option.splits)
qed

lemmas uniform_parts = first_match_uniform [OF base_out_accepts] first_match_uniform [OF before_accepts]
  first_match_uniform [OF after_accepts] first_match_uniform [OF forward_accepts_accept]
  first_match_uniform [OF block_dns_rejects] first_match_uniform [OF lan_fwd_returns]
  first_match_uniform [OF cve_drops_drop]

subsection \<open>The verdict of each chain\<close>

datatype hook = Input | Output | Forward

fun chain_of :: "hook \<Rightarrow> rule_set \<Rightarrow> rule list" where
  "chain_of Input rs = input_of rs"
| "chain_of Output rs = output_of rs"
| "chain_of Forward rs = forward_of rs"

fun killswitch_spec ::
  "netfilter \<Rightarrow> (ip_network \<Rightarrow> ip_addr \<Rightarrow> bool) \<Rightarrow> ip_addr list \<Rightarrow> uplink \<Rightarrow> firewall_policy \<Rightarrow> hook \<Rightarrow> packet \<Rightarrow> verdict option" where
  "killswitch_spec nf contains mwan3 u policy Input p = input_spec nf policy p"
| "killswitch_spec nf contains mwan3 u policy Output p =
     Some (if egress_allowed nf contains mwan3 u policy p then Accept else Reject)"
| "killswitch_spec nf contains mwan3 u policy Forward p = Some (forward_spec nf contains u policy p)"

lemma final_reject_matches [simp]: "rule_matches nf (reject Inet) p"
  by (simp add: built_match_defs)

lemma output_verdict:
  "first_match nf (output_of (compile_with contains mwan3 policy u)) p =
     Some (if egress_allowed nf contains mwan3 u policy p then Accept else Reject)"
  by (simp add: compile_output first_match_append first_match_Cons uniform_parts part_matches before_matches
      after_matches egress_allowed_def)

lemma forward_verdict:
  "first_match nf (forward_of (compile_with contains mwan3 policy u)) p =
     Some (forward_spec nf contains u policy p)"
proof -
  have "rule_matches nf (mark_eq EXEMPT_FWMARK (accept Inet)) p \<longleftrightarrow> p_mark p = EXEMPT_FWMARK"
    by (auto simp: built_match_defs)
  then show ?thesis
    by (simp add: compile_forward first_match_append first_match_Cons ingress_first_match uniform_parts
        part_matches forward_accepts_match forward_spec_def from_outside_def to_wan_def)
qed

lemma input_verdict:
  "first_match nf (input_of (compile_with contains mwan3 policy u)) p = input_spec nf policy p"
proof -
  have "rule_matches nf (with_iif ''lo'' (accept Inet)) p \<longleftrightarrow> nf_iface nf ''lo'' (p_iif p)"
    by (auto simp: built_match_defs)
  moreover have "first_match nf (exempt_chain xs) p = (if exempt_marked xs p then Some Accept else None)" for xs
    unfolding exempt_chain_matches [of nf, symmetric]
    by (rule first_match_uniform) (auto simp: exempt_chain_def)
  ultimately show ?thesis
    by (simp add: compile_input first_match_append first_match_Cons uniform_parts part_matches input_spec_def)
qed

subsection \<open>A sample router\<close>

definition sample_nf :: netfilter where
  "sample_nf = \<lparr>nf_net = cidr_contains, nf_iface = (=), nf_limit = (\<lambda>_ _. True)\<rparr>"

definition sample_uplink :: uplink where
  "sample_uplink = \<lparr>wan_devices = [''wan''], route_device = (\<lambda>_. Some ''br-lan'')\<rparr>"

definition sample_tunnel :: tunnel_interface where
  "sample_tunnel = One \<lparr>t_interface = ''nym0'', t_ips = [ipv4 10 64 0 2], t_ipv4_gateway = None, t_ipv6_gateway = None\<rparr>"

definition sample_exemption :: inbound_exemption where
  "sample_exemption = \<lparr>x_proto = TTcp, x_dport = 22, x_label = None\<rparr>"

definition sample_connected :: firewall_policy where
  "sample_connected = Connected \<lparr>cd_peer_endpoints = [], cd_tunnel = sample_tunnel, cd_allow_lan = True,
     cd_dns_config = \<lparr>d_tunnel = [ipv4 10 64 0 1], d_non_tunnel = [ipv4 9 9 9 9]\<rparr>,
     cd_allowed_endpoints = [], cd_inbound_exemptions = [sample_exemption]\<rparr>"

definition sample_blocked :: firewall_policy where
  "sample_blocked = Blocked \<lparr>bl_allow_lan = False, bl_allowed_endpoints = [], bl_dns_servers = [ipv4 9 9 9 9]\<rparr>"

text \<open>A new TCP segment from a LAN client.\<close>

definition sample_packet :: packet where
  "sample_packet = \<lparr>p_iif = ''br-lan'', p_oif = ''wan'', p_saddr = ipv4 192 168 1 20, p_daddr = ipv4 1 1 1 1,
     p_proto = Some Tcp, p_sport = 40000, p_dport = 443, p_new = True, p_icmpv4 = None, p_icmpv6 = None,
     p_mark = 0, p_ctmark = 0, p_uid = None\<rparr>"

lemmas sample_defs = sample_nf_def sample_uplink_def sample_tunnel_def sample_exemption_def sample_connected_def
  sample_blocked_def sample_packet_def

subsection \<open>The kill-switch contract\<close>

text \<open>C1: the INPUT, OUTPUT and FORWARD chains compiled from any policy, uplink and mwan3 tracking list
  decide every packet exactly as the abstract kill-switch does: OUTPUT accepts what
  \<open>egress_allowed\<close> describes and rejects the rest, FORWARD always reaches a verdict, and INPUT
  speaks only for loopback, tunnel-address probes and exempt flows.\<close>

theorem compile_refines_killswitch:
  "first_match nf (chain_of h (compile_with contains mwan3 policy u)) p =
     killswitch_spec nf contains mwan3 u policy h p"
  by (cases h) (simp_all add: output_verdict forward_verdict input_verdict)

fun is_connected :: "firewall_policy \<Rightarrow> bool" where
  "is_connected (Connected _) = True"
| "is_connected _ = False"

fun clearnet_resolvers :: "firewall_policy \<Rightarrow> ip_addr list" where
  "clearnet_resolvers (Connecting c) = d_non_tunnel (cg_dns_config c)"
| "clearnet_resolvers (Connected c) = d_non_tunnel (cd_dns_config c)"
| "clearnet_resolvers (Blocked b) = bl_dns_servers b"

lemma ifaces_of_tunnel [simp]:
  "tunnel_interfaces (Connecting g) = ifaces_of (cg_tunnel g)"
  "tunnel_interfaces (Connected c) = map t_interface (inner_metadatas (cd_tunnel c))"
  "tunnel_interfaces (Blocked b) = []"
  by (simp_all add: tunnel_interfaces_def ifaces_of_def split: option.splits)

lemmas port_defs = DNS_PORT_def NTP_PORT_def DOT_PORT_def DOH_PORT_def DHCPV4_CLIENT_PORT_def
  DHCPV4_SERVER_PORT_def DHCPV6_CLIENT_PORT_def DHCPV6_SERVER_PORT_def

lemma dns_not_base: "dns_packet p \<Longrightarrow> base_allowed nf mwan3 p \<longleftrightarrow> nf_iface nf ''lo'' (p_oif p)"
  by (auto simp: base_allowed_def dns_packet_def dhcp_packet_def ndp_packet_def echo_request_def
      port_defs split: if_splits)





text \<open>C4: traffic arriving from a WAN or tunnel device is never accepted by FORWARD, whatever its marks:
  it is rejected when it would leave on a WAN device again and otherwise handed back to the zones.\<close>

theorem outside_ingress_untrusted:
  assumes "d \<in> set (wan_devices u) \<union> set (tunnel_interfaces policy)" and "nf_iface nf d (p_iif p)"
  shows "first_match nf (forward_of (compile_with contains mwan3 policy u)) p =
    Some (if \<exists>w\<in>set (wan_devices u). nf_iface nf w (p_oif p) then Reject else Return)"
  using assms by (auto simp: forward_verdict forward_spec_def from_outside_def to_wan_def)

theorem outside_ingress_untrusted_witness:
  "first_match sample_nf (forward_of (compile_with cidr_contains [] sample_connected sample_uplink))
      (sample_packet\<lparr>p_iif := ''wan'', p_oif := ''br-lan''\<rparr>) =
    Some (if \<exists>w\<in>set (wan_devices sample_uplink). nf_iface sample_nf w ''br-lan'' then Reject else Return)"
  using outside_ingress_untrusted [of "''wan''" sample_uplink sample_connected sample_nf
      "sample_packet\<lparr>p_iif := ''wan'', p_oif := ''br-lan''\<rparr>" cidr_contains "[]"]
  by (simp add: sample_uplink_def sample_nf_def)



text \<open>C9: the NTP hatch. Whenever the policy is not connected, NTP is accepted on OUTPUT within its rate
  limit for every sender, not only for the daemon.\<close>

theorem ntp_hatch_not_root_scoped:
  assumes "\<not> is_connected policy" "p_proto p = Some Udp" "p_dport p = NTP_PORT" "p_uid p \<noteq> Some ROOT_UID"
    and "nf_limit nf \<lparr>per_minute = NTP_RATE_PER_MIN, burst = NTP_BURST\<rparr> p"
  shows "first_match nf (output_of (compile_with contains mwan3 policy u)) p = Some Accept"
  using assms by (cases policy)
    (auto simp: output_verdict egress_allowed_def allowed_after_dns_def ntp_allowed_def dns_packet_def port_defs)

theorem ntp_hatch_not_root_scoped_witness:
  "first_match sample_nf (output_of (compile_with cidr_contains [] sample_blocked sample_uplink))
      (sample_packet\<lparr>p_proto := Some Udp, p_dport := NTP_PORT, p_uid := Some 1000\<rparr>) = Some Accept"
  by (rule ntp_hatch_not_root_scoped) (simp_all add: sample_blocked_def sample_nf_def ROOT_UID_def)

subsection \<open>Inbound exemptions\<close>

text \<open>A packet opens a flow that exemption \<open>x\<close> on uplink \<open>w\<close> covers.\<close>

definition opens_flow :: "netfilter \<Rightarrow> packet \<Rightarrow> string \<times> inbound_exemption \<Rightarrow> bool" where
  "opens_flow nf p wx =
     (p_new p \<and> nf_iface nf (fst wx) (p_iif p) \<and> p_proto p = Some (proto_of (x_proto (snd wx)))
      \<and> p_dport p = x_dport (snd wx))"

definition new_exempt_flow :: "netfilter \<Rightarrow> inbound_exemption list \<Rightarrow> string list \<Rightarrow> packet \<Rightarrow> bool" where
  "new_exempt_flow nf xs wans p = (\<exists>wx\<in>set (List.product wans xs). opens_flow nf p wx)"

lemma opens_flow_marks [simp]:
  "opens_flow nf (p\<lparr>p_ctmark := k\<rparr>) = opens_flow nf p" "opens_flow nf (p\<lparr>p_mark := k\<rparr>) = opens_flow nf p"
  by (simp_all add: opens_flow_def fun_eq_iff)

lemma set_exempt_step:
  "mangle_step nf (set_exempt w x) p = (if opens_flow nf p (w, x) then p\<lparr>p_ctmark := EXEMPT_FWMARK\<rparr> else p)"
  by (auto simp: set_exempt_def built_match_defs opens_flow_def)

lemma restore_exempt_step:
  "mangle_step nf restore_exempt p = (if p_ctmark p = EXEMPT_FWMARK then p\<lparr>p_mark := EXEMPT_FWMARK\<rparr> else p)"
  by (auto simp: restore_exempt_def built_match_defs)

lemma set_exempts_run:
  "fold (mangle_step nf) (map (\<lambda>(w, x). set_exempt w x) ps) p =
     (if \<exists>wx\<in>set ps. opens_flow nf p wx then p\<lparr>p_ctmark := EXEMPT_FWMARK\<rparr> else p)"
proof (induction ps arbitrary: p)
  case (Cons wx ps)
  then show ?case
    by (cases wx) (simp del: mangle_step.simps add: set_exempt_step)
qed simp

lemma set_exempts_product:
  "concat (map (\<lambda>wan. map (set_exempt wan) xs) wans) = map (\<lambda>(w, x). set_exempt w x) (List.product wans xs)"
  by (induction wans) (simp_all add: comp_def)

lemma exempt_pre_run:
  "run_mangle nf (exempt_pre xs wans) p =
     (if xs \<noteq> [] \<and> wans \<noteq> [] \<and> (p_ctmark p = EXEMPT_FWMARK \<or> new_exempt_flow nf xs wans p)
      then p\<lparr>p_mark := EXEMPT_FWMARK, p_ctmark := EXEMPT_FWMARK\<rparr> else p)"
proof -
  have "fold (mangle_step nf) (concat (map (\<lambda>wan. map (set_exempt wan) xs) wans)) q =
      (if new_exempt_flow nf xs wans q then q\<lparr>p_ctmark := EXEMPT_FWMARK\<rparr> else q)" for q
    unfolding set_exempts_product set_exempts_run new_exempt_flow_def by simp
  moreover have "new_exempt_flow nf xs wans (q\<lparr>p_mark := k\<rparr>) = new_exempt_flow nf xs wans q" for q k
    by (simp add: new_exempt_flow_def)
  ultimately show ?thesis
    by (simp del: mangle_step.simps add: run_mangle_def exempt_pre_def restore_exempt_step)
qed

lemma exempt_mout_run:
  "run_mangle nf (exempt_mout xs wans) p =
     (if xs \<noteq> [] \<and> wans \<noteq> [] \<and> p_ctmark p = EXEMPT_FWMARK then p\<lparr>p_mark := EXEMPT_FWMARK\<rparr> else p)"
  by (simp del: mangle_step.simps add: run_mangle_def exempt_mout_def restore_exempt_step)

text \<open>C6: the PREROUTING mangle chain gives a new inbound connection to an exempt port on any WAN device,
  and every later packet of it, both the conntrack and the packet exemption mark, and changes no other
  packet. The flow-creating packet is marked too.\<close>

theorem prerouting_marks_exactly_exempt_flows:
  "run_mangle nf (mangle_pre_of (compile_with contains mwan3 policy u)) p =
     (if inbound_exemptions policy \<noteq> [] \<and> wan_devices u \<noteq> [] \<and>
        (p_ctmark p = EXEMPT_FWMARK \<or> new_exempt_flow nf (inbound_exemptions policy) (wan_devices u) p)
      then p\<lparr>p_mark := EXEMPT_FWMARK, p_ctmark := EXEMPT_FWMARK\<rparr> else p)"
  unfolding compile_mangle_pre by (rule exempt_pre_run)

text \<open>C7: an exempt service works through the kill-switch. The first packet of a connection to an exempt
  port on a WAN device, after PREROUTING, is accepted by INPUT unless it targets a protected tunnel
  address, and any packet of a flow with the exemption's conntrack mark is accepted by OUTPUT.\<close>

theorem exempt_service_reachable:
  assumes "new_exempt_flow nf (inbound_exemptions policy) (wan_devices u) p"
    and "\<not> cve_probe nf (protected_tunnels policy) p" and "p_ctmark q = EXEMPT_FWMARK"
  shows "first_match nf (input_of (compile_with contains mwan3 policy u))
      (run_mangle nf (mangle_pre_of (compile_with contains mwan3 policy u)) p) = Some Accept
    \<and> first_match nf (output_of (compile_with contains mwan3 policy u))
      (run_mangle nf (mangle_out_of (compile_with contains mwan3 policy u)) q) = Some Accept"
proof -
  have some: "inbound_exemptions policy \<noteq> []" "wan_devices u \<noteq> []"
    using assms by (auto simp: new_exempt_flow_def)
  have "exempt_marked (inbound_exemptions policy) r \<Longrightarrow> allowed_before_dns nf contains u policy r" for r
    by (cases policy) (auto simp: Let_def exempt_marked_def)
  moreover have "\<not> cve_probe nf ms p \<Longrightarrow> \<not> cve_probe nf ms (p\<lparr>p_mark := k, p_ctmark := j\<rparr>)" for ms k j
    by (simp add: cve_probe_def)
  ultimately show ?thesis
    using assms some
    by (simp add: compile_mangle_pre compile_mangle_out exempt_pre_run exempt_mout_run input_verdict output_verdict
        input_spec_def egress_allowed_def exempt_marked_def)
qed

theorem exempt_service_reachable_witness:
  "first_match sample_nf (input_of (compile_with cidr_contains [] sample_connected sample_uplink))
      (run_mangle sample_nf (mangle_pre_of (compile_with cidr_contains [] sample_connected sample_uplink))
        (sample_packet\<lparr>p_iif := ''wan'', p_dport := 22\<rparr>)) = Some Accept
    \<and> first_match sample_nf (output_of (compile_with cidr_contains [] sample_connected sample_uplink))
      (run_mangle sample_nf (mangle_out_of (compile_with cidr_contains [] sample_connected sample_uplink))
        (sample_packet\<lparr>p_ctmark := EXEMPT_FWMARK\<rparr>)) = Some Accept"
  by (rule exempt_service_reachable)
    (simp_all add: sample_defs new_exempt_flow_def opens_flow_def protected_tunnels_def cve_probe_def ipv4_def)

subsection \<open>Routers without the owner match\<close>

lemma compiled_skuid_accepts:
  "r \<in> set (output_of (compile_with contains mwan3 policy u)) \<Longrightarrow> m_skuid (r_matches r) \<noteq> None \<Longrightarrow> r_verdict r = Accept"
  using base_out_accepts before_accepts after_accepts
  by (fastforce simp: compile_output block_dns_chain_def dns_reject_def built_skuid)

text \<open>C8: the fallback for routers without the owner match only removes permissions. The stripped rule set
  has no uid match left, and whatever its OUTPUT chain accepts the full rule set accepts too; its
  OUTPUT chain still decides every packet.\<close>

theorem without_skuid_never_widens:
  fixes contains mwan3 policy u
  defines "rs \<equiv> compile_with contains mwan3 policy u"
  shows "\<not> has_skuid (without_skuid_rules rs)
    \<and> (first_match nf (output_of (without_skuid_rules rs)) p = Some Accept \<longrightarrow> first_match nf (output_of rs) p = Some Accept)
    \<and> first_match nf (output_of (without_skuid_rules rs)) p \<in> {Some Accept, Some Reject}"
proof -
  have skuid: "\<forall>r\<in>set (output_of rs). \<not> unscoped r \<longrightarrow> r_verdict r = Accept"
    using compiled_skuid_accepts unfolding rs_def by blast
  have out: "output_of (without_skuid_rules rs) = filter unscoped (output_of rs)"
    by (simp add: without_skuid_rules_def)
  have final: "filter unscoped (output_of rs) = butlast (filter unscoped (output_of rs)) @ [reject Inet]"
    unfolding rs_def compile_output by (simp add: butlast_append)
  have verdicts: "r_verdict r \<in> {Accept, Reject}" if "r \<in> set (output_of rs)" for r
    using that base_out_accepts before_accepts after_accepts block_dns_rejects unfolding rs_def compile_output by fastforce
  have "first_match nf (output_of (without_skuid_rules rs)) p \<noteq> None"
    unfolding out by (subst final) (simp add: first_match_append split: option.splits)
  then have "first_match nf (output_of (without_skuid_rules rs)) p \<in> {Some Accept, Some Reject}"
    using verdicts first_match_Some [of nf "filter unscoped (output_of rs)" p] unfolding out by fastforce
  moreover have "first_match nf (output_of (without_skuid_rules rs)) p = Some Accept \<Longrightarrow> first_match nf (output_of rs) p = Some Accept"
    unfolding out by (rule first_match_filter_accepts [OF skuid])
  moreover have "\<not> has_skuid (without_skuid_rules rs)"
    by (auto simp: has_skuid_def all_chains_def without_skuid_rules_def list_ex_iff)
  ultimately show ?thesis by blast
qed

theorem without_skuid_never_widens_witness:
  "\<not> has_skuid (without_skuid_rules (compile_with cidr_contains [] sample_connected sample_uplink))
    \<and> first_match sample_nf (output_of (compile_with cidr_contains [] sample_connected sample_uplink))
        (sample_packet\<lparr>p_oif := ''lo''\<rparr>) = Some Accept"
proof -
  have "first_match sample_nf (output_of (without_skuid_rules (compile_with cidr_contains [] sample_connected sample_uplink)))
      (sample_packet\<lparr>p_oif := ''lo''\<rparr>) = Some Accept"
    by (simp add: without_skuid_rules_def compile_output base_out_def first_match_Cons built_match_defs sample_nf_def)
  then show ?thesis
    using without_skuid_never_widens [of cidr_contains "[]" sample_connected sample_uplink sample_nf
        "sample_packet\<lparr>p_oif := ''lo''\<rparr>"] by simp
qed

end
