(* ===== verification/FW_Render.thy ===== *)
theory FW_Render
  imports FW_Killswitch
begin

text \<open>
  The two renderers, \<open>openwrt/render_nft.rs\<close> and \<open>openwrt/render_iptables.rs\<close>. A rule becomes a list of
  expressions (\<open>nft_exprs\<close>, \<open>ipt_args\<close>), one per \<open>parts.push\<close> of the code and in its order, and the
  expressions become text. What each expression means to the kernel is given beside it, so that the
  rendered rules can be shown to decide packets as the rules they come from: the expressions a
  renderer leaves out because another one implies them are really implied, and splitting a rule set
  over two address families loses nothing.
\<close>

subsection \<open>Well-formed rules\<close>

definition addr_v4 :: "addr_match \<Rightarrow> bool" where
  "addr_v4 a = (case a of AddrIp ip \<Rightarrow> is_v4 ip | AddrNet n \<Rightarrow> is_v4 (net_ip n))"

definition addr_family_ok :: "family \<Rightarrow> addr_match \<Rightarrow> bool" where
  "addr_family_ok f a = (case f of V4 \<Rightarrow> addr_v4 a | V6 \<Rightarrow> \<not> addr_v4 a | Inet \<Rightarrow> False)"

definition wf_rule :: "rule \<Rightarrow> bool" where
  "wf_rule r =
     (let m = r_matches r in
      opt_ok (m_saddr m) (addr_family_ok (r_family r)) \<and> opt_ok (m_daddr m) (addr_family_ok (r_family r))
      \<and> (m_icmpv4_type m \<noteq> None \<longleftrightarrow> m_proto m = Some Icmp) \<and> (m_icmpv6_type m \<noteq> None \<longleftrightarrow> m_proto m = Some IcmpV6)
      \<and> (m_icmpv4_type m \<noteq> None \<longrightarrow> r_family r = V4) \<and> (m_icmpv6_type m \<noteq> None \<longrightarrow> r_family r = V6)
      \<and> (m_sport m \<noteq> None \<or> m_dport m \<noteq> None \<longrightarrow> m_proto m = Some Tcp \<or> m_proto m = Some Udp))"

text \<open>What the \<open>debug_assert\<close>s of \<open>render_chain\<close> and \<open>render_rule\<close> demand of a whole rule set.\<close>

definition renderable :: "rule_set \<Rightarrow> bool" where
  "renderable rs =
     (list_all (list_all wf_rule) (all_chains rs)
      \<and> list_all unscoped (input_of rs) \<and> list_all unscoped (forward_of rs) \<and> list_all unscoped (mangle_pre_of rs))"

subsection \<open>The nft script\<close>

datatype nft_expr =
    NfProto4 | NfProto6
  | IifName string | OifName string | IifNameNot string
  | CtStateNew | MetaMark u32 | CtMark u32 | MetaSkuid u32
  | SAddr string addr_match | DAddr string addr_match
  | IcmpType icmpv4_type | Icmpv6Type icmpv6_type
  | Sport string u16 | Dport string u16 | L4Proto string
  | Limit rate_limit

fun addr_family :: "family \<Rightarrow> string" where
  "addr_family V4 = ''ip''"
| "addr_family V6 = ''ip6''"
| "addr_family Inet = ''ip''"

fun render_addr :: "addr_match \<Rightarrow> string" where
  "render_addr (AddrIp ip) = show_ip ip"
| "render_addr (AddrNet n) = show_net n"

fun icmpv4_name :: "icmpv4_type \<Rightarrow> string" where
  "icmpv4_name EchoRequest4 = ''echo-request''"

fun nft_icmpv6_name :: "icmpv6_type \<Rightarrow> string" where
  "nft_icmpv6_name RouterSolicit = ''nd-router-solicit''"
| "nft_icmpv6_name NeighborSolicit = ''nd-neighbor-solicit''"
| "nft_icmpv6_name NeighborAdvert = ''nd-neighbor-advert''"
| "nft_icmpv6_name EchoRequest6 = ''echo-request''"

definition push_opt :: "'a option \<Rightarrow> ('a \<Rightarrow> 'b) \<Rightarrow> 'b list" where
  "push_opt x f = (case x of None \<Rightarrow> [] | Some a \<Rightarrow> [f a])"

definition port_exprs :: "string \<Rightarrow> match_fields \<Rightarrow> nft_expr list" where
  "port_exprs name m =
     push_opt (m_sport m) (Sport name) @ push_opt (m_dport m) (Dport name)
     @ (if m_sport m = None \<and> m_dport m = None then [L4Proto name] else [])"

definition nft_exprs :: "rule \<Rightarrow> nft_expr list" where
  "nft_exprs r =
     (let m = r_matches r;
          implied = m_saddr m \<noteq> None \<or> m_daddr m \<noteq> None \<or> m_icmpv4_type m \<noteq> None \<or> m_icmpv6_type m \<noteq> None
      in (if implied then [] else case r_family r of V4 \<Rightarrow> [NfProto4] | V6 \<Rightarrow> [NfProto6] | Inet \<Rightarrow> [])
       @ push_opt (m_iif m) IifName
       @ push_opt (m_oif m) OifName
       @ push_opt (m_iif_not m) IifNameNot
       @ push_opt (m_ct_state m) (\<lambda>_. CtStateNew)
       @ push_opt (m_mark m) MetaMark
       @ push_opt (m_ct_mark m) CtMark
       @ push_opt (m_skuid m) MetaSkuid
       @ push_opt (m_saddr m) (SAddr (addr_family (r_family r)))
       @ push_opt (m_daddr m) (DAddr (addr_family (r_family r)))
       @ push_opt (m_icmpv4_type m) IcmpType
       @ push_opt (m_icmpv6_type m) Icmpv6Type
       @ (case m_proto m of Some Tcp \<Rightarrow> port_exprs ''tcp'' m | Some Udp \<Rightarrow> port_exprs ''udp'' m | _ \<Rightarrow> [])
       @ push_opt (m_rate_limit m) Limit)"

definition quoted :: "string \<Rightarrow> string" where
  "quoted i = quote_str @ i @ quote_str"

fun show_nft_expr :: "nft_expr \<Rightarrow> string" where
  "show_nft_expr NfProto4 = ''meta nfproto ipv4''"
| "show_nft_expr NfProto6 = ''meta nfproto ipv6''"
| "show_nft_expr (IifName i) = ''iifname '' @ quoted i"
| "show_nft_expr (OifName i) = ''oifname '' @ quoted i"
| "show_nft_expr (IifNameNot i) = ''iifname != '' @ quoted i"
| "show_nft_expr CtStateNew = ''ct state new''"
| "show_nft_expr (MetaMark k) = ''meta mark '' @ hex_alt (unat k)"
| "show_nft_expr (CtMark k) = ''ct mark '' @ hex_alt (unat k)"
| "show_nft_expr (MetaSkuid u) = ''meta skuid '' @ dec (unat u)"
| "show_nft_expr (SAddr f a) = f @ '' saddr '' @ render_addr a"
| "show_nft_expr (DAddr f a) = f @ '' daddr '' @ render_addr a"
| "show_nft_expr (IcmpType t) = ''icmp type '' @ icmpv4_name t"
| "show_nft_expr (Icmpv6Type t) = ''icmpv6 type '' @ nft_icmpv6_name t"
| "show_nft_expr (Sport q s) = q @ '' sport '' @ dec (unat s)"
| "show_nft_expr (Dport q s) = q @ '' dport '' @ dec (unat s)"
| "show_nft_expr (L4Proto q) = ''meta l4proto '' @ q"
| "show_nft_expr (Limit l) = ''limit rate '' @ dec (unat (per_minute l)) @ ''/minute burst '' @ dec (unat (burst l)) @ '' packets''"

fun nft_verdict :: "verdict \<Rightarrow> string" where
  "nft_verdict Accept = ''accept''"
| "nft_verdict Return = ''return''"
| "nft_verdict Drop = ''drop''"
| "nft_verdict Reject = ''reject''"
| "nft_verdict (SetCtMark n) = ''ct mark set '' @ hex_alt (unat n)"
| "nft_verdict RestoreMark = ''meta mark set ct mark''"

definition nft_render_rule :: "rule \<Rightarrow> string" where
  "nft_render_rule r = join '' '' (map show_nft_expr (nft_exprs r) @ [nft_verdict (r_verdict r)])"

definition FILTER_PRIORITY_OFFSET :: int where "FILTER_PRIORITY_OFFSET = - 10"
definition MANGLE_PRIORITY_OFFSET :: int where "MANGLE_PRIORITY_OFFSET = - 10"
definition NYM_TABLE :: string where "NYM_TABLE = ''nym''"

definition priority_str :: "int \<Rightarrow> string" where
  "priority_str k = (if k < 0 then ''-'' else ''+'') @ '' '' @ dec (nat \<bar>k\<bar>)"

definition delete_table :: "string \<Rightarrow> string" where
  "delete_table table = ''table inet '' @ table @ nl @ ''delete table inet '' @ table @ nl"

definition nft_rules :: "chain \<Rightarrow> string" where
  "nft_rules c = concat (map (\<lambda>r. ''        '' @ nft_render_rule r @ nl) c)"

definition nft_render_chain :: "string \<Rightarrow> string \<Rightarrow> chain \<Rightarrow> string" where
  "nft_render_chain chain_name hook c =
     ''    chain '' @ chain_name @ '' {'' @ nl
     @ ''        type filter hook '' @ hook @ '' priority filter '' @ priority_str FILTER_PRIORITY_OFFSET
     @ ''; policy accept;'' @ nl
     @ nft_rules c @ ''    }'' @ nl"

definition nft_render_mangle_chain :: "string \<Rightarrow> string \<Rightarrow> chain \<Rightarrow> string" where
  "nft_render_mangle_chain chain_name hook c =
     ''    chain '' @ chain_name @ '' {'' @ nl
     @ ''        type filter hook '' @ hook @ '' priority mangle '' @ priority_str MANGLE_PRIORITY_OFFSET @ '';'' @ nl
     @ nft_rules c @ ''    }'' @ nl"

definition nft_render :: "rule_set \<Rightarrow> string" where
  "nft_render rs =
     ''#!/usr/sbin/nft -f'' @ nl @ nl @ delete_table NYM_TABLE @ nl
     @ ''table inet '' @ NYM_TABLE @ '' {'' @ nl
     @ (if mangle_is_empty (rs_mangle rs) then []
        else nft_render_mangle_chain ''mangle_prerouting'' ''prerouting'' (mangle_pre_of rs)
             @ nft_render_mangle_chain ''mangle_output'' ''output'' (mangle_out_of rs))
     @ nft_render_chain ''input'' ''input'' (input_of rs)
     @ nft_render_chain ''output'' ''output'' (output_of rs)
     @ nft_render_chain ''forward'' ''forward'' (forward_of rs)
     @ ''}'' @ nl"

text \<open>
  What the kernel makes of an expression in an \<open>inet\<close> table. An address or ICMP expression carries the
  checks of the protocol it reads: nft adds the network-protocol and the transport-protocol dependency.
\<close>

fun nft_holds :: "netfilter \<Rightarrow> packet \<Rightarrow> nft_expr \<Rightarrow> bool" where
  "nft_holds nf p NfProto4 = is_v4 (p_daddr p)"
| "nft_holds nf p NfProto6 = (\<not> is_v4 (p_daddr p))"
| "nft_holds nf p (IifName i) = nf_iface nf i (p_iif p)"
| "nft_holds nf p (OifName i) = nf_iface nf i (p_oif p)"
| "nft_holds nf p (IifNameNot i) = (\<not> nf_iface nf i (p_iif p))"
| "nft_holds nf p CtStateNew = p_new p"
| "nft_holds nf p (MetaMark k) = (p_mark p = k)"
| "nft_holds nf p (CtMark k) = (p_ctmark p = k)"
| "nft_holds nf p (MetaSkuid u) = (p_uid p = Some u)"
| "nft_holds nf p (SAddr f a) = ((f = ''ip'') = is_v4 (p_daddr p) \<and> addr_ok nf a (p_saddr p))"
| "nft_holds nf p (DAddr f a) = ((f = ''ip'') = is_v4 (p_daddr p) \<and> addr_ok nf a (p_daddr p))"
| "nft_holds nf p (IcmpType t) = (is_v4 (p_daddr p) \<and> p_proto p = Some Icmp \<and> p_icmpv4 p = Some t)"
| "nft_holds nf p (Icmpv6Type t) = (\<not> is_v4 (p_daddr p) \<and> p_proto p = Some IcmpV6 \<and> p_icmpv6 p = Some t)"
| "nft_holds nf p (Sport q s) = (p_proto p = Some (if q = ''tcp'' then Tcp else Udp) \<and> p_sport p = s)"
| "nft_holds nf p (Dport q s) = (p_proto p = Some (if q = ''tcp'' then Tcp else Udp) \<and> p_dport p = s)"
| "nft_holds nf p (L4Proto q) = (p_proto p = Some (if q = ''tcp'' then Tcp else Udp))"
| "nft_holds nf p (Limit l) = nf_limit nf l p"

definition nft_eval :: "netfilter \<Rightarrow> chain \<Rightarrow> packet \<Rightarrow> verdict option" where
  "nft_eval nf c p = map_option r_verdict (find (\<lambda>r. list_all (nft_holds nf p) (nft_exprs r)) c)"

subsection \<open>The iptables-restore files\<close>

datatype addr_family_sel = AfV4 | AfV6

definition CHAIN_INPUT :: string where "CHAIN_INPUT = ''NYM_INPUT''"
definition CHAIN_OUTPUT :: string where "CHAIN_OUTPUT = ''NYM_OUTPUT''"
definition CHAIN_FORWARD :: string where "CHAIN_FORWARD = ''NYM_FORWARD''"
definition CHAIN_MANGLE_PREROUTING :: string where "CHAIN_MANGLE_PREROUTING = ''NYM_MANGLE_PREROUTING''"
definition CHAIN_MANGLE_OUTPUT :: string where "CHAIN_MANGLE_OUTPUT = ''NYM_MANGLE_OUTPUT''"

datatype ipt_arg =
    ArgI string | ArgO string | ArgNotI string
  | ArgS addr_match | ArgD addr_match | ArgP proto
  | ArgIcmpType icmpv4_type | ArgIcmpv6Type icmpv6_type
  | ArgSport u16 | ArgDport u16
  | ArgCtNew | ArgMark u32 | ArgConnmark u32 | ArgUidOwner u32
  | ArgLimit rate_limit

fun family_matches :: "family \<Rightarrow> addr_family_sel \<Rightarrow> bool" where
  "family_matches V4 AfV4 = True"
| "family_matches V6 AfV6 = True"
| "family_matches Inet _ = True"
| "family_matches _ _ = False"

definition ipt_args :: "rule \<Rightarrow> ipt_arg list" where
  "ipt_args r =
     (let m = r_matches r in
      push_opt (m_iif m) ArgI
      @ push_opt (m_oif m) ArgO
      @ push_opt (m_iif_not m) ArgNotI
      @ push_opt (m_saddr m) ArgS
      @ push_opt (m_daddr m) ArgD
      @ push_opt (m_proto m) ArgP
      @ push_opt (m_icmpv4_type m) ArgIcmpType
      @ push_opt (m_icmpv6_type m) ArgIcmpv6Type
      @ push_opt (m_sport m) ArgSport
      @ push_opt (m_dport m) ArgDport
      @ push_opt (m_ct_state m) (\<lambda>_. ArgCtNew)
      @ push_opt (m_mark m) ArgMark
      @ push_opt (m_ct_mark m) ArgConnmark
      @ push_opt (m_skuid m) ArgUidOwner
      @ push_opt (m_rate_limit m) ArgLimit)"

fun proto_str :: "proto \<Rightarrow> string" where
  "proto_str Tcp = ''tcp''"
| "proto_str Udp = ''udp''"
| "proto_str Icmp = ''icmp''"
| "proto_str IcmpV6 = ''icmpv6''"

fun ipt_icmpv6_name :: "icmpv6_type \<Rightarrow> string" where
  "ipt_icmpv6_name RouterSolicit = ''router-solicitation''"
| "ipt_icmpv6_name NeighborSolicit = ''neighbour-solicitation''"
| "ipt_icmpv6_name NeighborAdvert = ''neighbour-advertisement''"
| "ipt_icmpv6_name EchoRequest6 = ''echo-request''"

fun show_ipt_arg :: "ipt_arg \<Rightarrow> string" where
  "show_ipt_arg (ArgI i) = ''-i '' @ i"
| "show_ipt_arg (ArgO i) = ''-o '' @ i"
| "show_ipt_arg (ArgNotI i) = ''! -i '' @ i"
| "show_ipt_arg (ArgS a) = ''-s '' @ render_addr a"
| "show_ipt_arg (ArgD a) = ''-d '' @ render_addr a"
| "show_ipt_arg (ArgP q) = ''-p '' @ proto_str q"
| "show_ipt_arg (ArgIcmpType t) = ''--icmp-type '' @ icmpv4_name t"
| "show_ipt_arg (ArgIcmpv6Type t) = ''--icmpv6-type '' @ ipt_icmpv6_name t"
| "show_ipt_arg (ArgSport s) = ''--sport '' @ dec (unat s)"
| "show_ipt_arg (ArgDport s) = ''--dport '' @ dec (unat s)"
| "show_ipt_arg ArgCtNew = ''-m conntrack --ctstate NEW''"
| "show_ipt_arg (ArgMark k) = ''-m mark --mark '' @ hex_alt (unat k)"
| "show_ipt_arg (ArgConnmark k) = ''-m connmark --mark '' @ hex_alt (unat k)"
| "show_ipt_arg (ArgUidOwner u) = ''-m owner --uid-owner '' @ dec (unat u)"
| "show_ipt_arg (ArgLimit l) = ''-m limit --limit '' @ dec (unat (per_minute l)) @ ''/minute --limit-burst '' @ dec (unat (burst l))"

definition reject_with :: "rule \<Rightarrow> addr_family_sel \<Rightarrow> string" where
  "reject_with r fam =
     (if m_proto (r_matches r) = Some Tcp then ''tcp-reset''
      else case fam of AfV4 \<Rightarrow> ''icmp-port-unreachable'' | AfV6 \<Rightarrow> ''icmp6-port-unreachable'')"

definition ipt_target :: "rule \<Rightarrow> addr_family_sel \<Rightarrow> string" where
  "ipt_target r fam =
     (case r_verdict r of
        Accept \<Rightarrow> ''-j ACCEPT''
      | Return \<Rightarrow> ''-j RETURN''
      | Drop \<Rightarrow> ''-j DROP''
      | Reject \<Rightarrow> ''-j REJECT --reject-with '' @ reject_with r fam
      | SetCtMark n \<Rightarrow> ''-j CONNMARK --set-mark '' @ hex_alt (unat n)
      | RestoreMark \<Rightarrow> ''-j CONNMARK --restore-mark'')"

definition ipt_render_rule :: "rule \<Rightarrow> addr_family_sel \<Rightarrow> string" where
  "ipt_render_rule r fam = join '' '' (map show_ipt_arg (ipt_args r) @ [ipt_target r fam])"

definition ipt_render_chain :: "string \<Rightarrow> addr_family_sel \<Rightarrow> chain \<Rightarrow> string" where
  "ipt_render_chain name fam c =
     concat (map (\<lambda>r. ''-A '' @ name @ '' '' @ ipt_render_rule r fam @ nl)
       (filter (\<lambda>r. family_matches (r_family r) fam) c))"

definition ipt_render :: "rule_set \<Rightarrow> addr_family_sel \<Rightarrow> string" where
  "ipt_render rs fam =
     (if mangle_is_empty (rs_mangle rs) then []
      else ''*mangle'' @ nl
        @ '':'' @ CHAIN_MANGLE_PREROUTING @ '' - [0:0]'' @ nl
        @ '':'' @ CHAIN_MANGLE_OUTPUT @ '' - [0:0]'' @ nl
        @ ''-F '' @ CHAIN_MANGLE_PREROUTING @ nl
        @ ''-F '' @ CHAIN_MANGLE_OUTPUT @ nl
        @ ipt_render_chain CHAIN_MANGLE_PREROUTING fam (mangle_pre_of rs)
        @ ipt_render_chain CHAIN_MANGLE_OUTPUT fam (mangle_out_of rs)
        @ ''COMMIT'' @ nl)
     @ ''*filter'' @ nl
     @ '':'' @ CHAIN_INPUT @ '' - [0:0]'' @ nl
     @ '':'' @ CHAIN_OUTPUT @ '' - [0:0]'' @ nl
     @ '':'' @ CHAIN_FORWARD @ '' - [0:0]'' @ nl
     @ ''-F '' @ CHAIN_INPUT @ nl
     @ ''-F '' @ CHAIN_OUTPUT @ nl
     @ ''-F '' @ CHAIN_FORWARD @ nl
     @ ipt_render_chain CHAIN_INPUT fam (input_of rs)
     @ ipt_render_chain CHAIN_OUTPUT fam (output_of rs)
     @ ipt_render_chain CHAIN_FORWARD fam (forward_of rs)
     @ ''COMMIT'' @ nl"

text \<open>
  The kernel's reading of an argument. A file of one family only ever sees packets of that family, and
  an ICMP type or a port is an option of the protocol named by \<open>-p\<close>.
\<close>

fun ipt_holds :: "netfilter \<Rightarrow> packet \<Rightarrow> ipt_arg \<Rightarrow> bool" where
  "ipt_holds nf p (ArgI i) = nf_iface nf i (p_iif p)"
| "ipt_holds nf p (ArgO i) = nf_iface nf i (p_oif p)"
| "ipt_holds nf p (ArgNotI i) = (\<not> nf_iface nf i (p_iif p))"
| "ipt_holds nf p (ArgS a) = addr_ok nf a (p_saddr p)"
| "ipt_holds nf p (ArgD a) = addr_ok nf a (p_daddr p)"
| "ipt_holds nf p (ArgP q) = (p_proto p = Some q)"
| "ipt_holds nf p (ArgIcmpType t) = (p_icmpv4 p = Some t)"
| "ipt_holds nf p (ArgIcmpv6Type t) = (p_icmpv6 p = Some t)"
| "ipt_holds nf p (ArgSport s) = (p_sport p = s)"
| "ipt_holds nf p (ArgDport s) = (p_dport p = s)"
| "ipt_holds nf p ArgCtNew = p_new p"
| "ipt_holds nf p (ArgMark k) = (p_mark p = k)"
| "ipt_holds nf p (ArgConnmark k) = (p_ctmark p = k)"
| "ipt_holds nf p (ArgUidOwner u) = (p_uid p = Some u)"
| "ipt_holds nf p (ArgLimit l) = nf_limit nf l p"

definition packet_family :: "packet \<Rightarrow> addr_family_sel" where
  "packet_family p = (if is_v4 (p_daddr p) then AfV4 else AfV6)"

definition ipt_eval :: "netfilter \<Rightarrow> addr_family_sel \<Rightarrow> chain \<Rightarrow> packet \<Rightarrow> verdict option" where
  "ipt_eval nf fam c p =
     map_option r_verdict (find (\<lambda>r. list_all (ipt_holds nf p) (ipt_args r))
       (filter (\<lambda>r. family_matches (r_family r) fam) c))"

subsection \<open>Rendered rules match as the rules do\<close>

lemma push_opt_simps [simp]: "push_opt None f = []" "push_opt (Some a) f = [f a]"
  by (simp_all add: push_opt_def)

lemma list_all_push_opt [simp]: "list_all P (push_opt x f) \<longleftrightarrow> opt_ok x (\<lambda>a. P (f a))"
  by (cases x) simp_all

lemma ipt_args_match:
  "list_all (ipt_holds nf p) (ipt_args r) \<longleftrightarrow> fields_match nf (r_matches r) p"
  by (auto simp: ipt_args_def fields_match_def Let_def)

lemma family_matches_packet: "family_matches (r_family r) (packet_family p) \<longleftrightarrow> family_ok (r_family r) p"
  by (cases "r_family r") (simp_all add: packet_family_def)

lemma ipt_eval_first_match: "ipt_eval nf (packet_family p) c p = first_match nf c p"
  by (induction c)
    (auto simp: ipt_eval_def ipt_args_match family_matches_packet rule_matches_def)

text \<open>The port expressions carry the protocol check; the address and ICMP expressions carry the family check.\<close>

lemma nft_ports_match:
  assumes "wf_rule r" and "m = r_matches r"
  shows "list_all (nft_holds nf p)
      (case m_proto m of Some Tcp \<Rightarrow> port_exprs ''tcp'' m | Some Udp \<Rightarrow> port_exprs ''udp'' m | _ \<Rightarrow> []) \<longleftrightarrow>
    (m_proto m = Some Tcp \<or> m_proto m = Some Udp \<longrightarrow> p_proto p = m_proto m)
    \<and> opt_ok (m_sport m) (\<lambda>q. p_sport p = q) \<and> opt_ok (m_dport m) (\<lambda>q. p_dport p = q)"
  using assms unfolding wf_rule_def port_exprs_def Let_def
  by (cases "m_sport m"; cases "m_dport m") (auto split: option.splits proto.splits)

definition nft_family_part :: "netfilter \<Rightarrow> packet \<Rightarrow> rule \<Rightarrow> bool" where
  "nft_family_part nf p r =
     (let m = r_matches r in
      (m_saddr m \<noteq> None \<or> m_daddr m \<noteq> None \<or> m_icmpv4_type m \<noteq> None \<or> m_icmpv6_type m \<noteq> None \<or> family_ok (r_family r) p)
      \<and> opt_ok (m_saddr m) (\<lambda>a. nft_holds nf p (SAddr (addr_family (r_family r)) a))
      \<and> opt_ok (m_daddr m) (\<lambda>a. nft_holds nf p (DAddr (addr_family (r_family r)) a))
      \<and> opt_ok (m_icmpv4_type m) (\<lambda>t. nft_holds nf p (IcmpType t))
      \<and> opt_ok (m_icmpv6_type m) (\<lambda>t. nft_holds nf p (Icmpv6Type t)))"

lemma nft_family_part_iff:
  assumes "wf_rule r" and "m = r_matches r"
  shows "nft_family_part nf p r \<longleftrightarrow>
    family_ok (r_family r) p \<and> opt_ok (m_saddr m) (\<lambda>a. addr_ok nf a (p_saddr p))
    \<and> opt_ok (m_daddr m) (\<lambda>a. addr_ok nf a (p_daddr p))
    \<and> opt_ok (m_icmpv4_type m) (\<lambda>t. p_icmpv4 p = Some t \<and> p_proto p = Some Icmp)
    \<and> opt_ok (m_icmpv6_type m) (\<lambda>t. p_icmpv6 p = Some t \<and> p_proto p = Some IcmpV6)"
  using assms unfolding wf_rule_def nft_family_part_def Let_def
  by (cases "r_family r"; cases "m_saddr m"; cases "m_daddr m"; cases "m_icmpv4_type m"; cases "m_icmpv6_type m")
    (auto simp: addr_family_ok_def)

lemma nft_exprs_match:
  assumes wf: "wf_rule r"
  shows "list_all (nft_holds nf p) (nft_exprs r) \<longleftrightarrow> rule_matches nf r p"
proof -
  let ?m = "r_matches r"
  have fam: "list_all (nft_holds nf p) (case r_family r of V4 \<Rightarrow> [NfProto4] | V6 \<Rightarrow> [NfProto6] | Inet \<Rightarrow> []) \<longleftrightarrow>
      family_ok (r_family r) p"
    by (cases "r_family r") simp_all
  have "list_all (nft_holds nf p) (nft_exprs r) \<longleftrightarrow>
      nft_family_part nf p r
      \<and> list_all (nft_holds nf p)
          (case m_proto ?m of Some Tcp \<Rightarrow> port_exprs ''tcp'' ?m | Some Udp \<Rightarrow> port_exprs ''udp'' ?m | _ \<Rightarrow> [])
      \<and> opt_ok (m_iif ?m) (\<lambda>i. nf_iface nf i (p_iif p)) \<and> opt_ok (m_oif ?m) (\<lambda>i. nf_iface nf i (p_oif p))
      \<and> opt_ok (m_iif_not ?m) (\<lambda>i. \<not> nf_iface nf i (p_iif p)) \<and> opt_ok (m_ct_state ?m) (\<lambda>_. p_new p)
      \<and> opt_ok (m_mark ?m) (\<lambda>k. p_mark p = k) \<and> opt_ok (m_ct_mark ?m) (\<lambda>k. p_ctmark p = k)
      \<and> opt_ok (m_skuid ?m) (\<lambda>u. p_uid p = Some u) \<and> opt_ok (m_rate_limit ?m) (\<lambda>l. nf_limit nf l p)"
    unfolding nft_exprs_def nft_family_part_def Let_def by (auto simp: fam)
  moreover have "opt_ok (m_icmpv4_type ?m) (\<lambda>t. p_icmpv4 p = Some t \<and> p_proto p = Some Icmp)
        \<and> opt_ok (m_icmpv6_type ?m) (\<lambda>t. p_icmpv6 p = Some t \<and> p_proto p = Some IcmpV6)
        \<and> (m_proto ?m = Some Tcp \<or> m_proto ?m = Some Udp \<longrightarrow> p_proto p = m_proto ?m) \<longleftrightarrow>
      opt_ok (m_proto ?m) (\<lambda>q. p_proto p = Some q) \<and> opt_ok (m_icmpv4_type ?m) (\<lambda>t. p_icmpv4 p = Some t)
        \<and> opt_ok (m_icmpv6_type ?m) (\<lambda>t. p_icmpv6 p = Some t)"
    using wf unfolding wf_rule_def Let_def
    by (cases "m_icmpv4_type ?m"; cases "m_icmpv6_type ?m"; cases "m_proto ?m"; cases "the (m_proto ?m)") auto
  ultimately show ?thesis
    unfolding nft_ports_match [OF wf refl] nft_family_part_iff [OF wf refl] rule_matches_def fields_match_def
    by blast
qed

lemma nft_eval_first_match: "list_all wf_rule c \<Longrightarrow> nft_eval nf c p = first_match nf c p"
  by (induction c) (auto simp: nft_eval_def nft_exprs_match)

subsection \<open>Compiled rule sets are renderable\<close>

lemma built_wf [simp]:
  "wf_rule (rule_new f v)" "wf_rule (accept f)" "wf_rule (return_rule f)" "wf_rule (drop_rule f)" "wf_rule (reject f)"
  "wf_rule (set_ct_mark f k)" "wf_rule (restore_mark f)"
  "wf_rule (with_iif i r) = wf_rule r" "wf_rule (with_oif i r) = wf_rule r" "wf_rule (with_iif_not i r) = wf_rule r"
  "wf_rule (mark_eq k r) = wf_rule r" "wf_rule (ct_mark_eq k r) = wf_rule r" "wf_rule (ct_new r) = wf_rule r"
  "wf_rule (with_skuid u r) = wf_rule r" "wf_rule (with_rate_limit pm b r) = wf_rule r"
  by (simp_all add: wf_rule_def Let_def builder_defs)

lemma family_of_addr [simp]: "addr_family_ok (family_of a) (AddrIp a)"
  by (cases a) (simp_all add: addr_family_ok_def addr_v4_def)

lemma port_rule_wf [simp]:
  "q = Tcp \<or> q = Udp \<Longrightarrow> wf_rule (with_dport s (with_proto q (rule_new f v)))"
  "q = Tcp \<or> q = Udp \<Longrightarrow> wf_rule (with_dport s (with_sport t (with_proto q (rule_new f v))))"
  "q = Tcp \<or> q = Udp \<Longrightarrow> wf_rule (with_dport s (with_proto q (with_iif i (rule_new f v))))"
  by (auto simp: wf_rule_def Let_def builder_defs)

lemma net_rule_wf [simp]: "addr_family_ok f (AddrNet n) \<Longrightarrow> wf_rule (with_daddr (AddrNet n) (rule_new f v))"
  by (auto simp: wf_rule_def Let_def builder_defs)

lemma icmp_rule_wf [simp]:
  "wf_rule (with_icmpv4_type t4 (rule_new V4 v))" "wf_rule (with_icmpv6_type t6 (rule_new V6 v))"
  by (simp_all add: wf_rule_def Let_def builder_defs)

lemma proto_of_port [simp]: "proto_of q = Tcp \<or> proto_of q = Udp"
  by (cases q) simp_all

lemma mwan3_rule_wf [simp]: "wf_rule (mwan3_rule ip)"
  by (cases ip) (simp_all add: mwan3_rule_def wf_rule_def Let_def builder_defs addr_family_ok_def addr_v4_def)

lemma endpoint_rule_wf [simp]: "wf_rule (endpoint_rule ep)"
  by (cases "e_protocol (ae_endpoint ep)") (auto simp: endpoint_rule_def wf_rule_def Let_def builder_defs)

lemma dns_rule_wf: "q = Tcp \<or> q = Udp \<Longrightarrow> wf_rule (dns_rule dns q s)"
  by (auto simp: dns_rule_def wf_rule_def Let_def builder_defs)

lemma dns_server_rule_wf: "qp \<in> set dns_pairs \<Longrightarrow> wf_rule (dns_server_rule dns i c qp)"
  by (auto simp: dns_server_rule_def dns_pairs_def Let_def dns_rule_wf split: option.splits dns_access.splits)

lemma cve_rule_wf: "wf_rule (with_daddr (AddrIp a) (with_iif_not i (rule_new (family_of a) v)))"
  by (simp add: wf_rule_def Let_def builder_defs)

lemma dns_down_out_wf: "r \<in> set (dns_down_out contains u ifaces dns) \<Longrightarrow> wf_rule r"
  by (auto simp: dns_down_out_def dns_server_rule_wf dns_rule_wf dns_pairs_def split: option.splits)

lemma dns_up_out_wf: "r \<in> set (dns_up_out contains u ifaces dns) \<Longrightarrow> wf_rule r"
  by (auto simp: dns_up_out_def dns_server_rule_wf dns_rule_wf split: option.splits if_splits)
    (auto simp: dns_pairs_def dns_rule_wf)

lemma dns_down_fwd_wf: "r \<in> set (dns_down_fwd contains u ifaces dns) \<Longrightarrow> wf_rule r \<and> unscoped r"
  by (auto simp: dns_down_fwd_def dns_rule_wf split: option.splits) (auto simp: dns_rule_def)

lemma dns_up_fwd_wf: "r \<in> set (dns_up_fwd contains u ifaces dns) \<Longrightarrow> wf_rule r \<and> unscoped r"
  by (auto simp: dns_up_fwd_def dns_rule_wf split: option.splits if_splits) (auto simp: dns_rule_def)

lemmas unfold_base_rules = accept_def return_rule_def drop_rule_def reject_def

lemma base_out_wf: "r \<in> set (base_out mwan3) \<Longrightarrow> wf_rule r"
  by (auto simp: base_out_def) (auto simp: unfold_base_rules)

lemma lan_nets_families:
  "n \<in> set LAN_NETS_V4 \<Longrightarrow> addr_family_ok V4 (AddrNet n)" "n \<in> set LAN_NETS_V6 \<Longrightarrow> addr_family_ok V6 (AddrNet n)"
  "addr_family_ok V4 (AddrNet MULTICAST_V4)" "addr_family_ok V6 (AddrNet MULTICAST_V6)"
  by (auto simp: LAN_NETS_V4_def LAN_NETS_V6_def MULTICAST_V4_def MULTICAST_V6_def addr_family_ok_def addr_v4_def
      ipv4_def ipv6_of_segments_def)

lemma lan_out_wf: "r \<in> set (lan_out on) \<Longrightarrow> wf_rule r"
  by (auto simp: lan_out_def unfold_base_rules lan_nets_families split: if_splits)

lemma lan_fwd_wf: "r \<in> set (lan_fwd on) \<Longrightarrow> wf_rule r \<and> unscoped r"
  by (auto simp: lan_fwd_def unfold_base_rules lan_nets_families split: if_splits)

lemma small_parts_wf:
  "r \<in> set (exempt_chain xs) \<Longrightarrow> wf_rule r \<and> unscoped r" "r \<in> set hatch_out \<Longrightarrow> wf_rule r"
  "r \<in> set block_dns_chain \<Longrightarrow> wf_rule r \<and> unscoped r" "r \<in> set ntp_out \<Longrightarrow> wf_rule r"
  "r \<in> set probe_out \<Longrightarrow> wf_rule r" "r \<in> set (tunnel_chain ifaces) \<Longrightarrow> wf_rule r \<and> unscoped r"
  "r \<in> set (ingress_fwd wans tunnels) \<Longrightarrow> wf_rule r \<and> unscoped r"
  by (auto simp: exempt_chain_def hatch_out_def dns_hatch_rule_def block_dns_chain_def dns_reject_def ntp_out_def
      probe_out_def tunnel_chain_def ingress_fwd_def split: if_splits)
    (auto simp: unfold_base_rules)

lemma cve_drops_wf: "r \<in> set (cve_drops policy) \<Longrightarrow> wf_rule r \<and> unscoped r"
  by (cases policy) (auto simp: cve_in_def drop_rule_def cve_rule_wf split: if_splits)

lemma exempt_mangle_wf:
  "r \<in> set (exempt_pre xs wans) \<Longrightarrow> wf_rule r \<and> unscoped r" "r \<in> set (exempt_mout xs wans) \<Longrightarrow> wf_rule r"
  by (auto simp: exempt_pre_def exempt_mout_def restore_exempt_def set_exempt_def split: if_splits)
    (auto simp: set_ct_mark_def)

lemma before_wf: "r \<in> set (accepts_before_dns_block contains u policy) \<Longrightarrow> wf_rule r"
  by (cases policy) (auto simp: Let_def dns_server_rule_wf dest: dns_down_out_wf dns_up_out_wf small_parts_wf)

lemma after_wf: "r \<in> set (accepts_after_dns_block policy) \<Longrightarrow> wf_rule r"
  by (cases policy) (auto dest: lan_out_wf small_parts_wf)

lemma forward_accepts_wf: "r \<in> set (forward_accepts contains u policy) \<Longrightarrow> wf_rule r \<and> unscoped r"
  by (cases policy) (auto simp: Let_def dest: dns_down_fwd_wf dns_up_fwd_wf small_parts_wf)

lemma compiled_input_wf: "r \<in> set (input_of (compile_with contains mwan3 policy u)) \<Longrightarrow> wf_rule r \<and> unscoped r"
  by (auto simp: compile_input dest: cve_drops_wf small_parts_wf)

lemma compiled_output_wf: "r \<in> set (output_of (compile_with contains mwan3 policy u)) \<Longrightarrow> wf_rule r"
  by (auto simp: compile_output dest: base_out_wf before_wf after_wf small_parts_wf)

lemma compiled_forward_wf: "r \<in> set (forward_of (compile_with contains mwan3 policy u)) \<Longrightarrow> wf_rule r \<and> unscoped r"
  by (auto simp: compile_forward dest: forward_accepts_wf lan_fwd_wf small_parts_wf)

lemmas compiled_wf = compiled_input_wf compiled_output_wf compiled_forward_wf

lemma chain_of_wf: "list_all wf_rule (chain_of h (compile_with contains mwan3 policy u))"
  by (cases h) (auto simp: list_all_iff dest: compiled_wf)

text \<open>C16: every rule set the compiler produces is renderable: no uid match outside an OUTPUT chain, an ICMP
  type always under its protocol and family, ports only under TCP or UDP, and addresses of the rule's own
  family, so no \<open>debug_assert\<close> of the renderers can fire and no rendered line mixes families.\<close>

theorem compile_renderable: "renderable (compile_with contains mwan3 policy u)"
  by (auto simp: renderable_def all_chains_def list_all_iff compile_mangle_pre compile_mangle_out
      dest: compiled_wf exempt_mangle_wf)

text \<open>C12: the two backends enforce the same kill-switch. Reading the rendered nft expressions, or the
  iptables arguments of the packet's own family, decides every packet on every hook as the abstract
  kill-switch does.\<close>

theorem backends_agree:
  "nft_eval nf (chain_of h (compile_with contains mwan3 policy u)) p = killswitch_spec nf contains mwan3 u policy h p
    \<and> ipt_eval nf (packet_family p) (chain_of h (compile_with contains mwan3 policy u)) p
      = killswitch_spec nf contains mwan3 u policy h p"
  unfolding nft_eval_first_match [OF chain_of_wf] ipt_eval_first_match
  by (cases h) (simp_all add: output_verdict forward_verdict input_verdict)

text \<open>The text of a few rules, as the renderers print them.\<close>

lemmas rule_text = nft_render_rule_def nft_exprs_def ipt_render_rule_def ipt_args_def ipt_target_def reject_with_def
  builder_defs Let_def port_exprs_def show_number

lemma nft_rule_text:
  "nft_render_rule (with_skuid 0 (with_dport 53 (with_proto Udp (accept Inet)))) = ''meta skuid 0 udp dport 53 accept''"
  "nft_render_rule (with_daddr (AddrNet (IpNetwork (ipv4 192 168 0 0) 16)) (return_rule V4)) = ''ip daddr 192.168.0.0/16 return''"
  "nft_render_rule (with_sport 68 (with_proto Udp (accept V4))) = ''meta nfproto ipv4 udp sport 68 accept''"
  "nft_render_rule (mark_eq EXEMPT_FWMARK (accept Inet)) = ''meta mark 0x14e accept''"
  by (simp_all add: rule_text EXEMPT_FWMARK_def ipv4_def show_net_def show_ipv4_def drop_bit_eq_div)

lemma ipt_rule_text:
  "ipt_render_rule (with_dport 53 (with_proto Tcp (reject Inet))) AfV6 = ''-p tcp --dport 53 -j REJECT --reject-with tcp-reset''"
  "ipt_render_rule (reject Inet) AfV6 = ''-j REJECT --reject-with icmp6-port-unreachable''"
  "ipt_render_rule (with_icmpv6_type NeighborAdvert (accept V6)) AfV6 = ''-p icmpv6 --icmpv6-type neighbour-advertisement -j ACCEPT''"
  by (simp_all add: rule_text)

end
