(* ===== verification/FW_Boot.thy ===== *)
theory FW_Boot
  imports FW_Render
begin

text \<open>
  The emergency and boot-time rule sets of \<open>openwrt/boot_rules.rs\<close>: the iptables-restore scripts of the
  two modes, the \<open>inet nym_boot\<close> table and the shell fragment \<open>build.rs\<close> renders from them. A script is a
  list of lines, printed by \<open>show_line\<close>; what its chains decide is given over the same lines.
\<close>

definition FW3_HOOK_INPUT :: string where "FW3_HOOK_INPUT = ''input_rule''"
definition FW3_HOOK_OUTPUT :: string where "FW3_HOOK_OUTPUT = ''output_rule''"
definition FW3_HOOK_FORWARD :: string where "FW3_HOOK_FORWARD = ''forwarding_rule''"
definition EMERGENCY_OUTPUT_CHAIN :: string where "EMERGENCY_OUTPUT_CHAIN = ''NYM_EMERGENCY_OUT''"
definition EMERGENCY_FORWARD_CHAIN :: string where "EMERGENCY_FORWARD_CHAIN = ''NYM_EMERGENCY_FWD''"
definition FW4_BOOT_TABLE :: string where "FW4_BOOT_TABLE = ''nym_boot''"

definition LINK_LOCAL_V4 :: ip_network where "LINK_LOCAL_V4 = IpNetwork (ipv4 169 254 0 0) 16"

definition BOOT_LAN_NETS_V4 :: "ip_network list" where
  "BOOT_LAN_NETS_V4 =
     [IpNetwork (ipv4 10 0 0 0) 8, IpNetwork (ipv4 172 16 0 0) 12, IpNetwork (ipv4 192 168 0 0) 16,
      IpNetwork (ipv4 169 254 0 0) 16]"

definition BOOT_LAN_NETS_V6 :: "ip_network list" where
  "BOOT_LAN_NETS_V6 = LAN_NETS_V6"

datatype boot_family = BootV4 | BootV6

datatype boot_mode = Transition | Boot

fun reject_udp :: "boot_family \<Rightarrow> string" where
  "reject_udp BootV4 = ''icmp-port-unreachable''"
| "reject_udp BootV6 = ''icmp6-port-unreachable''"

subsection \<open>The emergency script\<close>

datatype em_match =
    EmReply | EmOut string | EmUdp u16 u16 | EmIcmp6 icmpv6_type | EmDns proto | EmDest ip_network | EmAny

datatype em_target = EmAccept | EmReturn | EmDrop | EmReject string

datatype em_line =
    LTable string | LDecl string | LFlush string | LAppend string em_match em_target | LInsert string string | LCommit

definition emergency_lines :: "boot_family \<Rightarrow> boot_mode \<Rightarrow> em_line list" where
  "emergency_lines family mode =
     (let out = EMERGENCY_OUTPUT_CHAIN; fwd = EMERGENCY_FORWARD_CHAIN in
      [LTable ''filter'', LDecl out, LDecl fwd, LFlush out, LFlush fwd, LAppend out EmReply EmAccept]
      @ (if mode = Boot
         then LAppend out (EmOut ''lo'') EmAccept #
           (case family of
              BootV4 \<Rightarrow> [LAppend out (EmUdp 68 67) EmAccept, LAppend out (EmUdp 67 68) EmAccept]
            | BootV6 \<Rightarrow> [LAppend out (EmUdp 546 547) EmAccept, LAppend out (EmUdp 547 546) EmAccept,
                LAppend out (EmIcmp6 RouterSolicit) EmAccept])
         else [])
      @ (if family = BootV6
         then [LAppend out (EmIcmp6 NeighborSolicit) EmAccept, LAppend out (EmIcmp6 NeighborAdvert) EmAccept]
         else [])
      @ (if mode = Boot
         then concat (map (\<lambda>chain. [LAppend chain (EmDns Udp) (EmReject (reject_udp family)),
                LAppend chain (EmDns Tcp) (EmReject ''tcp-reset'')]) [out, fwd])
           @ (let (mcast, nets) = (case family of BootV4 \<Rightarrow> (MULTICAST_V4, BOOT_LAN_NETS_V4)
                                   | BootV6 \<Rightarrow> (MULTICAST_V6, BOOT_LAN_NETS_V6))
              in LAppend out (EmDest mcast) EmAccept #
                 concat (map (\<lambda>net. [LAppend out (EmDest net) EmAccept, LAppend fwd (EmDest net) EmReturn]) nets))
         else [])
      @ [LAppend out EmAny EmDrop, LAppend fwd EmAny EmDrop,
         LInsert FW3_HOOK_OUTPUT out, LInsert FW3_HOOK_FORWARD fwd, LCommit])"

fun show_em_match :: "em_match \<Rightarrow> string" where
  "show_em_match EmReply = '' -m conntrack --ctstate RELATED,ESTABLISHED --ctdir REPLY''"
| "show_em_match (EmOut i) = '' -o '' @ i"
| "show_em_match (EmUdp s d) = '' -p udp --sport '' @ dec (unat s) @ '' --dport '' @ dec (unat d)"
| "show_em_match (EmIcmp6 t) = '' -p icmpv6 --icmpv6-type '' @ ipt_icmpv6_name t"
| "show_em_match (EmDns q) = '' -p '' @ proto_str q @ '' --dport 53''"
| "show_em_match (EmDest n) = '' -d '' @ show_net n"
| "show_em_match EmAny = []"

fun show_em_target :: "em_target \<Rightarrow> string" where
  "show_em_target EmAccept = '' -j ACCEPT''"
| "show_em_target EmReturn = '' -j RETURN''"
| "show_em_target EmDrop = '' -j DROP''"
| "show_em_target (EmReject w) = '' -j REJECT --reject-with '' @ w"

fun show_line :: "em_line \<Rightarrow> string" where
  "show_line (LTable t) = ''*'' @ t"
| "show_line (LDecl c) = '':'' @ c @ '' - [0:0]''"
| "show_line (LFlush c) = ''-F '' @ c"
| "show_line (LAppend c m t) = ''-A '' @ c @ show_em_match m @ show_em_target t"
| "show_line (LInsert hook c) = ''-I '' @ hook @ '' 1 -j '' @ c"
| "show_line LCommit = ''COMMIT''"

definition iptables_emergency_rules :: "boot_family \<Rightarrow> boot_mode \<Rightarrow> string" where
  "iptables_emergency_rules family mode = concat (map (\<lambda>l. show_line l @ nl) (emergency_lines family mode))"

subsection \<open>The fw4 boot table\<close>

datatype bb_expr =
    BbOif string | BbReply | BbUdp4 u16 u16 | BbUdp6 u16 u16 | BbIcmp6 "icmpv6_type list"
  | BbDns proto | BbDest4 "ip_network list" | BbDest6 "ip_network list" | BbAny

definition boot_output :: "(bb_expr \<times> verdict) list" where
  "boot_output =
     [(BbOif ''lo'', Accept), (BbReply, Accept),
      (BbUdp4 68 67, Accept), (BbUdp4 67 68, Accept), (BbUdp6 546 547, Accept), (BbUdp6 547 546, Accept),
      (BbIcmp6 [RouterSolicit, NeighborSolicit, NeighborAdvert], Accept),
      (BbDns Udp, Reject), (BbDns Tcp, Reject),
      (BbDest4 (BOOT_LAN_NETS_V4 @ [MULTICAST_V4]), Accept),
      (BbDest6 (BOOT_LAN_NETS_V6 @ [MULTICAST_V6]), Accept),
      (BbAny, Drop)]"

definition boot_forward :: "(bb_expr \<times> verdict) list" where
  "boot_forward =
     [(BbDns Udp, Reject), (BbDns Tcp, Reject), (BbDest4 BOOT_LAN_NETS_V4, Accept),
      (BbDest6 BOOT_LAN_NETS_V6, Accept), (BbAny, Drop)]"

fun show_bb_expr :: "bb_expr \<Rightarrow> string" where
  "show_bb_expr (BbOif i) = ''oifname '' @ quoted i @ '' ''"
| "show_bb_expr BbReply = ''ct state established,related ct direction reply ''"
| "show_bb_expr (BbUdp4 s d) = ''meta nfproto ipv4 udp sport '' @ dec (unat s) @ '' udp dport '' @ dec (unat d) @ '' ''"
| "show_bb_expr (BbUdp6 s d) = ''meta nfproto ipv6 udp sport '' @ dec (unat s) @ '' udp dport '' @ dec (unat d) @ '' ''"
| "show_bb_expr (BbIcmp6 ts) = ''icmpv6 type { '' @ join '', '' (map nft_icmpv6_name ts) @ '' } ''"
| "show_bb_expr (BbDns q) = proto_str q @ '' dport 53 ''"
| "show_bb_expr (BbDest4 ns) = ''ip daddr { '' @ join '', '' (map show_net ns) @ '' } ''"
| "show_bb_expr (BbDest6 ns) = ''ip6 daddr { '' @ join '', '' (map show_net ns) @ '' } ''"
| "show_bb_expr BbAny = []"

definition show_boot_chain :: "string \<Rightarrow> (bb_expr \<times> verdict) list \<Rightarrow> string" where
  "show_boot_chain hook rules =
     ''    chain '' @ hook @ '' {'' @ nl
     @ ''        type filter hook '' @ hook @ '' priority filter - 20; policy accept;'' @ nl
     @ concat (map (\<lambda>(e, v). ''        '' @ show_bb_expr e @ nft_verdict v @ nl) rules)
     @ ''    }'' @ nl"

definition nft_boot_block :: string where
  "nft_boot_block =
     delete_table FW4_BOOT_TABLE
     @ ''table inet '' @ FW4_BOOT_TABLE @ '' {'' @ nl
     @ show_boot_chain ''output'' boot_output
     @ show_boot_chain ''forward'' boot_forward
     @ ''}'' @ nl"

subsection \<open>What the blocks decide\<close>

datatype boot_outcome = PassOn | Refuse | Blackhole

fun em_outcome :: "em_target \<Rightarrow> boot_outcome" where
  "em_outcome EmAccept = PassOn"
| "em_outcome EmReturn = PassOn"
| "em_outcome EmDrop = Blackhole"
| "em_outcome (EmReject _) = Refuse"

fun bb_outcome :: "verdict \<Rightarrow> boot_outcome" where
  "bb_outcome Reject = Refuse"
| "bb_outcome Drop = Blackhole"
| "bb_outcome _ = PassOn"

text \<open>The flag \<open>reply\<close> says that conntrack knows the packet as reply traffic of an established flow.\<close>

fun em_holds :: "netfilter \<Rightarrow> bool \<Rightarrow> packet \<Rightarrow> em_match \<Rightarrow> bool" where
  "em_holds nf reply p EmReply = reply"
| "em_holds nf reply p (EmOut i) = nf_iface nf i (p_oif p)"
| "em_holds nf reply p (EmUdp s d) = (p_proto p = Some Udp \<and> p_sport p = s \<and> p_dport p = d)"
| "em_holds nf reply p (EmIcmp6 t) = (p_proto p = Some IcmpV6 \<and> p_icmpv6 p = Some t)"
| "em_holds nf reply p (EmDns q) = (p_proto p = Some q \<and> p_dport p = 53)"
| "em_holds nf reply p (EmDest n) = nf_net nf n (p_daddr p)"
| "em_holds nf reply p EmAny = True"

fun bb_holds :: "netfilter \<Rightarrow> bool \<Rightarrow> packet \<Rightarrow> bb_expr \<Rightarrow> bool" where
  "bb_holds nf reply p (BbOif i) = nf_iface nf i (p_oif p)"
| "bb_holds nf reply p BbReply = reply"
| "bb_holds nf reply p (BbUdp4 s d) = (is_v4 (p_daddr p) \<and> p_proto p = Some Udp \<and> p_sport p = s \<and> p_dport p = d)"
| "bb_holds nf reply p (BbUdp6 s d) = (\<not> is_v4 (p_daddr p) \<and> p_proto p = Some Udp \<and> p_sport p = s \<and> p_dport p = d)"
| "bb_holds nf reply p (BbIcmp6 ts) =
     (\<not> is_v4 (p_daddr p) \<and> p_proto p = Some IcmpV6 \<and> (case p_icmpv6 p of None \<Rightarrow> False | Some t \<Rightarrow> List.member ts t))"
| "bb_holds nf reply p (BbDns q) = (p_proto p = Some q \<and> p_dport p = 53)"
| "bb_holds nf reply p (BbDest4 ns) = (is_v4 (p_daddr p) \<and> list_ex (\<lambda>n. nf_net nf n (p_daddr p)) ns)"
| "bb_holds nf reply p (BbDest6 ns) = (\<not> is_v4 (p_daddr p) \<and> list_ex (\<lambda>n. nf_net nf n (p_daddr p)) ns)"
| "bb_holds nf reply p BbAny = True"

fun em_chain :: "string \<Rightarrow> em_line list \<Rightarrow> (em_match \<times> em_target) list" where
  "em_chain c [] = []"
| "em_chain c (LAppend d m t # ls) = (if d = c then (m, t) # em_chain c ls else em_chain c ls)"
| "em_chain c (_ # ls) = em_chain c ls"

definition em_decide :: "netfilter \<Rightarrow> bool \<Rightarrow> packet \<Rightarrow> (em_match \<times> em_target) list \<Rightarrow> boot_outcome option" where
  "em_decide nf reply p c = map_option (em_outcome \<circ> snd) (find (\<lambda>mt. em_holds nf reply p (fst mt)) c)"

definition bb_decide :: "netfilter \<Rightarrow> bool \<Rightarrow> packet \<Rightarrow> (bb_expr \<times> verdict) list \<Rightarrow> boot_outcome option" where
  "bb_decide nf reply p c = map_option (bb_outcome \<circ> snd) (find (\<lambda>ev. bb_holds nf reply p (fst ev)) c)"

definition boot_family_of :: "packet \<Rightarrow> boot_family" where
  "boot_family_of p = (if is_v4 (p_daddr p) then BootV4 else BootV6)"

definition boot_dest :: "netfilter \<Rightarrow> packet \<Rightarrow> bool" where
  "boot_dest nf p =
     list_ex (\<lambda>n. nf_net nf n (p_daddr p)) (if is_v4 (p_daddr p) then BOOT_LAN_NETS_V4 else BOOT_LAN_NETS_V6)"

definition solicit_or_advert :: "packet \<Rightarrow> bool" where
  "solicit_or_advert p =
     (\<not> is_v4 (p_daddr p) \<and> p_proto p = Some IcmpV6 \<and> p_icmpv6 p \<in> {Some NeighborSolicit, Some NeighborAdvert})"

definition boot_egress_spec :: "netfilter \<Rightarrow> bool \<Rightarrow> packet \<Rightarrow> boot_outcome" where
  "boot_egress_spec nf reply p =
     (if reply \<or> nf_iface nf ''lo'' (p_oif p) \<or> dhcp_packet p \<or> ndp_packet p then PassOn
      else if dns_packet p then Refuse
      else if multicast_dest nf p \<or> boot_dest nf p then PassOn
      else Blackhole)"

definition boot_forward_spec :: "netfilter \<Rightarrow> packet \<Rightarrow> boot_outcome" where
  "boot_forward_spec nf p = (if dns_packet p then Refuse else if boot_dest nf p then PassOn else Blackhole)"

lemma em_chain_append [simp]: "em_chain c (xs @ ys) = em_chain c xs @ em_chain c ys"
  by (induction c xs rule: em_chain.induct) simp_all

lemma emergency_chains_differ [simp]:
  "EMERGENCY_OUTPUT_CHAIN \<noteq> EMERGENCY_FORWARD_CHAIN" "EMERGENCY_FORWARD_CHAIN \<noteq> EMERGENCY_OUTPUT_CHAIN"
  by (simp_all add: EMERGENCY_OUTPUT_CHAIN_def EMERGENCY_FORWARD_CHAIN_def)

lemma em_decide_simps [simp]:
  "em_decide nf reply p [] = None"
  "em_decide nf reply p ((m, t) # c) = (if em_holds nf reply p m then Some (em_outcome t) else em_decide nf reply p c)"
  by (simp_all add: em_decide_def)

lemma bb_decide_simps [simp]:
  "bb_decide nf reply p [] = None"
  "bb_decide nf reply p ((m, t) # c) = (if bb_holds nf reply p m then Some (bb_outcome t) else bb_decide nf reply p c)"
  by (simp_all add: bb_decide_def)

lemmas boot_defs = emergency_lines_def boot_family_of_def boot_dest_def boot_egress_spec_def boot_forward_spec_def
  BOOT_LAN_NETS_V4_def BOOT_LAN_NETS_V6_def LAN_NETS_V6_def boot_output_def boot_forward_def

lemmas boot_packet_defs = dhcp_packet_def ndp_packet_def dns_packet_def multicast_dest_def port_defs

lemma em_boot_output:
  "em_decide nf reply p (em_chain EMERGENCY_OUTPUT_CHAIN (emergency_lines (boot_family_of p) Boot)) =
     Some (boot_egress_spec nf reply p)"
  by (cases "is_v4 (p_daddr p)") (auto simp: boot_defs boot_packet_defs)

lemma em_boot_forward:
  "em_decide nf reply p (em_chain EMERGENCY_FORWARD_CHAIN (emergency_lines (boot_family_of p) Boot)) =
     Some (boot_forward_spec nf p)"
  by (cases "is_v4 (p_daddr p)") (auto simp: boot_defs boot_packet_defs)

lemma bb_boot_output: "bb_decide nf reply p boot_output = Some (boot_egress_spec nf reply p)"
  by (cases "is_v4 (p_daddr p)"; cases "p_icmpv6 p")
    (auto simp: boot_defs boot_packet_defs)

lemma bb_boot_forward: "bb_decide nf reply p boot_forward = Some (boot_forward_spec nf p)"
  by (cases "is_v4 (p_daddr p)") (auto simp: boot_defs boot_packet_defs)


text \<open>During a transition the emergency chains drop everything but replies and, on IPv6, neighbour
  solicitation and advertisement; nothing is forwarded.\<close>

theorem transition_blocks_all:
  "em_decide nf reply p (em_chain EMERGENCY_OUTPUT_CHAIN (emergency_lines (boot_family_of p) Transition))
      = Some (if reply \<or> solicit_or_advert p then PassOn else Blackhole)
    \<and> em_decide nf reply p (em_chain EMERGENCY_FORWARD_CHAIN (emergency_lines (boot_family_of p) Transition))
      = Some Blackhole"
  by (cases "is_v4 (p_daddr p)") (auto simp: boot_defs solicit_or_advert_def)

end
