(* ===== verification/FW_Fw3.thy ===== *)
theory FW_Fw3
  imports FW_Boot Fault_Monad "HOL-Library.Sublist"
begin

text \<open>
  The fw3 backend, \<open>openwrt/fw3.rs\<close>: installing a rule set in the \<open>NYM_*\<close> chains and hooking them, lifting
  the emergency block, persisting the restore scripts and tearing everything down. Every iptables
  invocation and every file operation is one command on a world made of the two families' tables and
  the files of the runtime directory; any command can fail, fail to start, or never happen because the
  process died before it. What iptables does with a command is stated in \<open>exec\<close>.
\<close>

subsection \<open>The world\<close>

datatype tbl = Filter | Mangle

datatype restore_line =
  RTable string | RDecl string | RFlush string | RAppend string string | RInsert string string | RCommit

record ipt_table =
  tb_hooks :: "string \<Rightarrow> string list"
  tb_chains :: "string \<Rightarrow> string list option"

datatype fault = Works | CmdFails | SpawnFails | Dies

datatype ipv6_status = Disabled | Enabled | Unusable

record fw3_world =
  kernel :: "addr_family_sel \<Rightarrow> tbl \<Rightarrow> ipt_table"
  transition_marker :: bool
  rules_v4 :: "restore_line list option"
  rules_v6 :: "restore_line list option"
  faults :: "fault list"
  connmark_ext :: "addr_family_sel \<Rightarrow> bool"
  owner_ext :: "addr_family_sel \<Rightarrow> bool"
  w_ipv6 :: ipv6_status
  runtime_dir_ok :: bool
  lock_free :: bool

datatype fw3_error =
    RuntimeDir | StateLock | Ipv6Unusable | TransitionMarker | Persist | RemoveState
  | Spawn string | CommandFailed string | EmergencyJumpStays string string

type_synonym 'a fw3 = "(fw3_world, 'a, fw3_error) prog"

subsection \<open>iptables\<close>

datatype ipt_cmd =
    Restore "restore_line list"
  | CheckJump tbl string string
  | InsertJump tbl string string
  | DeleteJump tbl string string
  | DeleteNum string nat
  | ListRules string
  | ListChain string
  | NewChain tbl string
  | FlushChain tbl string
  | DeleteChain tbl string
  | AppendConnmark string
  | OwnerHelp

fun restore_step :: "restore_line \<Rightarrow> tbl \<times> (tbl \<Rightarrow> ipt_table) \<Rightarrow> tbl \<times> (tbl \<Rightarrow> ipt_table)" where
  "restore_step (RTable t) (cur, k) = (if t = ''mangle'' then Mangle else Filter, k)"
| "restore_step (RDecl c) (cur, k) = (cur, k(cur := (k cur)\<lparr>tb_chains := (tb_chains (k cur))(c \<mapsto> [])\<rparr>))"
| "restore_step (RFlush c) (cur, k) = (cur, k(cur := (k cur)\<lparr>tb_chains := (tb_chains (k cur))(c \<mapsto> [])\<rparr>))"
| "restore_step (RAppend c r) (cur, k) =
     (cur, k(cur := (k cur)\<lparr>tb_chains := (tb_chains (k cur))(c \<mapsto>
        (case tb_chains (k cur) c of None \<Rightarrow> [] | Some rs \<Rightarrow> rs) @ [r])\<rparr>))"
| "restore_step (RInsert h c) (cur, k) =
     (cur, k(cur := (k cur)\<lparr>tb_hooks := (tb_hooks (k cur))(h := (''-j '' @ c) # tb_hooks (k cur) h)\<rparr>))"
| "restore_step RCommit (cur, k) = (cur, k)"

definition restore :: "restore_line list \<Rightarrow> (tbl \<Rightarrow> ipt_table) \<Rightarrow> tbl \<Rightarrow> ipt_table" where
  "restore ls k = snd (fold restore_step ls (Filter, k))"

definition delete_at :: "nat \<Rightarrow> 'a list \<Rightarrow> 'a list" where
  "delete_at i xs = take i xs @ drop (Suc i) xs"

text \<open>The chains other rules live in; a chain one of them still jumps to cannot be deleted.\<close>

definition base_hooks :: "string list" where
  "base_hooks = [FW3_HOOK_INPUT, FW3_HOOK_OUTPUT, FW3_HOOK_FORWARD, ''PREROUTING'', ''OUTPUT'']"

definition referenced :: "ipt_table \<Rightarrow> string \<Rightarrow> bool" where
  "referenced t c = list_ex (\<lambda>h. List.member (tb_hooks t h) (''-j '' @ c)) base_hooks"

text \<open>Success, output lines and new tables of one command that runs normally.\<close>

fun exec :: "bool \<Rightarrow> bool \<Rightarrow> ipt_cmd \<Rightarrow> (tbl \<Rightarrow> ipt_table) \<Rightarrow> bool \<times> string list \<times> (tbl \<Rightarrow> ipt_table)" where
  "exec cm ow (Restore ls) k = (True, [], restore ls k)"
| "exec cm ow (CheckJump t h c) k = (List.member (tb_hooks (k t) h) (''-j '' @ c), [], k)"
| "exec cm ow (InsertJump t h c) k =
     (if tb_chains (k t) c = None then (False, [], k)
      else (True, [], k(t := (k t)\<lparr>tb_hooks := (tb_hooks (k t))(h := (''-j '' @ c) # tb_hooks (k t) h)\<rparr>)))"
| "exec cm ow (DeleteJump t h c) k =
     (if List.member (tb_hooks (k t) h) (''-j '' @ c)
      then (True, [], k(t := (k t)\<lparr>tb_hooks := (tb_hooks (k t))(h := remove1 (''-j '' @ c) (tb_hooks (k t) h))\<rparr>))
      else (False, [], k))"
| "exec cm ow (DeleteNum h n) k =
     (if 1 \<le> n \<and> n \<le> length (tb_hooks (k Filter) h)
      then (True, [], k(Filter := (k Filter)\<lparr>tb_hooks := (tb_hooks (k Filter))(h := delete_at (n - 1) (tb_hooks (k Filter) h))\<rparr>))
      else (False, [], k))"
| "exec cm ow (ListRules h) k =
     (True, (''-N '' @ h) # map (\<lambda>r. ''-A '' @ h @ '' '' @ r) (tb_hooks (k Filter) h), k)"
| "exec cm ow (ListChain c) k = (tb_chains (k Filter) c \<noteq> None, [], k)"
| "exec cm ow (NewChain t c) k =
     (if tb_chains (k t) c = None
      then (True, [], k(t := (k t)\<lparr>tb_chains := (tb_chains (k t))(c \<mapsto> [])\<rparr>)) else (False, [], k))"
| "exec cm ow (FlushChain t c) k =
     (if tb_chains (k t) c = None then (False, [], k)
      else (True, [], k(t := (k t)\<lparr>tb_chains := (tb_chains (k t))(c \<mapsto> [])\<rparr>)))"
| "exec cm ow (DeleteChain t c) k =
     (if tb_chains (k t) c = Some [] \<and> \<not> referenced (k t) c
      then (True, [], k(t := (k t)\<lparr>tb_chains := (tb_chains (k t))(c := None)\<rparr>)) else (False, [], k))"
| "exec cm ow (AppendConnmark c) k =
     (if cm \<and> tb_chains (k Mangle) c \<noteq> None
      then (True, [], k(Mangle := (k Mangle)\<lparr>tb_chains := (tb_chains (k Mangle))(c \<mapsto>
         the (tb_chains (k Mangle) c) @ [''-j CONNMARK --restore-mark''])\<rparr>))
      else (False, [], k))"
| "exec cm ow OwnerHelp k = (ow, [], k)"

text \<open>\<open>Command::new(..).output()\<close>: \<open>None\<close> when the program could not be started.\<close>

definition next_fault :: "fw3_world \<Rightarrow> fault \<times> fw3_world" where
  "next_fault w = (case faults w of [] \<Rightarrow> (Works, w) | f # fs \<Rightarrow> (f, w\<lparr>faults := fs\<rparr>))"

definition spawn :: "addr_family_sel \<Rightarrow> ipt_cmd \<Rightarrow> (bool \<times> string list) option fw3" where
  "spawn family cmd w =
     (case next_fault w of
        (Dies, v) \<Rightarrow> (Crashed, v)
      | (SpawnFails, v) \<Rightarrow> (Done None, v)
      | (CmdFails, v) \<Rightarrow> (Done (Some (False, [])), v)
      | (Works, v) \<Rightarrow>
          (case exec (connmark_ext v family) (owner_ext v family) cmd (kernel v family) of
             (ok, out, k) \<Rightarrow> (Done (Some (ok, out)), v\<lparr>kernel := (kernel v)(family := k)\<rparr>)))"

text \<open>One file operation: it happens whole or, on an error or a crash, not at all.\<close>

definition file_op :: "fw3_error \<Rightarrow> (fw3_world \<Rightarrow> fw3_world) \<Rightarrow> unit fw3" where
  "file_op err eff w =
     (case next_fault w of
        (Dies, v) \<Rightarrow> (Crashed, v)
      | (Works, v) \<Rightarrow> (Done (), eff v)
      | (_, v) \<Rightarrow> (Failed err, v))"

fun ipt_name :: "addr_family_sel \<Rightarrow> string" where
  "ipt_name AfV4 = ''iptables''"
| "ipt_name AfV6 = ''ip6tables''"

definition output_of_cmd :: "addr_family_sel \<Rightarrow> ipt_cmd \<Rightarrow> (bool \<times> string list) fw3" where
  "output_of_cmd family cmd =
     bindp (spawn family cmd) (\<lambda>r. case r of None \<Rightarrow> fail (Spawn (ipt_name family)) | Some ro \<Rightarrow> ret ro)"

definition status_or_false :: "addr_family_sel \<Rightarrow> ipt_cmd \<Rightarrow> bool fw3" where
  "status_or_false family cmd = bindp (spawn family cmd) (\<lambda>r. ret (case r of None \<Rightarrow> False | Some ro \<Rightarrow> fst ro))"

definition best_effort :: "addr_family_sel \<Rightarrow> ipt_cmd \<Rightarrow> unit fw3" where
  "best_effort family cmd = bindp (spawn family cmd) (\<lambda>_. ret ())"

definition run_ipt :: "addr_family_sel \<Rightarrow> ipt_cmd \<Rightarrow> unit fw3" where
  "run_ipt family cmd =
     bindp (output_of_cmd family cmd) (\<lambda>(ok, out). if ok then ret () else fail (CommandFailed (ipt_name family)))"

definition run_restore :: "restore_line list \<Rightarrow> addr_family_sel \<Rightarrow> unit fw3" where
  "run_restore script family =
     bindp (spawn family (Restore script)) (\<lambda>r. case r of
         None \<Rightarrow> fail (Spawn (ipt_name family @ ''-restore''))
       | Some (ok, out) \<Rightarrow> if ok then ret () else fail (CommandFailed (ipt_name family @ ''-restore'')))"

subsection \<open>Scripts\<close>

fun show_restore_line :: "restore_line \<Rightarrow> string" where
  "show_restore_line (RTable t) = ''*'' @ t"
| "show_restore_line (RDecl c) = '':'' @ c @ '' - [0:0]''"
| "show_restore_line (RFlush c) = ''-F '' @ c"
| "show_restore_line (RAppend c r) = ''-A '' @ c @ '' '' @ r"
| "show_restore_line (RInsert h c) = ''-I '' @ h @ '' 1 -j '' @ c"
| "show_restore_line RCommit = ''COMMIT''"

definition chain_lines :: "string \<Rightarrow> addr_family_sel \<Rightarrow> chain \<Rightarrow> restore_line list" where
  "chain_lines name family c =
     map (\<lambda>r. RAppend name (ipt_render_rule r family)) (filter (\<lambda>r. family_matches (r_family r) family) c)"

definition policy_script :: "rule_set \<Rightarrow> addr_family_sel \<Rightarrow> restore_line list" where
  "policy_script rs family =
     (if mangle_is_empty (rs_mangle rs) then []
      else [RTable ''mangle'', RDecl CHAIN_MANGLE_PREROUTING, RDecl CHAIN_MANGLE_OUTPUT,
            RFlush CHAIN_MANGLE_PREROUTING, RFlush CHAIN_MANGLE_OUTPUT]
           @ chain_lines CHAIN_MANGLE_PREROUTING family (mangle_pre_of rs)
           @ chain_lines CHAIN_MANGLE_OUTPUT family (mangle_out_of rs) @ [RCommit])
     @ [RTable ''filter'', RDecl CHAIN_INPUT, RDecl CHAIN_OUTPUT, RDecl CHAIN_FORWARD,
        RFlush CHAIN_INPUT, RFlush CHAIN_OUTPUT, RFlush CHAIN_FORWARD]
     @ chain_lines CHAIN_INPUT family (input_of rs)
     @ chain_lines CHAIN_OUTPUT family (output_of rs)
     @ chain_lines CHAIN_FORWARD family (forward_of rs) @ [RCommit]"

definition has_mangle :: "restore_line list \<Rightarrow> bool" where
  "has_mangle script = list_ex (\<lambda>l. l = RTable ''mangle'') script"

fun em_restore_line :: "em_line \<Rightarrow> restore_line" where
  "em_restore_line (LTable t) = RTable t"
| "em_restore_line (LDecl c) = RDecl c"
| "em_restore_line (LFlush c) = RFlush c"
| "em_restore_line (LAppend c m t) = RAppend c (tl (show_em_match m @ show_em_target t))"
| "em_restore_line (LInsert h c) = RInsert h c"
| "em_restore_line LCommit = RCommit"

fun boot_family :: "addr_family_sel \<Rightarrow> boot_family" where
  "boot_family AfV4 = BootV4"
| "boot_family AfV6 = BootV6"

definition emergency_script :: "addr_family_sel \<Rightarrow> restore_line list" where
  "emergency_script family = map em_restore_line (emergency_lines (boot_family family) Transition)"

subsection \<open>Jumps\<close>

definition JUMPS :: "(string \<times> string) list" where
  "JUMPS = [(FW3_HOOK_INPUT, CHAIN_INPUT), (FW3_HOOK_OUTPUT, CHAIN_OUTPUT), (FW3_HOOK_FORWARD, CHAIN_FORWARD)]"

definition MANGLE_JUMPS :: "(string \<times> string) list" where
  "MANGLE_JUMPS = [(''PREROUTING'', CHAIN_MANGLE_PREROUTING), (''OUTPUT'', CHAIN_MANGLE_OUTPUT)]"

fun all_jumps :: "addr_family_sel \<Rightarrow> (string \<times> string) list \<Rightarrow> bool fw3" where
  "all_jumps family [] = ret True"
| "all_jumps family ((hook, target) # js) =
     bindp (status_or_false family (CheckJump Filter hook target)) (\<lambda>ok. if ok then all_jumps family js else ret False)"

definition jumps_present :: "addr_family_sel \<Rightarrow> bool fw3" where
  "jumps_present family = all_jumps family JUMPS"

definition strip_prefix :: "string \<Rightarrow> string \<Rightarrow> string option" where
  "strip_prefix pre s = (if prefix pre s then Some (drop (length pre) s) else None)"

definition list_hook_rules :: "addr_family_sel \<Rightarrow> string \<Rightarrow> string list fw3" where
  "list_hook_rules family hook =
     bindp (output_of_cmd family (ListRules hook)) (\<lambda>(ok, out).
       if ok then ret (List.map_filter (strip_prefix (''-A '' @ hook @ '' '')) out)
       else fail (CommandFailed (ipt_name family)))"

fun position :: "('a \<Rightarrow> bool) \<Rightarrow> 'a list \<Rightarrow> nat option" where
  "position P [] = None"
| "position P (x # xs) = (if P x then Some 0 else map_option Suc (position P xs))"

definition jump_position_ok :: "string list \<Rightarrow> string \<Rightarrow> bool" where
  "jump_position_ok rules jump =
     (case position (\<lambda>r. r = jump) rules of
        Some i \<Rightarrow> list_all (prefix ''-j NYM_'') (take i rules)
      | None \<Rightarrow> False)"

definition later_duplicates :: "string list \<Rightarrow> string \<Rightarrow> nat list" where
  "later_duplicates rules jump =
     (let first = (case position (\<lambda>r. r = jump) rules of Some i \<Rightarrow> i | None \<Rightarrow> 0)
      in filter (\<lambda>i. rules ! i = jump) (rev [Suc first..<length rules]))"

definition ensure_jump :: "addr_family_sel \<Rightarrow> string \<Rightarrow> string \<Rightarrow> unit fw3" where
  "ensure_jump family hook target =
     (let jump = ''-j '' @ target in
      bindp (list_hook_rules family hook) (\<lambda>rules.
      bindp (if jump_position_ok rules jump then ret rules
             else thenp (run_ipt family (InsertJump Filter hook target)) (list_hook_rules family hook)) (\<lambda>rules.
      for_each (\<lambda>i. run_ipt family (DeleteNum hook (i + 1))) (later_duplicates rules jump))))"

definition setup_jumps :: "addr_family_sel \<Rightarrow> unit fw3" where
  "setup_jumps family = for_each (\<lambda>(hook, target). ensure_jump family hook target) JUMPS"

definition jump_present :: "addr_family_sel \<Rightarrow> tbl \<Rightarrow> string \<Rightarrow> string \<Rightarrow> bool fw3" where
  "jump_present family table hook target =
     bindp (output_of_cmd family (CheckJump table hook target)) (\<lambda>(ok, out). ret ok)"

definition setup_mangle_jumps :: "addr_family_sel \<Rightarrow> unit fw3" where
  "setup_mangle_jumps family =
     for_each (\<lambda>(hook, target).
       bindp (jump_present family Mangle hook target) (\<lambda>there.
         if there then ret () else run_ipt family (InsertJump Mangle hook target))) MANGLE_JUMPS"

definition cleanup_filter :: "addr_family_sel \<Rightarrow> unit fw3" where
  "cleanup_filter family =
     thenp (for_each (\<lambda>(hook, target). best_effort family (DeleteJump Filter hook target)) JUMPS)
       (for_each (\<lambda>c. thenp (best_effort family (FlushChain Filter c)) (best_effort family (DeleteChain Filter c)))
         [CHAIN_INPUT, CHAIN_OUTPUT, CHAIN_FORWARD])"

definition cleanup_mangle :: "addr_family_sel \<Rightarrow> unit fw3" where
  "cleanup_mangle family =
     thenp (for_each (\<lambda>(hook, target). best_effort family (DeleteJump Mangle hook target)) MANGLE_JUMPS)
       (for_each (\<lambda>c. thenp (best_effort family (FlushChain Mangle c)) (best_effort family (DeleteChain Mangle c)))
         [CHAIN_MANGLE_PREROUTING, CHAIN_MANGLE_OUTPUT])"

subsection \<open>The emergency block\<close>

definition install_emergency_block :: "addr_family_sel \<Rightarrow> unit fw3" where
  "install_emergency_block family = run_restore (emergency_script family) family"

definition chain_exists :: "addr_family_sel \<Rightarrow> string \<Rightarrow> bool fw3" where
  "chain_exists family c = bindp (output_of_cmd family (ListChain c)) (\<lambda>(ok, out). ret ok)"

text \<open>The \<open>loop\<close> of \<open>remove_emergency_block\<close>; each round that goes on has deleted one jump.\<close>

fun delete_jumps :: "nat \<Rightarrow> addr_family_sel \<Rightarrow> string \<Rightarrow> string \<Rightarrow> unit fw3" where
  "delete_jumps 0 family hook c = ret ()"
| "delete_jumps (Suc n) family hook c =
     bindp (output_of_cmd family (DeleteJump Filter hook c)) (\<lambda>(ok, out).
       if ok then delete_jumps n family hook c else ret ())"

text \<open>The flush-and-delete loop: a chain that is already gone ends it without an error.\<close>

fun drop_chain :: "addr_family_sel \<Rightarrow> string \<Rightarrow> ipt_cmd list \<Rightarrow> unit fw3" where
  "drop_chain family c [] = ret ()"
| "drop_chain family c (op # ops) =
     bindp (catchp (thenp (run_ipt family op) (ret True))
              (\<lambda>e. bindp (chain_exists family c) (\<lambda>there. if there then fail e else ret False)))
       (\<lambda>go_on. if go_on then drop_chain family c ops else ret ())"

definition remove_emergency_chain :: "addr_family_sel \<Rightarrow> string \<Rightarrow> string \<Rightarrow> unit fw3" where
  "remove_emergency_chain family hook c =
     bindp (chain_exists family c) (\<lambda>there.
       if \<not> there then ret ()
       else
         bindp (asks (\<lambda>w. length (tb_hooks (kernel w family Filter) hook))) (\<lambda>n.
         thenp (delete_jumps (Suc n) family hook c)
          (bindp (output_of_cmd family (CheckJump Filter hook c)) (\<lambda>(still_present, out).
             if still_present then fail (EmergencyJumpStays hook c)
             else drop_chain family c [FlushChain Filter c, DeleteChain Filter c]))))"

definition remove_emergency_block :: "addr_family_sel \<Rightarrow> unit fw3" where
  "remove_emergency_block family =
     for_each (\<lambda>(hook, c). remove_emergency_chain family hook c)
       [(FW3_HOOK_OUTPUT, EMERGENCY_OUTPUT_CHAIN), (FW3_HOOK_FORWARD, EMERGENCY_FORWARD_CHAIN)]"

definition remove_emergency_blocks :: "bool \<Rightarrow> unit fw3" where
  "remove_emergency_blocks with_v6 =
     thenp (remove_emergency_block AfV4)
       (if with_v6 then remove_emergency_block AfV6 else ignore_result (remove_emergency_block AfV6))"

subsection \<open>Extensions, state files and the lock\<close>

definition CONNMARK_PROBE :: string where "CONNMARK_PROBE = ''NYM_CONNMARK_PROBE''"

definition connmark_target_available :: "addr_family_sel \<Rightarrow> bool fw3" where
  "connmark_target_available family =
     thenp (best_effort family (NewChain Mangle CONNMARK_PROBE))
      (bindp (status_or_false family (AppendConnmark CONNMARK_PROBE)) (\<lambda>ok.
       thenp (best_effort family (FlushChain Mangle CONNMARK_PROBE))
        (thenp (best_effort family (DeleteChain Mangle CONNMARK_PROBE)) (ret ok))))"

definition owner_match_available :: "addr_family_sel \<Rightarrow> bool fw3" where
  "owner_match_available family = status_or_false family OwnerHelp"

definition ensure_runtime_dir :: "unit fw3" where
  "ensure_runtime_dir = bindp (asks runtime_dir_ok) (\<lambda>ok. if ok then ret () else fail RuntimeDir)"

definition lock_fw3_state :: "unit fw3" where
  "lock_fw3_state = bindp (asks lock_free) (\<lambda>ok. if ok then ret () else fail StateLock)"

definition begin_transition :: "unit fw3" where
  "begin_transition = file_op TransitionMarker (\<lambda>w. w\<lparr>transition_marker := True\<rparr>)"

definition finish_transition :: "unit fw3" where
  "finish_transition = file_op RemoveState (\<lambda>w. w\<lparr>transition_marker := False\<rparr>)"

definition persist_state :: "restore_line list \<Rightarrow> restore_line list option \<Rightarrow> unit fw3" where
  "persist_state v4_script v6_script =
     thenp (file_op Persist (\<lambda>w. w\<lparr>rules_v4 := Some v4_script\<rparr>))
       (case v6_script of
          Some script \<Rightarrow> file_op Persist (\<lambda>w. w\<lparr>rules_v6 := Some script\<rparr>)
        | None \<Rightarrow> file_op RemoveState (\<lambda>w. w\<lparr>rules_v6 := None\<rparr>))"

definition clear_persisted_state :: "unit fw3" where
  "clear_persisted_state =
     thenp (file_op RemoveState (\<lambda>w. w\<lparr>rules_v4 := None\<rparr>)) (file_op RemoveState (\<lambda>w. w\<lparr>rules_v6 := None\<rparr>))"

subsection \<open>Applying and resetting\<close>

definition apply_filter :: "rule_set \<Rightarrow> addr_family_sel \<Rightarrow> restore_line list fw3" where
  "apply_filter rs family =
     bindp (if has_skuid rs
            then bindp (owner_match_available family) (\<lambda>ok. ret (if ok then rs else without_skuid_rules rs))
            else ret rs) (\<lambda>rs.
     (let script = policy_script rs family in thenp (run_restore script family) (ret script)))"

definition apply_family :: "rule_set \<Rightarrow> addr_family_sel \<Rightarrow> restore_line list fw3" where
  "apply_family rs family =
     bindp (if mangle_is_empty (rs_mangle rs) then ret rs
            else bindp (connmark_target_available family) (\<lambda>ok. ret (if ok then rs else without_mangle_rules rs))) (\<lambda>rs.
     bindp (apply_filter rs family) (\<lambda>script.
     thenp (setup_jumps family)
      (thenp (if mangle_is_empty (rs_mangle rs) then cleanup_mangle family else setup_mangle_jumps family)
        (ret script))))"

definition activate_family_script :: "restore_line list \<Rightarrow> addr_family_sel \<Rightarrow> unit fw3" where
  "activate_family_script script family =
     thenp (run_restore script family)
      (thenp (setup_jumps family)
        (if has_mangle script then setup_mangle_jumps family else cleanup_mangle family))"

definition block_unhooked :: "addr_family_sel \<Rightarrow> unit fw3" where
  "block_unhooked family =
     bindp (jumps_present family) (\<lambda>there. if there then ret () else install_emergency_block family)"

definition reactivate :: "restore_line list \<Rightarrow> addr_family_sel \<Rightarrow> unit fw3" where
  "reactivate script family =
     bindp (jumps_present family) (\<lambda>there. if there then ret () else activate_family_script script family)"

text \<open>Everything after the transition marker is in place.\<close>

definition apply_transition :: "rule_set \<Rightarrow> bool \<Rightarrow> unit fw3" where
  "apply_transition rs with_v6 =
     thenp (for_each (\<lambda>family. if family = AfV6 \<and> \<not> with_v6 then ret () else block_unhooked family) [AfV4, AfV6])
      (bindp (apply_family rs AfV4) (\<lambda>v4_script.
       bindp (if with_v6 then bindp (apply_family rs AfV6) (\<lambda>script. ret (Some script)) else ret None) (\<lambda>v6_script.
       thenp (persist_state v4_script v6_script)
        (thenp finish_transition
          (thenp (reactivate v4_script AfV4)
            (thenp (case v6_script of None \<Rightarrow> ret () | Some script \<Rightarrow> reactivate script AfV6)
              (remove_emergency_blocks with_v6)))))))"

definition fw3_apply :: "rule_set \<Rightarrow> unit fw3" where
  "fw3_apply rs =
     thenp ensure_runtime_dir (thenp lock_fw3_state
      (bindp (asks w_ipv6) (\<lambda>status.
        if status = Unusable then fail Ipv6Unusable
        else thenp begin_transition (apply_transition rs (status = Enabled)))))"

definition fw3_reset :: "unit fw3" where
  "fw3_reset =
     thenp ensure_runtime_dir (thenp lock_fw3_state
      (bindp (asks w_ipv6) (\<lambda>status.
        thenp begin_transition (thenp clear_persisted_state
         (thenp (cleanup_filter AfV4) (thenp (cleanup_mangle AfV4)
          (thenp (cleanup_filter AfV6) (thenp (cleanup_mangle AfV6)
           (thenp finish_transition (remove_emergency_blocks (status = Enabled)))))))))))"

end
