(* ===== verification/FW_Fw3_Safety.thy ===== *)
theory FW_Fw3_Safety
  imports FW_Fw3
begin

text \<open>
  The fw3 backend fails closed. A family is guarded when its egress and forward hooks lead, behind nothing
  but the daemon's own jumps, into a chain that ends by blocking. Applying a policy never unguards a
  family, wherever it stops, and never leaves a half-built chain set live without the emergency block.
\<close>

subsection \<open>Guarded tables\<close>

definition chain_blocks :: "string list option \<Rightarrow> bool" where
  "chain_blocks c =
     (\<exists>rs last_rule. c = Some (rs @ [last_rule]) \<and>
       last_rule \<in> {''-j DROP'', ''-j REJECT --reject-with icmp-port-unreachable'',
                    ''-j REJECT --reject-with icmp6-port-unreachable''})"

definition hook_guarded :: "string \<Rightarrow> string list \<Rightarrow> ipt_table \<Rightarrow> bool" where
  "hook_guarded hook cs t =
     (\<exists>pre c post. tb_hooks t hook = pre @ (''-j '' @ c) # post \<and> list_all (prefix ''-j NYM_'') pre
        \<and> c \<in> set cs \<and> chain_blocks (tb_chains t c))"

definition guarded :: "ipt_table \<Rightarrow> bool" where
  "guarded t =
     (hook_guarded FW3_HOOK_OUTPUT [CHAIN_OUTPUT, EMERGENCY_OUTPUT_CHAIN] t
      \<and> hook_guarded FW3_HOOK_FORWARD [CHAIN_FORWARD, EMERGENCY_FORWARD_CHAIN] t)"

definition chains_built :: "ipt_table \<Rightarrow> bool" where
  "chains_built t = (chain_blocks (tb_chains t CHAIN_OUTPUT) \<and> chain_blocks (tb_chains t CHAIN_FORWARD))"

definition jump_leads :: "string \<Rightarrow> string \<Rightarrow> ipt_table \<Rightarrow> bool" where
  "jump_leads hook c t = jump_position_ok (tb_hooks t hook) (''-j '' @ c)"

text \<open>The policy's own chains are built and lead both hooks.\<close>

definition policy_live :: "ipt_table \<Rightarrow> bool" where
  "policy_live t =
     (chains_built t \<and> jump_leads FW3_HOOK_OUTPUT CHAIN_OUTPUT t \<and> jump_leads FW3_HOOK_FORWARD CHAIN_FORWARD t)"

definition ends_blocking :: "rule_set \<Rightarrow> bool" where
  "ends_blocking rs =
     ((\<exists>c. output_of rs = c @ [reject Inet]) \<and> (\<exists>c. forward_of rs = c @ [reject Inet]))"

lemma position_Some_iff:
  "position P xs = Some i \<longleftrightarrow> i < length xs \<and> P (xs ! i) \<and> (\<forall>j<i. \<not> P (xs ! j))"
proof (induction xs arbitrary: i)
  case (Cons x xs)
  then show ?case by (cases i) (auto simp: less_Suc_eq_0_disj)
qed simp

lemma position_split:
  "position (\<lambda>r. r = x) xs = Some i \<Longrightarrow> xs = take i xs @ x # drop (Suc i) xs \<and> x \<notin> set (take i xs)"
  by (auto simp: position_Some_iff in_set_conv_nth intro: id_take_nth_drop [symmetric]) (metis id_take_nth_drop)

lemma position_append:
  "x \<notin> set pre \<Longrightarrow> position (\<lambda>r. r = x) (pre @ x # post) = Some (length pre)"
  by (induction pre) auto

lemma jump_position_ok_iff:
  "jump_position_ok rules jump \<longleftrightarrow>
     (\<exists>pre post. rules = pre @ jump # post \<and> jump \<notin> set pre \<and> list_all (prefix ''-j NYM_'') pre)"
proof
  assume "jump_position_ok rules jump"
  then obtain i where "position (\<lambda>r. r = jump) rules = Some i" "list_all (prefix ''-j NYM_'') (take i rules)"
    by (auto simp: jump_position_ok_def split: option.splits)
  then show "\<exists>pre post. rules = pre @ jump # post \<and> jump \<notin> set pre \<and> list_all (prefix ''-j NYM_'') pre"
    using position_split by metis
next
  assume "\<exists>pre post. rules = pre @ jump # post \<and> jump \<notin> set pre \<and> list_all (prefix ''-j NYM_'') pre"
  then show "jump_position_ok rules jump"
    by (auto simp: jump_position_ok_def position_append)
qed

lemma jump_guards:
  "jump_leads hook c t \<Longrightarrow> chain_blocks (tb_chains t c) \<Longrightarrow> c \<in> set cs \<Longrightarrow> hook_guarded hook cs t"
  unfolding jump_leads_def jump_position_ok_iff hook_guarded_def by blast

lemma policy_live_guarded: "policy_live t \<Longrightarrow> guarded t"
  by (auto simp: policy_live_def chains_built_def guarded_def intro: jump_guards)

subsection \<open>Commands and the filter table of one family\<close>

definition tabinv :: "addr_family_sel \<Rightarrow> (ipt_table \<Rightarrow> bool) \<Rightarrow> fw3_world \<Rightarrow> bool" where
  "tabinv f I w = I (kernel w f Filter)"

definition preserves :: "(ipt_table \<Rightarrow> bool) \<Rightarrow> ipt_cmd \<Rightarrow> bool" where
  "preserves I cmd \<longleftrightarrow>
     (\<forall>cm ow k ok out k'. exec cm ow cmd k = (ok, out, k') \<longrightarrow> I (k Filter) \<longrightarrow> I (k' Filter))"

text \<open>\<open>untouched f I family cmd\<close>: the command cannot break \<open>I\<close> in family \<open>f\<close>.\<close>

definition untouched :: "addr_family_sel \<Rightarrow> (ipt_table \<Rightarrow> bool) \<Rightarrow> addr_family_sel \<Rightarrow> ipt_cmd \<Rightarrow> bool" where
  "untouched f I family cmd = (family \<noteq> f \<or> preserves I cmd)"

lemma keeps_spawn: "untouched f I family cmd \<Longrightarrow> keeps (tabinv f I) (spawn family cmd)"
  unfolding keeps_def triple_def spawn_def next_fault_def tabinv_def untouched_def preserves_def
  by (fastforce split: list.splits fault.splits prod.splits outcome.splits)

lemma keeps_file_op: "(\<And>w. kernel (eff w) = kernel w) \<Longrightarrow> keeps (tabinv f I) (file_op e eff)"
  unfolding keeps_def triple_def file_op_def next_fault_def tabinv_def
  by (auto split: list.splits fault.splits outcome.splits)

lemma keeps_output_of_cmd: "untouched f I family cmd \<Longrightarrow> keeps (tabinv f I) (output_of_cmd family cmd)"
  unfolding output_of_cmd_def by (intro keeps_rules keeps_spawn)

lemma keeps_status_or_false: "untouched f I family cmd \<Longrightarrow> keeps (tabinv f I) (status_or_false family cmd)"
  unfolding status_or_false_def by (intro keeps_rules keeps_spawn)

lemma keeps_best_effort: "untouched f I family cmd \<Longrightarrow> keeps (tabinv f I) (best_effort family cmd)"
  unfolding best_effort_def by (intro keeps_rules keeps_spawn)

lemma keeps_run_ipt: "untouched f I family cmd \<Longrightarrow> keeps (tabinv f I) (run_ipt family cmd)"
  unfolding run_ipt_def by (intro keeps_rules keeps_output_of_cmd)

lemma keeps_run_restore: "untouched f I family (Restore script) \<Longrightarrow> keeps (tabinv f I) (run_restore script family)"
  unfolding run_restore_def by (intro keeps_rules keeps_spawn)

lemmas keeps_cmds = keeps_output_of_cmd keeps_status_or_false keeps_best_effort keeps_run_ipt keeps_run_restore
  keeps_file_op

lemma untouched_other [simp]: "family \<noteq> f \<Longrightarrow> untouched f I family cmd"
  by (simp add: untouched_def)

lemma untouched_neutral [simp]:
  "untouched f I family (CheckJump t h c)" "untouched f I family (ListRules h)" "untouched f I family (ListChain c)"
  "untouched f I family (AppendConnmark c)" "untouched f I family OwnerHelp"
  "untouched f I family (InsertJump Mangle h c)" "untouched f I family (DeleteJump Mangle h c)"
  "untouched f I family (NewChain Mangle c)" "untouched f I family (FlushChain Mangle c)"
  "untouched f I family (DeleteChain Mangle c)"
  by (auto simp: untouched_def preserves_def split: if_splits)

subsection \<open>Parts that never touch the filter table of a family\<close>

lemma keeps_jumps_present [simp]: "keeps (tabinv f I) (jumps_present family)"
proof -
  have "keeps (tabinv f I) (all_jumps family js)" for js
    by (induction js) (auto intro!: keeps_rules keeps_cmds)
  then show ?thesis by (simp add: jumps_present_def)
qed

lemma keeps_list_hook_rules [simp]: "keeps (tabinv f I) (list_hook_rules family hook)"
  unfolding list_hook_rules_def by (intro keeps_rules keeps_cmds) simp_all

lemma keeps_mangle_jumps [simp]: "keeps (tabinv f I) (setup_mangle_jumps family)"
  unfolding setup_mangle_jumps_def jump_present_def by (intro keeps_rules keeps_cmds) simp_all

lemma keeps_cleanup_mangle [simp]: "keeps (tabinv f I) (cleanup_mangle family)"
  unfolding cleanup_mangle_def by (intro keeps_rules keeps_cmds) simp_all

lemma keeps_connmark [simp]: "keeps (tabinv f I) (connmark_target_available family)"
  unfolding connmark_target_available_def by (intro keeps_rules keeps_cmds) simp_all

lemma keeps_owner [simp]: "keeps (tabinv f I) (owner_match_available family)"
  unfolding owner_match_available_def by (intro keeps_rules keeps_cmds) simp_all

lemma keeps_chain_exists [simp]: "keeps (tabinv f I) (chain_exists family c)"
  unfolding chain_exists_def by (intro keeps_rules keeps_cmds) simp_all

lemma keeps_files [simp]:
  "keeps (tabinv f I) begin_transition" "keeps (tabinv f I) finish_transition" "keeps (tabinv f I) (persist_state a b)"
  "keeps (tabinv f I) clear_persisted_state" "keeps (tabinv f I) ensure_runtime_dir" "keeps (tabinv f I) lock_fw3_state"
  unfolding begin_transition_def finish_transition_def persist_state_def clear_persisted_state_def
    ensure_runtime_dir_def lock_fw3_state_def
  by (intro keeps_rules keeps_cmds; simp)+

subsection \<open>What the restore scripts do\<close>

fun no_table :: "restore_line \<Rightarrow> bool" where
  "no_table (RTable t) = False"
| "no_table _ = True"

lemma restore_other_table:
  "list_all no_table ls \<Longrightarrow> cur \<noteq> t \<Longrightarrow>
     fst (fold restore_step ls (cur, k)) = cur \<and> snd (fold restore_step ls (cur, k)) t = k t"
proof (induction ls arbitrary: k)
  case (Cons l ls)
  obtain k' where step: "restore_step l (cur, k) = (cur, k')" and "k' t = k t"
    using Cons.prems by (cases l) auto
  then show ?case using Cons by simp
qed simp

lemma restore_chain_lines:
  assumes "tb_chains (k cur) name = Some old"
  shows "fold restore_step (chain_lines name family c) (cur, k) =
    (cur, k(cur := (k cur)\<lparr>tb_chains := (tb_chains (k cur))(name \<mapsto>
       old @ map (\<lambda>r. ipt_render_rule r family) (filter (\<lambda>r. family_matches (r_family r) family) c))\<rparr>))"
  using assms unfolding chain_lines_def
proof (induction c arbitrary: k old)
  case Nil
  then show ?case by (simp add: fun_upd_idem map_upd_triv)
next
  case (Cons r c)
  show ?case
  proof (cases "family_matches (r_family r) family")
    case True
    define k2 where "k2 = k(cur := (k cur)\<lparr>tb_chains := (tb_chains (k cur))(name \<mapsto> old @ [ipt_render_rule r family])\<rparr>)"
    have "fold restore_step (map (\<lambda>r. RAppend name (ipt_render_rule r family))
          (filter (\<lambda>r. family_matches (r_family r) family) c)) (cur, k2) =
        (cur, k2(cur := (k2 cur)\<lparr>tb_chains := (tb_chains (k2 cur))(name \<mapsto> (old @ [ipt_render_rule r family]) @
          map (\<lambda>r. ipt_render_rule r family) (filter (\<lambda>r. family_matches (r_family r) family) c))\<rparr>))"
      by (rule Cons.IH) (simp add: k2_def)
    moreover have "restore_step (RAppend name (ipt_render_rule r family)) (cur, k) = (cur, k2)"
      using Cons.prems by (simp add: k2_def)
    ultimately show ?thesis
      using True by (simp add: k2_def fun_upd_def cong: if_cong)
  qed (use Cons in simp)
qed

definition rendered :: "addr_family_sel \<Rightarrow> chain \<Rightarrow> string list" where
  "rendered family c = map (\<lambda>r. ipt_render_rule r family) (filter (\<lambda>r. family_matches (r_family r) family) c)"

lemma chain_names_differ [simp]:
  "CHAIN_INPUT \<noteq> CHAIN_OUTPUT" "CHAIN_INPUT \<noteq> CHAIN_FORWARD" "CHAIN_OUTPUT \<noteq> CHAIN_FORWARD"
  "CHAIN_OUTPUT \<noteq> CHAIN_INPUT" "CHAIN_FORWARD \<noteq> CHAIN_INPUT" "CHAIN_FORWARD \<noteq> CHAIN_OUTPUT"
  "EMERGENCY_OUTPUT_CHAIN \<noteq> CHAIN_OUTPUT" "EMERGENCY_OUTPUT_CHAIN \<noteq> CHAIN_FORWARD"
  "EMERGENCY_FORWARD_CHAIN \<noteq> CHAIN_OUTPUT" "EMERGENCY_FORWARD_CHAIN \<noteq> CHAIN_FORWARD"
  "CHAIN_OUTPUT \<noteq> EMERGENCY_OUTPUT_CHAIN" "CHAIN_FORWARD \<noteq> EMERGENCY_OUTPUT_CHAIN"
  "CHAIN_OUTPUT \<noteq> EMERGENCY_FORWARD_CHAIN" "CHAIN_FORWARD \<noteq> EMERGENCY_FORWARD_CHAIN"
  by (simp_all add: CHAIN_INPUT_def CHAIN_OUTPUT_def CHAIN_FORWARD_def EMERGENCY_OUTPUT_CHAIN_def
      EMERGENCY_FORWARD_CHAIN_def)

lemma hook_names_differ [simp]:
  "FW3_HOOK_INPUT \<noteq> FW3_HOOK_OUTPUT" "FW3_HOOK_INPUT \<noteq> FW3_HOOK_FORWARD" "FW3_HOOK_OUTPUT \<noteq> FW3_HOOK_FORWARD"
  "FW3_HOOK_OUTPUT \<noteq> FW3_HOOK_INPUT" "FW3_HOOK_FORWARD \<noteq> FW3_HOOK_INPUT" "FW3_HOOK_FORWARD \<noteq> FW3_HOOK_OUTPUT"
  by (simp_all add: FW3_HOOK_INPUT_def FW3_HOOK_OUTPUT_def FW3_HOOK_FORWARD_def)

text \<open>Inside one table a script only rewrites that table.\<close>

lemma restore_in_table:
  "restore_step (RDecl c) (cur, k(cur := t)) = (cur, k(cur := t\<lparr>tb_chains := (tb_chains t)(c \<mapsto> [])\<rparr>))"
  "restore_step (RFlush c) (cur, k(cur := t)) = (cur, k(cur := t\<lparr>tb_chains := (tb_chains t)(c \<mapsto> [])\<rparr>))"
  "restore_step (RInsert h c) (cur, k(cur := t)) =
     (cur, k(cur := t\<lparr>tb_hooks := (tb_hooks t)(h := (''-j '' @ c) # tb_hooks t h)\<rparr>))"
  "restore_step RCommit (cur, k(cur := t)) = (cur, k(cur := t))"
  "tb_chains t c = Some old \<Longrightarrow> restore_step (RAppend c r) (cur, k(cur := t)) =
     (cur, k(cur := t\<lparr>tb_chains := (tb_chains t)(c \<mapsto> old @ [r])\<rparr>))"
  by simp_all

lemma chain_lines_in_table:
  "tb_chains t name = Some old \<Longrightarrow>
     fold restore_step (chain_lines name family c) (cur, k(cur := t)) =
       (cur, k(cur := t\<lparr>tb_chains := (tb_chains t)(name \<mapsto> old @ rendered family c)\<rparr>))"
  using restore_chain_lines [of "k(cur := t)" cur name old family c] by (simp add: rendered_def)

lemma filter_part_restore:
  "fold restore_step
     ([RTable ''filter'', RDecl CHAIN_INPUT, RDecl CHAIN_OUTPUT, RDecl CHAIN_FORWARD,
       RFlush CHAIN_INPUT, RFlush CHAIN_OUTPUT, RFlush CHAIN_FORWARD]
      @ chain_lines CHAIN_INPUT family ci @ chain_lines CHAIN_OUTPUT family co
      @ chain_lines CHAIN_FORWARD family cf @ [RCommit]) (cur, k) =
   (Filter, k(Filter := (k Filter)\<lparr>tb_chains := (tb_chains (k Filter))
      (CHAIN_INPUT \<mapsto> rendered family ci, CHAIN_OUTPUT \<mapsto> rendered family co, CHAIN_FORWARD \<mapsto> rendered family cf)\<rparr>))"
proof -
  have start: "restore_step (RTable ''filter'') (cur, k) = (Filter, k(Filter := k Filter))" by simp
  show ?thesis
    unfolding append_Cons append_Nil append_assoc fold_append fold_simps comp_apply id_apply start restore_in_table
    by (simp add: chain_lines_in_table restore_in_table del: restore_step.simps)
qed

definition filter_script :: "rule_set \<Rightarrow> addr_family_sel \<Rightarrow> restore_line list" where
  "filter_script rs family =
     [RTable ''filter'', RDecl CHAIN_INPUT, RDecl CHAIN_OUTPUT, RDecl CHAIN_FORWARD,
      RFlush CHAIN_INPUT, RFlush CHAIN_OUTPUT, RFlush CHAIN_FORWARD]
     @ chain_lines CHAIN_INPUT family (input_of rs) @ chain_lines CHAIN_OUTPUT family (output_of rs)
     @ chain_lines CHAIN_FORWARD family (forward_of rs) @ [RCommit]"

definition mangle_script :: "rule_set \<Rightarrow> addr_family_sel \<Rightarrow> restore_line list" where
  "mangle_script rs family =
     [RDecl CHAIN_MANGLE_PREROUTING, RDecl CHAIN_MANGLE_OUTPUT,
      RFlush CHAIN_MANGLE_PREROUTING, RFlush CHAIN_MANGLE_OUTPUT]
     @ chain_lines CHAIN_MANGLE_PREROUTING family (mangle_pre_of rs)
     @ chain_lines CHAIN_MANGLE_OUTPUT family (mangle_out_of rs) @ [RCommit]"

lemma policy_script_parts:
  "policy_script rs family =
     (if mangle_is_empty (rs_mangle rs) then [] else RTable ''mangle'' # mangle_script rs family) @ filter_script rs family"
  by (simp add: policy_script_def filter_script_def mangle_script_def)

lemma mangle_script_no_table: "list_all no_table (mangle_script rs family)"
  by (auto simp: mangle_script_def chain_lines_def list_all_iff)

lemma policy_restore:
  "restore (policy_script rs family) k Filter =
     (k Filter)\<lparr>tb_chains := (tb_chains (k Filter))
       (CHAIN_INPUT \<mapsto> rendered family (input_of rs), CHAIN_OUTPUT \<mapsto> rendered family (output_of rs),
        CHAIN_FORWARD \<mapsto> rendered family (forward_of rs))\<rparr>"
proof -
  define s where "s = (if mangle_is_empty (rs_mangle rs) then (Filter, k)
    else fold restore_step (mangle_script rs family) (Mangle, k))"
  have frame: "snd s Filter = k Filter"
    unfolding s_def using restore_other_table [OF mangle_script_no_table, of Mangle Filter rs family k] by simp
  have "restore (policy_script rs family) k = snd (fold restore_step (filter_script rs family) (fst s, snd s))"
    unfolding restore_def policy_script_parts s_def by simp
  then show ?thesis
    unfolding filter_script_def filter_part_restore by (simp add: frame)
qed

lemma emergency_script_lines:
  "emergency_script family =
     [RTable ''filter'', RDecl EMERGENCY_OUTPUT_CHAIN, RDecl EMERGENCY_FORWARD_CHAIN,
      RFlush EMERGENCY_OUTPUT_CHAIN, RFlush EMERGENCY_FORWARD_CHAIN]
     @ map (RAppend EMERGENCY_OUTPUT_CHAIN)
         (''-m conntrack --ctstate RELATED,ESTABLISHED --ctdir REPLY -j ACCEPT'' #
          (if family = AfV6 then [''-p icmpv6 --icmpv6-type neighbour-solicitation -j ACCEPT'',
            ''-p icmpv6 --icmpv6-type neighbour-advertisement -j ACCEPT''] else []) @ [''-j DROP''])
     @ [RAppend EMERGENCY_FORWARD_CHAIN ''-j DROP'',
        RInsert FW3_HOOK_OUTPUT EMERGENCY_OUTPUT_CHAIN, RInsert FW3_HOOK_FORWARD EMERGENCY_FORWARD_CHAIN, RCommit]"
  by (cases family) (simp_all add: emergency_script_def emergency_lines_def)

lemma appends_in_table:
  "tb_chains t name = Some old \<Longrightarrow>
     fold restore_step (map (RAppend name) rs) (cur, k(cur := t)) =
       (cur, k(cur := t\<lparr>tb_chains := (tb_chains t)(name \<mapsto> old @ rs)\<rparr>))"
proof (induction rs arbitrary: t old)
  case Nil
  then have "t\<lparr>tb_chains := (tb_chains t)(name \<mapsto> old)\<rparr> = t" by (simp add: map_upd_triv)
  then show ?case by (simp only: list.map fold_simps append_Nil2)
next
  case (Cons r rs)
  then show ?case
    using Cons.IH [of "t\<lparr>tb_chains := (tb_chains t)(name \<mapsto> old @ [r])\<rparr>" "old @ [r]"]
    by (simp add: fun_upd_def cong: if_cong)
qed

lemma emergency_restore:
  "restore (emergency_script family) k Filter =
     (k Filter)\<lparr>tb_hooks := (tb_hooks (k Filter))
         (FW3_HOOK_OUTPUT := (''-j '' @ EMERGENCY_OUTPUT_CHAIN) # tb_hooks (k Filter) FW3_HOOK_OUTPUT,
          FW3_HOOK_FORWARD := (''-j '' @ EMERGENCY_FORWARD_CHAIN) # tb_hooks (k Filter) FW3_HOOK_FORWARD),
       tb_chains := (tb_chains (k Filter))
         (EMERGENCY_OUTPUT_CHAIN \<mapsto> ''-m conntrack --ctstate RELATED,ESTABLISHED --ctdir REPLY -j ACCEPT'' #
            (if family = AfV6 then [''-p icmpv6 --icmpv6-type neighbour-solicitation -j ACCEPT'',
              ''-p icmpv6 --icmpv6-type neighbour-advertisement -j ACCEPT''] else []) @ [''-j DROP''],
          EMERGENCY_FORWARD_CHAIN \<mapsto> [''-j DROP''])\<rparr>"
proof -
  have start: "restore_step (RTable ''filter'') (Filter, k) = (Filter, k(Filter := k Filter))" by simp
  show ?thesis
    unfolding restore_def emergency_script_lines append_Cons append_Nil append_assoc fold_append fold_simps comp_apply
      id_apply start restore_in_table
    by (simp add: appends_in_table restore_in_table fun_upd_twist [of EMERGENCY_OUTPUT_CHAIN EMERGENCY_FORWARD_CHAIN]
        del: restore_step.simps list.map)
qed

lemma ends_blocking_chain:
  "chain_blocks (Some (rendered family (c @ [reject Inet])))"
  by (cases family) (simp_all add: chain_blocks_def rendered_def ipt_render_rule_def ipt_args_def ipt_target_def
      reject_with_def builder_defs Let_def)

lemma policy_restore_built: "ends_blocking rs \<Longrightarrow> chains_built (restore (policy_script rs family) k Filter)"
  by (auto simp: ends_blocking_def policy_restore chains_built_def ends_blocking_chain)

lemma policy_restore_hooks: "tb_hooks (restore (policy_script rs family) k Filter) = tb_hooks (k Filter)"
  by (simp add: policy_restore)

lemma hook_guarded_mono:
  assumes "hook_guarded hook cs t" and "tb_hooks t' hook = tb_hooks t hook"
    and "\<And>c. c \<in> set cs \<Longrightarrow> chain_blocks (tb_chains t c) \<Longrightarrow> chain_blocks (tb_chains t' c)"
  shows "hook_guarded hook cs t'"
  using assms unfolding hook_guarded_def by metis

lemma policy_restore_blocks:
  "ends_blocking rs \<Longrightarrow> chain_blocks (tb_chains (k Filter) c) \<Longrightarrow>
     c \<in> {CHAIN_OUTPUT, CHAIN_FORWARD, EMERGENCY_OUTPUT_CHAIN, EMERGENCY_FORWARD_CHAIN} \<Longrightarrow>
     chain_blocks (tb_chains (restore (policy_script rs family) k Filter) c)"
  by (auto simp: ends_blocking_def policy_restore ends_blocking_chain CHAIN_INPUT_def EMERGENCY_OUTPUT_CHAIN_def
      EMERGENCY_FORWARD_CHAIN_def)

lemma restore_keeps_guarded:
  assumes "ends_blocking rs"
  shows "preserves guarded (Restore (policy_script rs family))"
proof -
  have "guarded (restore (policy_script rs family) k Filter)" if "guarded (k Filter)" for k
    using that unfolding guarded_def
    by (auto intro!: hook_guarded_mono [where t = "k Filter"] policy_restore_blocks [OF assms] simp: policy_restore_hooks)
  then show ?thesis by (simp add: preserves_def)
qed

lemma restore_keeps_live:
  assumes "ends_blocking rs"
  shows "preserves policy_live (Restore (policy_script rs family))"
  using policy_restore_built [OF assms]
  by (simp add: preserves_def policy_live_def jump_leads_def policy_restore_hooks)

lemma emergency_restore_guarded: "guarded (restore (emergency_script family) k Filter)"
proof -
  have "hook_guarded h [c, e] t" if "tb_hooks t h = (''-j '' @ e) # post" "chain_blocks (tb_chains t e)" for h c e t post
    unfolding hook_guarded_def using that by (intro exI [of _ "[]"] exI [of _ e] exI [of _ post]) simp
  then show ?thesis
    unfolding guarded_def emergency_restore by (auto simp: chain_blocks_def)
qed

subsection \<open>Placing the jumps\<close>

lemma cons_leads: "prefix ''-j NYM_'' r \<Longrightarrow> jump_position_ok rules jump \<Longrightarrow> jump_position_ok (r # rules) jump"
proof (cases "r = jump")
  case True
  then show ?thesis unfolding jump_position_ok_iff by (intro exI [of _ "[]"] exI [of _ rules]) simp
next
  case False
  assume "prefix ''-j NYM_'' r" "jump_position_ok rules jump"
  then obtain pre post where "rules = pre @ jump # post" "jump \<notin> set pre" "list_all (prefix ''-j NYM_'') pre"
    by (auto simp: jump_position_ok_iff)
  then show ?thesis
    unfolding jump_position_ok_iff using False \<open>prefix ''-j NYM_'' r\<close> by (intro exI [of _ "r # pre"] exI [of _ post]) simp
qed

lemma head_leads: "jump_position_ok (jump # rules) jump"
  unfolding jump_position_ok_iff by (intro exI [of _ "[]"] exI [of _ rules]) simp

lemma cons_guards:
  assumes "prefix ''-j NYM_'' r" "hook_guarded h cs t" "tb_hooks t' h = r # tb_hooks t h" "tb_chains t' = tb_chains t"
  shows "hook_guarded h cs t'"
proof -
  obtain pre c post where "tb_hooks t h = pre @ (''-j '' @ c) # post" "list_all (prefix ''-j NYM_'') pre"
    "c \<in> set cs" "chain_blocks (tb_chains t c)"
    using assms(2) by (auto simp: hook_guarded_def)
  then show ?thesis
    unfolding hook_guarded_def using assms(1,3,4)
    by (intro exI [of _ "r # pre"] exI [of _ c] exI [of _ post]) simp
qed

lemma remove1_leads:
  assumes "r \<noteq> jump" and "jump_position_ok rules jump"
  shows "jump_position_ok (remove1 r rules) jump"
proof -
  obtain pre post where rules: "rules = pre @ jump # post" "jump \<notin> set pre" "list_all (prefix ''-j NYM_'') pre"
    using assms(2) by (auto simp: jump_position_ok_iff)
  have "set (remove1 r pre) \<subseteq> set pre" by (rule set_remove1_subset)
  then have "remove1 r rules = (if r \<in> set pre then remove1 r pre @ jump # post else pre @ jump # remove1 r post)"
    and "jump \<notin> set (remove1 r pre)" and "list_all (prefix ''-j NYM_'') (remove1 r pre)"
    using rules assms(1) by (auto simp: remove1_append list_all_iff)
  then show ?thesis
    unfolding jump_position_ok_iff using rules by (cases "r \<in> set pre") auto
qed

text \<open>The rule at a later position goes, the leading jump stays.\<close>

definition leads_at :: "nat \<Rightarrow> string \<Rightarrow> string \<Rightarrow> ipt_table \<Rightarrow> bool" where
  "leads_at i hook c t =
     (i < length (tb_hooks t hook) \<and> tb_hooks t hook ! i = ''-j '' @ c
      \<and> list_all (\<lambda>r. prefix ''-j NYM_'' r \<and> r \<noteq> ''-j '' @ c) (take i (tb_hooks t hook)))"

lemma leads_at_leads: "leads_at i hook c t \<Longrightarrow> jump_leads hook c t"
  unfolding leads_at_def jump_leads_def jump_position_ok_iff
  by (intro exI [of _ "take i (tb_hooks t hook)"] exI [of _ "drop (Suc i) (tb_hooks t hook)"])
    (auto simp: list_all_iff id_take_nth_drop [symmetric] dest: id_take_nth_drop)

lemma leads_leads_at:
  "jump_position_ok (tb_hooks t hook) (''-j '' @ c) \<Longrightarrow>
     \<exists>i. position (\<lambda>r. r = ''-j '' @ c) (tb_hooks t hook) = Some i \<and> leads_at i hook c t"
  unfolding jump_position_ok_iff leads_at_def
  by (auto simp: position_append list_all_iff nth_append)

lemma delete_at_leads: "i < j \<Longrightarrow> leads_at i hook c t \<Longrightarrow> tb_hooks t' hook = delete_at j (tb_hooks t hook) \<Longrightarrow> leads_at i hook c t'"
  unfolding leads_at_def delete_at_def by (auto simp: nth_append min_def)

definition becomes :: "(ipt_table \<Rightarrow> bool) \<Rightarrow> ipt_cmd \<Rightarrow> (ipt_table \<Rightarrow> bool) \<Rightarrow> bool" where
  "becomes I cmd J \<longleftrightarrow>
     (\<forall>cm ow k ok out k'. exec cm ow cmd k = (ok, out, k') \<longrightarrow> I (k Filter) \<longrightarrow> (if ok then J (k' Filter) else I (k' Filter)))"

lemma triple_spawn:
  "becomes I cmd J \<Longrightarrow>
     triple (tabinv f I) (spawn f cmd)
       (\<lambda>r. tabinv f (case r of Some (True, out) \<Rightarrow> J | _ \<Rightarrow> I)) (tabinv f I)"
  unfolding triple_def spawn_def next_fault_def tabinv_def becomes_def
  by (fastforce split: list.splits fault.splits prod.splits outcome.splits bool.splits if_splits)

lemma triple_output_of_cmd:
  "becomes I cmd J \<Longrightarrow>
     triple (tabinv f I) (output_of_cmd f cmd) (\<lambda>r. tabinv f (if fst r then J else I)) (tabinv f I)"
  unfolding output_of_cmd_def
  by (rule triple_bind, erule triple_spawn)
    (auto intro!: triple_ret triple_fail split: option.splits prod.splits bool.splits)

lemma triple_run_ipt: "becomes I cmd J \<Longrightarrow> triple (tabinv f I) (run_ipt f cmd) (\<lambda>_. tabinv f J) (tabinv f I)"
  unfolding run_ipt_def
  by (rule triple_bind, erule triple_output_of_cmd) (auto intro!: triple_ret triple_fail)

lemma triple_run_restore:
  "becomes I (Restore script) J \<Longrightarrow> triple (tabinv f I) (run_restore script f) (\<lambda>_. tabinv f J) (tabinv f I)"
  unfolding run_restore_def
  by (rule triple_bind, erule triple_spawn)
    (auto intro!: triple_ret triple_fail split: option.splits prod.splits bool.splits)

lemma triple_list_hook_rules:
  "triple (tabinv f I) (list_hook_rules f hook)
     (\<lambda>rules w. tabinv f I w \<and> rules = tb_hooks (kernel w f Filter) hook) (tabinv f I)"
proof -
  have "List.map_filter (strip_prefix (''-A '' @ hook @ '' ''))
      ((''-N '' @ hook) # map (\<lambda>r. ''-A '' @ hook @ '' '' @ r) rules) = rules" for rules
    by (induction rules) (simp_all add: map_filter_simps strip_prefix_def)
  then show ?thesis
    unfolding triple_def list_hook_rules_def output_of_cmd_def spawn_def next_fault_def tabinv_def bindp_def ret_def fail_def
    by (auto split: list.splits fault.splits prod.splits outcome.splits option.splits if_splits)
qed

lemma triple_ensure_jump:
  assumes ins: "becomes I (InsertJump Filter hook c) (\<lambda>t. I t \<and> jump_leads hook c t)"
    and del: "\<And>i j. i < j \<Longrightarrow> preserves (\<lambda>t. I t \<and> leads_at i hook c t) (DeleteNum hook (j + 1))"
  shows "triple (tabinv f I) (ensure_jump f hook c) (\<lambda>_. tabinv f (\<lambda>t. I t \<and> jump_leads hook c t)) (tabinv f I)"
proof -
  let ?jump = "''-j '' @ c"
  let ?listed = "\<lambda>rules w. (tabinv f I w \<and> rules = tb_hooks (kernel w f Filter) hook)"
  let ?placed = "\<lambda>rules w. (?listed rules w \<and> jump_position_ok rules ?jump)"
  have place: "triple (?listed rules)
      (if jump_position_ok rules ?jump then ret rules
       else thenp (run_ipt f (InsertJump Filter hook c)) (list_hook_rules f hook)) ?placed (tabinv f I)" for rules
  proof (cases "jump_position_ok rules ?jump")
    case True
    then show ?thesis by (auto intro: triple_ret)
  next
    case False
    have "triple (?listed rules) (run_ipt f (InsertJump Filter hook c))
        (\<lambda>_. tabinv f (\<lambda>t. I t \<and> jump_leads hook c t)) (tabinv f I)"
      by (rule triple_conseq [OF triple_run_ipt [OF ins]]) simp_all
    moreover have "triple (tabinv f (\<lambda>t. I t \<and> jump_leads hook c t)) (list_hook_rules f hook) ?placed (tabinv f I)"
      by (rule triple_conseq [OF triple_list_hook_rules [of f "\<lambda>t. I t \<and> jump_leads hook c t"]])
        (auto simp: tabinv_def jump_leads_def)
    ultimately show ?thesis using False by (simp add: triple_then)
  qed
  have drop: "triple (?placed rules) (for_each (\<lambda>i. run_ipt f (DeleteNum hook (i + 1))) (later_duplicates rules ?jump))
      (\<lambda>_. tabinv f (\<lambda>t. I t \<and> jump_leads hook c t)) (tabinv f I)" for rules
  proof (cases "position (\<lambda>r. r = ?jump) rules")
    case None
    then show ?thesis by (auto simp: triple_def jump_position_ok_def)
  next
    case (Some i)
    let ?J = "\<lambda>t. I t \<and> leads_at i hook c t"
    have "keeps (tabinv f ?J) (for_each (\<lambda>j. run_ipt f (DeleteNum hook (j + 1))) (later_duplicates rules ?jump))"
    proof (intro keeps_for_each keeps_run_ipt)
      fix j assume "j \<in> set (later_duplicates rules ?jump)"
      then have "i < j" unfolding later_duplicates_def Some Let_def option.case by auto
      then show "untouched f ?J f (DeleteNum hook (j + 1))" using del by (simp add: untouched_def)
    qed
    then show ?thesis
      unfolding keeps_def
    proof (rule triple_conseq)
      show "tabinv f ?J w" if "?placed rules w" for w
        using that Some leads_leads_at [of "kernel w f Filter" hook c] by (auto simp: tabinv_def)
    qed (auto simp: tabinv_def leads_at_leads)
  qed
  show ?thesis
    unfolding ensure_jump_def Let_def 
    by (rule triple_bind [OF triple_list_hook_rules triple_bind [OF place drop]])
qed

lemma nym_prefix [simp]:
  "prefix ''NYM_'' CHAIN_INPUT" "prefix ''NYM_'' CHAIN_OUTPUT" "prefix ''NYM_'' CHAIN_FORWARD"
  by (simp_all add: CHAIN_INPUT_def CHAIN_OUTPUT_def CHAIN_FORWARD_def)

text \<open>The table after one more or one fewer rule in a hook.\<close>

abbreviation with_hook :: "string \<Rightarrow> string list \<Rightarrow> ipt_table \<Rightarrow> ipt_table" where
  "with_hook h rules t \<equiv> t\<lparr>tb_hooks := (tb_hooks t)(h := rules)\<rparr>"

lemma becomes_insert:
  assumes "\<And>t. I t \<Longrightarrow> J (with_hook h ((''-j '' @ c) # tb_hooks t h) t)"
  shows "becomes I (InsertJump Filter h c) J"
  using assms by (simp add: becomes_def)

lemma preserves_delete_num:
  assumes "\<And>t. J t \<Longrightarrow> J (with_hook h (delete_at j (tb_hooks t h)) t)"
  shows "preserves J (DeleteNum h (j + 1))"
  using assms by (auto simp: preserves_def split: if_splits)

text \<open>The flag \<open>g\<close> says whether the run set out from a table that is guarded or about to be.\<close>

definition guarded_if :: "bool \<Rightarrow> ipt_table \<Rightarrow> bool" where
  "guarded_if g t = (g \<longrightarrow> guarded t)"

definition safe_built :: "bool \<Rightarrow> ipt_table \<Rightarrow> bool" where
  "safe_built g t = (guarded_if g t \<and> chains_built t)"

lemma policy_live_guarded_if: "policy_live t \<Longrightarrow> guarded_if g t"
  by (simp add: guarded_if_def policy_live_guarded)

lemma hook_guarded_other:
  "h \<noteq> h' \<Longrightarrow> hook_guarded h' cs (with_hook h rules t) = hook_guarded h' cs t"
  by (simp add: hook_guarded_def)

lemma chains_built_hook [simp]: "chains_built (with_hook h rules t) = chains_built t"
  by (simp add: chains_built_def)

lemma leads_other: "h \<noteq> h' \<Longrightarrow> jump_leads h' c (with_hook h rules t) = jump_leads h' c t"
  by (simp add: jump_leads_def)

lemma safe_insert:
  "safe_built g t \<Longrightarrow> prefix ''-j NYM_'' r \<Longrightarrow> safe_built g (with_hook h (r # tb_hooks t h) t)"
  unfolding safe_built_def guarded_if_def guarded_def
  by (cases "h = FW3_HOOK_OUTPUT"; cases "h = FW3_HOOK_FORWARD")
    (auto simp: hook_guarded_other intro: cons_guards)

lemma safe_delete:
  assumes "safe_built g t" "leads_at i h c t" "i < j"
    and "(h, c) \<in> {(FW3_HOOK_INPUT, CHAIN_INPUT), (FW3_HOOK_OUTPUT, CHAIN_OUTPUT), (FW3_HOOK_FORWARD, CHAIN_FORWARD)}"
  shows "safe_built g (with_hook h (delete_at j (tb_hooks t h)) t)"
proof -
  let ?t = "with_hook h (delete_at j (tb_hooks t h)) t"
  have "jump_leads h c ?t"
    using delete_at_leads [OF assms(3,2), of ?t] by (simp add: leads_at_leads)
  then show ?thesis
    using assms(1,4) unfolding safe_built_def guarded_if_def guarded_def chains_built_def
    by (auto simp: hook_guarded_other intro: jump_guards)
qed

lemma leads_insert: "jump_leads h c t \<Longrightarrow> prefix ''-j NYM_'' r \<Longrightarrow> jump_leads h c (with_hook h' (r # tb_hooks t h') t)"
  by (cases "h = h'") (simp_all add: jump_leads_def cons_leads)

lemma leads_delete:
  assumes "jump_leads h c t" "leads_at i h' c' t" "i < j" and "h = h' \<Longrightarrow> c = c'"
  shows "jump_leads h c (with_hook h' (delete_at j (tb_hooks t h')) t)"
proof (cases "h = h'")
  case True
  then show ?thesis
    using assms delete_at_leads [OF assms(3,2), of "with_hook h' (delete_at j (tb_hooks t h')) t"]
    by (simp add: leads_at_leads)
qed (use assms in \<open>simp add: leads_other\<close>)

text \<open>Conditions that placing the three jumps keeps: safety, and jumps that already lead.\<close>

definition placing :: "bool \<Rightarrow> (string \<times> string) list \<Rightarrow> ipt_table \<Rightarrow> bool" where
  "placing g hcs t = (safe_built g t \<and> list_all (\<lambda>(h, c). jump_leads h c t) hcs)"

lemma triple_place:
  assumes "(h, c) \<in> set JUMPS" and "set hcs \<subseteq> set JUMPS"
  shows "triple (tabinv f (placing g hcs)) (ensure_jump f h c) (\<lambda>_. tabinv f (placing g ((h, c) # hcs))) (tabinv f (placing g hcs))"
proof -
  have nym: "prefix ''-j NYM_'' (''-j '' @ c)"
    and hc: "(h, c) \<in> {(FW3_HOOK_INPUT, CHAIN_INPUT), (FW3_HOOK_OUTPUT, CHAIN_OUTPUT), (FW3_HOOK_FORWARD, CHAIN_FORWARD)}"
    using assms(1) by (auto simp: JUMPS_def)
  have same: "h' = h \<Longrightarrow> c' = c" if "(h', c') \<in> set hcs" for h' c'
    using that assms by (auto simp: JUMPS_def)
  have "becomes (placing g hcs) (InsertJump Filter h c) (\<lambda>t. placing g hcs t \<and> jump_leads h c t)"
  proof (rule becomes_insert)
    fix t assume t: "placing g hcs t"
    let ?t = "with_hook h ((''-j '' @ c) # tb_hooks t h) t"
    have "safe_built g ?t"
      using t nym unfolding placing_def by (blast intro: safe_insert)
    moreover have "jump_leads h' c' ?t" if "(h', c') \<in> set hcs" for h' c'
      using t nym that leads_insert unfolding placing_def list_all_iff by fast
    moreover have "jump_leads h c ?t"
      using head_leads [of "''-j '' @ c" "tb_hooks t h"] by (simp add: jump_leads_def)
    ultimately show "placing g hcs ?t \<and> jump_leads h c ?t"
      unfolding placing_def list_all_iff by blast
  qed
  moreover have "preserves (\<lambda>t. placing g hcs t \<and> leads_at i h c t) (DeleteNum h (j + 1))" if ij: "i < j" for i j
  proof (rule preserves_delete_num)
    fix t assume t: "placing g hcs t \<and> leads_at i h c t"
    let ?t = "with_hook h (delete_at j (tb_hooks t h)) t"
    have "safe_built g ?t"
      using t safe_delete [OF _ _ ij hc] unfolding placing_def by blast
    moreover have "jump_leads h' c' ?t" if "(h', c') \<in> set hcs" for h' c'
      using t that same leads_delete [OF _ _ ij] unfolding placing_def list_all_iff by blast
    moreover have "leads_at i h c ?t"
      using t delete_at_leads [OF ij, of h c t ?t] by simp
    ultimately show "placing g hcs ?t \<and> leads_at i h c ?t"
      unfolding placing_def list_all_iff by blast
  qed
  ultimately have "triple (tabinv f (placing g hcs)) (ensure_jump f h c)
      (\<lambda>_. tabinv f (\<lambda>t. placing g hcs t \<and> jump_leads h c t)) (tabinv f (placing g hcs))"
    by (rule triple_ensure_jump)
  then show ?thesis
    by (rule triple_conseq) (auto simp: tabinv_def placing_def)
qed

lemma triple_setup_jumps:
  "triple (tabinv f (safe_built g)) (setup_jumps f) (\<lambda>_. tabinv f policy_live) (tabinv f (safe_built g))"
proof -
  have e: "triple (tabinv f (placing g hcs)) (ensure_jump f h c) (\<lambda>_. tabinv f (placing g ((h, c) # hcs))) (tabinv f (safe_built g))"
    if "(h, c) \<in> set JUMPS" "set hcs \<subseteq> set JUMPS" for h c hcs
    by (rule triple_conseq [OF triple_place [OF that, where g = g]]) (simp_all add: tabinv_def placing_def)
  let ?i = "(FW3_HOOK_INPUT, CHAIN_INPUT)" and ?o = "(FW3_HOOK_OUTPUT, CHAIN_OUTPUT)" and ?f = "(FW3_HOOK_FORWARD, CHAIN_FORWARD)"
  have "triple (tabinv f (placing g [])) (ensure_jump f FW3_HOOK_INPUT CHAIN_INPUT) (\<lambda>_. tabinv f (placing g [?i])) (tabinv f (safe_built g))"
    "triple (tabinv f (placing g [?i])) (ensure_jump f FW3_HOOK_OUTPUT CHAIN_OUTPUT) (\<lambda>_. tabinv f (placing g [?o, ?i])) (tabinv f (safe_built g))"
    "triple (tabinv f (placing g [?o, ?i])) (ensure_jump f FW3_HOOK_FORWARD CHAIN_FORWARD) (\<lambda>_. tabinv f (placing g [?f, ?o, ?i])) (tabinv f (safe_built g))"
    by (rule e; simp add: JUMPS_def)+
  then have "triple (tabinv f (placing g [])) (setup_jumps f) (\<lambda>_. tabinv f (placing g [?f, ?o, ?i])) (tabinv f (safe_built g))"
    unfolding setup_jumps_def JUMPS_def for_each.simps case_prod_conv
    by (elim triple_then) (rule triple_ret)
  then show ?thesis
    by (rule triple_conseq) (simp_all add: tabinv_def placing_def safe_built_def policy_live_def)
qed

subsection \<open>Applying a policy\<close>

lemma ends_blocking_fallbacks:
  "ends_blocking rs \<Longrightarrow> ends_blocking (without_skuid_rules rs)" "ends_blocking rs \<Longrightarrow> ends_blocking (without_mangle_rules rs)"
  by (auto simp: ends_blocking_def without_skuid_rules_def without_mangle_rules_def)

lemma compile_ends_blocking: "ends_blocking (compile_with contains mwan3 policy u)"
  by (auto simp: ends_blocking_def compile_output compile_forward)

text \<open>Scripts the backend writes: those of a rule set that ends by blocking.\<close>

definition blocking_script :: "addr_family_sel \<Rightarrow> restore_line list \<Rightarrow> bool" where
  "blocking_script family script = (\<exists>rs. ends_blocking rs \<and> script = policy_script rs family)"

lemma restore_builds: "blocking_script family script \<Longrightarrow> becomes (guarded_if g) (Restore script) (safe_built g)"
  using restore_keeps_guarded policy_restore_built
  by (fastforce simp: becomes_def preserves_def safe_built_def guarded_if_def blocking_script_def)

lemma restore_live: "blocking_script family script \<Longrightarrow> preserves policy_live (Restore script)"
  using restore_keeps_live by (auto simp: blocking_script_def)

lemma triple_apply_filter:
  assumes "ends_blocking rs"
  shows "triple (tabinv f (guarded_if g)) (apply_filter rs f)
    (\<lambda>script w. tabinv f (safe_built g) w \<and> blocking_script f script) (tabinv f (guarded_if g))"
proof -
  have run: "triple (tabinv f (guarded_if g)) (let script = policy_script r f in thenp (run_restore script f) (ret script))
      (\<lambda>script w. tabinv f (safe_built g) w \<and> blocking_script f script) (tabinv f (guarded_if g))" if "ends_blocking r" for r
    unfolding Let_def using that
    by (intro triple_then [OF triple_run_restore [OF restore_builds [where family = f]]] triple_ret)
      (auto simp: blocking_script_def)
  have "triple (tabinv f (guarded_if g))
      (if has_skuid rs then bindp (owner_match_available f) (\<lambda>ok. ret (if ok then rs else without_skuid_rules rs)) else ret rs)
      (\<lambda>r w. tabinv f (guarded_if g) w \<and> ends_blocking r) (tabinv f (guarded_if g))"
    using assms ends_blocking_fallbacks(1) [OF assms]
    by (auto intro!: triple_bind [OF keeps_triple [OF keeps_owner]] triple_ret)
  then show ?thesis
    unfolding apply_filter_def using run by (rule triple_bind_pure)
qed

lemma triple_apply_family:
  assumes "ends_blocking rs"
  shows "triple (tabinv f (guarded_if g)) (apply_family rs f)
    (\<lambda>script w. tabinv f policy_live w \<and> blocking_script f script) (tabinv f (guarded_if g))"
proof -
  have strip: "triple (tabinv f (guarded_if g))
      (if mangle_is_empty (rs_mangle rs) then ret rs
       else bindp (connmark_target_available f) (\<lambda>ok. ret (if ok then rs else without_mangle_rules rs)))
      (\<lambda>r w. tabinv f (guarded_if g) w \<and> ends_blocking r) (tabinv f (guarded_if g))"
    using assms ends_blocking_fallbacks(2) [OF assms]
    by (auto intro!: triple_bind [OF keeps_triple [OF keeps_connmark]] triple_ret)
  have jumps: "triple (tabinv f (safe_built g)) (setup_jumps f) (\<lambda>_. tabinv f policy_live) (tabinv f (guarded_if g))"
    by (rule triple_conseq [OF triple_setup_jumps]) (auto simp: tabinv_def safe_built_def)
  have mangle: "triple (tabinv f policy_live) m (\<lambda>_. tabinv f policy_live) (tabinv f (guarded_if g))"
    if "keeps (tabinv f policy_live) m" for m :: "unit fw3"
    by (rule triple_conseq [OF keeps_triple [OF that]]) (auto simp: tabinv_def policy_live_guarded_if)
  have rest: "triple (tabinv f (guarded_if g))
      (bindp (apply_filter r f) (\<lambda>script. thenp (setup_jumps f)
        (thenp (if mangle_is_empty (rs_mangle r) then cleanup_mangle f else setup_mangle_jumps f) (ret script))))
      (\<lambda>script w. tabinv f policy_live w \<and> blocking_script f script) (tabinv f (guarded_if g))" if "ends_blocking r" for r
  proof (rule triple_bind_pure [OF triple_apply_filter [OF that]])
    fix script assume "blocking_script f script"
    then show "triple (tabinv f (safe_built g))
        (thenp (setup_jumps f) (thenp (if mangle_is_empty (rs_mangle r) then cleanup_mangle f else setup_mangle_jumps f) (ret script)))
        (\<lambda>script w. tabinv f policy_live w \<and> blocking_script f script) (tabinv f (guarded_if g))"
      by (intro triple_then [OF jumps] triple_then [OF mangle] triple_ret) simp_all
  qed
  show ?thesis
    unfolding apply_family_def using strip rest by (rule triple_bind_pure)
qed

subsection \<open>Whatever the commands of a family keep, its programs keep\<close>

locale family_commands =
  fixes I :: "fw3_world \<Rightarrow> bool" and g :: addr_family_sel
  assumes spawn_keeps: "keeps I (spawn g cmd)"
begin

lemma output_keeps: "keeps I (output_of_cmd g cmd)"
  unfolding output_of_cmd_def by (intro keeps_rules spawn_keeps)

lemma status_keeps: "keeps I (status_or_false g cmd)"
  unfolding status_or_false_def by (intro keeps_rules spawn_keeps)

lemma best_effort_keeps: "keeps I (best_effort g cmd)"
  unfolding best_effort_def by (intro keeps_rules spawn_keeps)

lemma run_ipt_keeps: "keeps I (run_ipt g cmd)"
  unfolding run_ipt_def by (intro keeps_rules output_keeps)

lemma run_restore_keeps: "keeps I (run_restore script g)"
  unfolding run_restore_def by (intro keeps_rules spawn_keeps)

lemmas cmd_keeps = output_keeps status_keeps best_effort_keeps run_ipt_keeps run_restore_keeps

lemma jumps_present_keeps: "keeps I (jumps_present g)"
proof -
  have "keeps I (all_jumps g js)" for js
    by (induction js) (auto intro!: keeps_rules cmd_keeps)
  then show ?thesis by (simp add: jumps_present_def)
qed

lemma setup_jumps_keeps: "keeps I (setup_jumps g)"
  unfolding setup_jumps_def ensure_jump_def list_hook_rules_def Let_def by (intro keeps_rules cmd_keeps)

lemma mangle_keeps: "keeps I (setup_mangle_jumps g)" "keeps I (cleanup_mangle g)"
  unfolding setup_mangle_jumps_def jump_present_def cleanup_mangle_def by (intro keeps_rules cmd_keeps)+

lemma apply_family_keeps: "keeps I (apply_family rs g)"
  unfolding apply_family_def apply_filter_def connmark_target_available_def owner_match_available_def Let_def
  by (intro keeps_rules cmd_keeps setup_jumps_keeps mangle_keeps)

lemma block_unhooked_keeps: "keeps I (block_unhooked g)"
  unfolding block_unhooked_def install_emergency_block_def by (intro keeps_rules cmd_keeps jumps_present_keeps)

lemma reactivate_keeps: "keeps I (reactivate script g)"
  unfolding reactivate_def activate_family_script_def
  by (intro keeps_rules cmd_keeps jumps_present_keeps setup_jumps_keeps mangle_keeps)

lemma remove_emergency_keeps: "keeps I (remove_emergency_block g)"
proof -
  have "keeps I (delete_jumps n g hook c)" for n hook c
    by (induction n) (auto intro!: keeps_rules cmd_keeps)
  moreover have "keeps I (drop_chain g c ops)" for c ops
    by (induction ops) (auto simp: chain_exists_def intro!: keeps_rules cmd_keeps)
  ultimately show ?thesis
    unfolding remove_emergency_block_def remove_emergency_chain_def chain_exists_def by (intro keeps_rules cmd_keeps)
qed

lemmas program_keeps = apply_family_keeps block_unhooked_keeps reactivate_keeps remove_emergency_keeps

end

interpretation v4_frame: family_commands "tabinv AfV6 P" AfV4 for P
  by unfold_locales (simp add: keeps_spawn)

interpretation v6_frame: family_commands "tabinv AfV4 P" AfV6 for P
  by unfold_locales (simp add: keeps_spawn)

text \<open>What the world holds besides tables: the files of the runtime directory and the kernel's IPv6 state.\<close>

definition state_files :: "fw3_world \<Rightarrow> bool \<times> restore_line list option \<times> restore_line list option \<times> ipv6_status" where
  "state_files w = (transition_marker w, rules_v4 w, rules_v6 w, w_ipv6 w)"

interpretation files: family_commands "\<lambda>w. P (state_files w)" g for P g
  by unfold_locales
    (auto simp: keeps_def triple_def spawn_def next_fault_def state_files_def
      split: list.splits fault.splits prod.splits outcome.splits)

lemma marker_fst: "transition_marker = (\<lambda>w. fst (state_files w))"
  by (simp add: fun_eq_iff state_files_def)

lemmas frames = v4_frame.program_keeps v6_frame.program_keeps

subsection \<open>A live policy stays live\<close>

lemma policy_live_placing: "policy_live t \<longleftrightarrow> placing g [(FW3_HOOK_OUTPUT, CHAIN_OUTPUT), (FW3_HOOK_FORWARD, CHAIN_FORWARD)] t"
  using policy_live_guarded_if by (auto simp: placing_def safe_built_def policy_live_def)

lemma live_setup_jumps: "keeps (tabinv f policy_live) (setup_jumps f)"
proof -
  have "keeps (tabinv f policy_live) (ensure_jump f h c)" if "(h, c) \<in> set JUMPS" for h c
    unfolding keeps_def policy_live_placing [abs_def, where g = True]
    by (rule triple_conseq [OF triple_place [OF that, where g = True and hcs = "[(FW3_HOOK_OUTPUT, CHAIN_OUTPUT), (FW3_HOOK_FORWARD, CHAIN_FORWARD)]"]])
      (auto simp: JUMPS_def tabinv_def placing_def)
  then show ?thesis
    unfolding setup_jumps_def by (intro keeps_for_each) (auto simp del: set_simps)
qed

lemma live_reactivate: "blocking_script f script \<Longrightarrow> keeps (tabinv f policy_live) (reactivate script f)"
  unfolding reactivate_def activate_family_script_def
  by (intro keeps_rules keeps_jumps_present live_setup_jumps keeps_mangle_jumps keeps_cleanup_mangle keeps_run_restore)
    (auto simp: untouched_def restore_live)

lemma live_remove_emergency: "keeps (tabinv f policy_live) (remove_emergency_block f)"
proof -
  let ?em = "[(FW3_HOOK_OUTPUT, EMERGENCY_OUTPUT_CHAIN), (FW3_HOOK_FORWARD, EMERGENCY_FORWARD_CHAIN)]"
  have un: "untouched f policy_live f (DeleteJump Filter h c)" "untouched f policy_live f (FlushChain Filter c)"
    "untouched f policy_live f (DeleteChain Filter c)" if "(h, c) \<in> set ?em" for h c
    using that by (auto simp: untouched_def preserves_def policy_live_def jump_leads_def chains_built_def
        intro!: remove1_leads split: if_splits)
  have "keeps (tabinv f policy_live) (delete_jumps n f h c)" if "(h, c) \<in> set ?em" for n h c
    using un(1) [OF that] by (induction n) (auto intro!: keeps_rules keeps_cmds)
  moreover have "keeps (tabinv f policy_live) (drop_chain f c [FlushChain Filter c, DeleteChain Filter c])"
    if "(h, c) \<in> set ?em" for h c
    using un(2,3) [OF that] by (auto intro!: keeps_rules keeps_cmds)
  ultimately show ?thesis
    unfolding remove_emergency_block_def remove_emergency_chain_def
    by (intro keeps_rules keeps_cmds keeps_chain_exists) (auto simp del: delete_jumps.simps drop_chain.simps)
qed

subsection \<open>The whole apply\<close>

definition hooked :: "ipt_table \<Rightarrow> bool" where
  "hooked t = list_all (\<lambda>(h, c). List.member (tb_hooks t h) (''-j '' @ c)) JUMPS"

text \<open>Stopped: the table is as it was before, or it is guarded.\<close>

definition closed_from :: "bool \<Rightarrow> ipt_table \<Rightarrow> ipt_table \<Rightarrow> bool" where
  "closed_from g t0 t = (t = t0 \<or> guarded_if g t)"

lemma jumps_present_hooked:
  "triple (tabinv f (\<lambda>t. t = t0)) (jumps_present f) (\<lambda>r w. tabinv f (\<lambda>t. t = t0) w \<and> (r \<longrightarrow> hooked t0)) (tabinv f (\<lambda>t. t = t0))"
proof -
  have one: "triple (tabinv f (\<lambda>t. t = t0)) (status_or_false f (CheckJump Filter h c))
      (\<lambda>r w. tabinv f (\<lambda>t. t = t0) w \<and> (r \<longrightarrow> List.member (tb_hooks t0 h) (''-j '' @ c))) (tabinv f (\<lambda>t. t = t0))" for h c
    unfolding triple_def status_or_false_def spawn_def next_fault_def tabinv_def bindp_def ret_def
    by (auto split: list.splits fault.splits prod.splits outcome.splits option.splits)
  have "triple (tabinv f (\<lambda>t. t = t0)) (all_jumps f js)
      (\<lambda>r w. tabinv f (\<lambda>t. t = t0) w \<and> (r \<longrightarrow> list_all (\<lambda>(h, c). List.member (tb_hooks t0 h) (''-j '' @ c)) js)) (tabinv f (\<lambda>t. t = t0))" for js
  proof (induction js)
    case Nil
    show ?case by (auto intro: triple_ret)
  next
    case (Cons hc js)
    obtain h c where hc: "hc = (h, c)" by force
    show ?case
      unfolding hc all_jumps.simps
      by (rule triple_bind_pure [OF one]) (use Cons in \<open>auto intro!: triple_ret\<close>)
  qed
  then show ?thesis unfolding jumps_present_def hooked_def .
qed

lemma triple_block_unhooked:
  assumes "g \<longrightarrow> guarded t0 \<or> \<not> hooked t0"
  shows "triple (tabinv f (\<lambda>t. t = t0)) (block_unhooked f) (\<lambda>_. tabinv f (guarded_if g)) (tabinv f (closed_from g t0))"
proof -
  have "becomes (\<lambda>t. t = t0) (Restore (emergency_script f)) guarded"
    by (auto simp: becomes_def guarded_if_def emergency_restore_guarded)
  from triple_run_restore [OF this, of f]
  have inst: "triple (tabinv f (\<lambda>t. t = t0)) (install_emergency_block f) (\<lambda>_. tabinv f (guarded_if g)) (tabinv f (closed_from g t0))"
    unfolding install_emergency_block_def by (rule triple_conseq) (auto simp: tabinv_def closed_from_def guarded_if_def)
  have present: "triple (tabinv f (\<lambda>t. t = t0)) (jumps_present f) (\<lambda>r w. tabinv f (\<lambda>t. t = t0) w \<and> (r \<longrightarrow> hooked t0)) (tabinv f (closed_from g t0))"
    by (rule triple_conseq [OF jumps_present_hooked]) (auto simp: tabinv_def closed_from_def)
  have stay: "triple (tabinv f (\<lambda>t. t = t0)) (ret ()) (\<lambda>_. tabinv f (guarded_if g)) (tabinv f (closed_from g t0))" if "guarded t0"
    using that by (auto simp: tabinv_def guarded_if_def intro!: triple_ret)
  have "triple (tabinv f (\<lambda>t. t = t0)) (ret ()) (\<lambda>_. tabinv f (guarded_if g)) (tabinv f (closed_from g t0))" if "hooked t0"
    using that assms stay by (cases g) (auto simp: tabinv_def guarded_if_def intro!: triple_ret)
  then show ?thesis
    unfolding block_unhooked_def by (intro triple_bind_pure [OF present]) (use inst in auto)
qed

definition finish_apply :: "bool \<Rightarrow> restore_line list \<Rightarrow> restore_line list option \<Rightarrow> unit fw3" where
  "finish_apply with_v6 v4_script v6_script =
     thenp (persist_state v4_script v6_script)
      (thenp finish_transition
        (thenp (reactivate v4_script AfV4)
          (thenp (case v6_script of None \<Rightarrow> ret () | Some script \<Rightarrow> reactivate script AfV6)
            (remove_emergency_blocks with_v6))))"

lemma remove_emergency_blocks_live: "keeps (tabinv f policy_live) (remove_emergency_blocks with_v6)"
  unfolding remove_emergency_blocks_def
  by (cases f; intro keeps_rules) (auto intro: live_remove_emergency frames)

lemma finish_apply_v4: "blocking_script AfV4 v4 \<Longrightarrow> keeps (tabinv AfV4 policy_live) (finish_apply with_v6 v4 v6)"
  unfolding finish_apply_def
  by (intro keeps_rules keeps_files live_reactivate frames remove_emergency_blocks_live)

lemma finish_apply_v6: "blocking_script AfV6 v6 \<Longrightarrow> keeps (tabinv AfV6 policy_live) (finish_apply with_v6 v4 (Some v6))"
  unfolding finish_apply_def option.case
  by (intro keeps_rules keeps_files live_reactivate frames remove_emergency_blocks_live)

lemma keeps_closed:
  "keeps (tabinv f (guarded_if g)) m \<Longrightarrow> triple (tabinv f (guarded_if g)) m (\<lambda>_. tabinv f (guarded_if g)) (tabinv f (closed_from g t0))"
  "keeps (tabinv f policy_live) m \<Longrightarrow> triple (tabinv f policy_live) m (\<lambda>_. tabinv f policy_live) (tabinv f (closed_from g t0))"
  "keeps (tabinv f (\<lambda>t. t = t0)) m \<Longrightarrow> triple (tabinv f (\<lambda>t. t = t0)) m (\<lambda>_. tabinv f (\<lambda>t. t = t0)) (tabinv f (closed_from g t0))"
  by (erule triple_conseq [OF keeps_triple]; simp add: tabinv_def closed_from_def policy_live_guarded_if)+

lemma triple_blocks:
  assumes "g \<longrightarrow> guarded t0 \<or> \<not> hooked t0" and "f = AfV4 \<or> with_v6"
  shows "triple (tabinv f (\<lambda>t. t = t0))
    (for_each (\<lambda>family. if family = AfV6 \<and> \<not> with_v6 then ret () else block_unhooked family) [AfV4, AfV6])
    (\<lambda>_. tabinv f (guarded_if g)) (tabinv f (closed_from g t0))"
proof (cases f)
  case AfV4
  have "keeps (tabinv AfV4 (guarded_if g)) (if AfV6 = AfV6 \<and> \<not> with_v6 then ret () else block_unhooked AfV6)"
    by (auto intro: frames)
  then show ?thesis
    unfolding AfV4 for_each.simps
    by (intro triple_then [OF _ triple_then [OF keeps_closed(1) triple_ret]])
      (use triple_block_unhooked [OF assms(1), where f = AfV4] in auto)
next
  case AfV6
  have "keeps (tabinv AfV6 (\<lambda>t. t = t0)) (if AfV4 = AfV6 \<and> \<not> with_v6 then ret () else block_unhooked AfV4)"
    by (auto intro: frames)
  then show ?thesis
    unfolding AfV6 for_each.simps
    by (intro triple_then [OF keeps_closed(3)] triple_then [OF _ triple_ret])
      (use triple_block_unhooked [OF assms(1), where f = AfV6] assms(2) AfV6 in auto)
qed

definition build_chains :: "rule_set \<Rightarrow> bool \<Rightarrow> (restore_line list \<times> restore_line list option) fw3" where
  "build_chains rs with_v6 =
     thenp (for_each (\<lambda>family. if family = AfV6 \<and> \<not> with_v6 then ret () else block_unhooked family) [AfV4, AfV6])
      (bindp (apply_family rs AfV4) (\<lambda>v4_script.
       bindp (if with_v6 then bindp (apply_family rs AfV6) (\<lambda>script. ret (Some script)) else ret None) (\<lambda>v6_script.
       ret (v4_script, v6_script))))"

lemma bindp_assoc: "bindp (bindp m f) g = bindp m (\<lambda>a. bindp (f a) g)"
  by (auto simp: fun_eq_iff bindp_def split: prod.splits outcome.splits)

lemma bindp_ret: "bindp (ret a) f = f a"
  by (simp add: fun_eq_iff bindp_def ret_def)

lemma apply_transition_parts:
  "apply_transition rs with_v6 = bindp (build_chains rs with_v6) (\<lambda>(v4, v6). finish_apply with_v6 v4 v6)"
  by (simp add: apply_transition_def build_chains_def finish_apply_def thenp_def bindp_assoc bindp_ret)

lemma apply_family_closed:
  assumes "ends_blocking rs"
  shows "triple (tabinv f (guarded_if g)) (apply_family rs f)
    (\<lambda>script w. tabinv f policy_live w \<and> blocking_script f script) (tabinv f (closed_from g t0))"
  by (rule triple_conseq [OF triple_apply_family [OF assms]]) (auto simp: tabinv_def closed_from_def)

definition own_script_blocks :: "addr_family_sel \<Rightarrow> restore_line list \<times> restore_line list option \<Rightarrow> bool" where
  "own_script_blocks f scripts =
     (case f of AfV4 \<Rightarrow> blocking_script AfV4 (fst scripts)
      | AfV6 \<Rightarrow> (case snd scripts of None \<Rightarrow> False | Some script \<Rightarrow> blocking_script AfV6 script))"

lemma triple_build_chains:
  assumes rs: "ends_blocking rs" and t0: "g \<longrightarrow> guarded t0 \<or> \<not> hooked t0" and f: "f = AfV4 \<or> with_v6"
  shows "triple (tabinv f (\<lambda>t. t = t0)) (build_chains rs with_v6)
    (\<lambda>scripts w. tabinv f policy_live w \<and> own_script_blocks f scripts) (tabinv f (closed_from g t0))"
  unfolding build_chains_def
proof (rule triple_then [OF triple_blocks [OF t0 f]], cases f)
  case AfV4
  have k: "keeps (tabinv AfV4 policy_live) (if with_v6 then bindp (apply_family rs AfV6) (\<lambda>script. ret (Some script)) else ret None)"
    by (intro keeps_rules frames)
  show "triple (tabinv f (guarded_if g)) (bindp (apply_family rs AfV4) (\<lambda>v4.
       bindp (if with_v6 then bindp (apply_family rs AfV6) (\<lambda>script. ret (Some script)) else ret None) (\<lambda>v6. ret (v4, v6))))
     (\<lambda>scripts w. tabinv f policy_live w \<and> own_script_blocks f scripts) (tabinv f (closed_from g t0))"
    unfolding AfV4
    by (rule triple_bind_pure [OF apply_family_closed [OF rs]], rule triple_bind [OF keeps_closed(2) [OF k]])
      (auto simp: own_script_blocks_def intro: triple_ret)
next
  case AfV6
  then have v6: with_v6 using f by simp
  have some: "triple (tabinv AfV6 (guarded_if g)) (bindp (apply_family rs AfV6) (\<lambda>script. ret (Some script)))
      (\<lambda>s w. tabinv AfV6 policy_live w \<and> (\<exists>v6. s = Some v6 \<and> blocking_script AfV6 v6)) (tabinv AfV6 (closed_from g t0))"
    by (rule triple_bind_pure [OF apply_family_closed [OF rs]]) (auto intro: triple_ret)
  have "triple (tabinv AfV6 (guarded_if g)) (bindp (bindp (apply_family rs AfV6) (\<lambda>script. ret (Some script))) (\<lambda>v6. ret (v4, v6)))
      (\<lambda>scripts w. tabinv AfV6 policy_live w \<and> own_script_blocks AfV6 scripts) (tabinv AfV6 (closed_from g t0))" for v4
    by (rule triple_bind_pure [OF some]) (auto simp: own_script_blocks_def intro: triple_ret)
  then show "triple (tabinv f (guarded_if g)) (bindp (apply_family rs AfV4) (\<lambda>v4.
       bindp (if with_v6 then bindp (apply_family rs AfV6) (\<lambda>script. ret (Some script)) else ret None) (\<lambda>v6. ret (v4, v6))))
     (\<lambda>scripts w. tabinv f policy_live w \<and> own_script_blocks f scripts) (tabinv f (closed_from g t0))"
    unfolding AfV6 using v6 frames(1) [of "guarded_if g" rs] by (auto intro: triple_bind [OF keeps_closed(1)])
qed

lemma finish_apply_live:
  "own_script_blocks f scripts \<Longrightarrow> keeps (tabinv f policy_live) (finish_apply with_v6 (fst scripts) (snd scripts))"
  by (cases f) (auto simp: own_script_blocks_def intro: finish_apply_v4 finish_apply_v6 split: option.splits)

lemma triple_apply_transition:
  assumes rs: "ends_blocking rs" and t0: "g \<longrightarrow> guarded t0 \<or> \<not> hooked t0" and f: "f = AfV4 \<or> with_v6"
  shows "triple (tabinv f (\<lambda>t. t = t0)) (apply_transition rs with_v6) (\<lambda>_. tabinv f policy_live) (tabinv f (closed_from g t0))"
  unfolding apply_transition_parts case_prod_beta
  by (rule triple_bind_pure [OF triple_build_chains [OF rs t0 f]]) (rule keeps_closed(2) [OF finish_apply_live])

text \<open>Until \<open>finish_transition\<close> the marker stays; after it the policy is live.\<close>

lemma marker_build_chains: "keeps transition_marker (build_chains rs with_v6)"
  unfolding build_chains_def marker_fst by (intro keeps_rules files.program_keeps)

lemma triple_finish_transition:
  "triple (\<lambda>w. I w \<and> transition_marker w) m (\<lambda>_. I) (\<lambda>w. transition_marker w \<or> I w)" if "keeps I m" for I and m :: "'a fw3"
  using that by (fastforce simp: keeps_def triple_def split: outcome.splits)

lemma marker_or_live:
  assumes "own_script_blocks f scripts"
  shows "triple (\<lambda>w. tabinv f policy_live w \<and> transition_marker w) (finish_apply with_v6 (fst scripts) (snd scripts))
    (\<lambda>_. tabinv f policy_live) (\<lambda>w. transition_marker w \<or> tabinv f policy_live w)"
  by (rule triple_finish_transition [OF finish_apply_live [OF assms]])

lemma triple_transition_marker:
  assumes rs: "ends_blocking rs" and t0: "guarded t0 \<or> \<not> hooked t0" and f: "f = AfV4 \<or> with_v6"
  shows "triple (\<lambda>w. tabinv f (\<lambda>t. t = t0) w \<and> transition_marker w) (apply_transition rs with_v6)
    (\<lambda>_. tabinv f policy_live) (\<lambda>w. transition_marker w \<or> tabinv f policy_live w)"
proof -
  have t0': "True \<longrightarrow> guarded t0 \<or> \<not> hooked t0" using t0 by simp
  have "triple (\<lambda>w. tabinv f (\<lambda>t. t = t0) w \<and> transition_marker w) (build_chains rs with_v6)
      (\<lambda>scripts w. (tabinv f policy_live w \<and> transition_marker w) \<and> own_script_blocks f scripts)
      (\<lambda>w. transition_marker w \<or> tabinv f policy_live w)"
    by (rule triple_conseq [OF triple_frame [OF triple_build_chains [OF rs t0' f] marker_build_chains]]) auto
  then show ?thesis
    unfolding apply_transition_parts case_prod_beta
    by (rule triple_bind_pure) (rule marker_or_live)
qed

text \<open>The two checks and the lock leave the world alone.\<close>

lemma apply_entry:
  "fw3_apply rs w =
     (if \<not> runtime_dir_ok w then (Failed RuntimeDir, w)
      else if \<not> lock_free w then (Failed StateLock, w)
      else if w_ipv6 w = Unusable then (Failed Ipv6Unusable, w)
      else thenp begin_transition (apply_transition rs (w_ipv6 w = Enabled)) w)"
  by (simp add: fw3_apply_def ensure_runtime_dir_def lock_fw3_state_def thenp_def bindp_def asks_def ret_def fail_def)

lemma fw3_apply_closed:
  assumes run: "fw3_apply rs w = (r, w')" and rs: "ends_blocking rs"
    and active: "family = AfV4 \<or> w_ipv6 w = Enabled"
    and start: "g \<longrightarrow> guarded (kernel w family Filter) \<or> \<not> hooked (kernel w family Filter)"
  shows "case r of Done _ \<Rightarrow> policy_live (kernel w' family Filter)
    | _ \<Rightarrow> closed_from g (kernel w family Filter) (kernel w' family Filter)"
proof -
  let ?t0 = "kernel w family Filter"
  have "triple (tabinv family (\<lambda>t. t = ?t0)) (thenp begin_transition (apply_transition rs (w_ipv6 w = Enabled)))
      (\<lambda>_. tabinv family policy_live) (tabinv family (closed_from g ?t0))"
    by (rule triple_then [OF keeps_closed(3) [OF keeps_files(1)] triple_apply_transition [OF rs start active]])
  then show ?thesis
    using run by (cases r) (auto simp: apply_entry triple_def tabinv_def closed_from_def split: if_splits)
qed

lemma fw3_apply_done:
  assumes "fw3_apply rs w = (Done a, w')" and "ends_blocking rs" and "family = AfV4 \<or> w_ipv6 w = Enabled"
  shows "policy_live (kernel w' family Filter)"
  using fw3_apply_closed [OF assms, of False] by simp

text \<open>C10: the fw3 backend fails closed. Applying a compiled policy, with any commands failing and a crash
  allowed before each of them: on success the policy's own chains are live ahead of every foreign rule on
  both egress hooks; after an error or a crash, if the family was guarded or not yet hooked, its filter
  table is either exactly what it was or guarded by a blocking chain.\<close>

theorem fw3_apply_fails_closed:
  assumes "fw3_apply (compile_with contains mwan3 policy u) w = (r, w')"
    and "family = AfV4 \<or> w_ipv6 w = Enabled"
  shows "case r of Done _ \<Rightarrow> policy_live (kernel w' family Filter)
    | _ \<Rightarrow> guarded (kernel w family Filter) \<or> \<not> hooked (kernel w family Filter) \<longrightarrow>
          kernel w' family Filter = kernel w family Filter \<or> guarded (kernel w' family Filter)"
proof -
  let ?g = "guarded (kernel w family Filter) \<or> \<not> hooked (kernel w family Filter)"
  have "case r of Done _ \<Rightarrow> policy_live (kernel w' family Filter)
      | _ \<Rightarrow> closed_from ?g (kernel w family Filter) (kernel w' family Filter)"
    by (rule fw3_apply_closed [OF assms(1) compile_ends_blocking assms(2)]) simp
  then show ?thesis by (cases r) (auto simp: closed_from_def guarded_if_def)
qed

text \<open>C14: a crash or an error in the middle of an apply is never silent. Unless the family's filter table
  is untouched or the policy is already live, the transition marker that makes the firewall include
  install the emergency block is still in place.\<close>

theorem fw3_apply_leaves_marker:
  assumes "fw3_apply (compile_with contains mwan3 policy u) w = (r, w')"
    and "family = AfV4 \<or> w_ipv6 w = Enabled"
    and "guarded (kernel w family Filter) \<or> \<not> hooked (kernel w family Filter)"
  shows "kernel w' family Filter = kernel w family Filter \<or> transition_marker w' \<or> policy_live (kernel w' family Filter)"
proof -
  let ?t0 = "kernel w family Filter"
  have start: "triple (tabinv family (\<lambda>t. t = ?t0)) begin_transition
      (\<lambda>_ v. tabinv family (\<lambda>t. t = ?t0) v \<and> transition_marker v) (tabinv family (\<lambda>t. t = ?t0))"
    unfolding begin_transition_def triple_def file_op_def next_fault_def tabinv_def
    by (auto split: list.splits fault.splits outcome.splits)
  let ?fin = "\<lambda>v. tabinv family (\<lambda>t. t = ?t0) v \<or> transition_marker v \<or> tabinv family policy_live v"
  have "triple (tabinv family (\<lambda>t. t = ?t0))
      (thenp begin_transition (apply_transition (compile_with contains mwan3 policy u) (w_ipv6 w = Enabled)))
      (\<lambda>_. ?fin) ?fin"
    unfolding thenp_def
    by (rule triple_bind [OF triple_conseq [OF start]], simp, assumption, simp,
        rule triple_conseq [OF triple_transition_marker [OF compile_ends_blocking assms(3,2)]]) auto
  then show ?thesis
    using assms(1) by (cases r) (auto simp: apply_entry triple_def tabinv_def split: if_splits)
qed

definition sample_world :: "fault list \<Rightarrow> fw3_world" where
  "sample_world fs = \<lparr>kernel = (\<lambda>_ _. \<lparr>tb_hooks = (\<lambda>_. []), tb_chains = (\<lambda>_. None)\<rparr>), transition_marker = False,
     rules_v4 = None, rules_v6 = None, faults = fs, connmark_ext = (\<lambda>_. True), owner_ext = (\<lambda>_. True),
     w_ipv6 = Enabled, runtime_dir_ok = True, lock_free = True\<rparr>"

lemma sample_world_unhooked: "\<not> hooked (kernel (sample_world fs) family Filter)"
  by (simp add: sample_world_def hooked_def JUMPS_def)

lemma sample_world_ipv6: "w_ipv6 (sample_world fs) = Enabled"
  by (simp add: sample_world_def)

theorem fw3_apply_fails_closed_witness:
  "case fst (fw3_apply (compile_with cidr_contains [] sample_blocked sample_uplink) (sample_world [Works, Works, Works, Dies])) of
     Done _ \<Rightarrow> policy_live (kernel (snd (fw3_apply (compile_with cidr_contains [] sample_blocked sample_uplink)
       (sample_world [Works, Works, Works, Dies]))) AfV4 Filter)
   | _ \<Rightarrow> kernel (snd (fw3_apply (compile_with cidr_contains [] sample_blocked sample_uplink)
         (sample_world [Works, Works, Works, Dies]))) AfV4 Filter = kernel (sample_world [Works, Works, Works, Dies]) AfV4 Filter
       \<or> guarded (kernel (snd (fw3_apply (compile_with cidr_contains [] sample_blocked sample_uplink)
         (sample_world [Works, Works, Works, Dies]))) AfV4 Filter)"
  using fw3_apply_fails_closed [of cidr_contains "[]" sample_blocked sample_uplink
      "sample_world [Works, Works, Works, Dies]" "fst (fw3_apply (compile_with cidr_contains [] sample_blocked sample_uplink)
        (sample_world [Works, Works, Works, Dies]))" "snd (fw3_apply (compile_with cidr_contains [] sample_blocked sample_uplink)
        (sample_world [Works, Works, Works, Dies]))" AfV4]
  by (simp add: sample_world_unhooked split: outcome.splits)

theorem fw3_apply_leaves_marker_witness:
  "kernel (snd (fw3_apply (compile_with cidr_contains [] sample_connected sample_uplink) (sample_world [Works, CmdFails, Works, Dies]))) AfV6 Filter
      = kernel (sample_world [Works, CmdFails, Works, Dies]) AfV6 Filter
    \<or> transition_marker (snd (fw3_apply (compile_with cidr_contains [] sample_connected sample_uplink) (sample_world [Works, CmdFails, Works, Dies])))
    \<or> policy_live (kernel (snd (fw3_apply (compile_with cidr_contains [] sample_connected sample_uplink) (sample_world [Works, CmdFails, Works, Dies]))) AfV6 Filter)"
  by (rule fw3_apply_leaves_marker [OF prod.collapse [symmetric]]) (simp_all add: sample_world_unhooked sample_world_ipv6)

subsection \<open>The emergency jumps are removed exhaustively\<close>

lemma count_remove1: "x \<in> set xs \<Longrightarrow> count_list xs x = Suc (count_list (remove1 x xs) x)"
  by (induction xs) auto

lemma delete_jumps_fuel:
  "count_list (tb_hooks (kernel w f Filter) h) (''-j '' @ c) < n \<Longrightarrow> count_list (tb_hooks (kernel w f Filter) h) (''-j '' @ c) < m \<Longrightarrow>
     delete_jumps n f h c w = delete_jumps m f h c w"
proof (induction n arbitrary: m w)
  case (Suc n)
  then obtain m' where m: "m = Suc m'" by (cases m) auto
  have step: "delete_jumps n f h c v = delete_jumps m' f h c v"
    if "''-j '' @ c \<in> set (tb_hooks (kernel w f Filter) h)"
      "tb_hooks (kernel v f Filter) h = remove1 (''-j '' @ c) (tb_hooks (kernel w f Filter) h)" for v
    using Suc.prems m count_remove1 [OF that(1)] by (intro Suc.IH) (simp_all add: that(2))
  show ?case
    unfolding m delete_jumps.simps output_of_cmd_def bindp_def spawn_def next_fault_def ret_def fail_def
    by (auto split: list.splits fault.splits intro!: step)
qed simp

text \<open>C17: the loop that deletes the emergency jumps ends: once it is allowed more rounds than the hook chain
  has rules, more rounds change nothing, whatever commands fail.\<close>

theorem emergency_removal_loop_ends:
  "delete_jumps (Suc (length (tb_hooks (kernel w family Filter) hook)) + n) family hook c w =
     delete_jumps (Suc (length (tb_hooks (kernel w family Filter) hook))) family hook c w"
proof -
  have "count_list xs x \<le> length xs" for xs :: "string list" and x
    by (rule count_le_length)
  then show ?thesis
    by (intro delete_jumps_fuel) (simp_all add: le_imp_less_Suc less_SucI trans_le_add1)
qed

end
