(* ===== verification/FW_Backend.thy ===== *)
theory FW_Backend
  imports FW_Fw3_Safety
begin

text \<open>
  The firewall handle above the two backends: \<open>openwrt/fw4.rs\<close> (one nft transaction per apply and reset),
  the skip logic of \<open>openwrt/mod.rs\<close>, the kill-switch wrapper of \<open>nym-firewall/src/lib.rs\<close>, the lock of
  \<open>openwrt/fw3.rs\<close>, the directory check and the probe memo of \<open>openwrt/common.rs\<close> and the detection of
  \<open>openwrt/detect.rs\<close>. What a backend promises its client is the locale \<open>backend\<close>; it is interpreted on
  the model of \<open>run_backend\<close>.
\<close>

subsection \<open>Detection\<close>

datatype firewall_system = Fw3 | Fw4 | UnknownFw

record fw_probe =
  is_openwrt :: bool
  fw4_live :: bool
  fw3_live :: bool
  firewall_init_script :: "string option"
  file_exists :: "string \<Rightarrow> bool"

definition ascii_alphanumeric :: "char \<Rightarrow> bool" where
  "ascii_alphanumeric c =
     (let n = of_char c :: nat in (48 \<le> n \<and> n \<le> 57) \<or> (65 \<le> n \<and> n \<le> 90) \<or> (97 \<le> n \<and> n \<le> 122))"

fun split_tokens :: "(char \<Rightarrow> bool) \<Rightarrow> string \<Rightarrow> string list" where
  "split_tokens sep [] = [[]]"
| "split_tokens sep (c # cs) =
     (case split_tokens sep cs of
        [] \<Rightarrow> [[]]
      | w # ws \<Rightarrow> if sep c then [] # w # ws else (c # w) # ws)"

definition script_names :: "string \<Rightarrow> string \<Rightarrow> bool" where
  "script_names script word = List.member (split_tokens (\<lambda>c. \<not> ascii_alphanumeric c) script) word"

definition detect_with :: "fw_probe \<Rightarrow> firewall_system" where
  "detect_with probe =
     (if \<not> is_openwrt probe then UnknownFw
      else if fw4_live probe then Fw4
      else if fw3_live probe then Fw3
      else
        (let by_files = (if list_ex (file_exists probe) [''/sbin/fw4'', ''/usr/sbin/fw4''] then Fw4
                         else if list_ex (file_exists probe) [''/sbin/fw3'', ''/usr/sbin/fw3''] then Fw3
                         else UnknownFw)
         in case firewall_init_script probe of
              Some script \<Rightarrow>
                if script_names script ''fw4'' then Fw4
                else if script_names script ''fw3'' then Fw3
                else by_files
            | None \<Rightarrow> by_files))"

text \<open>\<open>detect_system\<close> with its process-wide cache.\<close>

definition detect_system :: "firewall_system option \<Rightarrow> fw_probe \<Rightarrow> firewall_system \<times> firewall_system option" where
  "detect_system cache probe =
     (case cache of
        Some s \<Rightarrow> (s, cache)
      | None \<Rightarrow>
          (let detected = detect_with probe
           in (detected, if detected \<noteq> UnknownFw then Some detected else None)))"

subsection \<open>The runtime directory\<close>

datatype create_result = Created | AlreadyExists | CreateFailed

record dir_meta =
  md_symlink :: bool
  md_dir :: bool
  md_uid :: u32
  md_mode :: u32

datatype dir_error = CannotCreate | CannotStat | IsSymlink | NotDirectory | WrongOwner u32 | OpenMode u32

definition ensure_runtime_dir_at :: "create_result \<Rightarrow> dir_meta option \<Rightarrow> u32 \<Rightarrow> dir_error option" where
  "ensure_runtime_dir_at created stat expected_uid =
     (if created = CreateFailed then Some CannotCreate
      else case stat of
        None \<Rightarrow> Some CannotStat
      | Some meta \<Rightarrow>
          if md_symlink meta then Some IsSymlink
          else if \<not> md_dir meta then Some NotDirectory
          else if md_uid meta \<noteq> expected_uid then Some (WrongOwner (md_uid meta))
          else (let mode = and (md_mode meta) 0x1FF in
                if and mode 0x3F \<noteq> 0 then Some (OpenMode mode) else None))"

subsection \<open>The state lock\<close>

datatype lock_try = Locked | WouldBlock | LockErrno

datatype lock_result = LockAcquired nat | LockTimedOut | LockFailed

definition STATE_LOCK_TIMEOUT :: nat where "STATE_LOCK_TIMEOUT = 10000"
definition STATE_LOCK_POLL :: nat where "STATE_LOCK_POLL = 100"

fun lock_loop :: "(nat \<Rightarrow> lock_try) \<Rightarrow> (nat \<Rightarrow> nat) \<Rightarrow> nat \<Rightarrow> nat \<Rightarrow> nat \<Rightarrow> lock_result option" where
  "lock_loop attempt elapsed timeout i 0 = None"
| "lock_loop attempt elapsed timeout i (Suc fuel) =
     (case attempt i of
        Locked \<Rightarrow> Some (LockAcquired i)
      | LockErrno \<Rightarrow> Some LockFailed
      | WouldBlock \<Rightarrow>
          if elapsed i \<ge> timeout then Some LockTimedOut
          else lock_loop attempt elapsed timeout (Suc i) fuel)"

subsection \<open>The probe memo\<close>

text \<open>Instants and durations are milliseconds; \<open>saturating_duration_since\<close> is subtraction on \<open>nat\<close>.\<close>

definition PROBE_TTL :: nat where "PROBE_TTL = 5000"

type_synonym 'a memo = "(instant \<times> 'a list) option"

definition memo_get_at :: "instant \<Rightarrow> 'a list \<Rightarrow> 'a memo \<Rightarrow> 'a list \<times> 'a memo" where
  "memo_get_at now probe slot =
     (let fresh = (probe, if probe = [] then None else Some (now, probe))
      in case slot of
           Some (at, val) \<Rightarrow> if now - at < PROBE_TTL then (val, slot) else fresh
         | None \<Rightarrow> fresh)"

subsection \<open>The fw4 backend\<close>

datatype nft_stmt = ReplacePolicy rule_set | DeleteTable string

fun show_nft_stmt :: "nft_stmt \<Rightarrow> string" where
  "show_nft_stmt (ReplacePolicy rs) = nft_render rs"
| "show_nft_stmt (DeleteTable t) = delete_table t"

definition apply_stmts :: "rule_set \<Rightarrow> nft_stmt list" where
  "apply_stmts rs = [ReplacePolicy rs, DeleteTable FW4_BOOT_TABLE]"

definition reset_stmts :: "nft_stmt list" where
  "reset_stmts = map DeleteTable [NYM_TABLE, FW4_BOOT_TABLE]"

definition apply_script :: "rule_set \<Rightarrow> string" where
  "apply_script rs = concat (map show_nft_stmt (apply_stmts rs))"

definition reset_script :: string where
  "reset_script = concat (map show_nft_stmt reset_stmts)"

datatype nft_table = PolicyTable rule_set | ForeignTable

record router =
  r_fw3 :: fw3_world
  r_nft :: "string \<Rightarrow> nft_table option"
  r_nft_works :: "bool list"

text \<open>What a transaction leaves: each statement in turn, all of them or none.\<close>

fun nft_effect :: "nft_stmt \<Rightarrow> (string \<Rightarrow> nft_table option) \<Rightarrow> string \<Rightarrow> nft_table option" where
  "nft_effect (ReplacePolicy rs) k = k(NYM_TABLE \<mapsto> PolicyTable rs)"
| "nft_effect (DeleteTable t) k = k(t := None)"

definition run_nft_script :: "nft_stmt list \<Rightarrow> router \<Rightarrow> bool \<times> router" where
  "run_nft_script stmts r =
     (case r_nft_works r of
        False # ws \<Rightarrow> (False, r\<lparr>r_nft_works := ws\<rparr>)
      | ws \<Rightarrow> (True, r\<lparr>r_nft_works := tl ws, r_nft := fold nft_effect stmts (r_nft r)\<rparr>))"

definition fw4_apply :: "rule_set \<Rightarrow> router \<Rightarrow> bool \<times> router" where
  "fw4_apply rs r = (if runtime_dir_ok (r_fw3 r) then run_nft_script (apply_stmts rs) r else (False, r))"

definition fw4_reset :: "router \<Rightarrow> bool \<times> router" where
  "fw4_reset r = (if runtime_dir_ok (r_fw3 r) then run_nft_script reset_stmts r else (False, r))"

subsection \<open>The handle\<close>

datatype fw_target = TargetPolicy rule_set | TargetReset

record applied =
  ap_system :: firewall_system
  ap_target :: fw_target
  ap_at :: instant

record fw_handle =
  h_system :: firewall_system
  h_applied :: "applied option"

definition REAPPLY_AFTER :: nat where "REAPPLY_AFTER = 30000"

definition new_handle :: "firewall_system \<Rightarrow> fw_handle" where
  "new_handle detected = \<lparr>h_system = detected, h_applied = None\<rparr>"

definition refresh_system_if_unknown :: "firewall_system \<Rightarrow> fw_handle \<Rightarrow> fw_handle" where
  "refresh_system_if_unknown redetected h =
     (if h_system h = UnknownFw \<and> redetected \<noteq> UnknownFw then h\<lparr>h_system := redetected\<rparr> else h)"

definition skips :: "fw_target \<Rightarrow> bool \<Rightarrow> instant \<Rightarrow> fw_handle \<Rightarrow> bool" where
  "skips target force now h =
     (\<not> force \<and> (case h_applied h of
         None \<Rightarrow> False
       | Some a \<Rightarrow> ap_system a = h_system h \<and> ap_target a = target \<and> now - ap_at a < REAPPLY_AFTER))"

definition converge ::
  "(firewall_system \<Rightarrow> fw_target \<Rightarrow> 'w \<Rightarrow> bool \<times> 'w) \<Rightarrow> fw_target \<Rightarrow> bool \<Rightarrow> instant \<Rightarrow> fw_handle \<Rightarrow> 'w \<Rightarrow> bool \<times> fw_handle \<times> 'w" where
  "converge run target force now h w =
     (if skips target force now h then (True, h, w)
      else
        (let h = h\<lparr>h_applied := None\<rparr> in
         case run (h_system h) target w of
           (False, w) \<Rightarrow> (False, h, w)
         | (True, w) \<Rightarrow>
             (True, h\<lparr>h_applied := Some \<lparr>ap_system = h_system h, ap_target = target, ap_at = now\<rparr>\<rparr>, w)))"

definition run_backend :: "firewall_system \<Rightarrow> fw_target \<Rightarrow> router \<Rightarrow> bool \<times> router" where
  "run_backend system target r =
     (let fw3 = (\<lambda>prog. case prog (r_fw3 r) of
                   (Done _, w) \<Rightarrow> (True, r\<lparr>r_fw3 := w\<rparr>)
                 | (_, w) \<Rightarrow> (False, r\<lparr>r_fw3 := w\<rparr>))
      in case (system, target) of
           (Fw4, TargetPolicy rs) \<Rightarrow> fw4_apply rs r
         | (Fw4, TargetReset) \<Rightarrow> fw4_reset r
         | (Fw3, TargetPolicy rs) \<Rightarrow> fw3 (fw3_apply rs)
         | (UnknownFw, TargetPolicy rs) \<Rightarrow> fw3 (fw3_apply rs)
         | (_, TargetReset) \<Rightarrow> fw3 fw3_reset)"

text \<open>\<open>nym_firewall::Firewall\<close>: the handle behind the kill-switch flag, and what its callers ask of it.\<close>

record nym_firewall =
  nf_inner :: fw_handle
  nf_killswitch :: bool

definition set_killswitch :: "bool \<Rightarrow> nym_firewall \<Rightarrow> nym_firewall" where
  "set_killswitch on fw =
     (let inner = (if on \<noteq> nf_killswitch fw then (nf_inner fw)\<lparr>h_applied := None\<rparr> else nf_inner fw)
      in fw\<lparr>nf_inner := inner, nf_killswitch := on\<rparr>)"

datatype fw_op = OpApply rule_set | OpReset

definition op_target :: "bool \<Rightarrow> fw_op \<Rightarrow> fw_target \<times> bool" where
  "op_target killswitch op =
     (case op of
        OpApply rs \<Rightarrow> (if killswitch then (TargetPolicy rs, False) else (TargetReset, False))
      | OpReset \<Rightarrow> (TargetReset, True))"

definition firewall_op ::
  "(firewall_system \<Rightarrow> fw_target \<Rightarrow> 'w \<Rightarrow> bool \<times> 'w) \<Rightarrow> firewall_system \<Rightarrow> instant \<Rightarrow> fw_op \<Rightarrow> nym_firewall \<Rightarrow> 'w \<Rightarrow> bool \<times> nym_firewall \<times> 'w" where
  "firewall_op run detected now op fw w =
     (let inner = refresh_system_if_unknown detected (nf_inner fw);
          (target, force) = op_target (nf_killswitch fw) op;
          (ok, inner, w) = converge run target force now inner w
      in (ok, fw\<lparr>nf_inner := inner\<rparr>, w))"

subsection \<open>What a backend promises\<close>

text \<open>
  A backend call that reports success has put the target in force. \<open>remembers\<close> is the handle's
  invariant: what it believes to have applied is in force.
\<close>

definition remembers :: "(firewall_system \<Rightarrow> fw_target \<Rightarrow> 'w \<Rightarrow> bool) \<Rightarrow> fw_handle \<Rightarrow> 'w \<Rightarrow> bool" where
  "remembers enforced h w =
     (case h_applied h of None \<Rightarrow> True | Some a \<Rightarrow> enforced (ap_system a) (ap_target a) w)"

datatype fw_event = EvOp fw_op firewall_system instant | EvKillswitch bool

definition fw_step ::
  "(firewall_system \<Rightarrow> fw_target \<Rightarrow> 'w \<Rightarrow> bool \<times> 'w) \<Rightarrow> fw_event \<Rightarrow> nym_firewall \<times> 'w \<Rightarrow> nym_firewall \<times> 'w" where
  "fw_step run ev s =
     (case ev of
        EvOp op detected now \<Rightarrow> (case firewall_op run detected now op (fst s) (snd s) of (_, fw, w) \<Rightarrow> (fw, w))
      | EvKillswitch on \<Rightarrow> (set_killswitch on (fst s), snd s))"

locale backend =
  fixes run :: "firewall_system \<Rightarrow> fw_target \<Rightarrow> 'w \<Rightarrow> bool \<times> 'w"
    and enforced :: "firewall_system \<Rightarrow> fw_target \<Rightarrow> 'w \<Rightarrow> bool"
  assumes run_enforces: "run system target w = (True, w') \<Longrightarrow> enforced system target w'"
begin

lemma converge_enforces:
  assumes "remembers enforced h w" and "converge run target force now h w = (True, h', w')"
  shows "enforced (h_system h) target w'"
  using assms run_enforces
  by (auto simp: converge_def skips_def remembers_def Let_def split: if_splits option.splits prod.splits bool.splits)

lemma converge_remembers:
  assumes "remembers enforced h w" and "converge run target force now h w = (ok, h', w')"
  shows "remembers enforced h' w'"
  using assms run_enforces
  by (auto simp: converge_def remembers_def Let_def split: if_splits option.splits prod.splits bool.splits)

lemma unskipped_enforces:
  assumes "\<not> skips target force now h" and "converge run target force now h w = (True, h', w')"
  shows "enforced (h_system h) target w'"
  using assms run_enforces by (auto simp: converge_def Let_def split: prod.splits bool.splits)

lemma refresh_remembers: "remembers enforced (refresh_system_if_unknown s h) w = remembers enforced h w"
  by (simp add: remembers_def refresh_system_if_unknown_def)

lemma set_killswitch_remembers: "remembers enforced (nf_inner fw) w \<Longrightarrow> remembers enforced (nf_inner (set_killswitch on fw)) w"
  by (simp add: remembers_def set_killswitch_def)

lemma firewall_op_remembers:
  assumes "remembers enforced (nf_inner fw) w" and "firewall_op run detected now op fw w = (ok, fw', w')"
  shows "remembers enforced (nf_inner fw') w'"
  using assms converge_remembers [of "refresh_system_if_unknown detected (nf_inner fw)" w]
  by (auto simp: firewall_op_def refresh_remembers split: prod.splits)

lemma fw_step_remembers: "remembers enforced (nf_inner (fst s)) (snd s) \<Longrightarrow>
    remembers enforced (nf_inner (fst (fw_step run ev s))) (snd (fw_step run ev s))"
  using firewall_op_remembers
  by (cases ev) (auto simp: fw_step_def set_killswitch_remembers split: prod.splits)

lemma history_remembers: "remembers enforced (nf_inner (fst s)) (snd s) \<Longrightarrow>
    remembers enforced (nf_inner (fst (fold (fw_step run) evs s))) (snd (fold (fw_step run) evs s))"
  by (induction evs arbitrary: s) (simp_all add: fw_step_remembers)

lemma op_enforces:
  assumes "remembers enforced (nf_inner fw) w" and "firewall_op run detected now op fw w = (True, fw', w')"
  shows "enforced (h_system (refresh_system_if_unknown detected (nf_inner fw))) (fst (op_target (nf_killswitch fw) op)) w'"
  using assms converge_enforces [of "refresh_system_if_unknown detected (nf_inner fw)" w]
  by (auto simp: firewall_op_def refresh_remembers split: prod.splits)

end

subsection \<open>The backends keep the promise\<close>

definition fw3_clean :: "fw3_world \<Rightarrow> bool" where
  "fw3_clean w = (\<not> transition_marker w \<and> rules_v4 w = None \<and> rules_v6 w = None)"

definition router_enforces :: "firewall_system \<Rightarrow> fw_target \<Rightarrow> router \<Rightarrow> bool" where
  "router_enforces system target r =
     (case (system, target) of
        (Fw4, TargetPolicy rs) \<Rightarrow> r_nft r NYM_TABLE = Some (PolicyTable rs) \<and> r_nft r FW4_BOOT_TABLE = None
      | (Fw4, TargetReset) \<Rightarrow> r_nft r NYM_TABLE = None \<and> r_nft r FW4_BOOT_TABLE = None
      | (_, TargetPolicy rs) \<Rightarrow>
          ends_blocking rs \<longrightarrow>
            policy_live (kernel (r_fw3 r) AfV4 Filter)
            \<and> (w_ipv6 (r_fw3 r) = Enabled \<longrightarrow> policy_live (kernel (r_fw3 r) AfV6 Filter))
      | (_, TargetReset) \<Rightarrow> fw3_clean (r_fw3 r))"

text \<open>No fw3 program changes whether the kernel has IPv6.\<close>

abbreviation same_ipv6 :: "ipv6_status \<Rightarrow> fw3_world \<Rightarrow> bool" where
  "same_ipv6 s w \<equiv> snd (snd (snd (state_files w))) = s"

lemma ipv6_file_op: "(\<And>w. w_ipv6 (eff w) = w_ipv6 w) \<Longrightarrow> keeps (same_ipv6 s) (file_op e eff)"
  unfolding keeps_def triple_def file_op_def next_fault_def state_files_def
  by (auto split: list.splits fault.splits outcome.splits)

lemma ipv6_files: "keeps (same_ipv6 s) begin_transition" "keeps (same_ipv6 s) finish_transition" "keeps (same_ipv6 s) (persist_state a b)"
  unfolding begin_transition_def finish_transition_def persist_state_def
  by (intro keeps_rules ipv6_file_op; simp)+

lemma ipv6_apply: "keeps (same_ipv6 s) (thenp begin_transition (apply_transition rs with_v6))"
  unfolding apply_transition_def remove_emergency_blocks_def
  by (intro keeps_rules ipv6_files files.program_keeps)

lemma fw3_apply_ipv6: "fw3_apply rs w = (r, w') \<Longrightarrow> w_ipv6 w' = w_ipv6 w"
  using keeps_run [OF ipv6_apply [of "w_ipv6 w" rs "w_ipv6 w = Enabled"], of w]
  by (auto simp: apply_entry state_files_def split: if_splits)

lemma fw3_apply_enforces:
  assumes "fw3_apply rs w = (Done a, w')" and "ends_blocking rs"
  shows "policy_live (kernel w' AfV4 Filter) \<and> (w_ipv6 w' = Enabled \<longrightarrow> policy_live (kernel w' AfV6 Filter))"
  using fw3_apply_done [OF assms] fw3_apply_ipv6 [OF assms(1)] by auto

lemma fw3_reset_clean:
  assumes "fw3_reset w = (Done a, w')"
  shows "fw3_clean w'"
proof -
  let ?cleared = "\<lambda>v. case state_files v of (m, v4, v6, s) \<Rightarrow> v4 = None \<and> v6 = None"
  let ?clean = "\<lambda>v. case state_files v of (m, v4, v6, s) \<Rightarrow> \<not> m \<and> v4 = None \<and> v6 = None"
  have clear: "triple (\<lambda>_. True) clear_persisted_state (\<lambda>_. ?cleared) (\<lambda>_. True)"
    unfolding clear_persisted_state_def thenp_def triple_def bindp_def file_op_def next_fault_def state_files_def
    by (auto split: list.splits fault.splits outcome.splits prod.splits)
  have finish: "triple ?cleared finish_transition (\<lambda>_. ?clean) (\<lambda>_. True)"
    unfolding finish_transition_def triple_def file_op_def next_fault_def state_files_def
    by (auto split: list.splits fault.splits outcome.splits)
  have wk: "triple I m (\<lambda>_. I) (\<lambda>_. True)" if "keeps I m" for I and m :: "unit fw3"
    by (rule triple_conseq [OF keeps_triple [OF that]]) simp_all
  have cleanup: "triple ?cleared (cleanup_filter g) (\<lambda>_. ?cleared) (\<lambda>_. True)"
    "triple ?cleared (cleanup_mangle g) (\<lambda>_. ?cleared) (\<lambda>_. True)" for g
    unfolding cleanup_filter_def by (intro wk keeps_rules files.cmd_keeps files.mangle_keeps)+
  have blocks: "triple ?clean (remove_emergency_blocks v6) (\<lambda>_. ?clean) (\<lambda>_. True)" for v6
    unfolding remove_emergency_blocks_def by (intro wk keeps_rules files.program_keeps)
  have any: "triple (\<lambda>_. True) m (\<lambda>_ _. True) (\<lambda>_. True)" for m :: "'a fw3"
    by (simp add: triple_def split: outcome.splits)
  have "triple (\<lambda>_. True) fw3_reset (\<lambda>_. ?clean) (\<lambda>_. True)"
    unfolding fw3_reset_def
    by (rule triple_then [OF any triple_then [OF any triple_bind [OF any triple_then [OF any triple_then [OF clear
          triple_then [OF cleanup(1) triple_then [OF cleanup(2) triple_then [OF cleanup(1) triple_then [OF cleanup(2)
          triple_then [OF finish blocks]]]]]]]]]])
  then show ?thesis
    using assms by (fastforce simp: triple_def fw3_clean_def state_files_def)
qed

lemma run_backend_fw4:
  assumes "run_backend Fw4 target w = (True, w')"
  shows "router_enforces Fw4 target w'"
proof -
  have "NYM_TABLE \<noteq> FW4_BOOT_TABLE" by (simp add: NYM_TABLE_def FW4_BOOT_TABLE_def)
  then show ?thesis
    using assms
    by (cases target) (auto simp: run_backend_def router_enforces_def fw4_apply_def fw4_reset_def run_nft_script_def
        apply_stmts_def reset_stmts_def split: if_splits list.splits bool.splits)
qed

lemma run_backend_fw3:
  assumes "run_backend system target w = (True, w')" and "system \<noteq> Fw4"
  shows "router_enforces system target w'"
proof -
  define prog where prog: "prog = (case target of TargetPolicy rs \<Rightarrow> fw3_apply rs | TargetReset \<Rightarrow> fw3_reset)"
  obtain r v where rv: "prog (r_fw3 w) = (r, v)" by (cases "prog (r_fw3 w)")
  have "run_backend system target w =
      (case prog (r_fw3 w) of (Done _, v) \<Rightarrow> (True, w\<lparr>r_fw3 := v\<rparr>) | (_, v) \<Rightarrow> (False, w\<lparr>r_fw3 := v\<rparr>))"
    unfolding run_backend_def prog Let_def using assms(2) by (cases system; cases target) simp_all
  then have "(case r of Done _ \<Rightarrow> (True, w\<lparr>r_fw3 := v\<rparr>) | _ \<Rightarrow> (False, w\<lparr>r_fw3 := v\<rparr>)) = (True, w')"
    unfolding rv assms(1) by (cases r) simp_all
  then have run: "prog (r_fw3 w) = (Done (), r_fw3 w')"
    unfolding rv by (cases r) auto
  show ?thesis
  proof (cases target)
    case (TargetPolicy rs)
    then have "fw3_apply rs (r_fw3 w) = (Done (), r_fw3 w')" using run prog by simp
    from fw3_apply_enforces [OF this] show ?thesis
      using TargetPolicy assms(2) by (cases system) (simp_all add: router_enforces_def)
  next
    case TargetReset
    then have "fw3_reset (r_fw3 w) = (Done (), r_fw3 w')" using run prog by simp
    from fw3_reset_clean [OF this] show ?thesis
      using TargetReset assms(2) by (cases system) (simp_all add: router_enforces_def)
  qed
qed

interpretation router: backend run_backend router_enforces
proof
  show "run_backend system target w = (True, w') \<Longrightarrow> router_enforces system target w'" for system target w w'
    by (cases "system = Fw4") (blast intro: run_backend_fw4 run_backend_fw3)+
qed

subsection \<open>Properties of the handle\<close>


definition sample_router :: router where
  "sample_router = \<lparr>r_fw3 = sample_world [], r_nft = (\<lambda>_. None), r_nft_works = [True, False]\<rparr>"

definition sample_handle :: fw_handle where
  "sample_handle = \<lparr>h_system = Fw4, h_applied = Some \<lparr>ap_system = Fw4, ap_target = TargetPolicy rs_default, ap_at = 0\<rparr>\<rparr>"

lemma sample_history:
  "fold (fw_step run_backend) [EvOp (OpApply rs_default) Fw4 0] (\<lparr>nf_inner = new_handle Fw4, nf_killswitch = True\<rparr>, sample_router)
   = (\<lparr>nf_inner = sample_handle, nf_killswitch = True\<rparr>,
      sample_router\<lparr>r_nft_works := [False], r_nft := fold nft_effect (apply_stmts rs_default) (\<lambda>_. None)\<rparr>)"
  by (simp add: fw_step_def firewall_op_def new_handle_def refresh_system_if_unknown_def op_target_def converge_def
      skips_def run_backend_def fw4_apply_def run_nft_script_def sample_router_def sample_world_def sample_handle_def)


text \<open>C15: a change made behind the daemon's back is repaired. Whatever the router's state is, an operation
  that reports success once the last apply is at least \<open>REAPPLY_AFTER\<close> old has run the backend, and the
  router enforces what was asked.\<close>

theorem stale_apply_repairs:
  assumes "h_applied (nf_inner fw) = Some a" and "ap_at a + REAPPLY_AFTER \<le> now"
    and "firewall_op run_backend detected now op fw w = (True, fw', w')"
  shows "router_enforces (h_system (refresh_system_if_unknown detected (nf_inner fw)))
    (fst (op_target (nf_killswitch fw) op)) w'"
proof -
  let ?h = "refresh_system_if_unknown detected (nf_inner fw)"
  have "\<not> skips target force now ?h" for target force
    using assms(1,2) by (auto simp: skips_def refresh_system_if_unknown_def)
  then show ?thesis
    using assms(3) router.unskipped_enforces [of _ _ now ?h w]
    by (auto simp: firewall_op_def split: prod.splits)
qed

theorem stale_apply_repairs_witness:
  "router_enforces Fw4 TargetReset
     (snd (snd (firewall_op run_backend Fw4 30000 (OpApply rs_default)
       \<lparr>nf_inner = \<lparr>h_system = Fw4, h_applied = Some \<lparr>ap_system = Fw4, ap_target = TargetReset, ap_at = 0\<rparr>\<rparr>, nf_killswitch = False\<rparr>
       sample_router)))"
proof -
  let ?fw = "\<lparr>nf_inner = \<lparr>h_system = Fw4, h_applied = Some \<lparr>ap_system = Fw4, ap_target = TargetReset, ap_at = 0\<rparr>\<rparr>, nf_killswitch = False\<rparr>"
  let ?op = "firewall_op run_backend Fw4 30000 (OpApply rs_default) ?fw sample_router"
  have "fst ?op"
    by (simp add: firewall_op_def refresh_system_if_unknown_def op_target_def converge_def skips_def REAPPLY_AFTER_def
        run_backend_def fw4_reset_def run_nft_script_def sample_router_def sample_world_def)
  then have "?op = (True, fst (snd ?op), snd (snd ?op))" by (simp add: prod_eq_iff)
  from stale_apply_repairs [OF _ _ this] show ?thesis
    by (simp add: REAPPLY_AFTER_def refresh_system_if_unknown_def op_target_def)
qed

lemma lock_loop_ends:
  assumes "\<And>i. elapsed i \<ge> i * STATE_LOCK_POLL" and "timeout \<le> (i + fuel) * STATE_LOCK_POLL"
  shows "lock_loop attempt elapsed timeout i (Suc fuel) \<noteq> None"
  using assms(2)
proof (induction fuel arbitrary: i)
  case 0
  then show ?case using assms(1) [of i] by (auto split: lock_try.splits intro: le_trans)
next
  case (Suc fuel)
  then show ?case using Suc.IH [of "Suc i"] by (auto split: lock_try.splits)
qed

lemma lock_loop_sound:
  "lock_loop attempt elapsed timeout i fuel = Some (LockAcquired k) \<Longrightarrow> attempt k = Locked \<and> i \<le> k"
  by (induction attempt elapsed timeout i fuel rule: lock_loop.induct) (auto split: lock_try.splits if_splits)

text \<open>Waiting for the state lock is bounded. If each round takes at least the poll interval, the loop
  ends within 101 attempts of the default timeout, and it reports the lock as taken only in a round in
  which it was taken.\<close>

theorem lock_wait_bounded:
  assumes "\<And>i. elapsed i \<ge> i * STATE_LOCK_POLL"
  shows "\<exists>r. lock_loop attempt elapsed STATE_LOCK_TIMEOUT 0 101 = Some r \<and> (\<forall>k. r = LockAcquired k \<longrightarrow> attempt k = Locked)"
proof -
  have "lock_loop attempt elapsed STATE_LOCK_TIMEOUT 0 (Suc 100) \<noteq> None"
    by (rule lock_loop_ends [OF assms]) (simp add: STATE_LOCK_TIMEOUT_def STATE_LOCK_POLL_def)
  then obtain r where "lock_loop attempt elapsed STATE_LOCK_TIMEOUT 0 101 = Some r" by auto
  then show ?thesis using lock_loop_sound by blast
qed

theorem lock_wait_bounded_witness:
  "\<exists>r. lock_loop (\<lambda>_. WouldBlock) (\<lambda>i. i * 100) STATE_LOCK_TIMEOUT 0 101 = Some r \<and> (\<forall>k. r = LockAcquired k \<longrightarrow> WouldBlock = Locked)"
  by (rule lock_wait_bounded) (simp add: STATE_LOCK_POLL_def)

text \<open>Calls of the memo, oldest first: when they were made and what the probe would have answered.\<close>

definition memo_run :: "(instant \<times> 'a list) list \<Rightarrow> 'a memo" where
  "memo_run calls = fold (\<lambda>(now, probe) slot. snd (memo_get_at now probe slot)) calls None"

lemma memo_slot: "memo_run calls = Some (at, val) \<Longrightarrow> val \<noteq> [] \<and> (at, val) \<in> set calls"
  unfolding memo_run_def
proof (induction calls rule: rev_induct)
  case (snoc c calls)
  then show ?case
    by (cases c) (auto simp: memo_get_at_def Let_def split: option.splits prod.splits if_splits)
qed simp

text \<open>A probe answer is never older than \<open>PROBE_TTL\<close> and a failed probe is never remembered: after any
  calls, what the memo answers is either the current probe's answer or a non-empty answer an earlier call
  got from its probe less than \<open>PROBE_TTL\<close> ago.\<close>

theorem memo_answer_fresh:
  "fst (memo_get_at now probe (memo_run calls)) = probe
    \<or> (\<exists>at. (at, fst (memo_get_at now probe (memo_run calls))) \<in> set calls \<and> now - at < PROBE_TTL
         \<and> fst (memo_get_at now probe (memo_run calls)) \<noteq> [])"
  using memo_slot [of calls] by (auto simp: memo_get_at_def Let_def split: option.splits)

end
