(* ===== verification/Tunnel_Router.thy ===== *)
theory Tunnel_Router
  imports Tunnel_Contract FW_Backend
begin

text \<open>
  The tunnel state machine on a router: its firewall calls go through \<open>nym_firewall::Firewall\<close> to the fw3 or fw4
  backend, whose commands may fail; every other call answers as an arbitrary list of answers says. The
  interpretation discharges the laws of the machine's world, and the end-to-end properties follow.
\<close>

datatype dns_mode = DnsTunnel string resolved_dns_config | DnsIdle idle_dns | DnsWan | DnsBeforeRemoval | DnsUnset

record router_world =
  rw_firewall :: nym_firewall
  rw_router :: router
  rw_detected :: firewall_system
  rw_mwan3 :: "ip_addr list"
  rw_uplink :: uplink
  rw_clock :: instant
  rw_answers :: "bool list"
  rw_dns :: dns_mode
  rw_routes :: bool
  rw_paused :: bool
  rw_pins :: "resolver_overrides option"
  rw_account_pins :: "resolver_overrides option"
  rw_account_firewall :: bool
  rw_account_desynced :: bool
  rw_cached_endpoints :: "socket_addr list"
  rw_monitors :: "tunnel_parameters list"
  rw_cancelled :: "monitor_id list"

definition answer :: "router_world \<Rightarrow> bool \<times> router_world" where
  "answer w = (case rw_answers w of [] \<Rightarrow> (True, w) | b # bs \<Rightarrow> (b, w\<lparr>rw_answers := bs\<rparr>))"

definition when_ok :: "(router_world \<Rightarrow> router_world) \<Rightarrow> router_world \<Rightarrow> bool \<times> router_world" where
  "when_ok f w = (case answer w of (ok, w) \<Rightarrow> (ok, if ok then f w else w))"

definition router_op :: "fw_op \<Rightarrow> router_world \<Rightarrow> bool \<times> router_world" where
  "router_op op w =
     (case firewall_op run_backend (rw_detected w) (rw_clock w) op (rw_firewall w) (rw_router w) of
        (ok, fw, r) \<Rightarrow> (ok, w\<lparr>rw_firewall := fw, rw_router := r\<rparr>))"

fun discovery_effect :: "discovery_command \<Rightarrow> router_world \<Rightarrow> router_world" where
  "discovery_effect (Pause b) w = w\<lparr>rw_paused := b\<rparr>"
| "discovery_effect (UseResolverOverrides pins) w = w\<lparr>rw_pins := pins\<rparr>"

definition router_ops :: "lib_env \<Rightarrow> router_world world_ops" where
  "router_ops le =
     \<lparr>w_lib = le,
      w_now = rw_clock,
      w_offline = (\<lambda>w. apfst Not (answer w)),
      w_fw_set_killswitch = (\<lambda>on w. w\<lparr>rw_firewall := set_killswitch on (rw_firewall w)\<rparr>),
      w_fw_apply = (\<lambda>p w. router_op (OpApply (compile_with (le_contains le) (rw_mwan3 w) p (rw_uplink w))) w),
      w_fw_reset = router_op OpReset,
      w_dns_set = (\<lambda>i c. when_ok (rw_dns_update (\<lambda>_. DnsTunnel i c))),
      w_dns_reset = when_ok (rw_dns_update (\<lambda>_. DnsWan)),
      w_dns_reset_idle = (\<lambda>idle. when_ok (rw_dns_update (\<lambda>_. DnsIdle idle))),
      w_dns_reset_before_interface_removal = when_ok (rw_dns_update (\<lambda>_. DnsBeforeRemoval)),
      w_remove_routes = rw_routes_update (\<lambda>_. False),
      w_discovery = discovery_effect,
      w_account_overrides = (\<lambda>pins. when_ok (rw_account_pins_update (\<lambda>_. pins))),
      w_account_firewall = (\<lambda>up. rw_account_firewall_update (\<lambda>_. up)),
      w_account_time_desynced = rw_account_desynced,
      w_account_refresh = id,
      w_api_reachable = (\<lambda>_. answer),
      w_save_endpoints = (\<lambda>eps. rw_cached_endpoints_update (\<lambda>_. eps)),
      w_start_monitor = (\<lambda>ps w. (length (rw_monitors w), w\<lparr>rw_monitors := rw_monitors w @ [ps]\<rparr>)),
      w_cancel_monitor = (\<lambda>m. rw_cancelled_update (\<lambda>ms. m # ms))\<rparr>"

subsection \<open>A sealed router\<close>

text \<open>
  Sealed: on fw3 every family the kernel has is guarded, or on fw4 a blocking table is loaded, the boot block
  or a policy. Either is enough, for a packet passes both.
\<close>

definition fw3_sealed :: "fw3_world \<Rightarrow> bool" where
  "fw3_sealed w = (guarded (kernel w AfV4 Filter) \<and> (w_ipv6 w = Enabled \<longrightarrow> guarded (kernel w AfV6 Filter)))"

definition fw4_sealed :: "router \<Rightarrow> bool" where
  "fw4_sealed r =
     (r_nft r FW4_BOOT_TABLE \<noteq> None
      \<or> (case r_nft r NYM_TABLE of Some (PolicyTable rs) \<Rightarrow> ends_blocking rs | _ \<Rightarrow> False))"

definition router_sealed :: "router \<Rightarrow> bool" where
  "router_sealed r = (fw3_sealed (r_fw3 r) \<or> fw4_sealed r)"

lemma fw3_apply_seals:
  assumes "fw3_apply rs w = (r, w')" "ends_blocking rs" "fw3_sealed w"
  shows "fw3_sealed w'"
proof -
  have family: "guarded (kernel w' family Filter)" if "family = AfV4 \<or> w_ipv6 w = Enabled" for family
  proof -
    have start: "guarded (kernel w family Filter)"
      using assms(3) that by (cases family) (auto simp: fw3_sealed_def)
    with fw3_apply_closed [OF assms(1,2) that, of True] show ?thesis
      by (cases r) (auto simp: closed_from_def guarded_if_def policy_live_guarded)
  qed
  then show ?thesis using fw3_apply_ipv6 [OF assms(1)] by (simp add: fw3_sealed_def)
qed

lemma run_backend_seals:
  assumes "run_backend system (TargetPolicy rs) r = (ok, r')" "ends_blocking rs" "router_sealed r"
  shows "router_sealed r'"
proof (cases "system = Fw4")
  case True
  have "NYM_TABLE \<noteq> FW4_BOOT_TABLE" by (simp add: NYM_TABLE_def FW4_BOOT_TABLE_def)
  with True assms show ?thesis
    by (auto simp: run_backend_def fw4_apply_def run_nft_script_def apply_stmts_def router_sealed_def fw4_sealed_def
        split: if_splits list.splits bool.splits)
next
  case False
  obtain o' v where v: "fw3_apply rs (r_fw3 r) = (o', v)" by fastforce
  have "r' = r\<lparr>r_fw3 := v\<rparr>"
    using assms(1) False v by (cases system; cases o') (auto simp: run_backend_def Let_def)
  then show ?thesis
    using assms(3) fw3_apply_seals [OF v assms(2)] by (auto simp: router_sealed_def fw4_sealed_def)
qed

lemma enforcing_seals: "router_enforces system (TargetPolicy rs) r \<Longrightarrow> ends_blocking rs \<Longrightarrow> router_sealed r"
  by (cases system) (auto simp: router_enforces_def router_sealed_def fw3_sealed_def fw4_sealed_def policy_live_guarded)

subsection \<open>The laws hold on the router\<close>

type_synonym fw_view = "nym_firewall \<times> router \<times> firewall_system \<times> ip_addr list \<times> uplink"

definition fw_part :: "router_world \<Rightarrow> fw_view" where
  "fw_part w = (rw_firewall w, rw_router w, rw_detected w, rw_mwan3 w, rw_uplink w)"

definition fw_sane :: "fw_view \<Rightarrow> bool" where
  "fw_sane = (\<lambda>(fw, r, _). remembers router_enforces (nf_inner fw) r)"

definition fw_flag :: "fw_view \<Rightarrow> bool" where
  "fw_flag = (\<lambda>(fw, _). nf_killswitch fw)"

definition fw_confident :: "fw_view \<Rightarrow> bool" where
  "fw_confident = (\<lambda>(fw, _). h_applied (nf_inner fw) \<noteq> None)"

definition fw_enforced :: "lib_env \<Rightarrow> firewall_policy option \<Rightarrow> fw_view \<Rightarrow> bool" where
  "fw_enforced le goal = (\<lambda>(fw, r, _, mwan3, u).
     router_enforces (h_system (nf_inner fw))
       (case goal of Some p \<Rightarrow> TargetPolicy (compile_with (le_contains le) mwan3 p u) | None \<Rightarrow> TargetReset) r)"

definition fw_sealed :: "fw_view \<Rightarrow> bool" where
  "fw_sealed = (\<lambda>(_, r, _). router_sealed r)"

lemmas fw_defs = fw_part_def fw_sane_def fw_flag_def fw_confident_def fw_enforced_def fw_sealed_def

lemma answer_frame: "answer w = (b, w') \<Longrightarrow> fw_part w' = fw_part w"
  by (auto simp: answer_def fw_part_def split: list.splits)

lemma when_ok_frame: "when_ok f w = (b, w') \<Longrightarrow> (\<And>w. fw_part (f w) = fw_part w) \<Longrightarrow> fw_part w' = fw_part w"
  by (auto simp: when_ok_def answer_frame split: prod.splits if_splits dest!: answer_frame)

lemma firewall_op_handle:
  assumes "firewall_op run detected now op fw w = (ok, fw', w')"
  shows "h_system (nf_inner fw') = h_system (refresh_system_if_unknown detected (nf_inner fw))"
    and "nf_killswitch fw' = nf_killswitch fw" and "\<not> ok \<Longrightarrow> h_applied (nf_inner fw') = None"
  using assms by (auto simp: firewall_op_def converge_def Let_def split: prod.splits if_splits bool.splits)

lemma firewall_op_seals:
  assumes "firewall_op run_backend detected now (OpApply rs) fw r = (ok, fw', r')" "nf_killswitch fw"
    and "ends_blocking rs" "router_sealed r"
  shows "router_sealed r'"
  using assms run_backend_seals [OF _ assms(3,4)]
  by (auto simp: firewall_op_def op_target_def converge_def Let_def split: prod.splits if_splits bool.splits)

lemma router_op_cases:
  assumes "router_op op w = (ok, w')"
  obtains fw r where "firewall_op run_backend (rw_detected w) (rw_clock w) op (rw_firewall w) (rw_router w) = (ok, fw, r)"
    and "w' = w\<lparr>rw_firewall := fw, rw_router := r\<rparr>"
  using assms by (auto simp: router_op_def split: prod.splits)

lemma router_op_sane:
  assumes "router_op op w = (ok, w')" "fw_sane (fw_part w)"
  shows "fw_sane (fw_part w')"
proof -
  obtain fw r where run: "firewall_op run_backend (rw_detected w) (rw_clock w) op (rw_firewall w) (rw_router w) = (ok, fw, r)"
    "w' = w\<lparr>rw_firewall := fw, rw_router := r\<rparr>" by (rule router_op_cases [OF assms(1)])
  show ?thesis using router.firewall_op_remembers [OF _ run(1)] assms(2) run(2) by (simp add: fw_part_def fw_sane_def)
qed

lemma router_op_refused:
  assumes "router_op op w = (False, w')"
  shows "\<not> fw_confident (fw_part w')"
proof -
  obtain fw r where run: "firewall_op run_backend (rw_detected w) (rw_clock w) op (rw_firewall w) (rw_router w) = (False, fw, r)"
    "w' = w\<lparr>rw_firewall := fw, rw_router := r\<rparr>" by (rule router_op_cases [OF assms])
  show ?thesis using firewall_op_handle(3) [OF run(1)] run(2) by (simp add: fw_part_def fw_confident_def)
qed

lemma router_op_enforces:
  assumes "router_op op w = (True, w')" "fw_sane (fw_part w)"
  shows "router_enforces (h_system (nf_inner (rw_firewall w'))) (fst (op_target (nf_killswitch (rw_firewall w)) op)) (rw_router w')"
    and "rw_mwan3 w' = rw_mwan3 w" "rw_uplink w' = rw_uplink w"
proof -
  obtain fw r where run: "firewall_op run_backend (rw_detected w) (rw_clock w) op (rw_firewall w) (rw_router w) = (True, fw, r)"
    "w' = w\<lparr>rw_firewall := fw, rw_router := r\<rparr>" by (rule router_op_cases [OF assms(1)])
  have "remembers router_enforces (nf_inner (rw_firewall w)) (rw_router w)" using assms(2) by (simp add: fw_part_def fw_sane_def)
  from router.op_enforces [OF this run(1)]
  show "router_enforces (h_system (nf_inner (rw_firewall w'))) (fst (op_target (nf_killswitch (rw_firewall w)) op)) (rw_router w')"
    by (simp add: run(2) firewall_op_handle(1) [OF run(1)])
  show "rw_mwan3 w' = rw_mwan3 w" "rw_uplink w' = rw_uplink w" by (simp_all add: run(2))
qed

lemma router_op_seals:
  assumes "router_op (OpApply rs) w = (ok, w')" "fw_flag (fw_part w)" "ends_blocking rs" "fw_sealed (fw_part w)"
  shows "fw_sealed (fw_part w')"
proof -
  obtain fw r where run: "firewall_op run_backend (rw_detected w) (rw_clock w) (OpApply rs) (rw_firewall w) (rw_router w) = (ok, fw, r)"
    "w' = w\<lparr>rw_firewall := fw, rw_router := r\<rparr>" by (rule router_op_cases [OF assms(1)])
  show ?thesis
    using firewall_op_seals [OF run(1) _ assms(3)] assms(2,4) run(2) by (simp add: fw_part_def fw_flag_def fw_sealed_def)
qed

lemma router_frames:
  "w_offline (router_ops le) w = (b, w') \<Longrightarrow> fw_part w' = fw_part w"
  "w_dns_set (router_ops le) i c w = (b, w') \<Longrightarrow> fw_part w' = fw_part w"
  "w_dns_reset (router_ops le) w = (b, w') \<Longrightarrow> fw_part w' = fw_part w"
  "w_dns_reset_idle (router_ops le) d w = (b, w') \<Longrightarrow> fw_part w' = fw_part w"
  "w_dns_reset_before_interface_removal (router_ops le) w = (b, w') \<Longrightarrow> fw_part w' = fw_part w"
  "w_account_overrides (router_ops le) pins w = (b, w') \<Longrightarrow> fw_part w' = fw_part w"
  "w_api_reachable (router_ops le) addrs w = (b, w') \<Longrightarrow> fw_part w' = fw_part w"
  by (simp_all add: router_ops_def when_ok_def answer_def fw_part_def split: list.splits if_splits) auto

lemma discovery_frame: "fw_part (discovery_effect dc w) = fw_part w"
  by (cases dc) (simp_all add: fw_part_def)

interpretation on_router: firewall_world "router_ops le" fw_part fw_sane fw_flag fw_confident "fw_enforced le" fw_sealed for le
proof
  fix w w' :: router_world and p ok
  let ?rs = "compile_with (le_contains le) (rw_mwan3 w) p (rw_uplink w)"
  have apply_op: "w_fw_apply (router_ops le) p w = router_op (OpApply ?rs) w" by (simp add: router_ops_def)
  have reset_op: "w_fw_reset (router_ops le) w = router_op OpReset w" by (simp add: router_ops_def)
  show "w_fw_apply (router_ops le) p w = (ok, w') \<Longrightarrow> fw_sane (fw_part w) \<Longrightarrow> fw_sane (fw_part w')"
    unfolding apply_op by (rule router_op_sane)
  show "w_fw_apply (router_ops le) p w = (False, w') \<Longrightarrow> \<not> fw_confident (fw_part w')"
    unfolding apply_op by (rule router_op_refused)
  show applied: "fw_enforced le (if fw_flag (fw_part w) then Some p else None) (fw_part w')"
    if "w_fw_apply (router_ops le) p w = (True, w')" "fw_sane (fw_part w)"
    using router_op_enforces [OF that [unfolded apply_op]]
    by (cases "nf_killswitch (rw_firewall w)") (simp_all add: fw_part_def fw_flag_def fw_enforced_def op_target_def)
  show "fw_sealed (fw_part w')"
    if "w_fw_apply (router_ops le) p w = (ok, w')" "fw_sane (fw_part w)" "fw_flag (fw_part w)" "ok \<or> fw_sealed (fw_part w)"
  proof (cases ok)
    case True
    with that applied have "fw_enforced le (Some p) (fw_part w')" by simp
    then show ?thesis
      using enforcing_seals [OF _ compile_ends_blocking] by (auto simp: fw_part_def fw_enforced_def fw_sealed_def)
  next
    case False
    with that show ?thesis by (auto simp: apply_op intro: router_op_seals [OF _ _ compile_ends_blocking])
  qed
  show "w_fw_reset (router_ops le) w = (ok, w') \<Longrightarrow> fw_sane (fw_part w) \<Longrightarrow> fw_sane (fw_part w')"
    unfolding reset_op by (rule router_op_sane)
  show "w_fw_reset (router_ops le) w = (False, w') \<Longrightarrow> \<not> fw_confident (fw_part w')"
    unfolding reset_op by (rule router_op_refused)
  show "fw_enforced le None (fw_part w')" if "w_fw_reset (router_ops le) w = (True, w')" "fw_sane (fw_part w)"
    using router_op_enforces [OF that [unfolded reset_op]] by (simp add: fw_part_def fw_enforced_def op_target_def)
  show "fw_sane (fw_part (w_fw_set_killswitch (router_ops le) on w)) \<and> fw_flag (fw_part (w_fw_set_killswitch (router_ops le) on w)) = on
      \<and> fw_sealed (fw_part (w_fw_set_killswitch (router_ops le) on w)) = fw_sealed (fw_part w)" if "fw_sane (fw_part w)" for on
    using router.set_killswitch_remembers [of "rw_firewall w" "rw_router w" on] that
    by (simp add: router_ops_def fw_part_def fw_sane_def fw_flag_def fw_sealed_def set_killswitch_def Let_def)
qed (auto simp: router_frames, auto simp: router_ops_def discovery_frame, auto simp: fw_part_def)

subsection \<open>From start to shutdown\<close>

text \<open>Between two events nothing but the daemon changes the firewall; clocks, answers and the rest may change.\<close>

definition undisturbed :: "router_world \<Rightarrow> router_world \<Rightarrow> bool" where
  "undisturbed w w' = (fw_part w' = fw_part w)"

interpretation machine_on_router: machine_environment "router_ops le" fw_part fw_sane fw_flag fw_confident "fw_enforced le"
    fw_sealed undisturbed for le
  by unfold_locales (simp add: undisturbed_def)

lemma router_lib [simp]: "w_lib (router_ops le) = le"
  by (simp add: router_ops_def)

text \<open>A router with fw4 and the boot block loaded whose second nft run fails, its kill-switch on.\<close>

definition sample_env :: lib_env where
  "sample_env = \<lparr>le_contains = cidr_contains, le_default_dns = []\<rparr>"

definition sample_router_world :: router_world where
  "sample_router_world =
     \<lparr>rw_firewall = \<lparr>nf_inner = new_handle Fw4, nf_killswitch = True\<rparr>,
      rw_router = sample_router\<lparr>r_nft := [FW4_BOOT_TABLE \<mapsto> ForeignTable]\<rparr>, rw_detected = Fw4, rw_mwan3 = [], rw_uplink = sample_uplink,
      rw_clock = 0, rw_answers = [], rw_dns = DnsUnset, rw_routes = False, rw_paused = False, rw_pins = None,
      rw_account_pins = None, rw_account_firewall = False, rw_account_desynced = False, rw_cached_endpoints = [],
      rw_monitors = [], rw_cancelled = []\<rparr>"

definition sample_start :: "(tunnel_state \<times> private_tunnel_state) \<times> router_world shared_state" where
  "sample_start = run_state (spawn_machine (router_ops sample_env)) (initial_shared_state sample_settings \<lparr>bk_map = [], bk_poisoned = False\<rparr> [] sample_router_world)"

definition sample_offline :: "next_tunnel_state \<times> router_world shared_state" where
  "sample_offline = run_state (handle_event (router_ops sample_env) (fst (fst sample_start)) (ConnectivityChanged True)) (snd sample_start)"

lemma sample_run:
  "machine_run (router_ops sample_env) undisturbed (fst (fst sample_start)) (snd sample_start) [ConnectivityChanged True]
     (fst sample_offline) (snd sample_offline)"
proof -
  have "machine_run (router_ops sample_env) undisturbed (fst (fst sample_start)) (snd sample_start) ([] @ [ConnectivityChanged True])
     (fst sample_offline) (snd sample_offline)"
    by (rule run_event [OF run_start, where w = "sh_world (snd sample_start)"])
       (simp_all add: undisturbed_def sample_offline_def)
  then show ?thesis by simp
qed

lemma sample_started: "\<exists>a. fst (fst sample_start) = StDisconnected a" "sh_settings (snd sample_start) = sample_settings"
  by (simp_all add: sample_start_def spawn_machine_def initial_shared_state_def enter_disconnected_def enter_idle_firewall_def
      clear_short_session_strikes_def start_access_def schedule_def disconnected_reset_dns_def allow_networking_def
      reset_resolver_overrides_def clock_def api_endpoints_refresh_due_def query_def act_def gets_def modify_def ignore_def
      router_ops_def router_op_def answer_def when_ok_def sample_router_world_def sample_settings_def firewall_op_def
      new_handle_def refresh_system_if_unknown_def op_target_def converge_def skips_def run_backend_def fw4_apply_def
      run_nft_script_def sample_router_def sample_world_def set_killswitch_def idle_resolver_pins_def)

lemma sample_router_facts:
  "remembers router_enforces (nf_inner (rw_firewall sample_router_world)) (rw_router sample_router_world)"
  "router_sealed (rw_router sample_router_world)" "ts_killswitch sample_settings"
  "run_state (spawn_machine (router_ops sample_env)) (initial_shared_state sample_settings \<lparr>bk_map = [], bk_poisoned = False\<rparr> [] sample_router_world)
    = ((fst (fst sample_start), snd (fst sample_start)), snd sample_start)"
  by (simp_all add: sample_router_world_def remembers_def new_handle_def router_sealed_def fw4_sealed_def sample_settings_def
      sample_start_def)



text \<open>C23: with the kill-switch on a sealed router stays sealed. From a router that blocks at start (the boot
  block or an earlier policy) and through any events, the shutdown of the daemon included, with any firewall
  command failing or the process dying in the middle of an fw3 apply, the router blocks as long as no command
  turns the kill-switch off.\<close>

theorem killswitch_stays_sealed:
  assumes "remembers router_enforces (nf_inner (rw_firewall w)) (rw_router w)"
    and "router_sealed (rw_router w)" and "ts_killswitch settings"
    and "run_state (spawn_machine (router_ops le)) (initial_shared_state settings blacklisted cached w) = ((st0, private), s0)"
    and "machine_run (router_ops le) undisturbed st0 s0 evs n s"
    and "\<And>settings'. Command (SetTunnelSettings settings') \<in> set evs \<Longrightarrow> ts_killswitch settings'"
  shows "router_sealed (rw_router (sh_world s))"
proof -
  have "on_router.held (initial_shared_state settings blacklisted cached w)"
    unfolding on_router.held_def using assms(1-3) by (simp add: fw_part_def fw_sane_def fw_sealed_def initial_shared_state_def)
  from machine_on_router.spawned_held [OF this assms(4,5)] have "on_router.held s" using assms(6) by auto
  then show ?thesis unfolding on_router.held_def by (simp add: fw_part_def fw_sealed_def)
qed

theorem killswitch_stays_sealed_witness: "router_sealed (rw_router (sh_world (snd sample_offline)))"
  by (rule killswitch_stays_sealed [OF sample_router_facts sample_run]) simp

end
