(* ===== verification/Tunnel_Progress.thy ===== *)
theory Tunnel_Progress
  imports Tunnel_Router
begin

text \<open>
  What the tunnel state machine does whatever the world answers: a requested shutdown ends it, the allow-list
  of the disconnected state is kept up to date, and settings that do not bear on the selection keep the
  gateways.
\<close>

lemma always_new_state [always_rules]: "always (\<lambda>(st, private) s. Q (NewState st private) s) m \<Longrightarrow> always Q (new_state m)"
  by (simp add: always_def wp_new_state split_def)

lemma always_same_state [always_rules]: "(\<And>s. Q (SameState st) s) \<Longrightarrow> always Q (same_state st)"
  by (simp add: always_def wp_same_state)

subsection \<open>Shutdown\<close>

text \<open>How many more polls of the cancelled token a state needs.\<close>

fun shutdown_rank :: "tunnel_state \<Rightarrow> nat" where
  "shutdown_rank (StConnecting cs) = 3"
| "shutdown_rank (StConnected ds) = 3"
| "shutdown_rank (StDisconnecting after waiting) = 2"
| "shutdown_rank (StDisconnected a) = 1"
| "shutdown_rank (StError reason a) = 1"
| "shutdown_rank (StOffline reconnect gateways lan) = 1"

lemma shutdown_rank_pos: "0 < shutdown_rank st"
  by (cases st) simp_all

lemma shutdown_rank_le: "shutdown_rank st \<le> 3"
  by (cases st) simp_all

definition nearer_end :: "tunnel_state \<Rightarrow> next_tunnel_state \<Rightarrow> 's \<Rightarrow> bool" where
  "nearer_end st n s = (n = Finished \<or> (\<exists>st'. resumed n = Some st' \<and> shutdown_rank st' < shutdown_rank st))"

lemma ranks_entered:
  "always (\<lambda>(st, _) _. shutdown_rank st = 1) (enter_error io reason)"
  "always (\<lambda>(st, _) _. shutdown_rank st = 1) (enter_disconnected io)"
  "always (\<lambda>(st, _) _. shutdown_rank st = 2) (enter_disconnecting io after monitor)"
  unfolding enter_error_def enter_disconnected_def enter_disconnecting_def by (intro always_rules; simp)+

lemma shutdown_step: "always (nearer_end st) (handle_event io st ShutdownRequested)"
proof (cases st)
  case (StConnecting cs)
  then show ?thesis
    unfolding handle_event_def handle_connecting_def connecting_stop_def connecting_disconnect_def
    by (simp, intro always_rules ranks_entered [THEN always_mono]) (auto simp: nearer_end_def)
next
  case (StConnected ds)
  then show ?thesis
    unfolding handle_event_def handle_connected_def connected_disconnect_def
    by (simp, intro always_rules ranks_entered [THEN always_mono]) (auto simp: nearer_end_def)
next
  case (StDisconnecting after waiting)
  have "always (nearer_end st) (new_state (enter_disconnected io))"
    using StDisconnecting by (intro always_rules ranks_entered [THEN always_mono]) (auto simp: nearer_end_def)
  with StDisconnecting show ?thesis by (cases waiting) (simp_all add: handle_event_def handle_disconnecting_def)
qed (simp_all add: handle_event_def handle_disconnected_def handle_error_def handle_offline_def,
     (intro always_rules; simp add: nearer_end_def)+)

lemma shutdown_run:
  assumes "\<And>w. \<exists>w'. env w w'"
  shows "(\<exists>j\<le>k. \<exists>t. machine_run io env st s (replicate j ShutdownRequested) Finished t)
    \<or> (\<exists>n st' t. machine_run io env st s (replicate k ShutdownRequested) n t \<and> resumed n = Some st' \<and> shutdown_rank st' + k \<le> 3)"
proof (induction k)
  case 0
  have "machine_run io env st s (replicate 0 ShutdownRequested) (SameState st) s" by (simp add: run_start)
  then show ?case using shutdown_rank_le [of st] by (metis add.right_neutral resumed.simps(2))
next
  case (Suc k)
  then show ?case
  proof (elim disjE exE conjE)
    fix n st' t
    assume run: "machine_run io env st s (replicate k ShutdownRequested) n t" and st': "resumed n = Some st'"
      and rank: "shutdown_rank st' + k \<le> 3"
    obtain w where w: "env (sh_world t) w" using assms by blast
    obtain n' t' where step: "run_state (handle_event io st' ShutdownRequested) (t\<lparr>sh_world := w\<rparr>) = (n', t')" by fastforce
    from run_event [OF run st' w step]
    have run': "machine_run io env st s (replicate (Suc k) ShutdownRequested) n' t'"
      by (simp add: replicate_append_same)
    have "nearer_end st' n' t'" using wp_run [OF always_wp [OF shutdown_step] step] .
    then show ?case using run' rank by (fastforce simp: nearer_end_def)
  qed (use le_SucI in blast)
qed

text \<open>C29: a requested shutdown ends the machine. From every state, whatever the firewall, DNS and account calls
  answer and however the rest of the world moves between two events, the machine has finished after at most
  three polls of the cancelled token: leave the tunnel, wait for it to close, finish.\<close>

theorem shutdown_finishes:
  assumes "\<And>w. \<exists>w'. env w w'"
  shows "\<exists>k\<le>3. \<exists>t. machine_run io env st s (replicate k ShutdownRequested) Finished t"
proof -
  have "\<not> shutdown_rank st' + 3 \<le> 3" for st' using shutdown_rank_pos [of st'] by simp
  then show ?thesis using shutdown_run [where env = env and k = 3 and io = io and st = st and s = s, OF assms] by blast
qed

theorem shutdown_finishes_witness:
  "\<forall>(io :: unit world_ops) st s. \<exists>k\<le>3. \<exists>t. machine_run io (=) st s (replicate k ShutdownRequested) Finished t"
  by (intro allI shutdown_finishes) blast

subsection \<open>Allow-list upkeep\<close>

text \<open>In the disconnected state a resolution is in flight or the refresh timer is armed.\<close>

fun upkeep :: "tunnel_state \<Rightarrow> 'w shared_state \<Rightarrow> bool" where
  "upkeep (StDisconnected a) s = (ts_killswitch (sh_settings s) \<longrightarrow> ia_resolving a \<or> ia_timer a \<noteq> None)"
| "upkeep _ s = True"

lemma wp_schedule:
  assumes "\<And>a'. (ts_killswitch (sh_settings s) \<Longrightarrow> ia_resolving a' \<or> ia_timer a' \<noteq> None) \<Longrightarrow> Q a' s"
  shows "wp (schedule io a) Q s"
  using assms by (simp add: schedule_def clock_def api_endpoints_refresh_due_def plan_def arm_timer_def wp_rules)

lemma upkeep_entered:
  "always (\<lambda>(st, _). upkeep st) (enter_error io reason)"
  "always (\<lambda>(st, _). upkeep st) (enter_offline io reconnect gateways)"
  "always (\<lambda>(st, _). upkeep st) (enter_disconnecting io after monitor)"
  unfolding enter_error_def enter_offline_def enter_disconnecting_def by (intro always_rules; simp)+

lemma upkeep_scheduled: "always (\<lambda>(st, _). upkeep st) (do { a \<leftarrow> start_access io; State_Monad.return (StDisconnected a, private) })"
  unfolding always_def start_access_def by (auto simp: wp_rules intro!: wp_schedule)

lemma upkeep_entered_more:
  "always (\<lambda>(st, _). upkeep st) (enter_disconnected io)"
  "always (\<lambda>(st, _). upkeep st) (enter_connecting io retry selected)"
  "always (\<lambda>(st, _). upkeep st) (enter_connected io interface data selected' monitor)"
  unfolding enter_disconnected_def enter_connecting_def enter_connected_def
  by (intro always_rules upkeep_entered upkeep_scheduled; simp)+

lemma upkeep_new: "always (\<lambda>(st, _). upkeep st) m \<Longrightarrow> always (next_holds upkeep) (new_state m)"
  by (rule always_new_state, erule always_mono) auto

lemmas upkeep_all = upkeep_entered [THEN upkeep_new] upkeep_entered_more [THEN upkeep_new]

lemma upkeep_connecting_parts:
  "always (next_holds upkeep) (reconnect_attempt io cs)"
  "always (next_holds upkeep) (connecting_disconnect io after monitor)"
  "always (next_holds upkeep) (connecting_stop io cs)"
  "always (next_holds upkeep) (start_tunnel_monitor io resolved cs)"
  "always (next_holds upkeep) (connecting_policy_failed io cs)"
  "always (next_holds upkeep) (report_progress progress cs)"
  "always (next_holds upkeep) (connecting_up io interface data cs)"
  unfolding reconnect_attempt_def connecting_disconnect_def connecting_stop_def start_tunnel_monitor_def
    connecting_policy_failed_def report_progress_def connecting_up_def
  by (intro always_rules upkeep_all upkeep_new upkeep_entered upkeep_entered_more; simp)+

lemma upkeep_connecting_more:
  "always (next_holds upkeep) (connecting_down io reason cs)"
  "always (next_holds upkeep) (handle_resolved_gateway_config io result cs)"
  "always (next_holds upkeep) (connecting_set_settings io settings cs)"
  unfolding connecting_down_def handle_resolved_gateway_config_def connecting_set_settings_def
  by (intro always_rules upkeep_connecting_parts upkeep_all; simp)+

lemma upkeep_monitor_event: "always (next_holds upkeep) (connecting_monitor_event io ev cs)"
  unfolding connecting_monitor_event_def
  by (cases ev; simp; intro always_rules upkeep_connecting_parts upkeep_connecting_more; simp)

lemma upkeep_connecting: "always (next_holds upkeep) (handle_connecting io cs ev)"
  unfolding handle_connecting_def
  by (cases ev rule: event.exhaust; simp split: tunnel_command.splits;
      intro conjI impI allI always_rules upkeep_connecting_parts upkeep_connecting_more upkeep_monitor_event upkeep_all; simp)

lemma upkeep_connected_parts:
  "always (next_holds upkeep) (connected_disconnect io after ds)"
  "always (next_holds upkeep) (bandwidth_failure_end io culpable ds)"
  "always (next_holds upkeep) (ordinary_end io ds)"
  unfolding connected_disconnect_def bandwidth_failure_end_def ordinary_end_def
  by (intro always_rules upkeep_all; simp)+

lemma upkeep_connected: "always (next_holds upkeep) (handle_connected io ds ev)"
  unfolding handle_connected_def handle_tunnel_down_def connected_set_settings_def
  by (cases ev rule: event.exhaust; simp split: tunnel_command.splits monitor_event.splits;
      intro conjI impI allI always_rules upkeep_connected_parts upkeep_all; simp)

lemma upkeep_offline: "always (next_holds upkeep) (handle_offline io reconnect gateways lan ev)"
  unfolding handle_offline_def
  by (cases ev rule: event.exhaust; simp split: tunnel_command.splits;
      intro conjI impI allI always_rules upkeep_all; simp)

lemma upkeep_disconnecting: "always (next_holds upkeep) (handle_disconnecting io after waiting ev)"
proof -
  have "always (next_holds upkeep) (leave_disconnecting io after)"
    unfolding leave_disconnecting_def by (cases after) (simp_all add: upkeep_all)
  then show ?thesis
    unfolding handle_disconnecting_def
    by (cases waiting; cases ev rule: event.exhaust; simp split: tunnel_command.splits;
        intro conjI impI allI always_rules upkeep_all; simp)
qed

lemma upkeep_error: "always (next_holds upkeep) (handle_error io reason a ev)"
  unfolding handle_error_def
  by (cases ev rule: event.exhaust; simp split: tunnel_command.splits;
      intro conjI impI allI always_rules upkeep_all upkeep_new upkeep_entered upkeep_entered_more; simp)

lemma upkeep_rescheduled:
  "always (next_holds upkeep) (do { a \<leftarrow> schedule io a; same_state (StDisconnected a) })"
  unfolding always_def by (auto simp: wp_rules same_state_def intro!: wp_schedule)

lemma resolved_arms_timer: "always (\<lambda>r _. fst r \<longrightarrow> ia_timer (snd r) \<noteq> None) (handle_resolved io result a)"
  unfolding handle_resolved_def by (intro always_rules; simp add: arm_timer_def)

lemma upkeep_disconnected:
  assumes "upkeep (StDisconnected a) s"
  shows "wp (handle_disconnected io a ev) (next_holds upkeep) s"
proof -
  have same: "wp (same_state (StDisconnected a)) (next_holds upkeep) s"
    using assms by (simp add: same_state_def wp_rules)
  have resolved: "always (next_holds upkeep) (handle_disconnected io a (Resolved result))" for result
    unfolding handle_disconnected_def event.case
    by (rule always_bind_result [OF resolved_arms_timer]) (auto intro!: always_rules upkeep_all)
  show ?thesis
  proof (cases ev)
    case (Command c)
    show ?thesis
      by (cases c) (simp_all add: Command handle_disconnected_def same,
          (rule always_wp, intro always_rules upkeep_all upkeep_rescheduled)+)
  next
    case (Resolved result)
    show ?thesis using always_wp [OF resolved] by (simp add: Resolved)
  next
    case (ConnectivityChanged offline)
    show ?thesis by (simp add: ConnectivityChanged handle_disconnected_def same always_wp [OF upkeep_all(2)])
  next
    case TimerFired
    show ?thesis using always_wp [OF upkeep_rescheduled] by (simp add: TimerFired handle_disconnected_def)
  next
    case ShutdownRequested
    have "always (next_holds upkeep) (handle_disconnected io a ShutdownRequested)"
      unfolding handle_disconnected_def event.case by (intro always_rules) simp
    then show ?thesis using ShutdownRequested always_wp by simp
  qed (simp_all add: handle_disconnected_def same)
qed

lemma upkeep_step: "upkeep st s \<Longrightarrow> wp (handle_event io st ev) (next_holds upkeep) s"
  by (cases st) (simp_all only: handle_event_def tunnel_state.case upkeep_disconnected upkeep_connecting [THEN always_wp]
      upkeep_connected [THEN always_wp] upkeep_disconnecting [THEN always_wp] upkeep_error [THEN always_wp]
      upkeep_offline [THEN always_wp])

lemma upkeep_run: "machine_run io env st0 s0 evs n s \<Longrightarrow> upkeep st0 s0 \<Longrightarrow> next_holds upkeep n s"
proof (induction rule: machine_run.induct)
  case (run_event evs n s st w ev n' s')
  then have "upkeep st s" by (cases n) auto
  then have "upkeep st (s\<lparr>sh_world := w\<rparr>)" by (cases st) auto
  from wp_run [OF upkeep_step [OF this] run_event.hyps(4)] show ?case .
qed simp

lemma upkeep_spawned: "always (\<lambda>(st, _). upkeep st) (spawn_machine io)"
  unfolding spawn_machine_def by (intro always_rules upkeep_entered upkeep_entered_more)

text \<open>C32: with the kill-switch on the disconnected state never forgets its allow-list. Whenever the machine is
  disconnected, after any events and whatever the world does between them, a resolution of the API endpoints is
  in flight or the timer for the next one is armed.\<close>

theorem allow_list_upkeep:
  assumes "run_state (spawn_machine io) start = ((st0, private), s0)"
    and "machine_run io env st0 s0 evs n s" and "resumed n = Some (StDisconnected a)" and "ts_killswitch (sh_settings s)"
  shows "ia_resolving a \<or> ia_timer a \<noteq> None"
proof -
  have "upkeep st0 s0" using wp_run [OF always_wp [OF upkeep_spawned] assms(1)] by simp
  from upkeep_run [OF assms(2) this] show ?thesis using assms(3,4) by (cases n) auto
qed

theorem allow_list_upkeep_witness:
  "\<exists>a. fst (fst sample_start) = StDisconnected a \<and> (ia_resolving a \<or> ia_timer a \<noteq> None)"
proof -
  obtain a where a: "fst (fst sample_start) = StDisconnected a" using sample_started(1) by blast
  have "ia_resolving a \<or> ia_timer a \<noteq> None"
    using allow_list_upkeep [OF sample_router_facts(4) run_start [where env = undisturbed]] a sample_started(2) sample_router_facts(3)
    by simp
  with a show ?thesis by blast
qed

text \<open>
  In the error state it is forgotten: when the firewall refuses the allow-list just resolved, neither a
  resolution nor a timer is left, and only a command starts one again.
\<close>

lemma error_state_upkeep_lost:
  assumes "\<And>p w. \<exists>w'. w_fw_apply io p w = (False, w')" and "ts_killswitch (sh_settings s)"
  shows "wp (handle_error io reason \<lparr>ia_resolving = True, ia_timer = None\<rparr> (Resolved (Some resolved)))
    (\<lambda>n _. n = SameState (StError reason \<lparr>ia_resolving = False, ia_timer = None\<rparr>)) s"
proof -
  have "fst (w_fw_apply io p w) = False" for p w using assms(1) [of p w] by auto
  then show ?thesis using assms(2)
    by (simp add: handle_error_def handle_resolved_def install_idle_api_access_def adopt_resolved_api_endpoints_def
        enter_idle_firewall_def clock_def same_state_def wp_rules wp_query wp_act split_def)
qed

end
