(* ===== verification/Routing_Contract.thy ===== *)
theory Routing_Contract
  imports Routing
begin

text \<open>
  What the rules and routes of the route handler do to packets: where unmarked traffic goes while the tunnel is up,
  that the daemon's own traffic and the offline check do not see the tunnel, and that taking the routes down again
  restores the router, also after an addition that failed half-way.
\<close>

subsection \<open>Installing rules\<close>

text \<open>What the rule operations leave alone.\<close>

definition rules_only :: "route_world \<Rightarrow> route_world \<Rightarrow> bool" where
  "rules_only w0 w =
     (rw_routes w = rw_routes w0 \<and> rw_links w = rw_links w0 \<and> rw_iface_map w = rw_iface_map w0
      \<and> rw_added_routes w = rw_added_routes w0 \<and> rw_table_id w = rw_table_id w0 \<and> rw_fwmark w = rw_fwmark w0)"

lemma triple_run: "triple P m Q E \<Longrightarrow> P s \<Longrightarrow> m s = (Done a, s') \<Longrightarrow> Q a s'"
  by (fastforce simp: triple_def)

lemma triple_request:
  assumes "\<And>w as. P w \<Longrightarrow> Q () (effect (w\<lparr>rw_answers := as\<rparr>))" and "\<And>w as. P w \<Longrightarrow> E (w\<lparr>rw_answers := as\<rparr>)"
  shows "triple P (request effect) Q E"
proof -
  have "Q () (effect w)" if "P w" for w using assms(1) [OF that, of "rw_answers w"] by simp
  then show ?thesis
    unfolding triple_def request_def using assms by (auto split: list.splits netlink_answer.splits)
qed

lemma keeps_request: "(\<And>w as. I w \<Longrightarrow> I (w\<lparr>rw_answers := as\<rparr>)) \<Longrightarrow> (\<And>w. I w \<Longrightarrow> I (effect w)) \<Longrightarrow> keeps I (request effect)"
  unfolding keeps_def by (rule triple_request) simp_all

text \<open>After clearing, no rule is new; after creating, the wanted rules are there and nothing else is new.\<close>

definition rules_within :: "route_world \<Rightarrow> rule_message set \<Rightarrow> rule_message set \<Rightarrow> route_world \<Rightarrow> bool" where
  "rules_within w0 A B w = (rules_only w0 w \<and> A \<subseteq> set (rw_rules w) \<and> set (rw_rules w) \<subseteq> B)"

lemma delete_rule_within: "keeps (rules_within w0 {} B) (delete_rule_if_exists r)"
  unfolding delete_rule_if_exists_def
  by (intro keeps_catch keeps_request)
    (auto simp: rules_within_def rules_only_def dest: set_mp [OF set_remove1_subset] split: route_error.splits)

lemma clear_rules_within: "keeps (rules_within w0 {} B) clear_routing_rules"
  unfolding clear_routing_rules_def get_rules_def reply_def delete_matching_def
  by (intro keeps_rules keeps_request delete_rule_within) (auto simp: rules_within_def rules_only_def)

lemma new_rules_within:
  "triple (rules_within w0 A B) (for_each new_rule rs) (\<lambda>_. rules_within w0 (A \<union> set rs) (B \<union> set rs)) (\<lambda>_. True)"
proof (induction rs arbitrary: A B)
  case (Cons r rs)
  have "triple (rules_within w0 A B) (new_rule r) (\<lambda>_. rules_within w0 (A \<union> {r}) (B \<union> {r})) (\<lambda>_. True)"
    unfolding new_rule_def by (rule triple_request) (auto simp: rules_within_def rules_only_def)
  from triple_then [OF this Cons.IH] show ?case by (simp add: Un_assoc insert_commute)
qed (auto intro: triple_ret)

definition wanted_rules :: "bool \<Rightarrow> route_world \<Rightarrow> rule_message list" where
  "wanted_rules enable_ipv6 w =
     filter (\<lambda>r. ru_family r = AfInet \<or> enable_ipv6) (all_rules (rw_fwmark w) (rw_table_id w) True)"

lemma create_rules_within:
  "triple (rules_within w0 {} B) (create_routing_rules enable_ipv6 True)
     (\<lambda>_. rules_within w0 (set (wanted_rules enable_ipv6 w0)) (B \<union> set (wanted_rules enable_ipv6 w0))) (\<lambda>_. True)"
proof -
  have new: "triple (rules_within w0 {} B) (bindp (asks (\<lambda>w. all_rules (rw_fwmark w) (rw_table_id w) True))
      (\<lambda>ours. for_each new_rule (filter (\<lambda>r. ru_family r = AfInet \<or> enable_ipv6) ours)))
      (\<lambda>_. rules_within w0 (set (wanted_rules enable_ipv6 w0)) (B \<union> set (wanted_rules enable_ipv6 w0))) (\<lambda>_. True)"
  proof (rule triple_bind_pure [where ok = "\<lambda>ours. ours = all_rules (rw_fwmark w0) (rw_table_id w0) True" and R = "rules_within w0 {} B"])
    show "triple (rules_within w0 {} B) (asks (\<lambda>w. all_rules (rw_fwmark w) (rw_table_id w) True))
        (\<lambda>ours s. rules_within w0 {} B s \<and> ours = all_rules (rw_fwmark w0) (rw_table_id w0) True) (\<lambda>_. True)"
      by (rule triple_asks) (simp add: rules_within_def rules_only_def)
  qed (use new_rules_within [of w0 "{}" B "wanted_rules enable_ipv6 w0"] in \<open>simp add: wanted_rules_def\<close>)
  show ?thesis
    unfolding create_routing_rules_def
    by (rule triple_then [OF triple_conseq [OF keeps_triple [OF clear_rules_within]] new]) auto
qed

subsection \<open>Adding routes\<close>

text \<open>The index a device name stands for: the one of the cache and the one of the kernel.\<close>

definition device_index :: "route_world \<Rightarrow> string \<Rightarrow> u32 \<Rightarrow> bool" where
  "device_index w name i =
     (\<forall>j. find_iface_idx (rw_iface_map w) name = Some j \<or> find_iface_idx (link_map (rw_links w)) name = Some j \<longrightarrow> j = i)"

text \<open>The routes added so far, for an assignment of indices to device names.\<close>

definition route_message_of :: "(string \<Rightarrow> u32) \<Rightarrow> route \<Rightarrow> route_message" where
  "route_message_of index r = add_message r (map_option index (nd_device (rt_node r)))"

definition routes_added :: "(string \<Rightarrow> u32) \<Rightarrow> route_world \<Rightarrow> route list \<Rightarrow> route_world \<Rightarrow> bool" where
  "routes_added index w0 rs w =
     (rw_rules w = rw_rules w0 \<and> rw_links w = rw_links w0 \<and> rw_table_id w = rw_table_id w0 \<and> rw_fwmark w = rw_fwmark w0
      \<and> (rw_iface_map w = rw_iface_map w0 \<or> rw_iface_map w = link_map (rw_links w0))
      \<and> rw_routes w = fold kernel_add (map (route_message_of index) rs) (rw_routes w0))"

lemma find_index:
  assumes "\<And>name. device_index w0 name (index name)"
  shows "triple (routes_added index w0 rs) (find_iface_idx_or_refresh name)
    (\<lambda>i s. routes_added index w0 rs s \<and> (i = None \<or> i = Some (index name))) (\<lambda>_. True)"
proof -
  have known: "i = index name" if "find_iface_idx (rw_iface_map w) name = Some i" "routes_added index w0 rs w" for w i
    using assms [of name] that by (auto simp: device_index_def routes_added_def)
  have refreshed: "i = index name" if "find_iface_idx (link_map (rw_links w0)) name = Some i" for i
    using assms [of name] that by (auto simp: device_index_def)
  have "case r of Done i \<Rightarrow> routes_added index w0 rs s' \<and> (i = None \<or> i = Some (index name)) | _ \<Rightarrow> True"
    if "routes_added index w0 rs s" "find_iface_idx_or_refresh name s = (r, s')" for s r s'
  proof (cases "find_iface_idx (rw_iface_map s) name")
    case (Some i)
    then show ?thesis
      using that known [OF Some that(1)] by (auto simp: find_iface_idx_or_refresh_def bindp_def asks_def ret_def)
  next
    case None
    then show ?thesis
      using that refreshed
      by (auto simp: find_iface_idx_or_refresh_def bindp_def asks_def ret_def catchp_def initialize_link_map_def reply_def
          thenp_def request_def routes_added_def split: list.splits netlink_answer.splits option.splits)
        (metis option.exhaust)+
  qed
  then show ?thesis by (auto simp: triple_def)
qed

definition device_route :: "route \<Rightarrow> bool" where
  "device_route r = (nd_ip (rt_node r) = None \<and> nd_device (rt_node r) \<noteq> None \<and> rt_metric r = None)"

lemma add_route_added:
  assumes "\<And>name. device_index w0 name (index name)" and "device_route r"
  shows "triple (routes_added index w0 rs) (add_route r) (\<lambda>_. routes_added index w0 (rs @ [r])) (\<lambda>_. True)"
proof -
  obtain name where name: "nd_device (rt_node r) = Some name" "nd_ip (rt_node r) = None"
    using assms(2) by (auto simp: device_route_def)
  let ?R = "\<lambda>w. rw_rules w = rw_rules w0 \<and> rw_links w = rw_links w0 \<and> rw_table_id w = rw_table_id w0 \<and> rw_fwmark w = rw_fwmark w0
      \<and> (rw_iface_map w = rw_iface_map w0 \<or> rw_iface_map w = link_map (rw_links w0))
      \<and> rw_routes w = fold kernel_add (map (route_message_of index) (rs @ [r])) (rw_routes w0)"
  have none: "gateway_attribute r = []" by (simp add: gateway_attribute_def name(2))
  have "triple (routes_added index w0 rs) (add_route_direct r) (\<lambda>_. ?R) (\<lambda>_. True)"
    unfolding add_route_direct_def name(1) option.case none
  proof (rule triple_bind_pure [OF find_index [OF assms(1)]])
    show "triple (routes_added index w0 rs)
        (if i = None \<and> [] = [] then fail (Netlink (- ENODEV))
         else request (\<lambda>w. w\<lparr>rw_routes := kernel_add (add_message r i) (rw_routes w)\<rparr>)) (\<lambda>_. ?R) (\<lambda>_. True)"
      if "i = None \<or> i = Some (index name)" for i
      using that
      by (auto intro!: triple_fail triple_request simp: routes_added_def route_message_of_def name(1))
  qed
  then show ?thesis
    unfolding add_route_def
    by (rule triple_then) (auto simp: triple_def routes_added_def)
qed

lemma add_routes_added:
  assumes "\<And>name. device_index w0 name (index name)" and "\<And>r. r \<in> set qs \<Longrightarrow> device_route r"
  shows "triple (routes_added index w0 rs) (for_each add_route qs) (\<lambda>_. routes_added index w0 (rs @ qs)) (\<lambda>_. True)"
  using assms(2)
proof (induction qs arbitrary: rs)
  case (Cons q qs)
  have "triple (routes_added index w0 rs) (add_route q) (\<lambda>_. routes_added index w0 (rs @ [q])) (\<lambda>_. True)"
    by (rule add_route_added [OF assms(1)]) (use Cons.prems in simp)
  from triple_then [OF this Cons.IH] show ?case using Cons.prems by simp
qed (auto intro: triple_ret)

subsection \<open>What a route message says\<close>

lemma msg_table_add [simp]: "msg_table (add_message r i) = rt_table_id r"
proof -
  have "ucast (ucast (rt_table_id r) :: u8) = rt_table_id r" if "\<not> 255 < rt_table_id r"
    using that by (auto simp: word_unat_eq_iff word_less_nat_alt unsigned_ucast_eq unsigned_take_bit_eq take_bit_nat_eq_self)
  then show ?thesis
    by (auto simp: msg_table_def add_message_def route_base_message_def gateway_attribute_def optional_attribute_def
        table_attribute_def compat_table_id_def split: option.splits)
qed

lemma add_message_fields [simp]:
  "rm_family (add_message r i) = Some (ip_family (net_ip (rt_prefix r)))" "rm_dst_len (add_message r i) = net_prefix (rt_prefix r)"
  "msg_destination (add_message r i) = Some (net_ip (rt_prefix r))"
  by (simp_all add: add_message_def route_base_message_def msg_destination_def)

lemma add_message_network [simp]: "msg_network (add_message r i) = Some (rt_prefix r)"
  by (cases "rt_prefix r") (simp add: msg_network_def)

lemma device_message_fields:
  assumes "device_route r"
  shows "msg_metric (add_message r i) = 0" "msg_oif (add_message r i) = i"
  using assms
  by (auto simp: device_route_def add_message_def route_base_message_def msg_metric_def msg_oif_def gateway_attribute_def
      optional_attribute_def table_attribute_def split: option.splits)

lemma same_device_route:
  "device_route r \<Longrightarrow> device_route q \<Longrightarrow> same_route (add_message r i) (add_message q j) \<longleftrightarrow> rt_prefix r = rt_prefix q \<and> rt_table_id r = rt_table_id q"
  by (cases "rt_prefix r"; cases "rt_prefix q") (auto simp: same_route_def device_message_fields)

lemma kernel_adds_fresh:
  "(\<And>m n. m \<in> set ms \<Longrightarrow> n \<in> set routes \<Longrightarrow> \<not> same_route m n) \<Longrightarrow> sorted_wrt (\<lambda>m n. \<not> same_route n m) ms
     \<Longrightarrow> fold kernel_add ms routes = routes @ ms"
proof (induction ms arbitrary: routes)
  case (Cons m ms)
  have "kernel_add m routes = routes @ [m]"
    using Cons.prems(1) by (auto simp: kernel_add_def intro: filter_True)
  then show ?case using Cons.IH [of "routes @ [m]"] Cons.prems by fastforce
qed simp

subsection \<open>The tunnel table\<close>

definition tunnel_routes :: "u32 \<Rightarrow> routing_config \<Rightarrow> bool \<Rightarrow> bool \<Rightarrow> route list" where
  "tunnel_routes table config enable_ipv6 legacy = remdups (map (required_to_route table) (get_routes config enable_ipv6 legacy))"

lemmas get_routes_defs = get_in_tunnel_gateway_entry_route_def get_multihop_exit_route_def get_default_routes_def
  required_to_route_def required_route_new_def use_main_table_def with_mtu_def route_new_def route_table_def node_device_def

lemma required_facts:
  "q \<in> set (get_routes config enable_ipv6 legacy) \<Longrightarrow> \<not> rq_main_table q \<and> (\<exists>device. rq_node q = node_device device)"
  by (cases config) (auto simp: get_in_tunnel_gateway_entry_route_def get_multihop_exit_route_def get_default_routes_def
      required_route_new_def use_main_table_def with_mtu_def split: if_splits)

lemma tunnel_route_facts:
  assumes "r \<in> set (tunnel_routes table config enable_ipv6 legacy)"
  shows "device_route r" "rt_table_id r = table"
proof -
  obtain q where q: "q \<in> set (get_routes config enable_ipv6 legacy)" "r = required_to_route table q"
    using assms by (auto simp: tunnel_routes_def)
  with required_facts [OF q(1)] show "device_route r" "rt_table_id r = table"
    by (auto simp: required_to_route_def device_route_def route_new_def route_table_def node_device_def)
qed

lemma host_network_inj: "host_network a = host_network b \<longleftrightarrow> a = b"
  by (auto simp: host_network_def)

lemma host_not_default: "host_network a \<noteq> IpNetwork b 0"
  by (cases a) (auto simp: host_network_def host_bits_def)

lemma tunnel_prefixes_distinct: "distinct (map rt_prefix (tunnel_routes table config enable_ipv6 legacy))"
  by (cases config) (auto simp: tunnel_routes_def get_routes_defs host_network_inj host_not_default host_not_default [symmetric])

lemma tunnel_messages_distinct:
  "sorted_wrt (\<lambda>m n. \<not> same_route n m) (map (route_message_of index) (tunnel_routes table config enable_ipv6 legacy))"
proof -
  have "sorted_wrt (\<lambda>r q. rt_prefix q \<noteq> rt_prefix r) (tunnel_routes table config enable_ipv6 legacy)"
    using tunnel_prefixes_distinct [of table config enable_ipv6 legacy]
    by (auto simp: distinct_conv_nth sorted_wrt_iff_nth_less)
  then show ?thesis
    unfolding sorted_wrt_map
    by (rule sorted_wrt_mono_rel [rotated]) (auto simp: route_message_of_def same_device_route tunnel_route_facts)
qed

fun tunnel_device :: "routing_config \<Rightarrow> ip_addr \<Rightarrow> string" where
  "tunnel_device (MixnetRouting tun mtu) dst = tun"
| "tunnel_device (WireguardRouting entry_tun exit_tun entry_mtu exit_mtu private_entry exit_gateway) dst =
     (if dst = private_entry \<or> dst = exit_gateway then entry_tun else exit_tun)"

lemma cidr_host [simp]: "cidr_contains (host_network ip) dst \<longleftrightarrow> dst = ip"
  by (cases ip; cases dst) (auto simp: host_network_def host_bits_def)

lemma drop_bit_length: "drop_bit LENGTH('a) (w :: 'a :: len word) = 0"
  by (rule bit_word_eqI) (auto simp: bit_simps dest: bit_imp_le_length)

lemma cidr_default: "cidr_contains (IpNetwork (unspecified af) 0) dst \<longleftrightarrow> ip_family dst = af"
  using drop_bit_length [where 'a = 32] drop_bit_length [where 'a = 128] by (cases af; cases dst) simp_all

lemma best_routeI:
  assumes "m \<in> set ms" and "\<And>n. n \<in> set ms \<Longrightarrow> rm_dst_len n < rm_dst_len m \<or> n = m"
  shows "best_route ms = Some m"
  using assms
proof (induction ms)
  case (Cons n ns)
  show ?case
  proof (cases "m \<in> set ns")
    case True
    then have "best_route ns = Some m" using Cons by simp
    then show ?thesis using Cons.prems(2) [of n] by (auto simp: route_preferred_def)
  next
    case False
    then have "n = m" using Cons.prems(1) by simp
    moreover have "\<not> route_preferred k m" if "best_route ns = Some k" for k
    proof -
      have "k \<in> set ns" using that by (induction ns arbitrary: k) (auto split: option.splits if_splits)
      then show ?thesis using Cons.prems(2) [of k] False by (auto simp: route_preferred_def)
    qed
    ultimately show ?thesis by (auto split: option.splits)
  qed
qed simp

lemma first_result_sorted:
  assumes "sorted (map k xs)" and "x \<in> set xs" and "f x = Some y"
    and "\<And>z. z \<in> set xs \<Longrightarrow> k z \<le> k x \<Longrightarrow> f z = None \<or> f z = Some y"
  shows "first_result f xs = Some y"
  using assms
proof (induction xs)
  case (Cons z zs)
  show ?case
  proof (cases "f z")
    case None
    then show ?thesis using Cons by auto
  next
    case (Some v)
    moreover have "k z \<le> k x" using Cons.prems(1,2) by auto
    ultimately show ?thesis using Cons.prems(4) [of z] by simp
  qed
qed simp

lemma first_result_None: "(\<And>x. x \<in> set xs \<Longrightarrow> f x = None) \<Longrightarrow> first_result f xs = None"
  by (induction xs) simp_all

subsection \<open>Where packets go\<close>

fun entry_hosts :: "routing_config \<Rightarrow> ip_addr list" where
  "entry_hosts (MixnetRouting tun mtu) = []"
| "entry_hosts (WireguardRouting entry_tun exit_tun entry_mtu exit_mtu private_entry exit_gateway) = [private_entry, exit_gateway]"

definition default_network :: "address_family \<Rightarrow> ip_network" where
  "default_network af = IpNetwork (unspecified af) 0"

lemma tunnel_route_kinds:
  assumes "r \<in> set (tunnel_routes table config enable_ipv6 False)" and "cidr_contains (rt_prefix r) dst"
  shows "(rt_prefix r = default_network (ip_family dst) \<and> (dst \<notin> set (entry_hosts config) \<longrightarrow> nd_device (rt_node r) = Some (tunnel_device config dst)))
    \<or> (rt_prefix r = host_network dst \<and> dst \<in> set (entry_hosts config) \<and> nd_device (rt_node r) = Some (tunnel_device config dst))"
proof -
  obtain q where q: "q \<in> set (get_routes config enable_ipv6 False)" "r = required_to_route table q"
    using assms(1) by (auto simp: tunnel_routes_def)
  have "rt_prefix r = rq_prefix q" "rt_node r = rq_node q"
    by (simp_all add: q(2) required_to_route_def route_new_def route_table_def)
  then show ?thesis
    using q(1) assms(2) cidr_default [of AfInet dst] cidr_default [of AfInet6 dst]
    by (cases config) (auto simp: get_in_tunnel_gateway_entry_route_def get_multihop_exit_route_def get_default_routes_def
        required_route_new_def use_main_table_def with_mtu_def node_device_def default_network_def split: if_splits)
qed

lemma tunnel_route_exists:
  assumes "net \<in> set (map rq_prefix (get_routes config enable_ipv6 False))"
  shows "\<exists>r\<in>set (tunnel_routes table config enable_ipv6 False). rt_prefix r = net"
  using assms by (force simp: tunnel_routes_def required_to_route_def route_new_def route_table_def)

lemma tunnel_networks:
  "ip_family dst = AfInet \<or> enable_ipv6 \<Longrightarrow> default_network (ip_family dst) \<in> set (map rq_prefix (get_routes config enable_ipv6 False))"
  "dst \<in> set (entry_hosts config) \<Longrightarrow> host_network dst \<in> set (map rq_prefix (get_routes config enable_ipv6 False))"
  by (cases config; cases dst; auto simp: get_in_tunnel_gateway_entry_route_def get_multihop_exit_route_def
      get_default_routes_def required_route_new_def use_main_table_def with_mtu_def default_network_def)+

lemma tunnel_lookup:
  assumes "ip_family dst = AfInet \<or> enable_ipv6"
  shows "\<exists>m. table_lookup (map (route_message_of index) (tunnel_routes table config enable_ipv6 False)) table dst = Some m
    \<and> msg_oif m = Some (index (tunnel_device config dst))"
proof -
  let ?rs = "tunnel_routes table config enable_ipv6 False"
  have serves: "route_serves table dst (route_message_of index r) \<longleftrightarrow> cidr_contains (rt_prefix r) dst" if "r \<in> set ?rs" for r
    using tunnel_route_facts(2) [OF that]
    by (cases "rt_prefix r"; cases "net_ip (rt_prefix r)"; cases dst) (auto simp: route_serves_def route_message_of_def)
  have same: "q = r" if "q \<in> set ?rs" "r \<in> set ?rs" "rt_prefix q = rt_prefix r" for q r
    using that tunnel_prefixes_distinct [of table config enable_ipv6 False] by (auto simp: distinct_map inj_on_def)
  have best: "table_lookup (map (route_message_of index) ?rs) table dst = Some (route_message_of index r)"
    if "r \<in> set ?rs" "cidr_contains (rt_prefix r) dst"
      "\<And>q. q \<in> set ?rs \<Longrightarrow> cidr_contains (rt_prefix q) dst \<Longrightarrow> net_prefix (rt_prefix q) < net_prefix (rt_prefix r) \<or> q = r" for r
    unfolding table_lookup_def
  proof (rule best_routeI)
    note best_r = that(3)
    show "route_message_of index r \<in> set (filter (route_serves table dst) (map (route_message_of index) ?rs))"
      using that(1,2) serves by auto
    show "rm_dst_len n < rm_dst_len (route_message_of index r) \<or> n = route_message_of index r"
      if n: "n \<in> set (filter (route_serves table dst) (map (route_message_of index) ?rs))" for n
    proof -
      obtain q where "q \<in> set ?rs" "n = route_message_of index q" "cidr_contains (rt_prefix q) dst"
        using n serves by auto
      then show ?thesis using best_r [of q] by (auto simp: route_message_of_def)
    qed
  qed
  have oif: "msg_oif (route_message_of index r) = map_option index (nd_device (rt_node r))" if "r \<in> set ?rs" for r
    using device_message_fields(2) [OF tunnel_route_facts(1) [OF that]] by (simp add: route_message_of_def)
  show ?thesis
  proof (cases "dst \<in> set (entry_hosts config)")
    case True
    then obtain r where r: "r \<in> set ?rs" "rt_prefix r = host_network dst"
      using tunnel_route_exists [OF tunnel_networks(2)] by blast
    have shorter: "net_prefix (default_network af) < net_prefix (host_network dst)" for af
      by (cases dst) (simp_all add: default_network_def host_network_def host_bits_def)
    have "table_lookup (map (route_message_of index) ?rs) table dst = Some (route_message_of index r)"
      using r tunnel_route_kinds same shorter by (intro best) (auto, metis)
    moreover have "nd_device (rt_node r) = Some (tunnel_device config dst)"
      using tunnel_route_kinds [OF r(1)] r(2) host_not_default by (auto simp: default_network_def)
    ultimately show ?thesis using oif [OF r(1)] by auto
  next
    case False
    obtain r where r: "r \<in> set ?rs" "rt_prefix r = default_network (ip_family dst)"
      using tunnel_route_exists [OF tunnel_networks(1) [OF assms]] by blast
    have contains: "cidr_contains (rt_prefix r) dst" using r(2) cidr_default by (simp add: default_network_def)
    have "table_lookup (map (route_message_of index) ?rs) table dst = Some (route_message_of index r)"
      using r(1) contains
    proof (rule best)
      show "net_prefix (rt_prefix q) < net_prefix (rt_prefix r) \<or> q = r" if "q \<in> set ?rs" "cidr_contains (rt_prefix q) dst" for q
        using tunnel_route_kinds [OF that] False same [OF that(1) r(1)] r(2) by auto
    qed
    moreover have "nd_device (rt_node r) = Some (tunnel_device config dst)"
      using tunnel_route_kinds [OF r(1) contains] False by auto
    ultimately show ?thesis using oif [OF r(1)] by auto
  qed
qed

lemma device_index_rules_only: "rules_only w0 w \<Longrightarrow> device_index w name i = device_index w0 name i"
  by (simp add: rules_only_def device_index_def)

definition devices_known :: "(string \<Rightarrow> u32) \<Rightarrow> route_world \<Rightarrow> bool" where
  "devices_known index w = (\<forall>name. device_index w name (index name))"

definition fresh_table :: "route_world \<Rightarrow> bool" where
  "fresh_table w = (rw_table_id w \<noteq> RT_TABLE_MAIN \<and> rw_table_id w \<notin> msg_table ` set (rw_routes w))"

text \<open>What a successful addition leaves behind, when the tunnel table was empty.\<close>

lemma add_routes_post:
  assumes "add_routes config enable_ipv6 legacy w = (Done (), w')" and "devices_known index w" and "fresh_table w"
  shows "set (wanted_rules enable_ipv6 w) \<subseteq> set (rw_rules w')"
    and "set (rw_rules w') \<subseteq> set (rw_rules w) \<union> set (wanted_rules enable_ipv6 w)"
    and "rw_routes w' = rw_routes w @ map (route_message_of index) (tunnel_routes (rw_table_id w) config enable_ipv6 legacy)"
    and "rw_iface_map w' = rw_iface_map w \<or> rw_iface_map w' = link_map (rw_links w)"
proof -
  let ?ours = "set (wanted_rules enable_ipv6 w)" and ?rs = "tunnel_routes (rw_table_id w) config enable_ipv6 legacy"
  obtain w1 where w1: "create_routing_rules enable_ipv6 True w = (Done (), w1)"
    and add: "add_required_routes (get_routes config enable_ipv6 legacy) w1 = (Done (), w')"
    using assms(1) by (auto simp: add_routes_def thenp_def bindp_def split: prod.splits outcome.splits)
  have within: "rules_within w ?ours (set (rw_rules w) \<union> ?ours) w1"
    by (rule triple_run [OF create_rules_within _ w1]) (simp add: rules_within_def rules_only_def)
  then have only: "rules_only w w1" by (simp add: rules_within_def)
  have run: "for_each add_route ?rs w1 = (Done (), w')"
    using add only by (simp add: add_required_routes_def bindp_def asks_def tunnel_routes_def rules_only_def)
  have "triple (routes_added index w1 []) (for_each add_route ?rs) (\<lambda>_. routes_added index w1 ([] @ ?rs)) (\<lambda>_. True)"
    by (rule add_routes_added) (use assms(2) in \<open>simp_all add: devices_known_def device_index_rules_only [OF only] tunnel_route_facts(1)\<close>)
  from triple_run [OF this _ run] have added: "routes_added index w1 ?rs w'" by (simp add: routes_added_def)
  have "\<not> same_route m n" if "m \<in> set (map (route_message_of index) ?rs)" "n \<in> set (rw_routes w)" for m n
    using that assms(3) tunnel_route_facts(2) by (force simp: fresh_table_def same_route_def route_message_of_def)
  from kernel_adds_fresh [OF this tunnel_messages_distinct] added only
  show "rw_routes w' = rw_routes w @ map (route_message_of index) ?rs" by (simp add: routes_added_def rules_only_def)
  show "?ours \<subseteq> set (rw_rules w')" "set (rw_rules w') \<subseteq> set (rw_rules w) \<union> ?ours"
    using added within by (auto simp: routes_added_def rules_within_def)
  show "rw_iface_map w' = rw_iface_map w \<or> rw_iface_map w' = link_map (rw_links w)"
    using added only by (auto simp: routes_added_def rules_only_def)
qed

lemma lookup_other_table:
  assumes "\<And>m. m \<in> set ms \<Longrightarrow> msg_table m \<noteq> table"
  shows "table_lookup (routes @ ms) table dst = table_lookup routes table dst"
proof -
  have "filter (route_serves table dst) ms = []" using assms by (auto simp: filter_empty_conv route_serves_def)
  then show ?thesis by (simp add: table_lookup_def)
qed

lemma lookup_fresh_table:
  assumes "\<And>m. m \<in> set routes \<Longrightarrow> msg_table m \<noteq> table"
  shows "table_lookup (routes @ ms) table dst = table_lookup ms table dst"
proof -
  have "filter (route_serves table dst) routes = []" using assms by (auto simp: filter_empty_conv route_serves_def)
  then show ?thesis by (simp add: table_lookup_def)
qed

text \<open>Whether the main table has nothing but a default route for a destination.\<close>

definition no_specific_route :: "route_message list \<Rightarrow> ip_addr \<Rightarrow> bool" where
  "no_specific_route routes dst =
     (case table_lookup routes RT_TABLE_MAIN dst of None \<Rightarrow> True | Some m \<Rightarrow> rm_dst_len m = 0)"

lemmas own_rule_simps = rule_result_def rule_selects_def no_fwmark_rule_def suppress_rule_def exempt_rule_def

lemma own_rule_results:
  "mark \<noteq> EXEMPT_FWMARK \<Longrightarrow> rule_result routes mark dst (exempt_rule af) = None"
  "no_specific_route routes dst \<Longrightarrow> rule_result routes mark dst (suppress_rule af) = None"
  "rule_result routes mark dst (no_fwmark_rule fwmark table af)
     = (if mark \<noteq> fwmark \<and> ip_family dst = af then table_lookup routes table dst else None)"
  by (auto simp: own_rule_simps EXEMPT_FWMARK_def EXEMPT_RULE_FWMARK_def no_specific_route_def split: option.splits)

lemma in_all_rules:
  "r \<in> set (all_rules fwmark table True) \<longleftrightarrow> (\<exists>af. r = no_fwmark_rule fwmark table af \<or> r = suppress_rule af \<or> r = exempt_rule af)"
  unfolding all_rules_def by (auto; metis address_family.exhaust)

lemma wanted_in_all: "r \<in> set (wanted_rules enable_ipv6 w) \<Longrightarrow> r \<in> set (all_rules (rw_fwmark w) (rw_table_id w) True)"
  by (simp add: wanted_rules_def)

lemma tunnel_messages_table: "m \<in> set (map (route_message_of index) (tunnel_routes table config enable_ipv6 legacy)) \<Longrightarrow> msg_table m = table"
  by (auto simp: route_message_of_def tunnel_route_facts(2))


subsection \<open>Rules of others\<close>

definition unrelated :: "u32 \<Rightarrow> u32 \<Rightarrow> rule_message \<Rightarrow> bool" where
  "unrelated fwmark table r =
     (list_all (\<lambda>q. \<not> rule_covers r q) (all_rules fwmark table True) \<and> rule_table (ru_attributes r) \<noteq> Some table)"

text \<open>Each rule already there is one of the handler's own or has nothing to do with them.\<close>

definition others_unrelated :: "route_world \<Rightarrow> bool" where
  "others_unrelated w =
     list_all (\<lambda>r. r \<in> set (all_rules (rw_fwmark w) (rw_table_id w) True) \<or> unrelated (rw_fwmark w) (rw_table_id w) r) (rw_rules w)"

lemma covers_self: "rule_covers r r"
  by (simp add: rule_covers_def list_all_iff)

lemma own_not_unrelated: "r \<in> set (all_rules fwmark table True) \<Longrightarrow> \<not> unrelated fwmark table r"
  using covers_self by (auto simp: unrelated_def list_all_iff)

definition others_kept :: "route_world \<Rightarrow> route_world \<Rightarrow> bool" where
  "others_kept w0 w =
     (rw_fwmark w = rw_fwmark w0 \<and> rw_table_id w = rw_table_id w0
      \<and> filter (unrelated (rw_fwmark w0) (rw_table_id w0)) (rw_rules w) = filter (unrelated (rw_fwmark w0) (rw_table_id w0)) (rw_rules w0))"

lemma filter_remove1_other: "\<not> P x \<Longrightarrow> filter P (remove1 x xs) = filter P xs"
  by (induction xs) auto

lemma delete_matching_others:
  assumes "q \<in> set (all_rules (rw_fwmark w0) (rw_table_id w0) True)"
  shows "keeps (others_kept w0) (delete_matching found q)"
proof -
  have "\<not> unrelated (rw_fwmark w0) (rw_table_id w0) f" if "List.find (\<lambda>f. rule_covers f q) found = Some f" for f
    using that assms by (auto simp: find_Some_iff unrelated_def list_all_iff)
  then show ?thesis
    unfolding delete_matching_def delete_rule_if_exists_def
    by (intro keeps_case_option keeps_catch keeps_request keeps_ret)
      (auto simp: others_kept_def filter_remove1_other split: route_error.splits)
qed

lemma keeps_own_rules:
  assumes "\<And>r. r \<in> set (all_rules (rw_fwmark w0) (rw_table_id w0) True) \<Longrightarrow> keeps (others_kept w0) (f r)"
  shows "keeps (others_kept w0) (bindp (asks (\<lambda>w. all_rules (rw_fwmark w) (rw_table_id w) True)) (\<lambda>ours. for_each f (filter p ours)))"
  unfolding keeps_def
  by (rule triple_bind_pure [where ok = "\<lambda>ours. ours = all_rules (rw_fwmark w0) (rw_table_id w0) True" and R = "others_kept w0"])
    (auto intro!: triple_asks keeps_triple keeps_for_each assms simp: others_kept_def)

lemma clear_rules_others: "keeps (others_kept w0) clear_routing_rules"
  unfolding clear_routing_rules_def get_rules_def reply_def
  using keeps_own_rules [where p = "\<lambda>_. True", OF delete_matching_others]
  by (intro keeps_bind [where f = "\<lambda>found. bindp (asks _) (for_each (delete_matching found))"] keeps_then keeps_request keeps_asks)
    (simp_all add: others_kept_def)

lemma create_rules_others: "keeps (others_kept w0) (create_routing_rules enable_ipv6 True)"
  unfolding create_routing_rules_def new_rule_def
  by (intro keeps_then clear_rules_others keeps_own_rules keeps_request) (auto simp: others_kept_def own_not_unrelated)

lemma keeps_modify: "(\<And>w. I w \<Longrightarrow> I (f w)) \<Longrightarrow> keeps I (\<lambda>w. (Done (), f w))"
  by (simp add: keeps_def triple_def)

lemma add_routes_others: "keeps (others_kept w0) (add_routes config enable_ipv6 legacy)"
  unfolding add_routes_def add_required_routes_def add_route_def add_route_direct_def find_iface_idx_or_refresh_def
    initialize_link_map_def reply_def
  by (intro keeps_rules create_rules_others keeps_modify keeps_request) (auto simp: others_kept_def)

lemma first_result_cong: "(\<And>x. x \<in> set xs \<Longrightarrow> f x = g x) \<Longrightarrow> first_result f xs = first_result g xs"
  by (induction xs) (auto split: option.splits)

text \<open>Rules that never decide can be left out.\<close>

lemma first_result_filter: "(\<And>x. x \<in> set xs \<Longrightarrow> \<not> P x \<Longrightarrow> f x = None) \<Longrightarrow> first_result f xs = first_result f (filter P xs)"
  by (induction xs) (auto split: option.splits)

lemma kernel_route_others:
  assumes "\<And>r. r \<in> set rules \<Longrightarrow> \<not> P r \<Longrightarrow> rule_result routes mark dst r = None"
  shows "kernel_route rules routes mark dst = kernel_route (filter P rules) routes mark dst"
proof -
  have "first_result f (sort_key k rules) = first_result f (sort_key k (filter P rules))"
    if "\<And>r. r \<in> set rules \<Longrightarrow> \<not> P r \<Longrightarrow> f r = None" for f :: "rule_message \<Rightarrow> route_message option" and k :: "rule_message \<Rightarrow> u32"
    using first_result_filter [of "sort_key k rules" P f] that by (simp add: filter_sort)
  then show ?thesis unfolding kernel_route_def using assms by blast
qed

text \<open>
  The daemon's own traffic does not see the tunnel: packets that carry its mark to a destination without a route of
  its own in the main table are routed exactly as before.
\<close>

lemma marked_traffic_route:
  assumes added: "add_routes config enable_ipv6 legacy w = (Done (), w')"
    and devices: "devices_known index w" and table: "fresh_table w"
    and others_ok: "others_unrelated w"
    and packet: "rw_fwmark w \<noteq> EXEMPT_FWMARK" "no_specific_route (rw_routes w) dst"
  shows "kernel_route (rw_rules w') (rw_routes w') (rw_fwmark w) dst = kernel_route (rw_rules w) (rw_routes w) (rw_fwmark w) dst"
proof -
  let ?T = "rw_table_id w" and ?f = "rw_fwmark w"
  let ?P = "unrelated ?f ?T"
  have others: "r \<in> set (all_rules ?f ?T True) \<or> ?P r" if "r \<in> set (rw_rules w)" for r
    using that others_ok by (auto simp: others_unrelated_def list_all_iff)
  note post = add_routes_post [OF added devices table]
  have elsewhere: "table_lookup (rw_routes w') i dst = table_lookup (rw_routes w) i dst" if "i \<noteq> ?T" for i
    unfolding post(3) by (rule lookup_other_table) (use that tunnel_messages_table in blast)
  have specific: "no_specific_route (rw_routes w') dst"
    using packet(2) elsewhere [of RT_TABLE_MAIN] table by (auto simp: no_specific_route_def fresh_table_def)
  have own: "rule_result routes ?f dst r = None" if "no_specific_route routes dst" "r \<in> set (all_rules ?f ?T True)" for routes r
    using that packet(1) unfolding in_all_rules by (auto simp: own_rule_results)
  have same: "rule_result (rw_routes w') ?f dst r = rule_result (rw_routes w) ?f dst r" if "?P r" for r
    using that elsewhere by (auto simp: rule_result_def unrelated_def split: option.splits)
  have kept: "filter ?P (rw_rules w') = filter ?P (rw_rules w)"
    using keeps_run [OF add_routes_others [of w config enable_ipv6 legacy], of w] added by (simp add: others_kept_def)
  have "kernel_route (rw_rules w') (rw_routes w') ?f dst = kernel_route (filter ?P (rw_rules w)) (rw_routes w') ?f dst"
    unfolding kept [symmetric]
    by (rule kernel_route_others) (use post(2) others own [OF specific] wanted_in_all in blast)
  also have "\<dots> = kernel_route (filter ?P (rw_rules w)) (rw_routes w) ?f dst"
    unfolding kernel_route_def by (rule first_result_cong) (use same in auto)
  also have "\<dots> = kernel_route (rw_rules w) (rw_routes w) ?f dst"
    by (rule kernel_route_others [symmetric]) (use others own [OF packet(2)] in blast)
  finally show ?thesis .
qed

text \<open>C35: the offline verdict does not see the tunnel. With the interface cache current and no route of their own for
  the two probed addresses, the check that decides whether the router is offline gives the same verdict with
  the tunnel's rules and routes installed as without them, whatever the kernel answers to its two questions.\<close>

theorem offline_verdict_unaffected:
  assumes "add_routes config enable_ipv6 legacy w = (Done (), w')" and "devices_known index w" and "fresh_table w"
    and "others_unrelated w"
    and "rw_fwmark w \<noteq> EXEMPT_FWMARK" and "rw_iface_map w = link_map (rw_links w)"
    and "no_specific_route (rw_routes w) PUBLIC_INTERNET_ADDRESS_V4" "no_specific_route (rw_routes w) PUBLIC_INTERNET_ADDRESS_V6"
  shows "check_connectivity (Some (rw_fwmark w)) (w'\<lparr>rw_answers := answers\<rparr>)
    = check_connectivity (Some (rw_fwmark w)) (w\<lparr>rw_answers := answers\<rparr>)"
proof -
  note same = marked_traffic_route [OF assms(1-5)]
  have ifaces: "rw_iface_map w' = rw_iface_map w" using add_routes_post(4) [OF assms(1-3)] assms(6) by simp
  have answer: "fst (get_destination_route dst (Some (rw_fwmark w)) (w'\<lparr>rw_answers := as\<rparr>))
        = fst (get_destination_route dst (Some (rw_fwmark w)) (w\<lparr>rw_answers := as\<rparr>))
      \<and> snd (get_destination_route dst (Some (rw_fwmark w)) (w'\<lparr>rw_answers := as\<rparr>)) = w'\<lparr>rw_answers := tl as\<rparr>
      \<and> snd (get_destination_route dst (Some (rw_fwmark w)) (w\<lparr>rw_answers := as\<rparr>)) = w\<lparr>rw_answers := tl as\<rparr>"
    if "no_specific_route (rw_routes w) dst" for as dst
    using same [OF that] ifaces
    by (auto simp: get_destination_route_def request_def split: list.splits netlink_answer.splits option.splits sum.splits)
  note v4 = answer [OF assms(7), of answers] and v6 = answer [OF assms(8), of "tl answers"]
  show ?thesis
    unfolding check_connectivity_def split_def v4 [THEN conjunct1] v4 [THEN conjunct2, THEN conjunct1]
      v4 [THEN conjunct2, THEN conjunct2] v6 [THEN conjunct1] ..
qed

subsection \<open>Taking the routes down\<close>

lemma own_covers_own:
  assumes "f \<in> set (all_rules fwmark table True)" and "q \<in> set (all_rules fwmark table True)" and "rule_covers f q"
  shows "f = q"
  using assms unfolding in_all_rules
  by (auto simp: rule_covers_def no_fwmark_rule_def suppress_rule_def exempt_rule_def EXEMPT_RULE_PRIORITY_def SUPPRESS_RULE_PRIORITY_def
      TUNNEL_RULE_PRIORITY_def)

lemma distinct_all_rules: "distinct (all_rules fwmark table True)"
  by (simp add: all_rules_def no_fwmark_rule_def suppress_rule_def exempt_rule_def EXEMPT_RULE_PRIORITY_def SUPPRESS_RULE_PRIORITY_def
      TUNNEL_RULE_PRIORITY_def)

text \<open>A world on the way from \<open>w0\<close>: some of the rules and some of the routes are installed.\<close>

definition half_way :: "(string \<Rightarrow> u32) \<Rightarrow> route_world \<Rightarrow> rule_message list \<Rightarrow> route list \<Rightarrow> route_world \<Rightarrow> bool" where
  "half_way index w0 rules rs w =
     (rw_rules w = rw_rules w0 @ rules \<and> rw_routes w = rw_routes w0 @ map (route_message_of index) rs
      \<and> rw_added_routes w = rev rs \<and> rw_links w = rw_links w0 \<and> rw_table_id w = rw_table_id w0 \<and> rw_fwmark w = rw_fwmark w0
      \<and> (rw_iface_map w = rw_iface_map w0 \<or> rw_iface_map w = link_map (rw_links w0)))"

lemma half_way_frame [simp]: "half_way index w0 rules rs (w\<lparr>rw_answers := as\<rparr>) = half_way index w0 rules rs w"
  by (simp add: half_way_def)

lemma none_covered:
  assumes "list_all (unrelated (rw_fwmark w0) (rw_table_id w0)) (rw_rules w0)" and "q \<in> set (all_rules (rw_fwmark w0) (rw_table_id w0) True)"
  shows "List.find (\<lambda>f. rule_covers f q) (rw_rules w0) = None"
  using assms by (auto simp: find_None_iff list_all_iff unrelated_def)

lemma clear_nothing:
  assumes "list_all (unrelated (rw_fwmark w0) (rw_table_id w0)) (rw_rules w0)"
  shows "keeps (half_way index w0 [] []) clear_routing_rules"
proof -
  have found: "triple (half_way index w0 [] []) get_rules (\<lambda>found w. half_way index w0 [] [] w \<and> found = rw_rules w0) (half_way index w0 [] [])"
    unfolding get_rules_def reply_def
    by (rule triple_then [OF triple_request triple_asks]) (auto simp: half_way_def)
  have "keeps (half_way index w0 [] [])
      (bindp (asks (\<lambda>w. all_rules (rw_fwmark w) (rw_table_id w) True)) (for_each (delete_matching (rw_rules w0))))"
    unfolding keeps_def
    by (rule triple_bind_pure [where ok = "\<lambda>ours. ours = all_rules (rw_fwmark w0) (rw_table_id w0) True" and R = "half_way index w0 [] []"])
      (auto intro!: triple_asks keeps_triple keeps_for_each simp: delete_matching_def none_covered [OF assms] half_way_def)
  then show ?thesis
    unfolding clear_routing_rules_def keeps_def by (auto intro: triple_bind_pure [OF found])
qed

lemma new_rules_half_way:
  "triple (half_way index w0 pre []) (for_each new_rule rs) (\<lambda>_. half_way index w0 (pre @ rs) [])
     (\<lambda>w. \<exists>k. half_way index w0 (pre @ take k rs) [] w)"
proof (induction rs arbitrary: pre)
  case (Cons r rs)
  have "triple (half_way index w0 pre []) (new_rule r) (\<lambda>_. half_way index w0 (pre @ [r]) []) (half_way index w0 pre [])"
    unfolding new_rule_def by (rule triple_request) (auto simp: half_way_def)
  then have "triple (half_way index w0 pre []) (new_rule r) (\<lambda>_. half_way index w0 (pre @ [r]) [])
      (\<lambda>w. \<exists>k. half_way index w0 (pre @ take k (r # rs)) [] w)"
    by (rule triple_conseq) (auto intro: exI [of _ 0])
  moreover have "triple (half_way index w0 (pre @ [r]) []) (for_each new_rule rs) (\<lambda>_. half_way index w0 (pre @ r # rs) [])
      (\<lambda>w. \<exists>k. half_way index w0 (pre @ take k (r # rs)) [] w)"
    by (rule triple_conseq [OF Cons.IH]) (auto intro: exI [of _ "Suc _"])
  ultimately show ?case by (simp add: triple_then)
qed (auto intro!: triple_ret)

lemma create_rules_half_way:
  assumes "list_all (unrelated (rw_fwmark w0) (rw_table_id w0)) (rw_rules w0)"
  shows "triple (half_way index w0 [] []) (create_routing_rules enable_ipv6 True)
    (\<lambda>_. half_way index w0 (wanted_rules enable_ipv6 w0) []) (\<lambda>w. \<exists>k. half_way index w0 (take k (wanted_rules enable_ipv6 w0)) [] w)"
proof -
  let ?E = "\<lambda>w. \<exists>k. half_way index w0 (take k (wanted_rules enable_ipv6 w0)) [] w"
  have clear: "triple (half_way index w0 [] []) clear_routing_rules (\<lambda>_. half_way index w0 [] []) ?E"
    by (rule triple_conseq [OF keeps_triple [OF clear_nothing [OF assms]]]) (auto intro: exI [of _ 0])
  have "triple (half_way index w0 [] []) (for_each new_rule (wanted_rules enable_ipv6 w0))
      (\<lambda>_. half_way index w0 (wanted_rules enable_ipv6 w0) []) ?E"
    using new_rules_half_way [of index w0 "[]" "wanted_rules enable_ipv6 w0"] by simp
  then have "triple (half_way index w0 [] []) (bindp (asks (\<lambda>w. all_rules (rw_fwmark w) (rw_table_id w) True))
      (\<lambda>ours. for_each new_rule (filter (\<lambda>r. ru_family r = AfInet \<or> enable_ipv6) ours)))
      (\<lambda>_. half_way index w0 (wanted_rules enable_ipv6 w0) []) ?E"
    by (intro triple_bind_pure [where ok = "\<lambda>ours. ours = all_rules (rw_fwmark w0) (rw_table_id w0) True" and R = "half_way index w0 [] []"])
      (auto intro!: triple_asks simp: half_way_def wanted_rules_def)
  from triple_then [OF clear this] show ?thesis by (simp add: create_routing_rules_def)
qed

lemma find_index_half_way:
  assumes "devices_known index w0"
  shows "triple (half_way index w0 rules rs) (find_iface_idx_or_refresh name)
    (\<lambda>i s. half_way index w0 rules rs s \<and> (i = None \<or> i = Some (index name))) (half_way index w0 rules rs)"
proof -
  have known: "i = index name" if "find_iface_idx (rw_iface_map w) name = Some i" "half_way index w0 rules rs w" for w i
    using assms that by (auto simp: devices_known_def device_index_def half_way_def)
  have refreshed: "i = index name" if "find_iface_idx (link_map (rw_links w0)) name = Some i" for i
    using assms that by (auto simp: devices_known_def device_index_def)
  have "case r of Done i \<Rightarrow> half_way index w0 rules rs s' \<and> (i = None \<or> i = Some (index name)) | _ \<Rightarrow> half_way index w0 rules rs s'"
    if "half_way index w0 rules rs s" "find_iface_idx_or_refresh name s = (r, s')" for s r s'
  proof (cases "find_iface_idx (rw_iface_map s) name")
    case (Some i)
    then show ?thesis
      using that known [OF Some that(1)] by (auto simp: find_iface_idx_or_refresh_def bindp_def asks_def ret_def)
  next
    case None
    then show ?thesis
      using that refreshed
      by (auto simp: find_iface_idx_or_refresh_def bindp_def asks_def ret_def catchp_def initialize_link_map_def reply_def
          thenp_def request_def half_way_def split: list.splits netlink_answer.splits option.splits)
        (metis option.exhaust)+
  qed
  then show ?thesis by (auto simp: triple_def)
qed

lemma add_route_half_way:
  assumes "devices_known index w0" and "device_route r" and "r \<notin> set rs"
    and "\<And>m. m \<in> set (rw_routes w0 @ map (route_message_of index) rs) \<Longrightarrow> \<not> same_route (route_message_of index r) m"
  shows "triple (half_way index w0 rules rs) (add_route r) (\<lambda>_. half_way index w0 rules (rs @ [r])) (half_way index w0 rules rs)"
proof -
  obtain name where name: "nd_device (rt_node r) = Some name" "nd_ip (rt_node r) = None"
    using assms(2) by (auto simp: device_route_def)
  have none: "gateway_attribute r = []" by (simp add: gateway_attribute_def name(2))
  have add: "kernel_add (add_message r (Some (index name))) (rw_routes w0 @ map (route_message_of index) rs)
      = rw_routes w0 @ map (route_message_of index) (rs @ [r])"
    using assms(4) unfolding kernel_add_def by (subst filter_True) (auto simp: route_message_of_def name(1))
  let ?R = "\<lambda>w. half_way index w0 rules (rs @ [r]) (w\<lparr>rw_added_routes := rev (rs @ [r])\<rparr>) \<and> rw_added_routes w = rev rs"
  have "triple (half_way index w0 rules rs) (add_route_direct r) (\<lambda>_. ?R) (half_way index w0 rules rs)"
    unfolding add_route_direct_def name(1) option.case none
  proof (rule triple_bind_pure [OF find_index_half_way [OF assms(1)]])
    show "triple (half_way index w0 rules rs)
        (if i = None \<and> [] = [] then fail (Netlink (- ENODEV))
         else request (\<lambda>w. w\<lparr>rw_routes := kernel_add (add_message r i) (rw_routes w)\<rparr>)) (\<lambda>_. ?R) (half_way index w0 rules rs)"
      if "i = None \<or> i = Some (index name)" for i
      using that add by (auto intro!: triple_fail triple_request simp: half_way_def)
  qed
  then show ?thesis
    unfolding add_route_def
    by (rule triple_then) (use assms(3) in \<open>auto simp: triple_def half_way_def List.insert_def\<close>)
qed

lemma fresh_messages:
  assumes "fresh_table w0" and "m \<in> set (map (route_message_of index) (tunnel_routes (rw_table_id w0) config enable_ipv6 legacy))"
    and "n \<in> set (rw_routes w0)"
  shows "\<not> same_route m n"
  using assms(1,3) tunnel_messages_table [OF assms(2)] by (force simp: fresh_table_def same_route_def)

lemma add_routes_half_way:
  assumes "devices_known index w0" and "\<And>r. r \<in> set (pre @ rs) \<Longrightarrow> device_route r" and "distinct (map rt_prefix (pre @ rs))"
    and "\<And>r m. r \<in> set (pre @ rs) \<Longrightarrow> m \<in> set (rw_routes w0) \<Longrightarrow> \<not> same_route (route_message_of index r) m"
  shows "triple (half_way index w0 rules pre) (for_each add_route rs) (\<lambda>_. half_way index w0 rules (pre @ rs))
     (\<lambda>w. \<exists>k. half_way index w0 rules (pre @ take k rs) w)"
  using assms(2-)
proof (induction rs arbitrary: pre)
  case (Cons r rs)
  have "triple (half_way index w0 rules pre) (add_route r) (\<lambda>_. half_way index w0 rules (pre @ [r])) (half_way index w0 rules pre)"
    using Cons.prems
    by (intro add_route_half_way [OF assms(1)]) (auto simp: route_message_of_def same_device_route)
  then have "triple (half_way index w0 rules pre) (add_route r) (\<lambda>_. half_way index w0 rules (pre @ [r]))
      (\<lambda>w. \<exists>k. half_way index w0 rules (pre @ take k (r # rs)) w)"
    by (rule triple_conseq) (auto intro: exI [of _ 0])
  moreover have "triple (half_way index w0 rules (pre @ [r])) (for_each add_route rs) (\<lambda>_. half_way index w0 rules (pre @ r # rs))
      (\<lambda>w. \<exists>k. half_way index w0 rules (pre @ take k (r # rs)) w)"
    by (rule triple_conseq [OF Cons.IH [of "pre @ [r]"]]) (use Cons.prems in \<open>auto intro: exI [of _ "Suc _"]\<close>)
  ultimately show ?case by (simp add: triple_then)
qed (auto intro!: triple_ret)

lemma delete_message_fields [simp]:
  "rm_family (delete_message ifaces r) = Some (ip_family (net_ip (rt_prefix r)))"
  "rm_dst_len (delete_message ifaces r) = net_prefix (rt_prefix r)"
  "msg_destination (delete_message ifaces r) = Some (net_ip (rt_prefix r))"
  "msg_table (delete_message ifaces r) = rt_table_id r"
proof -
  have "ucast (ucast (rt_table_id r) :: u8) = rt_table_id r" if "\<not> 255 < rt_table_id r"
    using that by (auto simp: word_unat_eq_iff word_less_nat_alt unsigned_ucast_eq unsigned_take_bit_eq take_bit_nat_eq_self)
  then show "msg_table (delete_message ifaces r) = rt_table_id r"
    by (auto simp: msg_table_def delete_message_def route_base_message_def optional_attribute_def table_attribute_def
        compat_table_id_def split: option.splits)
qed (simp_all add: delete_message_def route_base_message_def msg_destination_def)

lemma route_message_fields [simp]:
  "rm_family (route_message_of index r) = Some (ip_family (net_ip (rt_prefix r)))"
  "rm_dst_len (route_message_of index r) = net_prefix (rt_prefix r)"
  "msg_destination (route_message_of index r) = Some (net_ip (rt_prefix r))"
  "msg_table (route_message_of index r) = rt_table_id r"
  by (simp_all add: route_message_of_def)

lemma deletes_other: "rt_prefix r \<noteq> rt_prefix q \<Longrightarrow> \<not> del_matches (delete_message ifaces r) (route_message_of index q)"
  by (cases "rt_prefix r"; cases "rt_prefix q") (auto simp: del_matches_def)

lemma deletes_own:
  assumes "device_route r" and "\<And>name i. nd_device (rt_node r) = Some name \<Longrightarrow> find_iface_idx ifaces name = Some i \<Longrightarrow> i = index name"
  shows "del_matches (delete_message ifaces r) (route_message_of index r)"
proof -
  have "msg_metric (delete_message ifaces r) = 0"
    using assms(1) by (auto simp: device_route_def delete_message_def route_base_message_def msg_metric_def optional_attribute_def
        table_attribute_def split: option.splits)
  moreover have "list_all (\<lambda>a. case a of AttrOif _ \<Rightarrow> a \<in> set (rm_attributes (route_message_of index r))
          | AttrGateway _ \<Rightarrow> a \<in> set (rm_attributes (route_message_of index r))
          | AttrVia _ \<Rightarrow> a \<in> set (rm_attributes (route_message_of index r)) | _ \<Rightarrow> True) (rm_attributes (delete_message ifaces r))"
    using assms by (auto simp: device_route_def delete_message_def route_base_message_def optional_attribute_def
        table_attribute_def route_message_of_def add_message_def split: option.splits)
  ultimately show ?thesis by (simp add: del_matches_def)
qed

lemma drop_first_append: "(\<And>x. x \<in> set xs \<Longrightarrow> \<not> p x) \<Longrightarrow> p y \<Longrightarrow> drop_first p (xs @ y # ys) = xs @ ys"
  by (induction xs) auto

text \<open>With nothing refused, deleting the routes that were added leaves those that were there before.\<close>

definition restored :: "route_world \<Rightarrow> rule_message list \<Rightarrow> route_world \<Rightarrow> bool" where
  "restored w0 rules w =
     (rw_rules w = rw_rules w0 @ rules \<and> rw_routes w = rw_routes w0 \<and> rw_answers w = []
      \<and> rw_table_id w = rw_table_id w0 \<and> rw_fwmark w = rw_fwmark w0)"

definition route_list :: "(string \<Rightarrow> u32) \<Rightarrow> route_world \<Rightarrow> rule_message list \<Rightarrow> route list \<Rightarrow> route_world \<Rightarrow> bool" where
  "route_list index w0 rules rs w =
     (restored w0 rules (w\<lparr>rw_routes := rw_routes w0\<rparr>) \<and> rw_routes w = rw_routes w0 @ map (route_message_of index) rs
      \<and> (rw_iface_map w = rw_iface_map w0 \<or> rw_iface_map w = link_map (rw_links w0)) \<and> rw_added_routes w = [])"

lemma delete_routes_restores:
  assumes "devices_known index w0" and "fresh_table w0"
    and "\<And>r. r \<in> set rs \<Longrightarrow> device_route r \<and> rt_table_id r = rw_table_id w0" and "distinct (map rt_prefix rs)"
    and "route_list index w0 rules rs w"
  shows "\<exists>w'. for_each (\<lambda>r. ignore_result (delete_route_if_exists r)) (rev rs) w = (Done (), w') \<and> route_list index w0 rules [] w'"
  using assms(3-)
proof (induction rs arbitrary: w rule: rev_induct)
  case (snoc r rs)
  let ?m = "delete_message (rw_iface_map w) r"
  let ?w = "w\<lparr>rw_routes := drop_first (del_matches ?m) (rw_routes w)\<rparr>"
  have "\<not> del_matches ?m n" if n: "n \<in> set (rw_routes w0 @ map (route_message_of index) rs)" for n
  proof (cases "n \<in> set (rw_routes w0)")
    case True
    then have "msg_table n \<noteq> rt_table_id r" using snoc.prems(1) [of r] assms(2) by (force simp: fresh_table_def)
    then show ?thesis by (simp add: del_matches_def)
  next
    case False
    then obtain q where "q \<in> set rs" "n = route_message_of index q" using n by auto
    moreover have "rt_prefix r \<noteq> rt_prefix q" using snoc.prems(2) \<open>q \<in> set rs\<close> by (auto simp: image_iff)
    ultimately show ?thesis using deletes_other by simp
  qed
  moreover have "del_matches ?m (route_message_of index r)"
    using snoc.prems(1,3) assms(1)
    by (intro deletes_own) (auto simp: route_list_def devices_known_def device_index_def)
  ultimately have "rw_routes ?w = rw_routes w0 @ map (route_message_of index) rs"
    using snoc.prems(3) drop_first_append [of "rw_routes w0 @ map (route_message_of index) rs" "del_matches ?m" "route_message_of index r" "[]"]
    by (auto simp: route_list_def)
  then have "route_list index w0 rules rs ?w" using snoc.prems(3) by (auto simp: route_list_def restored_def)
  moreover have "ignore_result (delete_route_if_exists r) w = (Done (), ?w)"
    using snoc.prems(3)
    by (simp add: route_list_def restored_def ignore_result_def delete_route_if_exists_def catchp_def delete_route_def bindp_def asks_def request_def)
  ultimately show ?case using snoc.IH [of ?w] snoc.prems(1,2) by (simp add: thenp_def bindp_def)
qed (auto simp: ret_def)

lemma find_own:
  assumes "list_all (unrelated (rw_fwmark w0) (rw_table_id w0)) (rw_rules w0)"
    and "set mine \<subseteq> set (all_rules (rw_fwmark w0) (rw_table_id w0) True)" and "q \<in> set (all_rules (rw_fwmark w0) (rw_table_id w0) True)"
  shows "List.find (\<lambda>f. rule_covers f q) (rw_rules w0 @ mine) = (if q \<in> set mine then Some q else None)"
proof -
  have append: "List.find p (xs @ ys) = List.find p ys" if "List.find p xs = None" for p :: "rule_message \<Rightarrow> bool" and xs ys
    using that by (induction xs) (auto split: if_splits)
  have "List.find (\<lambda>f. rule_covers f q) mine = (if q \<in> set mine then Some q else None)"
    using assms(2,3)
  proof (induction mine)
    case (Cons f mine)
    then show ?case using own_covers_own [of f _ _ q] covers_self by auto
  qed simp
  then show ?thesis using append [OF none_covered [OF assms(1,3)]] by simp
qed

lemma delete_rules_restores:
  assumes "list_all (unrelated (rw_fwmark w0) (rw_table_id w0)) (rw_rules w0)"
    and "set mine \<subseteq> set (all_rules (rw_fwmark w0) (rw_table_id w0) True)" "set rules \<subseteq> set mine" "distinct rules"
    and "set qs \<subseteq> set (all_rules (rw_fwmark w0) (rw_table_id w0) True)" and "restored w0 rules w"
  shows "\<exists>w'. for_each (delete_matching (rw_rules w0 @ mine)) qs w = (Done (), w') \<and> restored w0 (filter (\<lambda>r. r \<notin> set qs) rules) w'"
  using assms(3-)
proof (induction qs arbitrary: rules w)
  case (Cons q qs)
  have own: "q \<in> set (all_rules (rw_fwmark w0) (rw_table_id w0) True)" using Cons.prems(3) by simp
  then have "q \<notin> set (rw_rules w0)" using assms(1) own_not_unrelated by (auto simp: list_all_iff)
  then have remove: "remove1 q (rw_rules w0 @ rules) = rw_rules w0 @ filter (\<lambda>r. r \<noteq> q) rules"
    using Cons.prems(2) by (auto simp: remove1_append distinct_remove1_removeAll removeAll_filter_not_eq intro: filter_cong)
  let ?w = "w\<lparr>rw_rules := rw_rules w0 @ filter (\<lambda>r. r \<noteq> q) rules\<rparr>"
  have "delete_matching (rw_rules w0 @ mine) q w = (Done (), ?w)"
  proof (cases "q \<in> set mine")
    case True
    then show ?thesis using Cons.prems(4) remove
      by (simp add: delete_matching_def find_own [OF assms(1,2) own] delete_rule_if_exists_def catchp_def request_def restored_def)
  next
    case False
    then have "filter (\<lambda>r. r \<noteq> q) rules = rules" using Cons.prems(1) by (intro filter_True) auto
    then have "rw_rules w = rw_rules w0 @ filter (\<lambda>r. r \<noteq> q) rules" using Cons.prems(4) by (simp add: restored_def)
    then have "?w = w" by simp
    then show ?thesis using False by (simp add: delete_matching_def find_own [OF assms(1,2) own] ret_def)
  qed
  moreover have "restored w0 (filter (\<lambda>r. r \<noteq> q) rules) ?w" using Cons.prems(4) by (simp add: restored_def)
  ultimately show ?case
    using Cons.IH [of "filter (\<lambda>r. r \<noteq> q) rules" ?w] Cons.prems by (auto simp: thenp_def bindp_def conj_commute)
qed (auto simp: ret_def)

text \<open>From anywhere on the way, with nothing refused any more, removing the routes leads back.\<close>

lemma remove_from_half_way:
  assumes "list_all (unrelated (rw_fwmark w0) (rw_table_id w0)) (rw_rules w0)" and "devices_known index w0" and "fresh_table w0"
    and "\<And>r. r \<in> set rs \<Longrightarrow> device_route r \<and> rt_table_id r = rw_table_id w0" and "distinct (map rt_prefix rs)"
    and "set rules \<subseteq> set (all_rules (rw_fwmark w0) (rw_table_id w0) True)" "distinct rules"
    and "half_way index w0 rules rs w"
  shows "\<exists>w'. remove_routes (w\<lparr>rw_answers := []\<rparr>) = (Done (), w') \<and> rw_rules w' = rw_rules w0 \<and> rw_routes w' = rw_routes w0"
proof -
  let ?w = "w\<lparr>rw_answers := [], rw_added_routes := []\<rparr>"
  have "route_list index w0 rules rs ?w" using assms(8) by (auto simp: half_way_def route_list_def restored_def)
  from delete_routes_restores [OF assms(2,3) _ assms(5) this] assms(4) obtain w1 where
    w1: "for_each (\<lambda>r. ignore_result (delete_route_if_exists r)) (rev rs) ?w = (Done (), w1)" "route_list index w0 rules [] w1"
    by blast
  have r1: "restored w0 rules w1" using w1(2) by (simp add: route_list_def restored_def)
  from delete_rules_restores [OF assms(1,6) subset_refl assms(7) subset_refl r1] obtain w2 where
    w2: "for_each (delete_matching (rw_rules w0 @ rules)) (all_rules (rw_fwmark w0) (rw_table_id w0) True) w1 = (Done (), w2)"
      "restored w0 (filter (\<lambda>r. r \<notin> set (all_rules (rw_fwmark w0) (rw_table_id w0) True)) rules) w2" by blast
  have "filter (\<lambda>r. r \<notin> set (all_rules (rw_fwmark w0) (rw_table_id w0) True)) rules = []"
    using assms(6) by (auto simp: filter_empty_conv)
  moreover have "cleanup_routes (w\<lparr>rw_answers := []\<rparr>) = (Done (), w1)"
    using w1(1) assms(8) by (simp add: cleanup_routes_def bindp_def half_way_def)
  moreover have "clear_routing_rules w1 = (Done (), w2)"
    using w2(1) r1 by (simp add: clear_routing_rules_def get_rules_def reply_def thenp_def bindp_def request_def asks_def restored_def)
  ultimately show ?thesis
    using w2(2) by (simp add: remove_routes_def thenp_def bindp_def ignore_result_def restored_def)
qed

lemma add_routes_on_the_way:
  assumes "list_all (unrelated (rw_fwmark w0) (rw_table_id w0)) (rw_rules w0)" and "devices_known index w0" and "fresh_table w0"
    and "rw_added_routes w0 = []" and "add_routes config enable_ipv6 legacy w0 = (r, w)"
  shows "\<exists>k j. half_way index w0 (take k (wanted_rules enable_ipv6 w0)) (take j (tunnel_routes (rw_table_id w0) config enable_ipv6 legacy)) w"
proof -
  let ?rs = "tunnel_routes (rw_table_id w0) config enable_ipv6 legacy" and ?wanted = "wanted_rules enable_ipv6 w0"
  let ?E = "\<lambda>w. \<exists>k j. half_way index w0 (take k ?wanted) (take j ?rs) w"
  have rules: "triple (half_way index w0 [] []) (create_routing_rules enable_ipv6 True) (\<lambda>_. half_way index w0 ?wanted []) ?E"
    by (rule triple_conseq [OF create_rules_half_way [OF assms(1)]]) (auto, metis take_0)
  have "triple (half_way index w0 ?wanted []) (for_each add_route ?rs) (\<lambda>_. half_way index w0 ?wanted ?rs)
      (\<lambda>w. \<exists>j. half_way index w0 ?wanted (take j ?rs) w)"
  proof -
    have "\<not> same_route (route_message_of index q) m" if "q \<in> set ?rs" "m \<in> set (rw_routes w0)" for q m
      by (rule fresh_messages [OF assms(3) _ that(2), where index = index]) (use that(1) in auto)
    then show ?thesis
      using add_routes_half_way [OF assms(2), where pre = "[]" and rs = ?rs and rules = ?wanted]
        tunnel_route_facts(1) tunnel_prefixes_distinct by simp
  qed
  then have routes: "triple (half_way index w0 ?wanted []) (for_each add_route ?rs) (\<lambda>_. ?E) ?E"
    by (rule triple_conseq) (metis order_refl take_all)+
  have "triple (half_way index w0 ?wanted []) (add_required_routes (get_routes config enable_ipv6 legacy)) (\<lambda>_. ?E) ?E"
    unfolding add_required_routes_def
    by (rule triple_bind_pure [where ok = "\<lambda>rs. rs = ?rs" and R = "half_way index w0 ?wanted []"])
      (use routes in \<open>auto intro!: triple_asks simp: half_way_def tunnel_routes_def\<close>)
  from triple_then [OF rules this] have "triple (half_way index w0 [] []) (add_routes config enable_ipv6 legacy) (\<lambda>_. ?E) ?E"
    by (simp add: add_routes_def)
  moreover have "half_way index w0 [] [] w0" using assms(4) by (simp add: half_way_def)
  ultimately show ?thesis using assms(5) by (cases r) (fastforce simp: triple_def)+
qed

text \<open>C34: taking the tunnel's routes down restores the router. From any router whose own rules are unrelated and whose
  tunnel table is empty, after an addition of routes that succeeded or stopped at any refused request, a removal
  to which the kernel objects no more leaves exactly the rules and routes there were before.\<close>

theorem remove_routes_restores:
  assumes "list_all (unrelated (rw_fwmark w) (rw_table_id w)) (rw_rules w)" and "devices_known index w" and "fresh_table w"
    and "rw_added_routes w = []" and "add_routes config enable_ipv6 legacy w = (r, w1)"
  shows "\<exists>w2. remove_routes (w1\<lparr>rw_answers := []\<rparr>) = (Done (), w2) \<and> rw_rules w2 = rw_rules w \<and> rw_routes w2 = rw_routes w"
proof -
  let ?rs = "tunnel_routes (rw_table_id w) config enable_ipv6 legacy" and ?wanted = "wanted_rules enable_ipv6 w"
  obtain k j where way: "half_way index w (take k ?wanted) (take j ?rs) w1"
    using add_routes_on_the_way [OF assms] by blast
  show ?thesis
  proof (rule remove_from_half_way [OF assms(1-3) _ _ _ _ way])
    show "device_route q \<and> rt_table_id q = rw_table_id w" if "q \<in> set (take j ?rs)" for q
      using tunnel_route_facts in_set_takeD [OF that] by blast
    show "distinct (map rt_prefix (take j ?rs))"
      using tunnel_prefixes_distinct distinct_take by (simp add: take_map [symmetric])
    show "set (take k ?wanted) \<subseteq> set (all_rules (rw_fwmark w) (rw_table_id w) True)"
      using wanted_in_all by (auto dest: in_set_takeD)
    show "distinct (take k ?wanted)" by (simp add: wanted_rules_def distinct_all_rules)
  qed
qed

subsection \<open>When nothing is refused\<close>

definition succeeds :: "('s \<Rightarrow> bool) \<Rightarrow> ('s, 'a, 'e) prog \<Rightarrow> bool" where
  "succeeds I m = (\<forall>s. I s \<longrightarrow> (\<exists>a s'. m s = (Done a, s') \<and> I s'))"

lemma succeeds_ret: "succeeds I (ret a)"
  by (simp add: succeeds_def ret_def)

lemma succeeds_asks: "succeeds I (asks f)"
  by (simp add: succeeds_def asks_def)

lemma succeeds_bind: "succeeds I m \<Longrightarrow> (\<And>a. succeeds I (f a)) \<Longrightarrow> succeeds I (bindp m f)"
  by (fastforce simp: succeeds_def bindp_def)

lemma succeeds_then: "succeeds I m \<Longrightarrow> succeeds I n \<Longrightarrow> succeeds I (thenp m n)"
  unfolding thenp_def by (rule succeeds_bind)

lemma succeeds_for_each: "(\<And>x. x \<in> set xs \<Longrightarrow> succeeds I (f x)) \<Longrightarrow> succeeds I (for_each f xs)"
  by (induction xs) (simp_all add: succeeds_then succeeds_ret)

lemma succeeds_catch: "succeeds I m \<Longrightarrow> succeeds I (catchp m h)"
  by (fastforce simp: succeeds_def catchp_def)

lemma succeeds_option: "(x = None \<Longrightarrow> succeeds I m) \<Longrightarrow> (\<And>a. x = Some a \<Longrightarrow> succeeds I (f a)) \<Longrightarrow> succeeds I (case x of None \<Rightarrow> m | Some a \<Rightarrow> f a)"
  by (cases x) simp_all

lemmas succeeds_rules = succeeds_ret succeeds_asks succeeds_bind succeeds_then succeeds_for_each succeeds_catch succeeds_option

definition willing :: "string set \<Rightarrow> route_world \<Rightarrow> bool" where
  "willing names w = (rw_answers w = [] \<and> (\<forall>name\<in>names. find_iface_idx (rw_iface_map w) name \<noteq> None))"

lemma succeeds_request: "(\<And>w. willing N w \<Longrightarrow> willing N (effect w)) \<Longrightarrow> succeeds (willing N) (request effect)"
  by (auto simp: succeeds_def request_def willing_def)

lemma add_route_succeeds:
  assumes "nd_device (rt_node r) = Some name" and "name \<in> N"
  shows "succeeds (willing N) (add_route r)"
proof -
  have "\<exists>w'. add_route r w = (Done (), w') \<and> willing N w'" if w: "willing N w" for w
  proof -
    obtain i where "find_iface_idx (rw_iface_map w) name = Some i" using w assms(2) by (auto simp: willing_def)
    then show ?thesis
      using w by (simp add: willing_def add_route_def add_route_direct_def find_iface_idx_or_refresh_def assms(1) thenp_def bindp_def
          asks_def ret_def request_def)
  qed
  then show ?thesis by (simp add: succeeds_def)
qed

fun routing_devices :: "routing_config \<Rightarrow> string set" where
  "routing_devices (MixnetRouting tun mtu) = {tun}"
| "routing_devices (WireguardRouting entry_tun exit_tun entry_mtu exit_mtu private_entry exit_gateway) = {entry_tun, exit_tun}"

lemma required_device:
  "q \<in> set (get_routes config enable_ipv6 legacy) \<Longrightarrow> \<exists>device\<in>routing_devices config. rq_node q = node_device device"
  by (cases config) (auto simp: get_in_tunnel_gateway_entry_route_def get_multihop_exit_route_def get_default_routes_def
      required_route_new_def use_main_table_def with_mtu_def split: if_splits)

lemma add_routes_succeed:
  assumes "rw_answers w = []" and "\<And>name. name \<in> routing_devices config \<Longrightarrow> find_iface_idx (rw_iface_map w) name \<noteq> None"
  shows "fst (add_routes config enable_ipv6 legacy w) = Done ()"
proof -
  let ?N = "routing_devices config"
  have routes: "succeeds (willing ?N) (add_route r)"
    if "r \<in> set (remdups (map (required_to_route table) (get_routes config enable_ipv6 legacy)))" for r table
    using that required_device
    by (fastforce intro: add_route_succeeds simp: required_to_route_def route_new_def route_table_def node_device_def)
  have "succeeds (willing ?N) (create_routing_rules enable_ipv6 True)"
    unfolding create_routing_rules_def clear_routing_rules_def get_rules_def reply_def new_rule_def delete_matching_def delete_rule_if_exists_def
    by (intro succeeds_rules succeeds_request) (auto simp: willing_def)
  moreover have "succeeds (willing ?N) (add_required_routes (get_routes config enable_ipv6 legacy))"
  proof -
    have "\<exists>a s'. for_each add_route (remdups (map (required_to_route (rw_table_id s)) (get_routes config enable_ipv6 legacy))) s = (Done a, s')
        \<and> willing ?N s'" if "willing ?N s" for s
      using succeeds_for_each [of "remdups (map (required_to_route (rw_table_id s)) (get_routes config enable_ipv6 legacy))", OF routes] that
      by (auto simp: succeeds_def)
    then show ?thesis by (simp add: succeeds_def add_required_routes_def bindp_def asks_def)
  qed
  ultimately have "succeeds (willing ?N) (add_routes config enable_ipv6 legacy)" unfolding add_routes_def by (rule succeeds_then)
  moreover have "willing ?N w" using assms by (simp add: willing_def)
  ultimately show ?thesis by (auto simp: succeeds_def)
qed

subsection \<open>A router\<close>

definition sample_link :: "u32 \<Rightarrow> string \<Rightarrow> link" where
  "sample_link i name = \<lparr>ln_index = i, ln_name = Some name, ln_loopback = name = ''lo'', ln_mtu = Some 1500\<rparr>"

definition sample_table_rule :: "u32 \<Rightarrow> u32 \<Rightarrow> rule_message" where
  "sample_table_rule priority table = \<lparr>ru_family = AfInet, ru_to_table = True, ru_invert = False,
     ru_attributes = [RulePriority priority, RuleTable table]\<rparr>"

definition sample_default_route :: route_message where
  "sample_default_route = \<lparr>rm_family = Some AfInet, rm_dst_len = 0, rm_table = 254, rm_scope = ScopeUniverse,
     rm_attributes = [AttrOif 2, AttrGateway (RouteIp (ipv4 192 0 2 1))]\<rparr>"

definition sample_net :: route_world where
  "sample_net = \<lparr>rw_rules = [sample_table_rule 0 255, sample_table_rule 32766 254], rw_routes = [sample_default_route],
     rw_links = [sample_link 1 ''lo'', sample_link 2 ''eth0'', sample_link 3 ''nym0'', sample_link 4 ''nym1''], rw_answers = [],
     rw_iface_map = link_map [sample_link 1 ''lo'', sample_link 2 ''eth0'', sample_link 3 ''nym0'', sample_link 4 ''nym1''],
     rw_added_routes = [], rw_table_id = TUNNEL_TABLE_ID, rw_fwmark = TUNNEL_FWMARK\<rparr>"

definition sample_routing :: routing_config where
  "sample_routing = WireguardRouting ''nym0'' ''nym1'' 1420 1340 (ipv4 10 1 0 1) (ipv4 198 51 100 7)"

lemmas sample_net_defs = sample_net_def sample_default_route_def sample_table_rule_def sample_link_def sample_routing_def
  link_map_def map_interface_def iface_insert_def find_iface_idx_def List.map_filter_def TUNNEL_TABLE_ID_def TUNNEL_RULE_PRIORITY_def

definition sample_index :: "string \<Rightarrow> u32" where
  "sample_index name = (case find_iface_idx (rw_iface_map sample_net) name of Some i \<Rightarrow> i | None \<Rightarrow> 0)"

lemma sample_net_added:
  "add_routes sample_routing True False sample_net = (Done (), snd (add_routes sample_routing True False sample_net))"
proof -
  have "fst (add_routes sample_routing True False sample_net) = Done ()"
    by (rule add_routes_succeed) (auto simp: sample_net_def sample_routing_def sample_link_def link_map_def map_interface_def
        iface_insert_def find_iface_idx_def List.map_filter_def)
  then show ?thesis by (cases "add_routes sample_routing True False sample_net") simp
qed

lemma sample_net_facts:
  "devices_known sample_index sample_net" "fresh_table sample_net"
  "list_all (unrelated (rw_fwmark sample_net) (rw_table_id sample_net)) (rw_rules sample_net)"
  "rw_iface_map sample_net = link_map (rw_links sample_net)" "rw_added_routes sample_net = []"
  "no_specific_route (rw_routes sample_net) (ipv4 8 8 8 8)" "no_specific_route (rw_routes sample_net) PUBLIC_INTERNET_ADDRESS_V4"
  "no_specific_route (rw_routes sample_net) PUBLIC_INTERNET_ADDRESS_V6"
proof -
  show map: "rw_iface_map sample_net = link_map (rw_links sample_net)" "rw_added_routes sample_net = []" by (simp_all add: sample_net_def)
  show "devices_known sample_index sample_net"
    unfolding devices_known_def device_index_def sample_index_def map(1) by simp
  show "fresh_table sample_net" by (simp add: fresh_table_def sample_net_defs msg_table_def RT_TABLE_MAIN_def)
  show "list_all (unrelated (rw_fwmark sample_net) (rw_table_id sample_net)) (rw_rules sample_net)"
    by (simp add: unrelated_def sample_net_defs all_rules_def rule_covers_def no_fwmark_rule_def suppress_rule_def exempt_rule_def
        EXEMPT_RULE_PRIORITY_def SUPPRESS_RULE_PRIORITY_def)
  show "no_specific_route (rw_routes sample_net) (ipv4 8 8 8 8)" "no_specific_route (rw_routes sample_net) PUBLIC_INTERNET_ADDRESS_V4"
    "no_specific_route (rw_routes sample_net) PUBLIC_INTERNET_ADDRESS_V6"
    by (simp_all add: no_specific_route_def table_lookup_def sample_net_def sample_default_route_def)
qed

lemma sample_net_fwmark: "rw_fwmark sample_net = 0x14d"
  by (simp add: sample_net_def TUNNEL_FWMARK_def)


theorem offline_verdict_unaffected_witness:
  "check_connectivity (Some 0x14d) ((snd (add_routes sample_routing True False sample_net))\<lparr>rw_answers := []\<rparr>)
     = ConnectivityStatus True False"
proof -
  have "others_unrelated sample_net" using sample_net_facts(3) by (auto simp: others_unrelated_def list_all_iff)
  moreover have "check_connectivity (Some 0x14d) (sample_net\<lparr>rw_answers := []\<rparr>) = ConnectivityStatus True False"
    by (simp add: check_connectivity_def get_destination_route_def request_def kernel_route_def sample_net_defs
        PUBLIC_INTERNET_ADDRESS_V4_def PUBLIC_INTERNET_ADDRESS_V6_def ipv4_def ipv6_of_segments_def priority_of_def rule_result_def
        rule_selects_def table_lookup_def route_serves_def msg_table_def msg_network_def msg_destination_def parse_route_message_def
        network_new_def host_bits_def parsed_to_route_def)
  ultimately show ?thesis
    using offline_verdict_unaffected [OF sample_net_added sample_net_facts(1,2), of "[]"] sample_net_facts(4,7,8)
    by (simp add: sample_net_fwmark EXEMPT_FWMARK_def)
qed

theorem remove_routes_restores_witness:
  "\<exists>w2. remove_routes ((snd (add_routes sample_routing True False (sample_net\<lparr>rw_answers := [Acknowledged, Acknowledged, Refused (- 12)]\<rparr>)))
       \<lparr>rw_answers := []\<rparr>) = (Done (), w2) \<and> rw_rules w2 = rw_rules sample_net \<and> rw_routes w2 = rw_routes sample_net"
proof -
  let ?w = "sample_net\<lparr>rw_answers := [Acknowledged, Acknowledged, Refused (- 12)]\<rparr>"
  have "devices_known sample_index ?w" "fresh_table ?w" "list_all (unrelated (rw_fwmark ?w) (rw_table_id ?w)) (rw_rules ?w)" "rw_added_routes ?w = []"
    using sample_net_facts by (simp_all add: devices_known_def device_index_def fresh_table_def)
  from remove_routes_restores [OF this(3,1,2,4) prod.collapse [symmetric], of sample_routing True False] show ?thesis by simp
qed

end
