(* ===== verification/Tunnel_Session.thy ===== *)
theory Tunnel_Session
  imports Tunnel_Monitor Tunnel_Progress Routing_Contract
begin

text \<open>
  The tunnel monitor and the state machine together. A session follows a protocol: which events it sends, in which
  order, and that the last one is \<open>Down\<close>. Fed with the events of its sessions the machine never meets one of its
  \<open>expect\<close>s unmet. The reasons a session can end with, and which traffic the tunnel's own configuration
  takes.
\<close>

subsection \<open>The protocol of a session\<close>

fun sent_events :: "monitor_step list \<Rightarrow> monitor_event list" where
  "sent_events [] = []"
| "sent_events (Sent ev # steps) = ev # sent_events steps"
| "sent_events (_ # steps) = sent_events steps"

lemma sent_events_append [simp]: "sent_events (xs @ ys) = sent_events xs @ sent_events ys"
  by (induction xs rule: sent_events.induct) simp_all

datatype stage =
  Begun | Account | Refreshed | Selecting | Selected | Registering | Registered | Interface | Running | Lost | Checked | Blamed
| Closed

text \<open>Gateways are selected exactly when the parameters bring none.\<close>

definition step_from :: "bool \<Rightarrow> stage \<Rightarrow> stage option" where
  "step_from allowed st = (if allowed then Some st else None)"

fun advance :: "bool \<Rightarrow> stage \<Rightarrow> monitor_event \<Rightarrow> stage option" where
  "advance given st AwaitingAccountReadiness = step_from (st = Begun) Account"
| "advance given st RefreshingGateways = step_from (st = Account) Refreshed"
| "advance given st SelectingGateways = step_from (\<not> given \<and> st = Refreshed) Selecting"
| "advance given st (SelectedGateways _) = step_from (st = Selecting) Selected"
| "advance given st RegisteringWithGateways = step_from (st = (if given then Refreshed else Selected)) Registering"
| "advance given st (RegistrationFailed _) = step_from (st = Registering) Blamed"
| "advance given st (RegisteredWithGateways _) = step_from (st = Registering) Registered"
| "advance given st (InterfaceUp _ _) = step_from (st = Registered) Interface"
| "advance given st (Up _ _) = step_from (st = Interface) Running"
| "advance given st ConnectionFailed = step_from (st = Interface \<or> st = Running) Lost"
| "advance given st (BandwidthChecks _ _) = step_from (st = Interface \<or> st = Running \<or> st = Lost) Checked"
| "advance given st (Down _) = step_from (st \<noteq> Closed) Closed"

fun advance_all :: "bool \<Rightarrow> stage \<Rightarrow> monitor_event list \<Rightarrow> stage option" where
  "advance_all given st [] = Some st"
| "advance_all given st (ev # evs) = Option.bind (advance given st ev) (\<lambda>st. advance_all given st evs)"

lemma advance_all_append:
  "advance_all given st (xs @ ys) = Option.bind (advance_all given st xs) (\<lambda>st. advance_all given st ys)"
  by (induction xs arbitrary: st) (simp_all add: bind_assoc split: Option.bind_splits)

definition at_stage :: "bool \<Rightarrow> stage set \<Rightarrow> session_world \<Rightarrow> bool" where
  "at_stage given S w = (\<exists>st\<in>S. advance_all given Begun (sent_events (sw_log w)) = Some st)"

abbreviation unfinished :: "bool \<Rightarrow> session_world \<Rightarrow> bool" where
  "unfinished given \<equiv> at_stage given (- {Closed})"

text \<open>Steps of a session, as triples over the stages; an error or an unfinished run leaves the session open.\<close>

definition passes :: "bool \<Rightarrow> stage set \<Rightarrow> 'a session \<Rightarrow> stage set \<Rightarrow> bool" where
  "passes given S m T = triple (at_stage given S) m (\<lambda>_. at_stage given T) (unfinished given)"

lemma at_stage_mono: "at_stage given S w \<Longrightarrow> S \<subseteq> T \<Longrightarrow> at_stage given T w"
  unfolding at_stage_def by blast

lemma passes_ret: "S \<subseteq> T \<Longrightarrow> passes given S (ret a) T"
  unfolding passes_def by (rule triple_ret) (rule at_stage_mono)

lemma passes_fail: "Closed \<notin> S \<Longrightarrow> passes given S (fail e) T"
  unfolding passes_def by (rule triple_fail) (erule at_stage_mono, blast)

lemma passes_bind: "passes given S m R \<Longrightarrow> (\<And>a. passes given R (f a) T) \<Longrightarrow> passes given S (bindp m f) T"
  unfolding passes_def by (rule triple_bind)

lemma passes_then: "passes given S m R \<Longrightarrow> passes given R n T \<Longrightarrow> passes given S (thenp m n) T"
  unfolding passes_def by (rule triple_then)

lemma passes_running: "Closed \<notin> S \<Longrightarrow> passes given S still_running T"
  unfolding passes_def triple_def still_running_def at_stage_def by auto

lemma passes_send:
  assumes "\<And>st. st \<in> S \<Longrightarrow> \<exists>st'\<in>T. advance given st ev = Some st'"
  shows "passes given S (send_event ev) T"
  using assms
  by (fastforce simp: passes_def triple_def send_event_def perform_def at_stage_def advance_all_append)

lemma passes_perform: "sent_events [step] = [] \<Longrightarrow> S \<subseteq> T \<Longrightarrow> passes given S (perform step) T"
  by (auto simp: passes_def triple_def perform_def at_stage_def)

lemma passes_route_call: "S \<subseteq> T \<Longrightarrow> passes given S (route_call m) T"
  unfolding passes_def triple_def route_call_def at_stage_def
  by (auto split: if_splits prod.splits outcome.splits)

lemma passes_option:
  "(x = None \<Longrightarrow> passes given S m T) \<Longrightarrow> (\<And>y. x = Some y \<Longrightarrow> passes given S (f y) T) \<Longrightarrow>
     passes given S (case x of None \<Rightarrow> m | Some y \<Rightarrow> f y) T"
  by (cases x) simp_all

lemma passes_sum:
  "(\<And>e. x = Inl e \<Longrightarrow> passes given S (f e) T) \<Longrightarrow> (\<And>y. x = Inr y \<Longrightarrow> passes given S (g y) T) \<Longrightarrow>
     passes given S (case x of Inl e \<Rightarrow> f e | Inr y \<Rightarrow> g y) T"
  by (cases x) simp_all

lemma passes_if: "(b \<Longrightarrow> passes given S m T) \<Longrightarrow> (\<not> b \<Longrightarrow> passes given S n T) \<Longrightarrow> passes given S (if b then m else n) T"
  by simp

lemma passes_prod: "(\<And>a b. x = (a, b) \<Longrightarrow> passes given S (f a b) T) \<Longrightarrow> passes given S (case x of (a, b) \<Rightarrow> f a b) T"
  by (cases x) simp

lemma passes_let: "passes given S (f a) T \<Longrightarrow> passes given S (let x = a in f x) T"
  by simp

lemma passes_for_each: "(\<And>x. passes given S (f x) S) \<Longrightarrow> passes given S (for_each f xs) S"
  by (induction xs) (auto intro: passes_ret passes_then)

lemmas passes_control = passes_bind passes_then passes_option passes_sum passes_if passes_prod passes_let

lemma passes_sent: "advance given st ev = Some st' \<Longrightarrow> passes given {st} (send_event ev) {st'}"
  by (rule passes_send) simp

lemma passes_await: "passes given {Begun} (await_account env) {Account}"
  unfolding await_account_def
  by (intro passes_then [OF passes_sent [where st' = Account]] passes_option passes_sum)
    (simp_all add: step_from_def passes_fail passes_ret split: unit.split)

abbreviation selected_stage :: "bool \<Rightarrow> stage" where
  "selected_stage given \<equiv> (if given then Refreshed else Selected)"

lemma passes_obtain:
  "passes (tp_selected_gateways p \<noteq> None) {Account} (obtain_gateways env p) {selected_stage (tp_selected_gateways p \<noteq> None)}"
  unfolding obtain_gateways_def
proof (rule passes_then [OF passes_sent [where st' = Refreshed]], simp add: step_from_def, intro passes_sum)
  show "passes (tp_selected_gateways p \<noteq> None) {Refreshed} (fail e) T" for e :: monitor_error and T
    by (rule passes_fail) simp
  have select: "passes False {Refreshed}
    (thenp (send_event SelectingGateways)
      (if se_selection_cancelled env then fail e
       else case r of Inl err \<Rightarrow> fail (h err) | Inr g \<Rightarrow> thenp (send_event (SelectedGateways g)) (ret g))) {Selected}" for e r h
    by (intro passes_then [OF passes_sent [where st' = Selecting]] passes_if passes_sum passes_fail
        passes_then [OF passes_sent [where st' = Selected]] passes_ret) (simp_all add: step_from_def)
  show "passes (tp_selected_gateways p \<noteq> None) {Refreshed}
     (case tp_selected_gateways p of
        None \<Rightarrow> thenp (send_event SelectingGateways)
          (if se_selection_cancelled env then fail (TunnelFailed TunnelCancelled)
           else case fst (select_gateways (se_selector env) lookup (se_keys env) (tp_blacklist p) (selection_of (tp_settings p))
                  (independence_criteria (tp_relax_independence p) (tp_settings p)) (se_rng env)) of
                  Inl e \<Rightarrow> fail (TunnelFailed (SelectGateways e))
                | Inr gateways \<Rightarrow> thenp (send_event (SelectedGateways gateways)) (ret gateways))
      | Some gateways \<Rightarrow> ret gateways)
     {selected_stage (tp_selected_gateways p \<noteq> None)}" for lookup
  proof (cases "tp_selected_gateways p")
    case None
    then show ?thesis unfolding None option.case by (simp only: simp_thms if_False select)
  qed (simp add: passes_ret)
qed

lemma passes_request: "Closed \<notin> S \<Longrightarrow> passes given S (registration_request_of env p gateways) S"
  unfolding registration_request_of_def announced_ip_def check_lp_details_def
  by (intro passes_bind [where R = S] passes_then [where R = S] passes_option passes_if passes_fail passes_ret; simp)

lemma passes_register: "passes given {selected_stage given} (register_gateways env p gateways) {Registered}"
  unfolding register_gateways_def
  by (intro passes_then [OF passes_sent [where st' = Registering]] passes_bind [OF passes_request] passes_option passes_sum
      passes_fail passes_then [OF passes_sent [where st' = Blamed]] passes_then [OF passes_sent [where st' = Registered]] passes_ret)
    (auto simp: step_from_def)

lemma passes_device: "Closed \<notin> S \<Longrightarrow> passes given S (create_device env config) S"
  unfolding create_device_def device_name_def
  by (intro passes_sum passes_then [OF passes_perform [where T = S]] passes_bind [where R = S] passes_option passes_fail passes_ret)
    auto

lemma passes_name: "Closed \<notin> S \<Longrightarrow> passes given S (device_name env device) S"
  unfolding device_name_def by (intro passes_sum passes_fail passes_ret) auto

lemma passes_routes: "Closed \<notin> S \<Longrightarrow> passes given S (set_routes settings config) S"
  unfolding set_routes_def
  by (intro passes_bind [OF passes_route_call [where T = S]] passes_sum passes_fail) (auto split: unit.splits intro: passes_perform)

lemma passes_announce: "passes given {Registered} (announce_interface_up gateways interface d) {Interface}"
  unfolding announce_interface_up_def by (rule passes_sent) (simp add: step_from_def)

lemma passes_start_wireguard: "Closed \<notin> S \<Longrightarrow> passes given S (start_wireguard env device config) S"
  unfolding start_wireguard_def by (intro passes_option passes_fail passes_perform) auto

lemma passes_cleanup: "passes given S (cleanup_stale_tun_devices env) S"
  unfolding cleanup_stale_tun_devices_def by (intro passes_for_each passes_if passes_perform passes_ret) auto

lemma passes_start_mixnet: "passes given {Registered} (start_mixnet_tunnel env settings r gateways) {Interface}"
  unfolding start_mixnet_tunnel_def mixnet_mtu_def create_mixnet_device_def
  by (intro passes_bind [where R = "{Registered}"] passes_option passes_ret passes_route_call passes_device passes_name
      passes_then [OF passes_routes] passes_let passes_then [OF passes_announce]
      passes_then [OF passes_perform [where T = "{Interface}"]]) auto

lemma passes_start_wireguard_tunnel: "passes given {Registered} (start_wireguard_tunnel env settings d gateways) {Interface}"
  unfolding start_wireguard_tunnel_def create_wireguard_device_def Let_def
  by (intro passes_then [OF passes_cleanup] passes_bind [where R = "{Registered}"] passes_device passes_name
      passes_then [OF passes_routes] passes_then [OF passes_announce] passes_then [OF passes_start_wireguard] passes_ret) auto

lemma passes_bridges: "Closed \<notin> S \<Longrightarrow> passes given S (start_bridges env gateways) S"
  unfolding start_bridges_def
  by (intro passes_option passes_sum passes_fail passes_then [OF passes_perform [where T = S]] passes_ret) auto

lemma passes_start: "passes given {Registered} (start_tunnel env p gateways result) {Interface}"
proof (cases result)
  case (MixnetRegistered r)
  then show ?thesis
    unfolding start_tunnel_def by (simp, intro passes_bind [OF passes_start_mixnet] passes_ret) simp
next
  case (WireguardRegistered r)
  then show ?thesis
    unfolding start_tunnel_def
    by (simp, intro passes_prod passes_bind [where R = "{Registered}"] passes_if passes_bridges passes_ret
        passes_bind [OF passes_start_wireguard_tunnel]) auto
qed

lemma passes_watch:
  assumes "\<exists>i d. up = Up i d"
  shows "passes given {if sent_up then Running else Interface} (watch_tunnel mixnet_client up last_status sent_up evs)
    {Interface, Running, Lost}"
proof (induction evs arbitrary: last_status sent_up)
  case Nil
  show ?case by (simp add: passes_running)
next
  case (Cons ev evs)
  obtain i d where up: "up = Up i d" using assms by blast
  define S where "S = {if sent_up then Running else Interface}"
  have stop: "passes given S (ret r) {Interface, Running, Lost}" for r
    unfolding S_def by (rule passes_ret) simp
  have sent: "passes given S
      (thenp (send_event up) (watch_tunnel mixnet_client up r True evs)) {Interface, Running, Lost}" if "\<not> sent_up" for r
    unfolding S_def using that up Cons.IH [of True r] by (auto intro!: passes_then [OF passes_sent [where st' = Running]] simp: step_from_def)
  have lost: "passes given S (thenp (send_event ConnectionFailed) (ret r)) {Interface, Running, Lost}" for r
    unfolding S_def by (rule passes_then [OF passes_sent [where st' = Lost] passes_ret]) (simp_all add: step_from_def)
  have later: "passes given S (watch_tunnel mixnet_client up r sent_up evs) {Interface, Running, Lost}" for r
    unfolding S_def by (rule Cons.IH)
  show ?case
  proof (cases ev)
    case (ConnectionStatus status)
    show ?thesis
      unfolding S_def [symmetric] watch_tunnel.simps ConnectionStatus session_event.case
      by (cases status) (simp_all only: connection_status_event.case, (intro passes_if later sent lost; assumption)+)
  qed (simp_all only: S_def [symmetric] watch_tunnel.simps session_event.case stop, intro passes_if stop later)
qed

lemma passes_finish: "passes given {Interface, Running, Lost} (finish_session env bw last_status) {Interface, Running, Lost, Checked}"
proof -
  have "passes given {Interface, Running, Lost} (report_bandwidth_checks outcome last_status) {Interface, Running, Lost, Checked}" for outcome
    unfolding report_bandwidth_checks_def by (rule passes_send) (auto simp: step_from_def)
  then show ?thesis
    unfolding finish_session_def by (intro passes_option passes_if passes_ret) auto
qed

lemma passes_run:
  "passes (tp_selected_gateways p \<noteq> None) {Begun} (run_inner env p) {Interface, Running, Lost, Checked}"
proof -
  have monitor: "passes given {Interface} (create_tunnel_connection_monitor env) {Interface}" for given
    unfolding create_tunnel_connection_monitor_def by (intro passes_option passes_ret passes_fail) auto
  have watch: "passes given {Interface} (watch_tunnel mixnet_client (Up i d) None False evs) {Interface, Running, Lost}"
    for given mixnet_client i d evs
    using passes_watch [where up = "Up i d" and sent_up = False] by simp
  show ?thesis
    unfolding run_inner_def
    by (intro passes_if passes_fail passes_then [OF passes_await] passes_bind [OF passes_obtain] passes_bind [OF passes_register]
        passes_bind [OF passes_start] passes_prod passes_then [OF monitor] passes_bind [OF watch] passes_finish) simp
qed

definition session_start :: "route_world \<Rightarrow> session_world" where
  "session_start net = \<lparr>sw_log = [], sw_net = net, sw_manager_down = False\<rparr>"

definition session_log :: "('r, 'v) session_env \<Rightarrow> tunnel_parameters \<Rightarrow> route_world \<Rightarrow> monitor_step list" where
  "session_log env p net = sw_log (run_monitor env p (session_start net))"

definition session_events :: "('r, 'v) session_env \<Rightarrow> tunnel_parameters \<Rightarrow> route_world \<Rightarrow> monitor_event list" where
  "session_events env p net = sent_events (session_log env p net)"

definition session_ended :: "('r, 'v) session_env \<Rightarrow> tunnel_parameters \<Rightarrow> route_world \<Rightarrow> bool" where
  "session_ended env p net = (fst (run_inner env p (session_start net)) \<noteq> Crashed)"

lemma run_unfinished:
  assumes "run_inner env p (session_start net) = (r, w)"
  shows "unfinished (tp_selected_gateways p \<noteq> None) w"
proof -
  have "at_stage (tp_selected_gateways p \<noteq> None) {Begun} (session_start net)" by (simp add: session_start_def at_stage_def)
  then have "case r of Done _ \<Rightarrow> at_stage (tp_selected_gateways p \<noteq> None) {Interface, Running, Lost, Checked} w
      | _ \<Rightarrow> unfinished (tp_selected_gateways p \<noteq> None) w"
    using passes_run [of p env] assms unfolding passes_def triple_def by blast
  then show ?thesis by (cases r) (auto elim: at_stage_mono)
qed

lemma session_log_run:
  assumes "run_inner env p (session_start net) = (r, w)"
  shows "session_log env p net = sw_log w @
    (case r of Done _ \<Rightarrow> [Sent (Down None)] | Failed e \<Rightarrow> [Sent (Down (error_state_reason_of e))] | Crashed \<Rightarrow> [])"
  using assms by (simp add: session_log_def run_monitor_def send_event_def perform_def split: outcome.splits unit.splits)

lemma open_no_down: "advance_all given st0 evs = Some st \<Longrightarrow> st \<noteq> Closed \<Longrightarrow> Down reason \<notin> set evs"
proof (induction evs arbitrary: st0)
  case (Cons ev evs)
  have closed: "advance_all given Closed evs = Some st \<Longrightarrow> evs = []"
    by (cases evs; cases "hd evs") (auto simp: step_from_def split: if_splits)
  show ?case
    using Cons closed by (cases "advance given st0 ev"; cases ev) (auto simp: step_from_def split: if_splits)
qed simp

lemma session_protocol:
  "\<exists>st. advance_all (tp_selected_gateways p \<noteq> None) Begun (session_events env p net) = Some st
     \<and> (st = Closed \<longleftrightarrow> session_ended env p net)"
proof -
  obtain r w where run: "run_inner env p (session_start net) = (r, w)" by fastforce
  obtain st where "st \<noteq> Closed" "advance_all (tp_selected_gateways p \<noteq> None) Begun (sent_events (sw_log w)) = Some st"
    using run_unfinished [OF run] by (auto simp: at_stage_def)
  then show ?thesis
    using run
    by (cases r) (simp_all add: session_events_def session_log_run [OF run] session_ended_def advance_all_append step_from_def)
qed

text \<open>C27: a session tells the state machine its story in order. Whatever the account, the directory, the gateways, the
  kernel and the network answer, its events are a run of the protocol: account, gateways, registration, interface,
  up, and what went wrong; gateways are selected exactly when none were given; at most one \<open>Up\<close> and at most one
  failure report each. \<open>Down\<close> is sent once, as the last event, and it is sent whenever the session ends.\<close>

theorem session_follows_protocol:
  "\<exists>st. advance_all (tp_selected_gateways p \<noteq> None) Begun (session_events env p net) = Some st
     \<and> (st = Closed \<longleftrightarrow> session_ended env p net)"
  by (rule session_protocol)

subsection \<open>The machine fed by its sessions\<close>

text \<open>
  Events of a session the connecting state can take: an \<open>Up\<close> finds gateways selected. After a failure report none
  may be left.
\<close>

fun feeds :: "bool \<Rightarrow> monitor_event list \<Rightarrow> bool" where
  "feeds chosen [] = True"
| "feeds chosen (ev # evs) =
     (case ev of
        Up _ _ \<Rightarrow> chosen
      | Down _ \<Rightarrow> True
      | SelectedGateways _ \<Rightarrow> feeds True evs
      | ConnectionFailed \<Rightarrow> feeds False evs
      | RegistrationFailed _ \<Rightarrow> feeds False evs
      | BandwidthChecks _ _ \<Rightarrow> feeds False evs
      | _ \<Rightarrow> feeds chosen evs)"

lemma feeds_mono: "feeds False evs \<Longrightarrow> feeds chosen evs"
  by (induction evs arbitrary: chosen) (auto split: monitor_event.splits)

lemma protocol_feeds:
  "advance_all given st evs = Some st' \<Longrightarrow> (chosen \<longleftrightarrow> given \<or> st \<in> {Selected, Registering, Registered, Interface}) \<or>
     st \<in> {Running, Lost, Checked, Blamed, Closed} \<Longrightarrow> feeds chosen evs"
proof (induction evs arbitrary: st chosen)
  case (Cons ev evs)
  obtain st1 where st1: "advance given st ev = Some st1" "advance_all given st1 evs = Some st'"
    using Cons.prems(1) by (cases "advance given st ev") auto
  show ?case
    using Cons.IH [OF st1(2)] Cons.prems(2) st1(1)
    by (cases ev) (auto simp: step_from_def split: if_splits)
qed simp

lemma session_feeds: "feeds (tp_selected_gateways p \<noteq> None) (session_events env p net)"
proof -
  obtain st where "advance_all (tp_selected_gateways p \<noteq> None) Begun (session_events env p net) = Some st"
    using session_protocol [of p env net] by blast
  then show ?thesis by (rule protocol_feeds) simp
qed

text \<open>
  A run of the machine in which the monitor events are those of the session started last, in the order they were
  sent: the connecting state holds the sending end of its channel until it starts a session, and a state that
  does not poll the channel drops what is in it. Other events and the world come as they like.
\<close>

fun polls :: "tunnel_state \<Rightarrow> bool" where
  "polls (StConnecting cs) = (\<not> cs_event_sender cs)"
| "polls (StConnected ds) = True"
| "polls _ = False"

fun starts_session :: "tunnel_state \<Rightarrow> next_tunnel_state \<Rightarrow> connecting_state option" where
  "starts_session (StConnecting cs) (SameState (StConnecting cs')) =
     (if cs_event_sender cs \<and> \<not> cs_event_sender cs' then Some cs' else None)"
| "starts_session _ _ = None"

fun is_monitor :: "event \<Rightarrow> bool" where
  "is_monitor (Monitor _) = True"
| "is_monitor _ = False"

definition new_channel :: "event \<Rightarrow> tunnel_state \<Rightarrow> next_tunnel_state \<Rightarrow> 'w shared_state \<Rightarrow> monitor_event list \<Rightarrow> monitor_event list \<Rightarrow> bool" where
  "new_channel ev st n s channel channel' =
     (case starts_session st n of
        None \<Rightarrow> channel' = channel
      | Some cs \<Rightarrow>
          \<exists>(env :: (nat, nat) session_env) net resolved. ev = Resolved (Some resolved) \<and>
            channel' = session_events env (monitor_params (Some resolved) cs s) net)"

inductive fed_run ::
  "'w world_ops \<Rightarrow> ('w \<Rightarrow> 'w \<Rightarrow> bool) \<Rightarrow> tunnel_state \<Rightarrow> 'w shared_state \<Rightarrow> event list \<Rightarrow> next_tunnel_state \<Rightarrow> 'w shared_state
   \<Rightarrow> monitor_event list \<Rightarrow> bool"
  for io :: "'w world_ops" and env :: "'w \<Rightarrow> 'w \<Rightarrow> bool" and st0 :: tunnel_state and s0 :: "'w shared_state"
where
  fed_start: "fed_run io env st0 s0 [] (SameState st0) s0 []"
| fed_monitor: "fed_run io env st0 s0 evs n s (mev # channel) \<Longrightarrow> resumed n = Some st \<Longrightarrow> polls st \<Longrightarrow> env (sh_world s) w \<Longrightarrow>
    run_state (handle_event io st (Monitor mev)) (s\<lparr>sh_world := w\<rparr>) = (n', s') \<Longrightarrow>
    fed_run io env st0 s0 (evs @ [Monitor mev]) n' s' channel"
| fed_other: "fed_run io env st0 s0 evs n s channel \<Longrightarrow> resumed n = Some st \<Longrightarrow> \<not> is_monitor ev \<Longrightarrow> env (sh_world s) w \<Longrightarrow>
    run_state (handle_event io st ev) (s\<lparr>sh_world := w\<rparr>) = (n', s') \<Longrightarrow> new_channel ev st n' s' channel channel' \<Longrightarrow>
    fed_run io env st0 s0 (evs @ [ev]) n' s' channel'"

text \<open>A connecting state that was just entered.\<close>

definition fresh_connecting :: "connecting_state \<Rightarrow> bool" where
  "fresh_connecting cs = (cs_event_sender cs \<and> cs_monitor cs = None)"

definition only_fresh :: "next_tunnel_state \<Rightarrow> bool" where
  "only_fresh n = (n \<noteq> Panicked \<and> (\<forall>cs. resumed n = Some (StConnecting cs) \<longrightarrow> fresh_connecting cs))"

abbreviation lands_fresh :: "'w handling \<Rightarrow> bool" where
  "lands_fresh m \<equiv> always (\<lambda>n _. only_fresh n) m"

lemma fresh_entered_idle:
  "always (\<lambda>(st, private) _. only_fresh (NewState st private)) (enter_error io reason)"
  "always (\<lambda>(st, private) _. only_fresh (NewState st private)) (enter_offline io reconnect gateways)"
  "always (\<lambda>(st, private) _. only_fresh (NewState st private)) (enter_disconnecting io after monitor)"
  unfolding enter_error_def enter_offline_def enter_disconnecting_def by (intro always_rules; simp add: only_fresh_def)+

lemma fresh_entered:
  "always (\<lambda>(st, private) _. only_fresh (NewState st private)) (enter_disconnected io)"
  "always (\<lambda>(st, private) _. only_fresh (NewState st private)) (enter_connecting io retry selected)"
  "always (\<lambda>(st, private) _. only_fresh (NewState st private)) (enter_connected io interface data selected' monitor')"
  unfolding enter_disconnected_def enter_connecting_def enter_connected_def
  by (intro always_rules fresh_entered_idle; simp add: only_fresh_def fresh_connecting_def)+

lemmas fresh_states = fresh_entered_idle fresh_entered

lemma fresh_connecting_parts:
  "lands_fresh (reconnect_attempt io cs)"
  "lands_fresh (connecting_disconnect io after monitor)"
  "lands_fresh (connecting_stop io cs)"
  "lands_fresh (connecting_policy_failed io cs)"
  unfolding reconnect_attempt_def connecting_disconnect_def connecting_stop_def connecting_policy_failed_def
  by (intro always_rules fresh_states; cases "cs_monitor cs"; simp add: fresh_states)+

lemma fresh_up:
  assumes "cs_selected_gateways cs \<noteq> None" "cs_monitor cs \<noteq> None"
  shows "lands_fresh (connecting_up io interface data cs)"
  using assms unfolding connecting_up_def by (auto intro!: always_rules fresh_states)

lemma fresh_down:
  assumes "cs_monitor cs \<noteq> None"
  shows "lands_fresh (connecting_down io reason cs)"
  using assms unfolding connecting_down_def
  by (auto intro!: always_rules fresh_states fresh_connecting_parts split: option.split)

lemma fresh_disconnected: "lands_fresh (handle_disconnected io a ev)"
  unfolding handle_disconnected_def
  by (cases ev rule: event.exhaust; simp split: tunnel_command.splits;
      intro conjI impI allI always_rules fresh_states; simp add: only_fresh_def)

lemma fresh_error: "lands_fresh (handle_error io reason a ev)"
  unfolding handle_error_def
  by (cases ev rule: event.exhaust; simp split: tunnel_command.splits;
      intro conjI impI allI always_rules fresh_states; simp add: only_fresh_def)

lemma fresh_offline: "lands_fresh (handle_offline io reconnect gateways lan ev)"
  unfolding handle_offline_def
  by (cases ev rule: event.exhaust; simp split: tunnel_command.splits;
      intro conjI impI allI always_rules fresh_states; simp add: only_fresh_def)

lemma fresh_disconnecting: "lands_fresh (handle_disconnecting io after waiting ev)"
proof -
  have "lands_fresh (leave_disconnecting io after)"
    unfolding leave_disconnecting_def by (cases after) (simp_all add: always_new_state fresh_states)
  then show ?thesis
    unfolding handle_disconnecting_def
    by (cases waiting; cases ev rule: event.exhaust; simp split: tunnel_command.splits;
        intro conjI impI allI always_rules fresh_states; simp add: only_fresh_def)
qed

lemma fresh_connected_parts:
  "lands_fresh (connected_disconnect io after ds)"
  "lands_fresh (handle_tunnel_down io reason ds)"
  unfolding connected_disconnect_def handle_tunnel_down_def bandwidth_failure_end_def ordinary_end_def
  by (intro always_rules fresh_states)+

lemma fresh_connected: "lands_fresh (handle_connected io ds ev)"
  unfolding handle_connected_def connected_set_settings_def
  by (cases ev rule: event.exhaust; simp split: tunnel_command.splits monitor_event.splits;
      intro conjI impI allI always_rules fresh_connected_parts fresh_states; simp add: only_fresh_def)

lemma fresh_event:
  assumes "\<And>cs. st \<noteq> StConnecting cs" and "run_state (handle_event io st ev) s = (n, s')"
  shows "only_fresh n"
proof -
  have "lands_fresh (handle_event io st ev)"
  proof (cases st)
    case (StConnecting cs)
    then show ?thesis using assms(1) by blast
  qed (simp_all add: handle_event_def fresh_disconnected fresh_error fresh_offline fresh_disconnecting fresh_connected)
  then show ?thesis using wp_run [OF always_wp] assms(2) by fast
qed

text \<open>What an event that is not the session's makes of a connecting state.\<close>

definition stays :: "connecting_state \<Rightarrow> next_tunnel_state \<Rightarrow> bool" where
  "stays cs n =
     (n \<noteq> Panicked \<and> (\<forall>cs'. resumed n = Some (StConnecting cs') \<longrightarrow>
        fresh_connecting cs'
        \<or> cs_event_sender cs' = cs_event_sender cs \<and> cs_monitor cs' = cs_monitor cs \<and> cs_selected_gateways cs' = cs_selected_gateways cs
        \<or> n = SameState (StConnecting cs') \<and> cs_event_sender cs \<and> \<not> cs_event_sender cs' \<and> cs_monitor cs' \<noteq> None))"

lemma fresh_stays: "lands_fresh m \<Longrightarrow> always (\<lambda>n _. stays cs n) m"
  by (erule always_mono) (auto simp: only_fresh_def stays_def)

lemmas stays_states = fresh_states [THEN always_new_state [THEN fresh_stays]] fresh_connecting_parts [THEN fresh_stays]

lemma settle_sender: "always (\<lambda>cs' _. cs_event_sender cs' = cs_event_sender cs) (settle_entry_gateway_suspect io cs)"
  unfolding settle_entry_gateway_suspect_def by (intro always_rules; simp)

lemma start_stays:
  "cs_event_sender cs' = cs_event_sender cs \<Longrightarrow> always (\<lambda>n _. stays cs n) (start_tunnel_monitor io resolved cs')"
  unfolding start_tunnel_monitor_def
  by (rule always_if, simp add: stays_states) (intro always_bind always_same_state, simp add: stays_def)

lemma resolved_stays: "always (\<lambda>n _. stays cs n) (handle_resolved_gateway_config io result cs)"
proof (cases result)
  case None
  then show ?thesis unfolding handle_resolved_gateway_config_def Let_def by (simp add: stays_states)
next
  case (Some resolved)
  have settled: "always (\<lambda>n _. stays cs n)
      (State_Monad.bind (settle_entry_gateway_suspect io (cs\<lparr>cs_resolving := False, cs_params := p\<rparr>)) (\<lambda>cs'.
        State_Monad.bind (force_account_refresh_if_time_desynced io (cs_retry_attempt cs')) (\<lambda>_. start_tunnel_monitor io r cs')))" for p r
    by (rule always_bind_result [OF settle_sender], rule always_bind, rule start_stays) simp
  show ?thesis
    unfolding handle_resolved_gateway_config_def Let_def Some option.case
    by (rule always_bind, rule always_bind, rule always_bind, rule always_if, rule stays_states, rule always_bind, rule always_if,
        rule stays_states, rule always_bind, rule settled)
qed

lemma other_stays:
  assumes "\<not> is_monitor ev"
  shows "always (\<lambda>n _. stays cs n) (handle_connecting io cs ev)"
  using assms unfolding handle_connecting_def connecting_set_settings_def
  by (cases ev rule: event.exhaust; simp split: tunnel_command.splits;
      intro conjI impI allI always_bind always_let always_if always_option resolved_stays stays_states always_same_state;
      simp add: stays_def)

text \<open>What an event of the session makes of a connecting state with a session.\<close>

definition carries :: "connecting_state \<Rightarrow> monitor_event list \<Rightarrow> next_tunnel_state \<Rightarrow> bool" where
  "carries cs channel n =
     (n \<noteq> Panicked \<and> (\<forall>cs'. resumed n = Some (StConnecting cs') \<longrightarrow>
        fresh_connecting cs'
        \<or> cs_event_sender cs' = cs_event_sender cs \<and> cs_monitor cs' = cs_monitor cs
          \<and> feeds (cs_selected_gateways cs' \<noteq> None) channel))"

lemma fresh_carries: "lands_fresh m \<Longrightarrow> always (\<lambda>n _. carries cs channel n) m"
  by (erule always_mono) (auto simp: only_fresh_def carries_def)

lemma blame_carries:
  "always (\<lambda>cs' _. cs_event_sender cs' = cs_event_sender cs \<and> cs_monitor cs' = cs_monitor cs) (handle_gateway_failure io culpable cs)"
  unfolding handle_gateway_failure_def by (intro always_rules; simp)

lemma bandwidth_carries:
  "always (\<lambda>cs' _. cs_event_sender cs' = cs_event_sender cs \<and> cs_monitor cs' = cs_monitor cs) (connecting_bandwidth io failure worked cs)"
  unfolding connecting_bandwidth_def by (intro always_rules blame_carries; simp)

lemma monitor_carries:
  assumes "cs_monitor cs \<noteq> None" and "feeds (cs_selected_gateways cs \<noteq> None) (mev # channel)"
  shows "always (\<lambda>n _. carries cs channel n) (connecting_monitor_event io mev cs)"
proof -
  have same: "always (\<lambda>n _. carries cs channel n) (same_state (StConnecting cs'))"
    if "cs_event_sender cs' = cs_event_sender cs \<and> cs_monitor cs' = cs_monitor cs" "feeds (cs_selected_gateways cs' \<noteq> None) channel" for cs'
    using that by (intro always_same_state) (simp add: carries_def)
  have report: "always (\<lambda>n _. carries cs channel n) (report_progress progress cs')"
    if "cs_event_sender cs' = cs_event_sender cs \<and> cs_monitor cs' = cs_monitor cs" "feeds (cs_selected_gateways cs' \<noteq> None) channel" for progress cs'
    unfolding report_progress_def using that by (intro always_bind always_return) (simp add: carries_def)
  note failed = fresh_connecting_parts(4) [THEN fresh_carries]
  have blamed: "always (\<lambda>n _. carries cs channel n) (State_Monad.bind m (\<lambda>cs'. same_state (StConnecting cs')))"
    if "always (\<lambda>cs' _. cs_event_sender cs' = cs_event_sender cs \<and> cs_monitor cs' = cs_monitor cs) m" "feeds False channel" for m
    by (rule always_bind_result [OF that(1)], rule same, assumption, rule feeds_mono [OF that(2)])
  show ?thesis
  proof (cases mev)
    case (SelectedGateways g)
    have "always (\<lambda>r _. cs_event_sender (snd r) = cs_event_sender cs \<and> cs_monitor (snd r) = cs_monitor cs
        \<and> cs_selected_gateways (snd r) \<noteq> None) (connecting_selected_gateways io g cs)"
      unfolding connecting_selected_gateways_def by (intro always_rules; simp)
    then show ?thesis
      unfolding connecting_monitor_event_def SelectedGateways monitor_event.case using assms(2) SelectedGateways
      by (elim always_bind_result) (auto intro!: always_prod always_if same failed)
  next
    case (InterfaceUp i d)
    then show ?thesis
      unfolding connecting_monitor_event_def InterfaceUp monitor_event.case Let_def using assms(2) InterfaceUp
      by (intro always_bind always_if report failed) simp_all
  next
    case (RegisteredWithGateways d)
    then show ?thesis
      unfolding connecting_monitor_event_def RegisteredWithGateways monitor_event.case using assms(2) RegisteredWithGateways
      by (intro always_bind report) (simp_all add: connecting_registered_def)
  qed (use assms in \<open>simp_all add: connecting_monitor_event_def report blamed blame_carries bandwidth_carries
        fresh_up fresh_down fresh_carries\<close>)
qed

definition fed_ok :: "next_tunnel_state \<Rightarrow> monitor_event list \<Rightarrow> bool" where
  "fed_ok n channel =
     (n \<noteq> Panicked \<and> (\<forall>cs. resumed n = Some (StConnecting cs) \<longrightarrow>
        fresh_connecting cs
        \<or> \<not> cs_event_sender cs \<and> cs_monitor cs \<noteq> None \<and> feeds (cs_selected_gateways cs \<noteq> None) channel))"

lemma fresh_ok: "only_fresh n \<Longrightarrow> fed_ok n channel"
  by (simp add: only_fresh_def fed_ok_def)

lemma session_params_feeds: "feeds (cs_selected_gateways cs \<noteq> None) (session_events env (monitor_params resolved cs s) net)"
  using session_feeds [of "monitor_params resolved cs s"] by (simp add: monitor_params_def)

lemma fed_step_other:
  assumes "fed_ok n channel" "resumed n = Some st" "\<not> is_monitor ev" "run_state (handle_event io st ev) s = (n', s')"
    and "new_channel ev st n' s' channel channel'"
  shows "fed_ok n' channel'"
proof (cases st)
  case (StConnecting cs)
  have "stays cs n'"
    using wp_run [OF always_wp [OF other_stays [OF assms(3)]]] assms(4) by (simp add: StConnecting handle_event_def)
  then have n': "n' \<noteq> Panicked" "\<And>cs'. resumed n' = Some (StConnecting cs') \<Longrightarrow>
      fresh_connecting cs'
      \<or> cs_event_sender cs' = cs_event_sender cs \<and> cs_monitor cs' = cs_monitor cs \<and> cs_selected_gateways cs' = cs_selected_gateways cs
      \<or> n' = SameState (StConnecting cs') \<and> cs_event_sender cs \<and> \<not> cs_event_sender cs' \<and> cs_monitor cs' \<noteq> None"
    by (auto simp: stays_def)
  have old: "fresh_connecting cs \<or> \<not> cs_event_sender cs \<and> cs_monitor cs \<noteq> None \<and> feeds (cs_selected_gateways cs \<noteq> None) channel"
    using assms(1,2) by (simp add: fed_ok_def StConnecting)
  have "fresh_connecting cs' \<or> \<not> cs_event_sender cs' \<and> cs_monitor cs' \<noteq> None \<and> feeds (cs_selected_gateways cs' \<noteq> None) channel'"
    if cs': "resumed n' = Some (StConnecting cs')" for cs'
    using n'(2) [OF cs']
  proof (elim disjE conjE)
    assume same: "cs_event_sender cs' = cs_event_sender cs" "cs_monitor cs' = cs_monitor cs"
      "cs_selected_gateways cs' = cs_selected_gateways cs"
    then have "starts_session st n' = None"
      using cs' by (cases "(st, n')" rule: starts_session.cases) (auto simp: StConnecting)
    then show ?thesis using old same assms(5) by (auto simp: new_channel_def fresh_connecting_def)
  next
    assume start: "n' = SameState (StConnecting cs')" "cs_event_sender cs" "\<not> cs_event_sender cs'" "cs_monitor cs' \<noteq> None"
    then show ?thesis using assms(5) session_params_feeds [of cs'] by (auto simp: new_channel_def StConnecting)
  qed simp
  then show ?thesis using n'(1) by (simp add: fed_ok_def)
qed (rule fresh_ok [OF fresh_event [OF _ assms(4)]], simp)+

lemma fed_step_monitor:
  assumes "fed_ok n (mev # channel)" "resumed n = Some st" "polls st" "run_state (handle_event io st (Monitor mev)) s = (n', s')"
  shows "fed_ok n' channel"
proof (cases st)
  case (StConnecting cs)
  have cs: "cs_monitor cs \<noteq> None" "feeds (cs_selected_gateways cs \<noteq> None) (mev # channel)" "\<not> cs_event_sender cs"
    using assms(1-3) by (auto simp: fed_ok_def StConnecting fresh_connecting_def)
  have "carries cs channel n'"
    using wp_run [OF always_wp [OF monitor_carries [OF cs(1,2)]]] assms(4)
    by (simp add: StConnecting handle_event_def handle_connecting_def)
  then show ?thesis using cs by (auto simp: carries_def fed_ok_def)
qed (rule fresh_ok [OF fresh_event [OF _ assms(4)]], simp)+

lemma fed_run_ok:
  assumes "fed_run io env st0 s0 evs n s channel" and "\<And>cs. st0 = StConnecting cs \<Longrightarrow> fresh_connecting cs"
  shows "fed_ok n channel"
  using assms(1)
proof (induction rule: fed_run.induct)
  case fed_start
  show ?case using assms(2) by (simp add: fed_ok_def)
next
  case (fed_monitor evs n s mev channel st w n' s')
  then show ?case using fed_step_monitor by blast
next
  case (fed_other evs n s channel st ev w n' s' channel')
  then show ?case using fed_step_other by blast
qed

text \<open>C24: the state machine never panics on its own sessions. Started as \<open>spawn\<close> starts it and fed with the events of
  the sessions it starts, in the order they are sent, with any commands, timers, connectivity changes and
  resolutions in between, whatever any call answers and whatever the sessions meet, it never reaches one of the
  three \<open>expect\<close>s of the connecting state with nothing to unwrap.\<close>

theorem machine_never_panics:
  assumes "run_state (spawn_machine io) start = ((st0, private), s0)" and "fed_run io env st0 s0 evs n s channel"
  shows "n \<noteq> Panicked"
proof -
  have "always (\<lambda>(st, private) _. only_fresh (NewState st private)) (spawn_machine io)"
    unfolding spawn_machine_def by (intro always_rules fresh_states)
  from wp_run [OF always_wp [OF this] assms(1)] have "only_fresh (NewState st0 private)" by simp
  then have "fed_ok n channel" by (intro fed_run_ok [OF assms(2)]) (simp add: only_fresh_def)
  then show ?thesis by (simp add: fed_ok_def)
qed

subsection \<open>Why a session ends\<close>

definition raises :: "(monitor_error \<Rightarrow> bool) \<Rightarrow> 'a session \<Rightarrow> bool" where
  "raises R m = (\<forall>w e w'. m w = (Failed e, w') \<longrightarrow> R e)"

lemma raises_ret: "raises R (ret a)"
  by (simp add: raises_def ret_def)

lemma raises_fail: "R e \<Longrightarrow> raises R (fail e)"
  by (simp add: raises_def fail_def)

lemma raises_bind: "raises R m \<Longrightarrow> (\<And>a. raises R (f a)) \<Longrightarrow> raises R (bindp m f)"
  by (auto simp: raises_def bindp_def split: prod.splits outcome.splits)

lemma raises_then: "raises R m \<Longrightarrow> raises R n \<Longrightarrow> raises R (thenp m n)"
  unfolding thenp_def by (rule raises_bind)

lemma raises_quiet: "raises R (perform step)" "raises R (send_event ev)" "raises R still_running" "raises R (route_call m)"
  by (auto simp: raises_def send_event_def perform_def still_running_def route_call_def split: if_splits prod.splits outcome.splits)

lemma raises_option:
  "(x = None \<Longrightarrow> raises R m) \<Longrightarrow> (\<And>y. x = Some y \<Longrightarrow> raises R (f y)) \<Longrightarrow> raises R (case x of None \<Rightarrow> m | Some y \<Rightarrow> f y)"
  by (cases x) simp_all

lemma raises_sum:
  "(\<And>e. x = Inl e \<Longrightarrow> raises R (f e)) \<Longrightarrow> (\<And>y. x = Inr y \<Longrightarrow> raises R (g y)) \<Longrightarrow> raises R (case x of Inl e \<Rightarrow> f e | Inr y \<Rightarrow> g y)"
  by (cases x) simp_all

lemma raises_if: "(b \<Longrightarrow> raises R m) \<Longrightarrow> (\<not> b \<Longrightarrow> raises R n) \<Longrightarrow> raises R (if b then m else n)"
  by simp

lemma raises_prod: "(\<And>a b. x = (a, b) \<Longrightarrow> raises R (f a b)) \<Longrightarrow> raises R (case x of (a, b) \<Rightarrow> f a b)"
  by (cases x) simp

lemma raises_let: "raises R (f a) \<Longrightarrow> raises R (let x = a in f x)"
  by simp

lemma raises_unit: "raises R m \<Longrightarrow> raises R (case_unit m u)"
  by (simp split: unit.split)

lemma raises_for_each: "(\<And>x. raises R (f x)) \<Longrightarrow> raises R (for_each f xs)"
  by (induction xs) (simp_all add: raises_ret raises_then)

lemmas raises_rules = raises_ret raises_bind raises_then raises_quiet raises_option raises_sum raises_if raises_prod raises_let
  raises_unit raises_for_each

text \<open>The errors a selection reports.\<close>

fun selection_error :: "select_error \<Rightarrow> bool" where
  "selection_error (SameEntryAndExitGateway _) = True"
| "selection_error (NeedsRelaxedIndependenceCriteria _) = True"
| "selection_error (EntryGatewayUnavailable _) = True"
| "selection_error (ExitGatewayUnavailable _) = True"
| "selection_error (LookupGateways _) = True"
| "selection_error (LoadKeypair _) = True"
| "selection_error _ = False"

lemma exit_loop_error:
  "exit_loop env ps criteria entries exits err r = (Inl e, r') \<Longrightarrow> (\<forall>e'. err = Some e' \<longrightarrow> selection_error e') \<Longrightarrow> selection_error e"
proof (induction env ps criteria entries exits err r rule: exit_loop.induct)
  case (1 env ps criteria entries exits err r)
  obtain res r1 where exit_search: "best_exit env ps exits r = (res, r1)" by (cases "best_exit env ps exits r")
  show ?case
  proof (cases res)
    case (Inl er)
    then show ?thesis
      using 1(2,3) exit_loop_stop [of env ps exits r er r1 criteria entries err] exit_search by (auto split: option.splits)
  next
    case (Inr y)
    obtain found r2 where entry_search: "best_entry env ps (entry_candidates env criteria entries y) r1 = (found, r2)"
      by (cases "best_entry env ps (entry_candidates env criteria entries y) r1")
    note loop = exit_loop_round [OF exit_search [unfolded Inr] entry_search, of err]
    show ?thesis
    proof (cases found)
      case (Inl er)
      then show ?thesis
        using 1(1) [OF exit_search [symmetric] Inr entry_search [symmetric] Inl] 1(2) by (simp add: loop)
    qed (use 1(2) loop in simp)
  qed
qed

lemma criteria_error: "select_with_criteria env ps criteria entries exits r = (Inl e, r') \<Longrightarrow> selection_error e"
  unfolding select_with_criteria_def by (auto split: prod.splits sum.splits dest: exit_loop_error)

lemma pair_error: "select_pair env ps criteria entries exits r = (Inl e, r') \<Longrightarrow> selection_error e"
  unfolding select_pair_def Let_def by (auto split: prod.splits sum.splits if_splits dest: criteria_error)

lemma candidates_error: "candidate_lists lookup tunnel_type bridges = Inl e \<Longrightarrow> selection_error e"
  unfolding candidate_lists_def by (auto split: tunnel_type.splits sum.splits simp: Let_def)

lemma gateway_pair_error: "select_gateway_pair env lookup b settings criteria r = (Inl e, r') \<Longrightarrow> selection_error e"
  unfolding select_gateway_pair_def Let_def
  by (auto split: entry_point.splits exit_point.splits sum.splits if_splits dest: pair_error candidates_error)

lemma select_error:
  assumes "fst (select_gateways env lookup keys b settings criteria r) = Inl e"
  shows "selection_error e"
proof (cases "select_gateway_pair env lookup b settings criteria r")
  case (Pair found r1)
  then show ?thesis
    using assms gateway_pair_error [of env lookup b settings criteria r]
    by (cases found) (auto simp: select_gateways_def split: option.splits prod.splits)
qed

text \<open>The errors a session ends with.\<close>

fun session_error :: "monitor_error \<Rightarrow> bool" where
  "session_error Ipv6Disabled = True"
| "session_error (AccountFailed _) = True"
| "session_error (GatewayDirectoryClient _) = True"
| "session_error (CreateTunDevice _) = True"
| "session_error (GetTunDeviceName _) = True"
| "session_error (SetTunDeviceIpv6Addr _) = True"
| "session_error (AddRoutes _) = True"
| "session_error (CreateTcpProbe _) = True"
| "session_error (TunnelFailed e) =
     (case e of
        SelectGateways s \<Rightarrow> selection_error s \<or> (\<exists>i. s = MalformedLewesProtocolInfo i)
      | MixnetClient _ \<Rightarrow> False
      | BandwidthControllerFailed _ \<Rightarrow> False
      | DupFd _ \<Rightarrow> False
      | _ \<Rightarrow> True)"
| "session_error _ = False"

lemma raises_account: "raises session_error (await_account env)"
proof -
  have "session_error e" if "await_account_readiness_with_retry env = Some (Inl e)" for e
    using that
    by (auto simp: await_account_readiness_with_retry_def Let_def split: option.splits sum.splits unit.splits if_splits)
  then show ?thesis unfolding await_account_def by (intro raises_rules) (simp_all add: raises_fail)
qed

lemma raises_obtain: "raises session_error (obtain_gateways env p)"
  unfolding obtain_gateways_def by (intro raises_rules raises_fail) (auto dest: select_error)

lemma raises_register: "raises session_error (register_gateways env p gateways)"
  unfolding register_gateways_def registration_request_of_def announced_ip_def check_lp_details_def
  by (intro raises_rules raises_fail) auto

lemma raises_device: "raises session_error (create_device env config)" "raises session_error (device_name env device)"
  unfolding create_device_def device_name_def by (intro raises_rules raises_fail; simp)+

lemma raises_routes: "raises session_error (set_routes settings config)"
  unfolding set_routes_def by (intro raises_rules raises_fail) simp

lemma raises_start: "raises session_error (start_tunnel env p gateways result)"
proof -
  have "raises session_error (start_mixnet_tunnel env (tp_settings p) r gateways)" for r
    unfolding start_mixnet_tunnel_def mixnet_mtu_def create_mixnet_device_def announce_interface_up_def
    by (intro raises_rules raises_device raises_routes)
  moreover have "raises session_error (start_wireguard_tunnel env (tp_settings p) d gateways)" for d
    unfolding start_wireguard_tunnel_def create_wireguard_device_def announce_interface_up_def start_wireguard_def
      cleanup_stale_tun_devices_def
    by (intro raises_rules raises_device raises_routes raises_fail) simp_all
  moreover have "raises session_error (start_bridges env gateways)"
    unfolding start_bridges_def by (intro raises_rules raises_fail) simp_all
  ultimately show ?thesis
    unfolding start_tunnel_def by (cases result) (simp_all add: raises_rules)
qed

lemma raises_watch: "raises R (watch_tunnel mixnet_client up last_status sent_up evs)"
  by (induction evs arbitrary: last_status sent_up)
    (auto simp: raises_rules split: session_event.split connection_status_event.split)

lemma raises_run: "raises session_error (run_inner env p)"
  unfolding run_inner_def create_tunnel_connection_monitor_def finish_session_def report_bandwidth_checks_def
  by (intro raises_rules raises_fail raises_account raises_obtain raises_register raises_start raises_watch) simp_all

lemma session_down:
  assumes "Down reason \<in> set (session_events env p net)"
  shows "reason = None \<or> (\<exists>e. session_error e \<and> reason = error_state_reason_of e)"
proof -
  obtain r w where run: "run_inner env p (session_start net) = (r, w)" by fastforce
  have "Down reason \<notin> set (sent_events (sw_log w))" using run_unfinished [OF run] open_no_down by (auto simp: at_stage_def)
  then show ?thesis
    using assms run raises_run [of env p] by (cases r) (auto simp: session_events_def session_log_run [OF run] raises_def)
qed

text \<open>C28: what a session can end with. Whatever it meets, it never asks the state machine for one of the four reasons that
  blame the chosen gateway or country, nor for a firewall, DNS or provider reason: a pinned gateway that is not
  listed and a country without gateways come back as an unavailable performant gateway.\<close>

theorem session_end_reasons:
  "Down (Some reason) \<in> set (session_events env p net) \<Longrightarrow>
     reason \<in> {Ipv6Unavailable, DeviceLoggedOut, InactiveAccount, BandwidthExceeded, InactiveSubscription, MaxDevicesReached,
       DeviceTimeOutOfSync, SameEntryAndExit, NeedsRelaxedIndependence, PerformantEntryGatewayUnavailable,
       PerformantExitGatewayUnavailable, CredentialWastedOnEntryGateway, CredentialWastedOnExitGateway, SetRouting, TunDevice}
       \<union> range Internal"
proof -
  assume "Down (Some reason) \<in> set (session_events env p net)"
  then obtain e where e: "session_error e" "error_state_reason_of e = Some reason" using session_down by fastforce
  show ?thesis
  proof (cases e)
    case (TunnelFailed t)
    then show ?thesis
      using e
      by (cases t) (auto simp: select_error_state_reason_def split: select_error.splits registration_error.splits bandwidth_error.splits
          if_splits)
  next
    case (AccountFailed a)
    then show ?thesis
      using e by (cases a) (auto split: account_controller_error.splits account_error_state_reason.splits)
  qed (use e in auto)
qed

subsection \<open>What a session sets up\<close>

lemma bindp_run:
  assumes "bindp m f w = (r, w')"
  obtains (go_on) a w1 where "m w = (Done a, w1)" "f a w1 = (r, w')"
  | (stop) r1 where "m w = (r1, w')" "\<And>a. r1 \<noteq> Done a"
proof (cases "m w")
  case (Pair r1 w1)
  then show thesis using assms go_on [of _ w1] stop [of r1] by (cases r1) (simp_all add: bindp_def)
qed

definition performs :: "monitor_step set \<Rightarrow> 'a session \<Rightarrow> bool" where
  "performs A m = (\<forall>w r w'. m w = (r, w') \<longrightarrow> (\<exists>steps. sw_log w' = sw_log w @ steps \<and> set steps \<subseteq> A))"

lemma performs_ret: "performs A (ret a)"
  by (simp add: performs_def ret_def)

lemma performs_fail: "performs A (fail e)"
  by (simp add: performs_def fail_def)

lemma performs_bind:
  assumes "performs A m" and "\<And>a. performs A (f a)"
  shows "performs A (bindp m f)"
proof -
  have "\<exists>steps. sw_log w' = sw_log w @ steps \<and> set steps \<subseteq> A" if "bindp m f w = (r, w')" for w r w'
    using that
  proof (cases rule: bindp_run)
    case (go_on a w1)
    obtain xs where xs: "sw_log w1 = sw_log w @ xs" "set xs \<subseteq> A" using assms(1) go_on(1) unfolding performs_def by blast
    obtain ys where "sw_log w' = sw_log w1 @ ys" "set ys \<subseteq> A" using assms(2) [of a] go_on(2) unfolding performs_def by blast
    then show ?thesis using xs by (intro exI [of _ "xs @ ys"]) simp
  next
    case (stop r1)
    then show ?thesis using assms(1) unfolding performs_def by blast
  qed
  then show ?thesis by (simp add: performs_def)
qed

lemma performs_then: "performs A m \<Longrightarrow> performs A n \<Longrightarrow> performs A (thenp m n)"
  unfolding thenp_def by (rule performs_bind)

lemma performs_step: "step \<in> A \<Longrightarrow> performs A (perform step)"
  by (simp add: performs_def perform_def)

lemma performs_send: "Sent ev \<in> A \<Longrightarrow> performs A (send_event ev)"
  unfolding send_event_def by (rule performs_step)

lemma performs_silent: "performs A still_running" "performs A (route_call m)"
  by (auto simp: performs_def still_running_def route_call_def split: if_splits prod.splits outcome.splits)

lemma performs_option:
  "(x = None \<Longrightarrow> performs A m) \<Longrightarrow> (\<And>y. x = Some y \<Longrightarrow> performs A (f y)) \<Longrightarrow> performs A (case x of None \<Rightarrow> m | Some y \<Rightarrow> f y)"
  by (cases x) simp_all

lemma performs_sum:
  "(\<And>e. x = Inl e \<Longrightarrow> performs A (f e)) \<Longrightarrow> (\<And>y. x = Inr y \<Longrightarrow> performs A (g y)) \<Longrightarrow> performs A (case x of Inl e \<Rightarrow> f e | Inr y \<Rightarrow> g y)"
  by (cases x) simp_all

lemma performs_if: "(b \<Longrightarrow> performs A m) \<Longrightarrow> (\<not> b \<Longrightarrow> performs A n) \<Longrightarrow> performs A (if b then m else n)"
  by simp

lemma performs_prod: "(\<And>a b. x = (a, b) \<Longrightarrow> performs A (f a b)) \<Longrightarrow> performs A (case x of (a, b) \<Rightarrow> f a b)"
  by (cases x) simp

lemma performs_let: "performs A (f a) \<Longrightarrow> performs A (let x = a in f x)"
  by simp

lemma performs_unit: "performs A m \<Longrightarrow> performs A (case_unit m u)"
  by (simp split: unit.split)

lemma performs_for_each: "(\<And>x. performs A (f x)) \<Longrightarrow> performs A (for_each f xs)"
  by (induction xs) (simp_all add: performs_ret performs_then)

lemmas performs_rules = performs_ret performs_fail performs_bind performs_then performs_step performs_send performs_silent
  performs_option performs_sum performs_if performs_prod performs_let performs_unit performs_for_each

lemma performs_mono: "performs A m \<Longrightarrow> A \<subseteq> B \<Longrightarrow> performs B m"
  unfolding performs_def by blast

text \<open>One of several sets of steps.\<close>

definition performs_one :: "monitor_step set set \<Rightarrow> 'a session \<Rightarrow> bool" where
  "performs_one \<A> m = (\<forall>w r w'. m w = (r, w') \<longrightarrow> (\<exists>A\<in>\<A>. \<exists>steps. sw_log w' = sw_log w @ steps \<and> set steps \<subseteq> A))"

lemma performs_oneI: "performs A m \<Longrightarrow> A \<in> \<A> \<Longrightarrow> performs_one \<A> m"
  unfolding performs_def performs_one_def by blast

lemma performs_one_bind:
  assumes "performs Q m" and "\<And>a. performs_one \<A> (f a)" and quiet: "\<And>A. A \<in> \<A> \<Longrightarrow> Q \<subseteq> A" and "\<A> \<noteq> {}"
  shows "performs_one \<A> (bindp m f)"
proof -
  have "\<exists>A\<in>\<A>. \<exists>steps. sw_log w' = sw_log w @ steps \<and> set steps \<subseteq> A" if "bindp m f w = (r, w')" for w r w'
    using that
  proof (cases rule: bindp_run)
    case (go_on a w1)
    obtain xs where xs: "sw_log w1 = sw_log w @ xs" "set xs \<subseteq> Q" using assms(1) go_on(1) unfolding performs_def by blast
    obtain A ys where ys: "A \<in> \<A>" "sw_log w' = sw_log w1 @ ys" "set ys \<subseteq> A"
      using assms(2) [of a] go_on(2) unfolding performs_one_def by blast
    then have "sw_log w' = sw_log w @ (xs @ ys) \<and> set (xs @ ys) \<subseteq> A" using xs quiet [OF ys(1)] by auto
    then show ?thesis using ys(1) by blast
  next
    case (stop r1)
    obtain A where A: "A \<in> \<A>" using assms(4) by blast
    obtain xs where "sw_log w' = sw_log w @ xs" "set xs \<subseteq> Q" using assms(1) stop(1) unfolding performs_def by blast
    then show ?thesis using A quiet [OF A] by blast
  qed
  then show ?thesis by (simp add: performs_one_def)
qed

lemma performs_one_then:
  "performs Q m \<Longrightarrow> performs_one \<A> n \<Longrightarrow> (\<And>A. A \<in> \<A> \<Longrightarrow> Q \<subseteq> A) \<Longrightarrow> \<A> \<noteq> {} \<Longrightarrow> performs_one \<A> (thenp m n)"
  unfolding thenp_def by (rule performs_one_bind)

text \<open>The steps that set nothing up.\<close>

fun quiet_step :: "monitor_step \<Rightarrow> bool" where
  "quiet_step (Sent ev) = (case ev of SelectedGateways _ \<Rightarrow> False | RegisteredWithGateways _ \<Rightarrow> False | _ \<Rightarrow> True)"
| "quiet_step (RoutesAdded _) = False"
| "quiet_step (WireguardStarted _ _) = False"
| "quiet_step (BridgeOpened _) = False"
| "quiet_step _ = True"

text \<open>
  The steps of a session with given gateways and registration: what it was told and told the machine, the routes it
  added and the tunnels it started on its two devices.
\<close>

record session_facts =
  sf_gateways :: selected_gateways
  sf_result :: registration_result
  sf_data :: wg_session
  sf_entry_tun :: string
  sf_exit_tun :: string

definition session_steps :: "('r, 'v) session_env \<Rightarrow> tunnel_settings \<Rightarrow> session_facts \<Rightarrow> monitor_step set" where
  "session_steps env settings f =
     Collect quiet_step
     \<union> {Sent (SelectedGateways (sf_gateways f)),
        Sent (RegisteredWithGateways (establish_data (sf_gateways f) (registered_tunnel_data (sf_result f))))}
     \<union> (case sf_result f of
          MixnetRegistered _ \<Rightarrow> {RoutesAdded (MixnetRouting tun mtu) | tun mtu. True}
        | WireguardRegistered _ \<Rightarrow>
            {RoutesAdded (WireguardRouting (sf_entry_tun f) (sf_exit_tun f) ENTRY_MTU EXIT_MTU
               (tk_private_entry_gateway_address (se_constants env)) (fst (wc_endpoint (wg_exit (sf_data f))))),
             WireguardStarted (sf_entry_tun f) (wg_entry_config (se_constants env) (sf_data f) (gk_keys (sg_entry (sf_gateways f)))
               (d_tunnel (resolved_dns_config (se_lib env) settings)) (\<not> bridges_enabled settings)),
             WireguardStarted (sf_exit_tun f) (wg_exit_config (sf_data f) (gk_keys (sg_exit (sf_gateways f)))
               (d_tunnel (resolved_dns_config (se_lib env) settings)))}
            \<union> {BridgeOpened (ba_remote_addr a) | a. wg_entry_bridge_addr (sf_data f) = Some a})"

text \<open>The data of a WireGuard session: what was registered and, with bridges, an IPv4 address of the entry's first bridge.\<close>

definition bridge_endpoint :: "gateway \<Rightarrow> socket_addr \<Rightarrow> bool" where
  "bridge_endpoint g a = (is_v4 (fst a) \<and> (\<exists>b. g_bridge_params g = Some b \<and> a \<in> set (get_addrs b)))"

definition facts_sound :: "tunnel_settings \<Rightarrow> session_facts \<Rightarrow> bool" where
  "facts_sound settings f =
     (case sf_result f of
        MixnetRegistered _ \<Rightarrow> True
      | WireguardRegistered r \<Rightarrow>
          wg_entry (sf_data f) = wr_entry r \<and> wg_exit (sf_data f) = wr_exit r
          \<and> (if bridges_enabled settings
             then \<forall>a. wg_entry_bridge_addr (sf_data f) = Some a \<longrightarrow> bridge_endpoint (entry_gateway (sf_gateways f)) (ba_remote_addr a)
             else wg_entry_bridge_addr (sf_data f) = None))"

lemma facts_sound_names [simp]: "facts_sound settings (f\<lparr>sf_entry_tun := en, sf_exit_tun := ex\<rparr>) = facts_sound settings f"
  by (simp add: facts_sound_def split: registration_result.split)

lemma quiet_in_session: "Collect quiet_step \<subseteq> session_steps env settings f"
  unfolding session_steps_def by blast

lemma quiet_parts:
  "performs (Collect quiet_step) (await_account env)"
  "performs (Collect quiet_step) (registration_request_of env p gateways)"
  "performs (Collect quiet_step) (create_device env config)"
  "performs (Collect quiet_step) (device_name env device)"
  "performs (Collect quiet_step) (cleanup_stale_tun_devices env)"
  "performs (Collect quiet_step) (mixnet_mtu settings ip)"
  "performs (Collect quiet_step) (announce_interface_up gateways interface d)"
  "performs (Collect quiet_step) (create_tunnel_connection_monitor env)"
  "performs (Collect quiet_step) (finish_session env bw last_status)"
  unfolding await_account_def registration_request_of_def announced_ip_def check_lp_details_def create_device_def device_name_def
    cleanup_stale_tun_devices_def mixnet_mtu_def announce_interface_up_def create_tunnel_connection_monitor_def finish_session_def
    report_bandwidth_checks_def
  by (intro performs_rules; simp)+

lemma quiet_watch: "performs (Collect quiet_step) (watch_tunnel mixnet_client (Up i d) last_status sent_up evs)"
  by (induction evs arbitrary: last_status sent_up)
    (auto simp: performs_rules split: session_event.split connection_status_event.split)

definition session_choices :: "('r, 'v) session_env \<Rightarrow> tunnel_settings \<Rightarrow> (session_facts \<Rightarrow> bool) \<Rightarrow> monitor_step set set" where
  "session_choices env settings P = {session_steps env settings f | f. facts_sound settings f \<and> P f}"

lemma choices_quiet: "A \<in> session_choices env settings P \<Longrightarrow> Collect quiet_step \<subseteq> A"
  unfolding session_choices_def using quiet_in_session by blast

lemma choicesI: "facts_sound settings f \<Longrightarrow> P f \<Longrightarrow> session_steps env settings f \<in> session_choices env settings P"
  unfolding session_choices_def by blast

lemma performs_choice_bind:
  "performs (Collect quiet_step) m \<Longrightarrow> (\<And>a. performs_one (session_choices env settings P) (f a)) \<Longrightarrow>
     session_choices env settings P \<noteq> {} \<Longrightarrow> performs_one (session_choices env settings P) (bindp m f)"
  by (rule performs_one_bind) (assumption | erule choices_quiet)+

lemma performs_choice_then:
  "performs (Collect quiet_step) m \<Longrightarrow> performs_one (session_choices env settings P) n \<Longrightarrow>
     session_choices env settings P \<noteq> {} \<Longrightarrow> performs_one (session_choices env settings P) (thenp m n)"
  unfolding thenp_def by (rule performs_choice_bind)

lemma wireguard_steps:
  assumes "facts_sound settings f" and "sf_gateways f = gateways" and "sf_data f = d" and "sf_result f = WireguardRegistered r"
  shows "performs_one (session_choices env settings (\<lambda>f. sf_gateways f = gateways \<and> sf_result f = WireguardRegistered r \<and> sf_data f = d))
    (start_wireguard_tunnel env settings d gateways)"
    (is "performs_one ?A _")
proof -
  have "session_steps env settings f \<in> ?A" by (rule choicesI) (use assms in simp_all)
  then have nonempty: "?A \<noteq> {}" by blast
  have run: "performs_one ?A
      (thenp (set_routes settings (WireguardRouting en ex ENTRY_MTU EXIT_MTU
               (tk_private_entry_gateway_address (se_constants env)) (fst (wc_endpoint (wg_exit d)))))
        (thenp (announce_interface_up gateways interface data)
          (thenp (start_wireguard env en (wg_entry_config (se_constants env) d (gk_keys (sg_entry gateways))
                   (d_tunnel (resolved_dns_config (se_lib env) settings)) (\<not> bridges_enabled settings)))
          (thenp (start_wireguard env ex (wg_exit_config d (gk_keys (sg_exit gateways)) (d_tunnel (resolved_dns_config (se_lib env) settings))))
            (ret result)))))" for en ex interface data result
  proof (rule performs_oneI)
    let ?f = "f\<lparr>sf_entry_tun := en, sf_exit_tun := ex\<rparr>"
    show "session_steps env settings ?f \<in> ?A" by (rule choicesI) (use assms in simp_all)
    show "performs (session_steps env settings ?f)
      (thenp (set_routes settings (WireguardRouting en ex ENTRY_MTU EXIT_MTU
               (tk_private_entry_gateway_address (se_constants env)) (fst (wc_endpoint (wg_exit d)))))
        (thenp (announce_interface_up gateways interface data)
          (thenp (start_wireguard env en (wg_entry_config (se_constants env) d (gk_keys (sg_entry gateways))
                   (d_tunnel (resolved_dns_config (se_lib env) settings)) (\<not> bridges_enabled settings)))
          (thenp (start_wireguard env ex (wg_exit_config d (gk_keys (sg_exit gateways)) (d_tunnel (resolved_dns_config (se_lib env) settings))))
            (ret result)))))"
      unfolding set_routes_def start_wireguard_def
      by (intro performs_rules performs_mono [OF quiet_parts(7) quiet_in_session]) (simp_all add: session_steps_def assms)
  qed
  show ?thesis
    unfolding start_wireguard_tunnel_def create_wireguard_device_def Let_def
    by (rule performs_choice_then [OF quiet_parts(5) _ nonempty], (rule performs_choice_bind [OF quiet_parts(3) _ nonempty],
        rule performs_choice_bind [OF quiet_parts(4) _ nonempty])+, rule run)
qed

lemma mixnet_steps:
  assumes "sf_gateways f = gateways" and "sf_result f = MixnetRegistered r"
  shows "performs (session_steps env settings f) (start_mixnet_tunnel env settings r gateways)"
  unfolding start_mixnet_tunnel_def set_routes_def create_mixnet_device_def
  by (intro performs_rules performs_mono [OF quiet_parts(7) quiet_in_session] performs_mono [OF quiet_parts(3) quiet_in_session]
      performs_mono [OF quiet_parts(4) quiet_in_session] performs_mono [OF quiet_parts(6) quiet_in_session])
    (auto simp: session_steps_def assms)

lemma bridge_endpointI:
  assumes "get_bridge_params g = Some params" and "try_connect env params = Inr a"
  shows "bridge_endpoint g a"
proof -
  obtain options where params: "params = QuicPlain options" by (cases params)
  have "get_ipv4 options = Some a" using assms(2) by (auto simp: params split: option.splits)
  then have "a \<in> set (q_addresses options)" "is_v4 (fst a)" by (auto simp: get_ipv4_def dest!: find_SomeD)
  moreover obtain b bs where "g_bridge_params g = Some b" "br_transports b = params # bs"
    using assms(1) by (auto simp: get_bridge_params_def split: option.splits list.splits)
  ultimately show ?thesis by (auto simp: bridge_endpoint_def get_addrs_def params)
qed

lemma bridge_run:
  assumes "start_bridges env gateways w = (r, w')"
  shows "(\<exists>e. r = Failed e \<and> w' = w)
    \<or> (\<exists>a. r = Done a \<and> sw_log w' = sw_log w @ [BridgeOpened (ba_remote_addr a)] \<and> bridge_endpoint (entry_gateway gateways) (ba_remote_addr a))"
  using assms bridge_endpointI [of "entry_gateway gateways" _ env]
  by (auto simp: start_bridges_def fail_def ret_def thenp_def bindp_def perform_def split: option.splits sum.splits)

lemma performs_one_quiet:
  assumes "performs_one (session_choices env settings P) m" and "\<And>a. performs (Collect quiet_step) (f a)"
  shows "performs_one (session_choices env settings P) (bindp m f)"
proof -
  have "\<exists>A\<in>session_choices env settings P. \<exists>steps. sw_log w' = sw_log w @ steps \<and> set steps \<subseteq> A" if "bindp m f w = (r, w')" for w r w'
    using that
  proof (cases rule: bindp_run)
    case (go_on a w1)
    obtain A xs where xs: "A \<in> session_choices env settings P" "sw_log w1 = sw_log w @ xs" "set xs \<subseteq> A"
      using assms(1) go_on(1) unfolding performs_one_def by blast
    obtain ys where "sw_log w' = sw_log w1 @ ys" "set ys \<subseteq> Collect quiet_step"
      using assms(2) [of a] go_on(2) unfolding performs_def by blast
    then have "sw_log w' = sw_log w @ (xs @ ys) \<and> set (xs @ ys) \<subseteq> A" using xs choices_quiet [OF xs(1)] by auto
    then show ?thesis using xs(1) by blast
  next
    case (stop r1)
    then show ?thesis using assms(1) unfolding performs_one_def by blast
  qed
  then show ?thesis by (simp add: performs_one_def)
qed

text \<open>A phase that only adds what its result tells.\<close>

definition tells :: "('a \<Rightarrow> bool) \<Rightarrow> ('a \<Rightarrow> monitor_step set) \<Rightarrow> 'a session \<Rightarrow> bool" where
  "tells R A m =
     (\<forall>w r w'. m w = (r, w') \<longrightarrow> (\<exists>steps. sw_log w' = sw_log w @ steps
        \<and> (case r of Done a \<Rightarrow> R a \<and> set steps \<subseteq> Collect quiet_step \<union> A a | _ \<Rightarrow> set steps \<subseteq> Collect quiet_step)))"

lemma tells_ret: "R a \<Longrightarrow> tells R A (ret a)"
  by (simp add: tells_def ret_def)

lemma tells_fail: "tells R A (fail e)"
  by (simp add: tells_def fail_def)

lemma tells_sent: "R a \<Longrightarrow> Sent ev \<in> A a \<Longrightarrow> tells R A (thenp (send_event ev) (ret a))"
  by (simp add: tells_def thenp_def bindp_def send_event_def perform_def ret_def)

lemma tells_bind:
  assumes "performs (Collect quiet_step) m" and "\<And>a. tells R A (f a)"
  shows "tells R A (bindp m f)"
proof -
  have "\<exists>steps. sw_log w' = sw_log w @ steps
      \<and> (case r of Done a \<Rightarrow> R a \<and> set steps \<subseteq> Collect quiet_step \<union> A a | _ \<Rightarrow> set steps \<subseteq> Collect quiet_step)"
    if run: "bindp m f w = (r, w')" for w r w'
    using that
  proof (cases rule: bindp_run)
    case (go_on a w1)
    obtain xs where xs: "sw_log w1 = sw_log w @ xs" "set xs \<subseteq> Collect quiet_step"
      using assms(1) go_on(1) unfolding performs_def by blast
    obtain ys where "sw_log w' = sw_log w1 @ ys"
      "case r of Done a \<Rightarrow> R a \<and> set ys \<subseteq> Collect quiet_step \<union> A a | _ \<Rightarrow> set ys \<subseteq> Collect quiet_step"
      using assms(2) [of a] go_on(2) unfolding tells_def by blast
    then show ?thesis using xs by (intro exI [of _ "xs @ ys"]) (auto split: outcome.splits)
  next
    case (stop r1)
    then have "\<And>a. r \<noteq> Done a" using run by (cases r1) (auto simp: bindp_def)
    moreover obtain xs where "sw_log w' = sw_log w @ xs" "set xs \<subseteq> Collect quiet_step"
      using assms(1) stop(1) unfolding performs_def by blast
    ultimately show ?thesis by (cases r) auto
  qed
  then show ?thesis by (simp add: tells_def)
qed

lemma tells_then: "performs (Collect quiet_step) m \<Longrightarrow> tells R A n \<Longrightarrow> tells R A (thenp m n)"
  unfolding thenp_def by (rule tells_bind)

lemma performs_one_tells:
  assumes "tells R A m" and "\<And>a. R a \<Longrightarrow> performs_one (session_choices env settings (\<lambda>f. P f \<and> Q a f)) (g a)"
    and "\<And>a f. P f \<Longrightarrow> Q a f \<Longrightarrow> A a \<subseteq> session_steps env settings f" and "session_choices env settings P \<noteq> {}"
  shows "performs_one (session_choices env settings P) (bindp m g)"
proof -
  have "\<exists>B\<in>session_choices env settings P. \<exists>steps. sw_log w' = sw_log w @ steps \<and> set steps \<subseteq> B" if "bindp m g w = (r, w')" for w r w'
    using that
  proof (cases rule: bindp_run)
    case (go_on a w1)
    obtain xs where xs: "sw_log w1 = sw_log w @ xs" "R a" "set xs \<subseteq> Collect quiet_step \<union> A a"
      using assms(1) go_on(1) unfolding tells_def by fastforce
    obtain f ys where f: "facts_sound settings f" "P f" "Q a f" and ys: "sw_log w' = sw_log w1 @ ys" "set ys \<subseteq> session_steps env settings f"
      using assms(2) [OF xs(2)] go_on(2) unfolding performs_one_def session_choices_def by blast
    have "sw_log w' = sw_log w @ (xs @ ys) \<and> set (xs @ ys) \<subseteq> session_steps env settings f"
      using xs ys assms(3) [OF f(2,3)] quiet_in_session [of env settings f] by auto
    then show ?thesis using choicesI [of settings f P env] f(1,2) by blast
  next
    case (stop r1)
    obtain B where B: "B \<in> session_choices env settings P" using assms(4) by blast
    obtain xs where "sw_log w' = sw_log w @ xs" "set xs \<subseteq> Collect quiet_step"
      using assms(1) stop unfolding tells_def by (cases r1) fastforce+
    then show ?thesis using B choices_quiet [OF B] by blast
  qed
  then show ?thesis by (simp add: performs_one_def)
qed

lemma choices_mono:
  "performs_one (session_choices env settings P) m \<Longrightarrow> (\<And>f. P f \<Longrightarrow> Q f) \<Longrightarrow> performs_one (session_choices env settings Q) m"
  unfolding performs_one_def session_choices_def by blast

lemma choices_nonempty: "facts_sound settings f \<Longrightarrow> P f \<Longrightarrow> session_choices env settings P \<noteq> {}"
  using choicesI by blast

definition facts_of :: "selected_gateways \<Rightarrow> registration_result \<Rightarrow> wg_session \<Rightarrow> session_facts" where
  "facts_of gateways result d =
     \<lparr>sf_gateways = gateways, sf_result = result, sf_data = d, sf_entry_tun = [], sf_exit_tun = []\<rparr>"

lemma bridge_tells:
  assumes "wg_entry d = wr_entry r" and "wg_exit d = wr_exit r" and "wg_entry_bridge_addr d = None"
  shows "tells (\<lambda>d'. facts_sound settings (facts_of gateways (WireguardRegistered r) d'))
    (\<lambda>d'. {BridgeOpened (ba_remote_addr a) | a. wg_entry_bridge_addr d' = Some a})
    (if bridges_enabled settings
     then bindp (start_bridges env gateways) (\<lambda>addr. ret (d\<lparr>wg_entry_bridge_addr := Some addr\<rparr>))
     else ret d)"
proof (cases "bridges_enabled settings")
  case True
  have "\<exists>steps. sw_log w' = sw_log w @ steps
      \<and> (case r' of Done d' \<Rightarrow> facts_sound settings (facts_of gateways (WireguardRegistered r) d')
            \<and> set steps \<subseteq> Collect quiet_step \<union> {BridgeOpened (ba_remote_addr a) | a. wg_entry_bridge_addr d' = Some a}
         | _ \<Rightarrow> set steps \<subseteq> Collect quiet_step)"
    if "bindp (start_bridges env gateways) (\<lambda>addr. ret (d\<lparr>wg_entry_bridge_addr := Some addr\<rparr>)) w = (r', w')" for w r' w'
  proof -
    obtain r1 w1 where run: "start_bridges env gateways w = (r1, w1)" by fastforce
    then show ?thesis
      using bridge_run [OF run] that True assms by (auto simp: bindp_def ret_def facts_sound_def facts_of_def)
  qed
  then show ?thesis using True by (simp add: tells_def)
next
  case False
  then show ?thesis using assms by (auto intro!: tells_ret simp: facts_sound_def facts_of_def)
qed

lemma start_tunnel_steps:
  "performs_one (session_choices env (tp_settings p) (\<lambda>f. sf_gateways f = gateways \<and> sf_result f = result))
     (start_tunnel env p gateways result)"
proof (cases result)
  case (MixnetRegistered r)
  let ?f = "facts_of gateways result undefined"
  have "session_steps env (tp_settings p) ?f \<in> session_choices env (tp_settings p) (\<lambda>f. sf_gateways f = gateways \<and> sf_result f = result)"
    by (rule choicesI) (simp_all add: facts_sound_def facts_of_def MixnetRegistered)
  moreover have "performs (session_steps env (tp_settings p) ?f) (start_tunnel env p gateways result)"
    unfolding start_tunnel_def MixnetRegistered registration_result.case
    by (intro performs_bind performs_ret mixnet_steps) (simp_all add: facts_of_def)
  ultimately show ?thesis by (rule performs_oneI [rotated])
next
  case (WireguardRegistered r)
  obtain d bw mixnet_client where started: "setup_wireguard_tunnel env p r gateways = (d, bw, mixnet_client)" by (metis prod_cases3)
  then have d: "wg_entry d = wr_entry r" "wg_exit d = wr_exit r" "wg_entry_bridge_addr d = None"
    by (auto simp: setup_wireguard_tunnel_def Let_def)
  let ?P = "\<lambda>f. sf_gateways f = gateways \<and> sf_result f = WireguardRegistered r"
  have run: "performs_one (session_choices env (tp_settings p) (\<lambda>f. ?P f \<and> sf_data f = d'))
      (bindp (start_wireguard_tunnel env (tp_settings p) d' gateways) (\<lambda>started. ret (started, Some bw, mixnet_client)))"
    if "facts_sound (tp_settings p) (facts_of gateways (WireguardRegistered r) d')" for d'
    by (rule performs_one_quiet [OF choices_mono [OF wireguard_steps [OF that]] performs_ret]) (simp_all add: facts_of_def)
  have some: "session_choices env (tp_settings p) ?P \<noteq> {}"
    by (rule choices_nonempty [of _ "facts_of gateways (WireguardRegistered r) d"]) (simp_all add: facts_sound_def facts_of_def d)
  show ?thesis
    unfolding start_tunnel_def WireguardRegistered registration_result.case started prod.case
    by (rule performs_one_tells [OF bridge_tells [OF d] run _ some]) (auto simp: session_steps_def)
qed

lemma gateways_told:
  "tells (\<lambda>g. \<forall>g'. tp_selected_gateways p = Some g' \<longrightarrow> g = g') (\<lambda>g. {Sent (SelectedGateways g)}) (obtain_gateways env p)"
  unfolding obtain_gateways_def
  by (rule tells_then) (auto intro!: performs_send tells_then tells_fail tells_ret tells_sent split: sum.split option.split)

lemma registration_told:
  "tells (\<lambda>_. True) (\<lambda>result. {Sent (RegisteredWithGateways (establish_data gateways (registered_tunnel_data result)))})
     (register_gateways env p gateways)"
  unfolding register_gateways_def
  by (rule tells_then [OF performs_send tells_bind [OF quiet_parts(2)]])
    (auto intro!: performs_send tells_then tells_fail tells_sent split: sum.split option.split)

lemma session_run_steps:
  "performs_one (session_choices env (tp_settings p) (\<lambda>f. \<forall>g. tp_selected_gateways p = Some g \<longrightarrow> sf_gateways f = g)) (run_inner env p)"
    (is "performs_one (session_choices _ _ ?P) _")
proof -
  have some: "session_choices env (tp_settings p) P \<noteq> {}" if "P (facts_of gateways (MixnetRegistered undefined) undefined)" for P gateways
    by (rule choices_nonempty [where P = P, OF _ that]) (simp add: facts_sound_def facts_of_def)
  have nonempty: "session_choices env (tp_settings p) ?P \<noteq> {}"
    by (rule some [of _ "the (tp_selected_gateways p)"]) (simp add: facts_of_def)
  have rest: "performs_one (session_choices env (tp_settings p) (\<lambda>f. (?P f \<and> sf_gateways f = gateways) \<and> sf_result f = result))
      (bindp (start_tunnel env p gateways result) (\<lambda>(started, bw, mixnet_client).
        thenp (create_tunnel_connection_monitor env)
        (bindp (watch_tunnel mixnet_client (Up (sr_interface started) (cd started)) None False (se_events env)) (\<lambda>last_connection_status.
           finish_session env bw last_connection_status))))"
    if "\<forall>g'. tp_selected_gateways p = Some g' \<longrightarrow> gateways = g'" for gateways result cd
    by (rule performs_one_quiet [OF choices_mono [OF start_tunnel_steps]])
      (use that in \<open>auto intro!: performs_then performs_bind quiet_parts quiet_watch split: prod.split\<close>)
  have registered: "performs_one (session_choices env (tp_settings p) (\<lambda>f. ?P f \<and> sf_gateways f = gateways))
      (bindp (register_gateways env p gateways) (\<lambda>result.
        bindp (start_tunnel env p gateways result) (\<lambda>(started, bw, mixnet_client).
        thenp (create_tunnel_connection_monitor env)
        (bindp (watch_tunnel mixnet_client (Up (sr_interface started) (cd started)) None False (se_events env)) (\<lambda>last_connection_status.
           finish_session env bw last_connection_status)))))"
    if "\<forall>g'. tp_selected_gateways p = Some g' \<longrightarrow> gateways = g'" for gateways cd
  proof (rule performs_one_tells [OF registration_told rest [OF that]])
    show "session_choices env (tp_settings p) (\<lambda>f. ?P f \<and> sf_gateways f = gateways) \<noteq> {}"
      by (rule some [of _ gateways]) (use that in \<open>simp add: facts_of_def\<close>)
  qed (auto simp: session_steps_def)
  show ?thesis
  proof (cases "ts_enable_ipv6 (tp_settings p) \<and> \<not> se_ipv6_enabled_in_os env")
    case True
    obtain A where "A \<in> session_choices env (tp_settings p) ?P" using nonempty by blast
    then show ?thesis using True unfolding run_inner_def by (auto intro: performs_oneI [OF performs_fail])
  next
    case False
    then show ?thesis
      unfolding run_inner_def if_not_P [OF False]
      by (intro performs_choice_then [OF quiet_parts(1) _ nonempty] performs_one_tells [OF gateways_told registered _ nonempty])
        (auto simp: session_steps_def)
  qed
qed

lemma session_explained:
  obtains f where "facts_sound (tp_settings p) f" and "set (session_log env p net) \<subseteq> session_steps env (tp_settings p) f"
    and "\<forall>g. tp_selected_gateways p = Some g \<longrightarrow> sf_gateways f = g"
proof -
  obtain r w where run: "run_inner env p (session_start net) = (r, w)" by fastforce
  obtain f where f: "facts_sound (tp_settings p) f" "\<forall>g. tp_selected_gateways p = Some g \<longrightarrow> sf_gateways f = g"
    and "set (sw_log w) \<subseteq> session_steps env (tp_settings p) f"
    using session_run_steps [of env p] run unfolding performs_one_def session_choices_def by (fastforce simp: session_start_def)
  moreover have "set (session_log env p net) \<subseteq> set (sw_log w) \<union> Collect quiet_step"
    by (auto simp: session_log_run [OF run] split: outcome.split)
  ultimately have "set (session_log env p net) \<subseteq> session_steps env (tp_settings p) f" using quiet_in_session by blast
  then show thesis using that f by blast
qed

lemma sent_events_set: "ev \<in> set (sent_events steps) \<longleftrightarrow> Sent ev \<in> set steps"
  by (induction steps rule: sent_events.induct) auto

lemma allowed_everywhere:
  assumes "wn_allowed_ips wg = AllIps" and "wn_addresses wg = [host_network (IPv4 a), host_network (IPv6 b)]"
  shows "\<exists>net\<in>set (wg_allowed_ips wg). cidr_contains net dst"
  using assms cidr_default [of "ip_family dst" dst]
  by (cases dst) (auto simp: wg_allowed_ips_def host_network_def)


text \<open>The parameters of the connecting state once it knows the gateways of the session.\<close>

definition knows_gateways :: "'w shared_state \<Rightarrow> selected_gateways \<Rightarrow> connecting_params \<Rightarrow> bool" where
  "knows_gateways s gateways params =
     ((\<exists>le. params = initial_connecting_params le (Some gateways) s)
      \<or> (\<exists>io cs applied cs' s'. run_state (connecting_selected_gateways io gateways cs) s = ((applied, cs'), s') \<and> params = cs_params cs'))"

lemma known_bridges:
  assumes "knows_gateways s gateways params" and "bridges_enabled (sh_settings s)" and "g_bridge_params (entry_gateway gateways) = Some b"
  shows "cp_bridge_endpoints params = get_addrs b"
  using assms(1) unfolding knows_gateways_def
proof (elim disjE exE conjE)
  fix io :: "'a world_ops" and cs applied cs' s'
  assume run: "run_state (connecting_selected_gateways io gateways cs) s = ((applied, cs'), s')" "params = cs_params cs'"
  from run show ?thesis
    using assms(2,3) by (auto simp: connecting_selected_gateways_def connecting_set_policy_def gets_def Let_def split: prod.splits)
qed (use assms(2,3) in \<open>simp add: initial_connecting_params_def Let_def\<close>)

lemma udp_peer:
  assumes "addr \<in> set (cp_bridge_endpoints params) \<or> cp_wg_entry_endpoint params = Some addr" and "family_enabled (cp_enable_ipv6 params) (fst addr)"
  shows "allow TUdp Root addr \<in> set (peer_endpoints (connecting_policy_of params))"
  using assms by (cases addr) (auto simp: connecting_policy_of_def enabled_peer_def enabled_addrs_def option_list_def)

text \<open>C26: the firewall of the connecting state admits the session's own contact with its entry gateway. When the state
  machine knows the gateways of the session (kept from an earlier attempt, or told by the session) and was told of
  the registration, the policy it applies next has the bridge the session opens, and without bridges the endpoint of
  the marked WireGuard tunnel the session starts, as a UDP peer for root; for an IPv6 endpoint when IPv6 is enabled.\<close>

theorem entry_contact_admitted:
  assumes "tp_selected_gateways p = Some gateways \<or> SelectedGateways gateways \<in> set (session_events env p net)"
    and "RegisteredWithGateways data \<in> set (session_events env p net)"
    and "knows_gateways s gateways (cs_params cs)" and "sh_settings s = tp_settings p"
    and "BridgeOpened addr \<in> set (session_log env p net)
      \<or> \<not> bridges_enabled (tp_settings p) \<and> (\<exists>dev wg. WireguardStarted dev wg \<in> set (session_log env p net) \<and> wn_fwmark wg \<noteq> None \<and> addr = wn_endpoint wg)
          \<and> (is_v4 (fst addr) \<or> cp_enable_ipv6 (cs_params cs))"
  shows "allow TUdp Root addr \<in> set (peer_endpoints (connecting_policy_of (cs_params (connecting_registered data (tp_settings p) cs))))"
proof -
  obtain f where f: "facts_sound (tp_settings p) f" "set (session_log env p net) \<subseteq> session_steps env (tp_settings p) f"
    "\<forall>g. tp_selected_gateways p = Some g \<longrightarrow> sf_gateways f = g" by (rule session_explained [of p env net])
  have told: "Sent ev \<in> session_steps env (tp_settings p) f" if "ev \<in> set (session_events env p net)" for ev
    using that f(2) by (auto simp: session_events_def sent_events_set)
  have gateways: "sf_gateways f = gateways"
    using assms(1) f(3) told [of "SelectedGateways gateways"] by (auto simp: session_steps_def split: registration_result.splits)
  have data: "data = establish_data gateways (registered_tunnel_data (sf_result f))"
    using told [OF assms(2)] by (auto simp: session_steps_def gateways split: registration_result.splits)
  from assms(5) show ?thesis
  proof (rule disjE)
    assume "BridgeOpened addr \<in> set (session_log env p net)"
    with f(2) have "BridgeOpened addr \<in> session_steps env (tp_settings p) f" by blast
    then obtain r a where r: "sf_result f = WireguardRegistered r" "wg_entry_bridge_addr (sf_data f) = Some a" "addr = ba_remote_addr a"
      by (auto simp: session_steps_def split: registration_result.splits)
    with f(1) have bridge: "bridges_enabled (tp_settings p)" "bridge_endpoint (entry_gateway gateways) addr"
      by (auto simp: facts_sound_def gateways split: if_splits)
    then obtain b where "g_bridge_params (entry_gateway gateways) = Some b" "addr \<in> set (get_addrs b)" "is_v4 (fst addr)"
      by (auto simp: bridge_endpoint_def)
    then show ?thesis
      using known_bridges [OF assms(3)] bridge(1) assms(4) by (intro udp_peer) (simp_all add: connecting_registered_def family_enabled_def)
  next
    assume "\<not> bridges_enabled (tp_settings p) \<and> (\<exists>dev wg. WireguardStarted dev wg \<in> set (session_log env p net) \<and> wn_fwmark wg \<noteq> None \<and> addr = wn_endpoint wg)
      \<and> (is_v4 (fst addr) \<or> cp_enable_ipv6 (cs_params cs))"
    then obtain dev wg where started: "\<not> bridges_enabled (tp_settings p)" "WireguardStarted dev wg \<in> set (session_log env p net)" "wn_fwmark wg \<noteq> None"
      "addr = wn_endpoint wg" "is_v4 (fst addr) \<or> cp_enable_ipv6 (cs_params cs)" by blast
    with f(2) have "WireguardStarted dev wg \<in> session_steps env (tp_settings p) f" by blast
    then obtain r keys dns amnezia where r: "sf_result f = WireguardRegistered r" "wg = wg_entry_config (se_constants env) (sf_data f) keys dns amnezia"
      using started(3) by (auto simp: session_steps_def wg_exit_config_def with_gateway_data_def split: registration_result.splits)
    have "wn_endpoint wg = wc_endpoint (wr_entry r)"
      using f(1) started(1) r by (auto simp: facts_sound_def wg_entry_config_def with_gateway_data_def effective_entry_endpoint_def Let_def)
    then show ?thesis
      using started by (intro udp_peer) (auto simp: connecting_registered_def data establish_data_def r(1) family_enabled_def)
  qed
qed

subsection \<open>A session\<close>

text \<open>A session with kept gateways whose registration and devices all answer, over the account it is given.\<close>

definition sample_pair :: selected_gateways where
  "sample_pair = \<lparr>sg_entry = \<lparr>gk_gateway = sample_gateway ''A'' ''CH'' Low, gk_keys = ''ka''\<rparr>,
     sg_exit = \<lparr>gk_gateway = sample_gateway ''B'' ''DE'' High, gk_keys = ''kb''\<rparr>\<rparr>"

definition sample_registration :: wireguard_registration where
  "sample_registration =
     (let config = (\<lambda>key ip tunnel_ip. \<lparr>wc_public_key = key, wc_psk = None, wc_endpoint = (ip, 51822), wc_private_ipv4 = tunnel_ip, wc_private_ipv6 = 1\<rparr>)
      in \<lparr>wr_entry = config ''pa'' (ipv4 192 0 2 9) 167837698, wr_exit = config ''pb'' (ipv4 198 51 100 7) 167903234, wr_lewes_protocol = True\<rparr>)"

definition sample_session :: "account_observation list \<Rightarrow> (nat, nat) session_env" where
  "sample_session account =
     \<lparr>se_ipv6_enabled_in_os = True, se_account = account, se_account_refresh = None, se_account_after_refresh = [],
      se_directory = (\<lambda>_ _. Inr (\<lambda>_. Inr sample_list)), se_selector = Gateway_Select.sample_env, se_rng = 0, se_keys = (\<lambda>_. None),
      se_selection_cancelled = False, se_lp_verified = (\<lambda>_. True), se_lp_keys = (\<lambda>_. None), se_use_lp = (\<lambda>_. False),
      se_lp_setup = None, se_lp_answers = \<lparr>la_stopped = None, la_forwarding_handshake = True, la_exit_registration = None,
        la_entry_handshake = True, la_entry_registration = None, la_exit_leg_first = True\<rparr>,
      se_build = None, se_register = (\<lambda>_. Inr (WireguardRegistered sample_registration)),
      se_constants = tunnel_constants_default 167837697 51830, se_lib = Tunnel_Router.sample_env, se_stale_device = (\<lambda>_. False),
      se_create_device = (\<lambda>config. Inr (dc_name config)), se_device_name = (\<lambda>name. Inr name), se_set_ipv6 = (\<lambda>_. None),
      se_bridge_key = (\<lambda>_. None), se_bridge_connect = (\<lambda>_. None), se_forwarder = Inr (ipv4 127 0 0 1, 0),
      se_wireguard_start = (\<lambda>_. None), se_parse_version = (\<lambda>_. None), se_version_at_least = (\<le>), se_update_version = None,
      se_icmp_probe = None, se_tcp_probe = None, se_events = [], se_bandwidth_peer = 0, se_bandwidth_ticks = [], se_bandwidth_joined = True\<rparr>"

definition sample_parameters :: tunnel_parameters where
  "sample_parameters = \<lparr>tp_resolved = None, tp_settings = sample_settings, tp_selected_gateways = Some sample_pair,
     tp_blacklist = \<lparr>bk_map = [], bk_poisoned = False\<rparr>, tp_relax_independence = False, tp_bandwidth_failures_end_session = False\<rparr>"

lemma sample_logged_out:
  "session_events (sample_session [SeesState LoggedOut False]) sample_parameters sample_net
     = [AwaitingAccountReadiness, Down (Some DeviceLoggedOut)]"
  by (simp add: session_events_def session_log_def session_start_def run_monitor_def run_inner_def await_account_def
      await_account_readiness_with_retry_def send_event_def perform_def thenp_def bindp_def fail_def sample_session_def
      sample_parameters_def sample_settings_def)

theorem session_end_reasons_witness:
  "Down (Some DeviceLoggedOut) \<in> set (session_events (sample_session [SeesState LoggedOut False]) sample_parameters sample_net)
   \<and> DeviceLoggedOut \<in> {Ipv6Unavailable, DeviceLoggedOut, InactiveAccount, BandwidthExceeded, InactiveSubscription, MaxDevicesReached,
       DeviceTimeOutOfSync, SameEntryAndExit, NeedsRelaxedIndependence, PerformantEntryGatewayUnavailable,
       PerformantExitGatewayUnavailable, CredentialWastedOnEntryGateway, CredentialWastedOnExitGateway, SetRouting, TunDevice}
       \<union> range Internal"
proof -
  have "Down (Some DeviceLoggedOut) \<in> set (session_events (sample_session [SeesState LoggedOut False]) sample_parameters sample_net)"
    by (simp add: sample_logged_out)
  then show ?thesis using session_end_reasons by (intro conjI)
qed

lemma set_routes_done:
  assumes "\<not> sw_manager_down w" and "fst (add_routes config (ts_enable_ipv6 settings) (ts_legacy_split_tunnel settings) (sw_net w)) = Done ()"
  shows "\<exists>net. set_routes settings config w = (Done (), w\<lparr>sw_net := net, sw_log := sw_log w @ [RoutesAdded config]\<rparr>)"
  using assms
  by (cases "add_routes config (ts_enable_ipv6 settings) (ts_legacy_split_tunnel settings) (sw_net w)")
    (auto simp: set_routes_def route_call_def bindp_def perform_def split: unit.split)

lemma sample_net_willing:
  "fst (add_routes (WireguardRouting ''nym0'' ''nym1'' entry_mtu exit_mtu private_entry exit_ip) enable_ipv6 legacy sample_net) = Done ()"
  by (rule add_routes_succeed) (auto simp: sample_net_def sample_link_def link_map_def map_interface_def
      iface_insert_def find_iface_idx_def List.map_filter_def)

definition sample_data :: wg_session where
  "sample_data = \<lparr>wg_entry_bridge_addr = None, wg_entry = wr_entry sample_registration, wg_exit = wr_exit sample_registration, wg_lewes_protocol = True\<rparr>"

abbreviation sample_running :: "(nat, nat) session_env" where
  "sample_running \<equiv> sample_session [SeesState ReadyToConnect True]"

definition sample_dns :: "ip_addr list" where
  "sample_dns = d_tunnel (resolved_dns_config Tunnel_Router.sample_env sample_settings)"

lemmas session_run_defs = send_event_def perform_def thenp_def bindp_def ret_def

lemma sample_fields:
  "se_ipv6_enabled_in_os (sample_session account)" "se_directory (sample_session account) options resolved = Inr (\<lambda>_. Inr sample_list)"
  "se_use_lp (sample_session account) req = False" "se_build (sample_session account) = None"
  "se_register (sample_session account) req = Inr (WireguardRegistered sample_registration)"
  "se_constants (sample_session account) = tunnel_constants_default 167837697 51830" "se_lib (sample_session account) = Tunnel_Router.sample_env"
  "\<not> se_stale_device (sample_session account) name" "se_create_device (sample_session account) config = Inr (dc_name config)"
  "se_device_name (sample_session account) name = Inr name" "se_wireguard_start (sample_session account) node = None"
  "se_icmp_probe (sample_session account) = None" "se_events (sample_session account) = []"
  by (simp_all add: sample_session_def)

lemma sample_params:
  "tp_settings sample_parameters = sample_settings" "tp_selected_gateways sample_parameters = Some sample_pair"
  "\<not> ts_enable_ipv6 sample_settings" "\<not> bridges_enabled sample_settings" "gk_keys (sg_entry sample_pair) = ''ka''"
  by (simp_all add: sample_parameters_def sample_settings_def bridges_enabled_def sample_pair_def)

lemma sample_prepared:
  "await_account sample_running w = (Done (), w\<lparr>sw_log := sw_log w @ [Sent AwaitingAccountReadiness]\<rparr>)"
  "obtain_gateways sample_running sample_parameters w = (Done sample_pair, w\<lparr>sw_log := sw_log w @ [Sent RefreshingGateways]\<rparr>)"
  "register_gateways sample_running sample_parameters sample_pair w
     = (Done (WireguardRegistered sample_registration), w\<lparr>sw_log := sw_log w @ [Sent RegisteringWithGateways,
          Sent (RegisteredWithGateways (establish_data sample_pair (registered_tunnel_data (WireguardRegistered sample_registration))))]\<rparr>)"
proof -
  have "await_account_readiness_with_retry sample_running = Some (Inr ())"
    by (simp add: await_account_readiness_with_retry_def sample_session_def split: unit.split)
  then show "await_account sample_running w = (Done (), w\<lparr>sw_log := sw_log w @ [Sent AwaitingAccountReadiness]\<rparr>)"
    by (simp add: await_account_def session_run_defs split: unit.split)
  show "obtain_gateways sample_running sample_parameters w = (Done sample_pair, w\<lparr>sw_log := sw_log w @ [Sent RefreshingGateways]\<rparr>)"
    by (simp add: obtain_gateways_def session_run_defs sample_fields sample_params)
  show "register_gateways sample_running sample_parameters sample_pair w
     = (Done (WireguardRegistered sample_registration), w\<lparr>sw_log := sw_log w @ [Sent RegisteringWithGateways,
          Sent (RegisteredWithGateways (establish_data sample_pair (registered_tunnel_data (WireguardRegistered sample_registration))))]\<rparr>)"
    by (simp add: register_gateways_def registration_request_of_def announced_ip_def lookup_ip_def check_lp_details_def session_run_defs sample_fields
        sample_pair_def entry_gateway_def exit_gateway_def sample_gateway_def)
qed

abbreviation sample_routes :: routing_config where
  "sample_routes \<equiv> WireguardRouting ''nym0'' ''nym1'' ENTRY_MTU EXIT_MTU (IPv4 167837697) (ipv4 198 51 100 7)"

abbreviation sample_entry :: wg_node_config where
  "sample_entry \<equiv> wg_entry_config (tunnel_constants_default 167837697 51830) sample_data ''ka'' sample_dns True"

lemma sample_tunnel:
  assumes "start_tunnel sample_running sample_parameters sample_pair (WireguardRegistered sample_registration) w = (r, w')"
    and "sw_net w = sample_net" and "\<not> sw_manager_down w"
  shows "(\<exists>a. r = Done a) \<and> {RoutesAdded sample_routes, WireguardStarted ''nym0'' sample_entry} \<union> set (sw_log w) \<subseteq> set (sw_log w')"
proof -
  have exit_ip: "fst (wc_endpoint (wr_exit sample_registration)) = ipv4 198 51 100 7" by (simp add: sample_registration_def Let_def)
  have private_ip: "tk_private_entry_gateway_address (tunnel_constants_default 167837697 51830) = IPv4 167837697"
    by (simp add: tunnel_constants_default_def)
  have lewes: "wr_lewes_protocol sample_registration" by (simp add: sample_registration_def Let_def)
  let ?devices = "[DeviceCreated \<lparr>dc_name = ''nym0'', dc_ipv4 = wc_private_ipv4 (wr_entry sample_registration), dc_ipv6 = None, dc_destination = None, dc_mtu = ENTRY_MTU\<rparr>,
    DeviceCreated \<lparr>dc_name = ''nym1'', dc_ipv4 = wc_private_ipv4 (wr_exit sample_registration), dc_ipv6 = None,
      dc_destination = Some (IPv4 (wc_private_ipv4 (wr_entry sample_registration))), dc_mtu = EXIT_MTU\<rparr>]"
  obtain net where routes: "set_routes sample_settings sample_routes (w\<lparr>sw_log := sw_log w @ ?devices\<rparr>)
      = (Done (), w\<lparr>sw_net := net, sw_log := (sw_log w @ ?devices) @ [RoutesAdded sample_routes]\<rparr>)"
    using set_routes_done [of "w\<lparr>sw_log := sw_log w @ ?devices\<rparr>" sample_routes sample_settings] assms(2,3) by (auto simp: sample_net_willing)
  show ?thesis
    using assms(1) routes
    by (auto simp: start_tunnel_def setup_wireguard_tunnel_def start_wireguard_tunnel_def Let_def cleanup_stale_tun_devices_def
        create_wireguard_device_def create_device_def device_name_def then_some_def
        announce_interface_up_def start_wireguard_def session_run_defs sample_fields sample_params exit_ip private_ip lewes
        sample_dns_def sample_data_def)
qed

lemma sample_log:
  "{RoutesAdded sample_routes, WireguardStarted ''nym0'' sample_entry,
    Sent (RegisteredWithGateways (establish_data sample_pair (registered_tunnel_data (WireguardRegistered sample_registration))))}
     \<subseteq> set (session_log sample_running sample_parameters sample_net)"
proof -
  define w where "w = \<lparr>sw_log = [Sent AwaitingAccountReadiness, Sent RefreshingGateways, Sent RegisteringWithGateways,
    Sent (RegisteredWithGateways (establish_data sample_pair (registered_tunnel_data (WireguardRegistered sample_registration))))],
    sw_net = sample_net, sw_manager_down = False\<rparr>"
  obtain r w' where run: "start_tunnel sample_running sample_parameters sample_pair (WireguardRegistered sample_registration) w = (r, w')" by fastforce
  with sample_tunnel [OF run] obtain a where a: "r = Done a"
    and log: "{RoutesAdded sample_routes, WireguardStarted ''nym0'' sample_entry} \<union> set (sw_log w) \<subseteq> set (sw_log w')"
    by (auto simp: w_def)
  have "run_inner sample_running sample_parameters (session_start sample_net) = (Crashed, w')"
    using run unfolding a
    by (simp add: run_inner_def session_start_def sample_fields sample_params thenp_def bindp_def sample_prepared w_def ret_def
        create_tunnel_connection_monitor_def still_running_def split: prod.split)
  from session_log_run [OF this] show ?thesis using log by (auto simp: w_def)
qed


definition sample_shared :: "router_world shared_state" where
  "sample_shared = initial_shared_state sample_settings \<lparr>bk_map = [], bk_poisoned = False\<rparr> [] sample_router_world"

definition sample_connecting :: connecting_state where
  "sample_connecting = \<lparr>cs_retry_attempt = 1, cs_monitor = Some 0, cs_event_sender = False, cs_selected_gateways = Some sample_pair,
     cs_connection_data = None, cs_params = initial_connecting_params Tunnel_Router.sample_env (Some sample_pair) sample_shared,
     cs_resolving = False, cs_delay = None, cs_final_retry_owed = False\<rparr>"

theorem entry_contact_admitted_witness:
  "allow TUdp Root (ipv4 192 0 2 9, 51822) \<in> set (peer_endpoints (connecting_policy_of (cs_params
     (connecting_registered (establish_data sample_pair (registered_tunnel_data (WireguardRegistered sample_registration)))
        sample_settings sample_connecting))))"
proof -
  have known: "knows_gateways sample_shared sample_pair (cs_params sample_connecting)"
    unfolding knows_gateways_def sample_connecting_def by (rule disjI1) auto
  have settings: "sh_settings sample_shared = tp_settings sample_parameters"
    by (simp add: sample_shared_def initial_shared_state_def sample_params)
  have endpoint: "wn_endpoint sample_entry = (ipv4 192 0 2 9, 51822)" "wn_fwmark sample_entry \<noteq> None" "is_v4 (fst (ipv4 192 0 2 9, 51822))"
    by (simp_all add: wg_entry_config_def with_gateway_data_def effective_entry_endpoint_def sample_data_def sample_registration_def Let_def ipv4_def)
  have log: "WireguardStarted ''nym0'' sample_entry \<in> set (session_log sample_running sample_parameters sample_net)"
    and told: "RegisteredWithGateways (establish_data sample_pair (registered_tunnel_data (WireguardRegistered sample_registration)))
      \<in> set (session_events sample_running sample_parameters sample_net)"
    using sample_log by (simp_all add: session_events_def sent_events_set)
  have "\<exists>dev wg. WireguardStarted dev wg \<in> set (session_log sample_running sample_parameters sample_net) \<and> wn_fwmark wg \<noteq> None
      \<and> (ipv4 192 0 2 9, 51822) = wn_endpoint wg"
    using log endpoint(1,2) by metis
  then show ?thesis
    using entry_contact_admitted [OF disjI1 [OF sample_params(2)] told known settings] endpoint(3) sample_params(1,4) by simp
qed

theorem machine_never_panics_witness: "fst sample_offline \<noteq> Panicked"
proof -
  have "new_channel (ConnectivityChanged True) (fst (fst sample_start)) (fst sample_offline) (snd sample_offline) [] []"
    using sample_started(1) by (auto simp: new_channel_def)
  then have "fed_run (router_ops Tunnel_Router.sample_env) undisturbed (fst (fst sample_start)) (snd sample_start) ([] @ [ConnectivityChanged True])
     (fst sample_offline) (snd sample_offline) []"
    by (intro fed_other [OF fed_start, where w = "sh_world (snd sample_start)"]) (simp_all add: undisturbed_def sample_offline_def)
  from machine_never_panics [OF sample_router_facts(4) this] show ?thesis .
qed

end
