(* ===== verification/Always_On.thy ===== *)
theory Always_On
  imports Tunnel_Monitor
begin

text \<open>
  The supervisor that keeps the tunnel up (\<open>nym-vpnd/src/service/always_on.rs\<close>) and the part of the service loop
  that feeds it and carries out its decisions (\<open>nym-vpnd/src/service/vpn_service.rs\<close>). Time is in milliseconds.
  The random offset of a delay is an argument of the operations that draw one. A service remembers what it sent to
  the state machine and what the state machine reported, in order.
\<close>

section \<open>The supervisor\<close>

definition BACKOFF_BASE :: nat where "BACKOFF_BASE = 5000"
definition BACKOFF_CAP :: nat where "BACKOFF_CAP = 300000"
definition JITTER_PERCENT :: nat where "JITTER_PERCENT = 20"
definition ENVIRONMENTAL_FIRST_RETRY :: nat where "ENVIRONMENTAL_FIRST_RETRY = 60000"
definition ENVIRONMENTAL_RETRY :: nat where "ENVIRONMENTAL_RETRY = 300000"
definition LONG_CONNECTING :: nat where "LONG_CONNECTING = 600000"
definition MAX_INFRASTRUCTURE_ERRORS :: u32 where "MAX_INFRASTRUCTURE_ERRORS = 6"
definition EXIT_CODE_INFRASTRUCTURE :: int where "EXIT_CODE_INFRASTRUCTURE = 3"

datatype action = DoNothing | DoConnect | DoExit int

datatype error_class = Infrastructure | Environmental | Terminal

fun classify :: "error_state_reason \<Rightarrow> error_class" where
  "classify SetFirewallPolicy = Infrastructure"
| "classify SetRouting = Infrastructure"
| "classify SetDns = Infrastructure"
| "classify TunDevice = Infrastructure"
| "classify TunnelProvider = Infrastructure"
| "classify (Internal _) = Infrastructure"
| "classify PerformantEntryGatewayUnavailable = Environmental"
| "classify PerformantExitGatewayUnavailable = Environmental"
| "classify DeviceTimeOutOfSync = Environmental"
| "classify BandwidthExceeded = Environmental"
| "classify CredentialWastedOnEntryGateway = Environmental"
| "classify CredentialWastedOnExitGateway = Environmental"
| "classify _ = Terminal"

datatype target_state = Unsecured | Secured

text \<open>The state the machine publishes, with the fields the supervisor reads.\<close>

datatype public_state = TsDisconnected | TsConnecting | TsConnected | TsDisconnecting | TsError error_state_reason | TsOffline bool

fun public_of :: "private_tunnel_state \<Rightarrow> public_state" where
  "public_of PDisconnected = TsDisconnected"
| "public_of (PConnecting _ _ _ _) = TsConnecting"
| "public_of (PConnected _) = TsConnected"
| "public_of (PDisconnecting _) = TsDisconnecting"
| "public_of (PError reason) = TsError reason"
| "public_of (POffline reconnect) = TsOffline reconnect"

datatype seen = SeenDisconnected | SeenConnecting | SeenConnected | SeenDisconnecting | SeenError | SeenOffline

record always_on =
  ao_enabled :: bool
  ao_target :: target_state
  ao_last_seen :: seen
  ao_infrastructure_streak :: u32
  ao_environmental_streak :: u32
  ao_attempt :: u32
  ao_next_retry_at :: "instant option"
  ao_connecting_since :: "instant option"
  ao_last_error :: "error_state_reason option"
  ao_latched :: bool

definition ao_new :: "bool \<Rightarrow> always_on" where
  "ao_new enabled =
     \<lparr>ao_enabled = enabled, ao_target = Unsecured, ao_last_seen = SeenDisconnected, ao_infrastructure_streak = 0,
      ao_environmental_streak = 0, ao_attempt = 0, ao_next_retry_at = None, ao_connecting_since = None,
      ao_last_error = None, ao_latched = False\<rparr>"

definition reset_series :: "always_on \<Rightarrow> always_on" where
  "reset_series ao =
     ao\<lparr>ao_infrastructure_streak := 0, ao_environmental_streak := 0, ao_attempt := 0, ao_next_retry_at := None\<rparr>"

definition set_enabled :: "bool \<Rightarrow> always_on \<Rightarrow> always_on" where
  "set_enabled enabled ao =
     (if ao_enabled ao = enabled then ao
      else let ao = (reset_series (ao\<lparr>ao_enabled := enabled\<rparr>))\<lparr>ao_latched := False, ao_connecting_since := None\<rparr>
           in if \<not> enabled then ao\<lparr>ao_last_error := None\<rparr> else ao)"

definition on_target_state :: "target_state \<Rightarrow> always_on \<Rightarrow> always_on" where
  "on_target_state target ao = (reset_series (ao\<lparr>ao_target := target\<rparr>))\<lparr>ao_latched := False, ao_connecting_since := None\<rparr>"

definition supervising :: "always_on \<Rightarrow> bool" where
  "supervising ao = (ao_enabled ao \<and> ao_target ao = Secured)"

text \<open>Multiplying the base by a 32-bit factor does not overflow a duration of 64-bit seconds.\<close>

definition backoff :: "(nat \<Rightarrow> nat) \<Rightarrow> u32 \<Rightarrow> nat" where
  "backoff jitter exponent =
     (let factor = (if unat exponent < 32 then 2 ^ unat exponent else 2 ^ 32 - 1);
          base_ms = min (BACKOFF_BASE * factor) BACKOFF_CAP;
          low = base_ms - base_ms * JITTER_PERCENT div 100;
          span = base_ms * JITTER_PERCENT div 100 * 2
      in low + min (jitter span) span)"

definition schedule_retry :: "nat \<Rightarrow> instant \<Rightarrow> always_on \<Rightarrow> always_on" where
  "schedule_retry delay now ao = ao\<lparr>ao_attempt := ao_attempt ao + 1, ao_next_retry_at := Some (now + delay)\<rparr>"

definition on_error_state :: "(nat \<Rightarrow> nat) \<Rightarrow> error_state_reason \<Rightarrow> instant \<Rightarrow> always_on \<Rightarrow> action \<times> always_on" where
  "on_error_state jitter reason now ao =
     (let ao = ao\<lparr>ao_last_seen := SeenError, ao_connecting_since := None, ao_last_error := Some reason\<rparr>
      in if \<not> supervising ao then (DoNothing, ao\<lparr>ao_next_retry_at := None\<rparr>)
         else case classify reason of
                Infrastructure \<Rightarrow>
                  (let ao = ao\<lparr>ao_environmental_streak := 0, ao_infrastructure_streak := ao_infrastructure_streak ao + 1\<rparr>
                   in if MAX_INFRASTRUCTURE_ERRORS \<le> ao_infrastructure_streak ao then (DoExit EXIT_CODE_INFRASTRUCTURE, ao)
                      else (DoNothing, schedule_retry (backoff jitter (ao_infrastructure_streak ao - 1)) now ao))
              | Environmental \<Rightarrow>
                  (let ao = ao\<lparr>ao_infrastructure_streak := 0\<rparr>;
                       delay = (if ao_environmental_streak ao = 0 then ENVIRONMENTAL_FIRST_RETRY else ENVIRONMENTAL_RETRY)
                   in (DoNothing, schedule_retry delay now (ao\<lparr>ao_environmental_streak := ao_environmental_streak ao + 1\<rparr>)))
              | Terminal \<Rightarrow> (DoNothing, (reset_series ao)\<lparr>ao_latched := True\<rparr>))"

fun on_tunnel_state :: "(nat \<Rightarrow> nat) \<Rightarrow> public_state \<Rightarrow> instant \<Rightarrow> always_on \<Rightarrow> action \<times> always_on" where
  "on_tunnel_state jitter TsConnected now ao =
     (DoNothing, (reset_series (ao\<lparr>ao_last_seen := SeenConnected\<rparr>))\<lparr>ao_connecting_since := None, ao_last_error := None, ao_latched := False\<rparr>)"
| "on_tunnel_state jitter TsConnecting now ao =
     (let previous = ao_last_seen ao;
          ao = ao\<lparr>ao_last_seen := SeenConnecting, ao_next_retry_at := None\<rparr>;
          ao = (if previous = SeenOffline then reset_series ao else ao)
      in (DoNothing, if ao_connecting_since ao = None then ao\<lparr>ao_connecting_since := Some now\<rparr> else ao))"
| "on_tunnel_state jitter TsDisconnecting now ao = (DoNothing, ao\<lparr>ao_last_seen := SeenDisconnecting\<rparr>)"
| "on_tunnel_state jitter (TsOffline reconnect) now ao =
     (let ao = ao\<lparr>ao_last_seen := SeenOffline, ao_next_retry_at := None, ao_connecting_since := None\<rparr>
      in (if supervising ao \<and> \<not> reconnect \<and> \<not> ao_latched ao then DoConnect else DoNothing, ao))"
| "on_tunnel_state jitter (TsError reason) now ao = on_error_state jitter reason now ao"
| "on_tunnel_state jitter TsDisconnected now ao =
     (let ao = ao\<lparr>ao_last_seen := SeenDisconnected, ao_connecting_since := None\<rparr>
      in (DoNothing, if supervising ao \<and> \<not> ao_latched ao
                     then schedule_retry (backoff jitter (ao_infrastructure_streak ao)) now ao else ao))"

definition on_config_or_account_changed :: "always_on \<Rightarrow> action \<times> always_on" where
  "on_config_or_account_changed ao =
     (if \<not> supervising ao \<or> ao_last_seen ao \<notin> {SeenError, SeenDisconnected} then (DoNothing, ao)
      else if ao_latched ao \<or> ao_next_retry_at ao \<noteq> None then (DoConnect, reset_series (ao\<lparr>ao_latched := False\<rparr>))
      else (DoNothing, ao))"

definition next_deadline :: "always_on \<Rightarrow> instant option" where
  "next_deadline ao =
     (if \<not> supervising ao then None
      else let long_connecting =
             (if ao_last_seen ao = SeenConnecting then map_option (\<lambda>since. since + LONG_CONNECTING) (ao_connecting_since ao) else None)
           in case (ao_next_retry_at ao, long_connecting) of
                (Some a, Some b) \<Rightarrow> Some (min a b)
              | (Some a, None) \<Rightarrow> Some a
              | (None, b) \<Rightarrow> b)"

definition ao_poll :: "instant \<Rightarrow> always_on \<Rightarrow> action \<times> always_on" where
  "ao_poll now ao =
     (if \<not> supervising ao then (DoNothing, ao)
      else if (case ao_next_retry_at ao of Some at \<Rightarrow> at \<le> now | None \<Rightarrow> False)
           then (if ao_last_seen ao \<in> {SeenError, SeenDisconnected} then DoConnect else DoNothing, ao\<lparr>ao_next_retry_at := None\<rparr>)
      else if (case ao_connecting_since ao of Some since \<Rightarrow> ao_last_seen ao = SeenConnecting \<and> since + LONG_CONNECTING \<le> now | None \<Rightarrow> False)
           then (DoConnect, ao\<lparr>ao_connecting_since := Some now\<rparr>)
      else (DoNothing, ao))"

record always_on_status =
  st_enabled :: bool
  st_active :: bool
  st_paused :: bool
  st_attempt :: u32
  st_next_retry_in :: "nat option"
  st_last_error :: "error_state_reason option"
  st_latched_reason :: "error_state_reason option"

definition ao_status :: "instant \<Rightarrow> always_on \<Rightarrow> always_on_status" where
  "ao_status now ao =
     (let active = supervising ao
      in \<lparr>st_enabled = ao_enabled ao, st_active = active, st_paused = (ao_enabled ao \<and> ao_target ao = Unsecured),
          st_attempt = (if active then ao_attempt ao else 0),
          st_next_retry_in = (if active then map_option (\<lambda>at. at - now) (ao_next_retry_at ao) else None),
          st_last_error = ao_last_error ao,
          st_latched_reason = (if active \<and> ao_latched ao then ao_last_error ao else None)\<rparr>)"

section \<open>The service loop\<close>

datatype service_log = SentCommand tunnel_command | Reported public_state

text \<open>The settings a reconnect sends are the configuration's at that moment.\<close>

record service =
  sv_always_on :: always_on
  sv_target :: target_state
  sv_tunnel_state :: public_state
  sv_relax :: bool
  sv_config_always_on :: bool
  sv_config_settings :: tunnel_settings
  sv_settings_timer :: bool
  sv_timer :: "instant option"
  sv_log :: "service_log list"
  sv_exited :: "int option"

definition send_command :: "tunnel_command \<Rightarrow> service \<Rightarrow> service" where
  "send_command c sv = sv\<lparr>sv_log := sv_log sv @ [SentCommand c]\<rparr>"

definition rearm_always_on_timer :: "service \<Rightarrow> service" where
  "rearm_always_on_timer sv = sv\<lparr>sv_timer := next_deadline (sv_always_on sv)\<rparr>"

definition update_tunnel_settings :: "service \<Rightarrow> service" where
  "update_tunnel_settings sv = send_command (SetTunnelSettings (sv_config_settings sv)) sv"

definition flush_settings :: "service \<Rightarrow> service" where
  "flush_settings sv = (if sv_settings_timer sv then update_tunnel_settings (sv\<lparr>sv_settings_timer := False\<rparr>) else sv)"

definition apply_always_on :: "action \<times> always_on \<Rightarrow> service \<Rightarrow> service" where
  "apply_always_on decision sv =
     (case decision of (decided, ao) \<Rightarrow>
        let sv = sv\<lparr>sv_always_on := ao\<rparr>
        in case decided of
             DoNothing \<Rightarrow> rearm_always_on_timer sv
           | DoExit code \<Rightarrow> sv\<lparr>sv_exited := Some code\<rparr>
           | DoConnect \<Rightarrow> rearm_always_on_timer (send_command (Connect (sv_relax sv)) (flush_settings sv)))"

definition is_error_state :: "public_state \<Rightarrow> bool" where
  "is_error_state st = (case st of TsError _ \<Rightarrow> True | _ \<Rightarrow> False)"

definition set_target_state :: "target_state \<Rightarrow> bool \<Rightarrow> service \<Rightarrow> service" where
  "set_target_state new_target relax sv =
     (if sv_target sv \<noteq> new_target \<or> is_error_state (sv_tunnel_state sv)
      then let sv = sv\<lparr>sv_target := new_target, sv_relax := (relax \<and> new_target = Secured),
                       sv_always_on := on_target_state new_target (sv_always_on sv)\<rparr>;
               sv = rearm_always_on_timer sv
           in case new_target of Secured \<Rightarrow> send_command (Connect relax) sv | Unsecured \<Rightarrow> send_command Disconnect sv
      else sv)"

definition reconnect_tunnel :: "service \<Rightarrow> service" where
  "reconnect_tunnel sv =
     (case sv_target sv of
        Secured \<Rightarrow> (let sv = flush_settings sv in send_command (Connect (sv_relax sv)) sv)
      | Unsecured \<Rightarrow> sv)"

definition update_tunnel_settings_with_throttle :: "tunnel_settings \<Rightarrow> service \<Rightarrow> service" where
  "update_tunnel_settings_with_throttle settings sv =
     (let sv = sv\<lparr>sv_config_settings := settings\<rparr>;
          sv = (case sv_target sv of Secured \<Rightarrow> sv\<lparr>sv_settings_timer := True\<rparr> | Unsecured \<Rightarrow> update_tunnel_settings sv)
      in apply_always_on (on_config_or_account_changed (sv_always_on sv)) sv)"

definition handle_new_state :: "(nat \<Rightarrow> nat) \<Rightarrow> public_state \<Rightarrow> instant \<Rightarrow> service \<Rightarrow> service" where
  "handle_new_state jitter st now sv =
     (let sv = sv\<lparr>sv_tunnel_state := st, sv_log := sv_log sv @ [Reported st]\<rparr>
      in apply_always_on (on_tunnel_state jitter st now (sv_always_on sv)) sv)"

definition handle_account_state_change :: "account_controller_state \<Rightarrow> service \<Rightarrow> service" where
  "handle_account_state_change st sv =
     (if st = ReadyToConnect then apply_always_on (on_config_or_account_changed (sv_always_on sv)) sv else sv)"

text \<open>Saving the configuration may fail, and then nothing else happens.\<close>

definition handle_set_always_on :: "(nat \<Rightarrow> nat) \<Rightarrow> bool \<Rightarrow> bool \<Rightarrow> instant \<Rightarrow> service \<Rightarrow> service" where
  "handle_set_always_on jitter saved enabled now sv =
     (if \<not> saved then sv
      else let was_on = sv_config_always_on sv;
               sv = sv\<lparr>sv_config_always_on := enabled, sv_always_on := set_enabled enabled (sv_always_on sv)\<rparr>;
               sv = (if enabled \<and> \<not> was_on
                     then if sv_target sv = Unsecured then set_target_state Secured False sv
                          else apply_always_on (on_tunnel_state jitter (sv_tunnel_state sv) now (sv_always_on sv)) sv
                     else sv)
           in if sv_exited sv \<noteq> None then sv else rearm_always_on_timer sv)"

text \<open>A service at start: it connects when the setting is on.\<close>

definition service_start :: "bool \<Rightarrow> tunnel_settings \<Rightarrow> service" where
  "service_start always_on_setting settings =
     (let sv = \<lparr>sv_always_on = ao_new always_on_setting, sv_target = Unsecured, sv_tunnel_state = TsDisconnected, sv_relax = False,
                sv_config_always_on = always_on_setting, sv_config_settings = settings, sv_settings_timer = False, sv_timer = None,
                sv_log = [], sv_exited = None\<rparr>
      in if always_on_setting then set_target_state Secured False sv else sv)"

datatype service_input =
  SetTarget target_state bool
| UserReconnect
| SettingsChanged tunnel_settings
| MachineState public_state
| AccountState account_controller_state
| SetAlwaysOn bool bool
| AlwaysOnTimer
| SettingsTimer

text \<open>One round of the loop at a time; nothing happens once the process has exited, and a timer fires only when it is due.\<close>

definition service_round :: "(nat \<Rightarrow> nat) \<Rightarrow> instant \<Rightarrow> service_input \<Rightarrow> service \<Rightarrow> service" where
  "service_round jitter now input sv =
     (if sv_exited sv \<noteq> None then sv
      else case input of
             SetTarget target relax \<Rightarrow> set_target_state target relax sv
           | UserReconnect \<Rightarrow> reconnect_tunnel sv
           | SettingsChanged settings \<Rightarrow> update_tunnel_settings_with_throttle settings sv
           | MachineState st \<Rightarrow> handle_new_state jitter st now sv
           | AccountState st \<Rightarrow> handle_account_state_change st sv
           | SetAlwaysOn saved enabled \<Rightarrow> handle_set_always_on jitter saved enabled now sv
           | AlwaysOnTimer \<Rightarrow>
               (case sv_timer sv of
                  Some deadline \<Rightarrow> if deadline \<le> now then apply_always_on (ao_poll now (sv_always_on sv)) (sv\<lparr>sv_timer := None\<rparr>) else sv
                | None \<Rightarrow> sv)
           | SettingsTimer \<Rightarrow> if sv_settings_timer sv then update_tunnel_settings (sv\<lparr>sv_settings_timer := False\<rparr>) else sv)"

fun service_run :: "service \<Rightarrow> ((nat \<Rightarrow> nat) \<times> instant \<times> service_input) list \<Rightarrow> service" where
  "service_run sv [] = sv"
| "service_run sv ((jitter, now, input) # inputs) = service_run (service_round jitter now input sv) inputs"

section \<open>The supervisor does not lose the tunnel\<close>

fun seen_of :: "public_state \<Rightarrow> seen" where
  "seen_of TsDisconnected = SeenDisconnected"
| "seen_of TsConnecting = SeenConnecting"
| "seen_of TsConnected = SeenConnected"
| "seen_of TsDisconnecting = SeenDisconnecting"
| "seen_of (TsError _) = SeenError"
| "seen_of (TsOffline _) = SeenOffline"

text \<open>Whether the last connect or disconnect sent since the last report asks for a connection.\<close>

fun asked_before :: "service_log list \<Rightarrow> bool" where
  "asked_before [] = False"
| "asked_before (Reported _ # log) = False"
| "asked_before (SentCommand (Connect _) # log) = True"
| "asked_before (SentCommand Disconnect # log) = False"
| "asked_before (SentCommand (SetTunnelSettings _) # log) = asked_before log"

definition asked :: "service_log list \<Rightarrow> bool" where
  "asked log = asked_before (rev log)"

lemma asked_append [simp]:
  "\<not> asked (log @ [Reported st])" "asked (log @ [SentCommand (Connect relax)])" "\<not> asked (log @ [SentCommand Disconnect])"
  "asked (log @ [SentCommand (SetTunnelSettings settings)]) = asked log" "asked [SentCommand (Connect relax)]"
  by (simp_all add: asked_def)

text \<open>The states the machine does not leave, or might not leave, by itself.\<close>

fun needs_push :: "public_state \<Rightarrow> bool" where
  "needs_push TsDisconnected = True"
| "needs_push TsConnecting = True"
| "needs_push (TsError _) = True"
| "needs_push (TsOffline reconnect) = (\<not> reconnect)"
| "needs_push _ = False"

definition watched :: "service \<Rightarrow> bool" where
  "watched sv =
     (sv_timer sv = next_deadline (sv_always_on sv)
      \<and> (supervising (sv_always_on sv) \<and> \<not> ao_latched (sv_always_on sv) \<and> needs_push (sv_tunnel_state sv)
           \<longrightarrow> next_deadline (sv_always_on sv) \<noteq> None \<or> asked (sv_log sv)))"

text \<open>No retry is pending while the machine connects or is offline.\<close>

definition settled :: "always_on \<Rightarrow> bool" where
  "settled ao = (ao_last_seen ao \<in> {SeenConnecting, SeenOffline} \<longrightarrow> ao_next_retry_at ao = None)"

definition in_step :: "service \<Rightarrow> bool" where
  "in_step sv =
     (ao_target (sv_always_on sv) = sv_target sv \<and> ao_last_seen (sv_always_on sv) = seen_of (sv_tunnel_state sv)
      \<and> ao_enabled (sv_always_on sv) = sv_config_always_on sv \<and> settled (sv_always_on sv))"

definition vigilant :: "service \<Rightarrow> bool" where
  "vigilant sv = (sv_exited sv = None \<longrightarrow> in_step sv \<and> watched sv)"

lemma on_error_state_fields:
  "ao_enabled (snd (on_error_state jitter reason now ao)) = ao_enabled ao"
  "ao_target (snd (on_error_state jitter reason now ao)) = ao_target ao"
  "ao_last_seen (snd (on_error_state jitter reason now ao)) = SeenError"
  by (simp_all add: on_error_state_def reset_series_def schedule_retry_def Let_def split: error_class.split)

lemma on_tunnel_state_fields [simp]:
  "ao_enabled (snd (on_tunnel_state jitter st now ao)) = ao_enabled ao"
  "ao_target (snd (on_tunnel_state jitter st now ao)) = ao_target ao"
  "ao_last_seen (snd (on_tunnel_state jitter st now ao)) = seen_of st"
  "settled (snd (on_tunnel_state jitter st now ao))"
  by (cases st; simp add: reset_series_def schedule_retry_def Let_def on_error_state_fields settled_def)+

text \<open>A decision leaves nothing unwatched when each state that needs a push has a deadline or makes the supervisor connect.\<close>

definition decision_covers :: "public_state \<Rightarrow> action \<times> always_on \<Rightarrow> bool \<Rightarrow> bool" where
  "decision_covers st decision already =
     (case decision of (decided, ao) \<Rightarrow>
        case decided of
          DoExit _ \<Rightarrow> True
        | DoConnect \<Rightarrow> True
        | DoNothing \<Rightarrow> supervising ao \<and> \<not> ao_latched ao \<and> needs_push st \<longrightarrow> next_deadline ao \<noteq> None \<or> already)"

lemma on_tunnel_state_covers: "decision_covers st (on_tunnel_state jitter st now ao) already"
  by (cases st)
    (auto simp: decision_covers_def on_error_state_def Let_def reset_series_def schedule_retry_def next_deadline_def supervising_def
      split: error_class.split option.split action.split)

lemma poll_covers:
  assumes "supervising ao \<and> \<not> ao_latched ao \<and> needs_push st \<longrightarrow> next_deadline ao \<noteq> None \<or> already" and "ao_last_seen ao = seen_of st" and "settled ao"
  shows "decision_covers st (ao_poll now ao) already"
  using assms
  by (cases st) (auto simp: decision_covers_def ao_poll_def next_deadline_def supervising_def settled_def Let_def split: option.splits if_splits)

lemma changed_covers:
  assumes "supervising ao \<and> \<not> ao_latched ao \<and> needs_push st \<longrightarrow> next_deadline ao \<noteq> None \<or> already"
  shows "decision_covers st (on_config_or_account_changed ao) already"
  using assms by (auto simp: decision_covers_def on_config_or_account_changed_def)

lemma apply_vigilant:
  assumes "decision_covers (sv_tunnel_state sv) (decided, ao) (asked (sv_log sv))"
    and "ao_target ao = sv_target sv" and "ao_last_seen ao = seen_of (sv_tunnel_state sv)" and "ao_enabled ao = sv_config_always_on sv"
    and "settled ao"
  shows "vigilant (apply_always_on (decided, ao) sv)"
  using assms
  by (cases decided)
    (auto simp: apply_always_on_def vigilant_def in_step_def watched_def decision_covers_def rearm_always_on_timer_def send_command_def
      flush_settings_def update_tunnel_settings_def Let_def)

lemma poll_fields [simp]:
  "ao_enabled (snd (ao_poll now ao)) = ao_enabled ao" "ao_target (snd (ao_poll now ao)) = ao_target ao"
  "ao_last_seen (snd (ao_poll now ao)) = ao_last_seen ao" "settled ao \<Longrightarrow> settled (snd (ao_poll now ao))"
  by (simp_all add: ao_poll_def settled_def)

lemma changed_fields_ao [simp]:
  "ao_enabled (snd (on_config_or_account_changed ao)) = ao_enabled ao" "ao_target (snd (on_config_or_account_changed ao)) = ao_target ao"
  "ao_last_seen (snd (on_config_or_account_changed ao)) = ao_last_seen ao"
  "settled ao \<Longrightarrow> settled (snd (on_config_or_account_changed ao))"
  by (simp_all add: on_config_or_account_changed_def reset_series_def settled_def)

lemma apply_decision_vigilant:
  assumes "decision_covers (sv_tunnel_state sv) decision (asked (sv_log sv))"
    and "ao_target (snd decision) = sv_target sv" and "ao_last_seen (snd decision) = seen_of (sv_tunnel_state sv)"
    and "ao_enabled (snd decision) = sv_config_always_on sv" and "settled (snd decision)"
  shows "vigilant (apply_always_on decision sv)"
  using assms apply_vigilant by (cases decision) simp

lemma set_target_vigilant:
  assumes "in_step sv" and "sv_target sv \<noteq> target \<or> vigilant sv" and "sv_exited sv = None"
  shows "vigilant (set_target_state target relax sv)"
proof -
  have "\<not> supervising (on_target_state Unsecured ao)" for ao by (simp add: supervising_def on_target_state_def reset_series_def)
  then show ?thesis
    using assms
    by (cases target)
      (auto simp: set_target_state_def vigilant_def in_step_def watched_def rearm_always_on_timer_def send_command_def
        on_target_state_def reset_series_def settled_def Let_def)
qed

lemma settings_sent_vigilant: "vigilant sv \<Longrightarrow> vigilant (update_tunnel_settings (sv\<lparr>sv_settings_timer := b\<rparr>))"
  by (simp add: vigilant_def in_step_def watched_def update_tunnel_settings_def send_command_def)

lemma reconnect_vigilant: "vigilant sv \<Longrightarrow> vigilant (reconnect_tunnel sv)"
  by (cases "sv_target sv")
    (auto simp: reconnect_tunnel_def vigilant_def in_step_def watched_def flush_settings_def update_tunnel_settings_def send_command_def Let_def)

lemma rearm_vigilant: "vigilant sv \<Longrightarrow> vigilant (rearm_always_on_timer sv)"
  by (simp add: vigilant_def in_step_def watched_def rearm_always_on_timer_def)

lemma set_always_on_vigilant:
  assumes "vigilant sv" and "sv_exited sv = None"
  shows "vigilant (handle_set_always_on jitter saved enabled now sv)"
proof (cases "saved \<and> enabled \<noteq> sv_config_always_on sv")
  case False
  then show ?thesis
    using assms
    by (auto simp: handle_set_always_on_def set_enabled_def vigilant_def in_step_def watched_def rearm_always_on_timer_def Let_def)
next
  case True
  let ?sv = "sv\<lparr>sv_config_always_on := enabled, sv_always_on := set_enabled enabled (sv_always_on sv)\<rparr>"
  have step: "in_step ?sv"
    using assms True by (auto simp: vigilant_def in_step_def set_enabled_def reset_series_def settled_def Let_def)
  show ?thesis
  proof (cases enabled)
    case True
    show ?thesis
    proof (cases "sv_target sv")
      case Unsecured
      then have "vigilant (set_target_state Secured False ?sv)"
        using step assms(2) by (intro set_target_vigilant) simp_all
      then show ?thesis
        using rearm_vigilant [of "set_target_state Secured False ?sv"] True \<open>saved \<and> enabled \<noteq> sv_config_always_on sv\<close> Unsecured
        by (simp add: handle_set_always_on_def Let_def)
    next
      case Secured
      let ?d = "on_tunnel_state jitter (sv_tunnel_state sv) now (sv_always_on ?sv)"
      have "vigilant (apply_always_on ?d ?sv)"
        using step on_tunnel_state_covers by (intro apply_decision_vigilant) (simp_all add: in_step_def)
      then show ?thesis
        using rearm_vigilant [of "apply_always_on ?d ?sv"] True \<open>saved \<and> enabled \<noteq> sv_config_always_on sv\<close> Secured
        by (simp add: handle_set_always_on_def Let_def)
    qed
  next
    case False
    then show ?thesis
      using step True assms(2)
      by (auto simp: handle_set_always_on_def vigilant_def in_step_def watched_def rearm_always_on_timer_def set_enabled_def supervising_def Let_def)
  qed
qed

lemma round_vigilant: "vigilant sv \<Longrightarrow> vigilant (service_round jitter now input sv)"
proof (cases "sv_exited sv = None")
  case True
  assume vigilant: "vigilant sv"
  then have step: "in_step sv" and covered: "supervising (sv_always_on sv) \<and> \<not> ao_latched (sv_always_on sv) \<and> needs_push (sv_tunnel_state sv)
      \<longrightarrow> next_deadline (sv_always_on sv) \<noteq> None \<or> asked (sv_log sv)"
    using True by (auto simp: vigilant_def watched_def)
  show ?thesis
  proof (cases input)
    case (SetTarget target relax)
    then show ?thesis using vigilant step True by (simp add: service_round_def set_target_vigilant)
  next
    case UserReconnect
    then show ?thesis using vigilant True by (simp add: service_round_def reconnect_vigilant)
  next
    case (SettingsChanged settings)
    have "vigilant (apply_always_on (on_config_or_account_changed (sv_always_on sv)) (sv\<lparr>sv_config_settings := settings, sv_settings_timer := True\<rparr>))"
      "vigilant (apply_always_on (on_config_or_account_changed (sv_always_on sv)) (update_tunnel_settings (sv\<lparr>sv_config_settings := settings\<rparr>)))"
      using step changed_covers [OF covered]
      by (auto intro!: apply_decision_vigilant simp: in_step_def update_tunnel_settings_def send_command_def)
    then show ?thesis
      using SettingsChanged True
      by (simp add: service_round_def update_tunnel_settings_with_throttle_def update_tunnel_settings_def send_command_def Let_def split: target_state.split)
  next
    case (MachineState st)
    then show ?thesis
      using step True on_tunnel_state_covers
      by (auto simp: service_round_def handle_new_state_def Let_def in_step_def intro!: apply_decision_vigilant)
  next
    case (AccountState st)
    then show ?thesis
      using vigilant step True changed_covers [OF covered]
      by (auto simp: service_round_def handle_account_state_change_def in_step_def intro!: apply_decision_vigilant)
  next
    case (SetAlwaysOn saved enabled)
    then show ?thesis using vigilant True by (simp add: service_round_def set_always_on_vigilant)
  next
    case AlwaysOnTimer
    have "vigilant (apply_always_on (ao_poll now (sv_always_on sv)) (sv\<lparr>sv_timer := None\<rparr>))"
      using step poll_covers [OF covered] by (intro apply_decision_vigilant) (simp_all add: in_step_def)
    then show ?thesis using vigilant AlwaysOnTimer True by (simp add: service_round_def split: option.split)
  next
    case SettingsTimer
    then show ?thesis using vigilant True by (simp add: service_round_def settings_sent_vigilant)
  qed
qed (simp add: service_round_def)

lemma start_vigilant: "vigilant (service_start enabled settings)"
  by (simp add: service_start_def ao_new_def set_target_state_def on_target_state_def reset_series_def vigilant_def in_step_def watched_def
      rearm_always_on_timer_def send_command_def next_deadline_def supervising_def settled_def Let_def)

lemma run_vigilant: "vigilant sv \<Longrightarrow> vigilant (service_run sv inputs)"
  by (induction inputs arbitrary: sv rule: list.induct) (auto simp: round_vigilant)

text \<open>C30: the always-on supervisor never forgets the tunnel. From the start of the service and after any commands,
  settings and account changes, state reports, timers and random delays, while the process runs: with the setting on
  and the tunnel wanted, whenever the machine was last reported disconnected, connecting, in error or offline without
  a reconnect, the supervisor's timer is armed or a connect was sent since that report, unless a terminal error
  latched it. The timer is always the supervisor's next deadline, and there is none while it is off or paused.\<close>

theorem supervisor_vigilant:
  assumes "sv = service_run (service_start enabled settings) inputs" and "sv_exited sv = None"
  shows "(ao_enabled (sv_always_on sv) \<and> sv_target sv = Secured \<and> \<not> ao_latched (sv_always_on sv) \<and> needs_push (sv_tunnel_state sv)
      \<longrightarrow> sv_timer sv \<noteq> None \<or> asked (sv_log sv))
    \<and> sv_timer sv = next_deadline (sv_always_on sv)
    \<and> (\<not> ao_enabled (sv_always_on sv) \<or> sv_target sv = Unsecured \<longrightarrow> sv_timer sv = None)"
proof -
  have "vigilant sv" unfolding assms(1) by (rule run_vigilant [OF start_vigilant])
  then have "in_step sv" "watched sv" using assms(2) by (simp_all add: vigilant_def)
  then show ?thesis by (auto simp: in_step_def watched_def supervising_def next_deadline_def)
qed

section \<open>Handing over to procd\<close>

lemma backoff_spread:
  assumes "unat exponent < 5"
  shows "4000 * 2 ^ unat exponent \<le> backoff jitter exponent \<and> backoff jitter exponent \<le> 6000 * 2 ^ unat exponent"
proof -
  have "unat exponent \<in> {0, 1, 2, 3, 4}" using assms by auto
  then show ?thesis by (auto simp: backoff_def BACKOFF_BASE_def BACKOFF_CAP_def JITTER_PERCENT_def Let_def)
qed

lemma infrastructure_error:
  assumes "supervising ao" and "classify reason = Infrastructure" and "unat (ao_infrastructure_streak ao) = n" and "n < 5"
  shows "\<exists>ao' delay. on_tunnel_state jitter (TsError reason) now ao = (DoNothing, ao') \<and> supervising ao'
    \<and> unat (ao_infrastructure_streak ao') = Suc n \<and> ao_last_seen ao' = SeenError
    \<and> ao_next_retry_at ao' = Some (now + delay) \<and> 4000 * 2 ^ n \<le> delay \<and> delay \<le> 6000 * 2 ^ n"
proof -
  have streak: "unat (ao_infrastructure_streak ao + 1) = Suc n"
    using assms(3,4) by (simp add: unat_word_ariths)
  then have "\<not> MAX_INFRASTRUCTURE_ERRORS \<le> ao_infrastructure_streak ao + 1"
    using assms(4) by (simp add: MAX_INFRASTRUCTURE_ERRORS_def word_le_nat_alt)
  moreover have "4000 * 2 ^ n \<le> backoff jitter (ao_infrastructure_streak ao)" "backoff jitter (ao_infrastructure_streak ao) \<le> 6000 * 2 ^ n"
    using backoff_spread [of "ao_infrastructure_streak ao" jitter] assms(3,4) by auto
  ultimately show ?thesis
    using assms(1,2) streak by (simp add: on_error_state_def schedule_retry_def supervising_def Let_def)
qed

lemma sixth_error:
  assumes "supervising ao" and "classify reason = Infrastructure" and "unat (ao_infrastructure_streak ao) = 5"
  shows "fst (on_tunnel_state jitter (TsError reason) now ao) = DoExit EXIT_CODE_INFRASTRUCTURE"
proof -
  have "unat (ao_infrastructure_streak ao + 1) = 6" using assms(3) by (simp add: unat_word_ariths)
  then have "MAX_INFRASTRUCTURE_ERRORS \<le> ao_infrastructure_streak ao + 1" by (simp add: MAX_INFRASTRUCTURE_ERRORS_def word_le_nat_alt)
  then show ?thesis using assms(1,2) by (simp add: on_error_state_def supervising_def Let_def)
qed

text \<open>
  An outage: the machine reports that it connects and, after some time, an error; the timer fires at the deadline and
  the supervisor connects again. It ends with what the supervisor does about the last error and when.
\<close>

fun outage :: "((nat \<Rightarrow> nat) \<times> error_state_reason \<times> nat) list \<Rightarrow> instant \<Rightarrow> always_on \<Rightarrow> action \<times> instant" where
  "outage [] now ao = (DoNothing, now)"
| "outage ((jitter, reason, took) # attempts) now ao =
     (let (_, ao) = on_tunnel_state jitter TsConnecting now ao;
          (decided, ao) = on_tunnel_state jitter (TsError reason) (now + took) ao
      in case decided of
           DoNothing \<Rightarrow>
             (case next_deadline ao of
                Some deadline \<Rightarrow> outage attempts deadline (snd (ao_poll deadline ao))
              | None \<Rightarrow> (DoNothing, now + took))
         | _ \<Rightarrow> (decided, now + took))"

definition time_taken :: "((nat \<Rightarrow> nat) \<times> error_state_reason \<times> nat) list \<Rightarrow> nat" where
  "time_taken attempts = sum_list (map (\<lambda>(_, _, took). took) attempts)"

lemma time_taken_simps [simp]: "time_taken [] = 0" "time_taken ((jitter, reason, took) # attempts) = took + time_taken attempts"
  by (simp_all add: time_taken_def)

lemma connecting_report:
  assumes "ao_last_seen ao \<noteq> SeenOffline"
  shows "\<exists>ao'. on_tunnel_state jitter TsConnecting now ao = (DoNothing, ao') \<and> supervising ao' = supervising ao
    \<and> ao_infrastructure_streak ao' = ao_infrastructure_streak ao"
  using assms by (auto simp: supervising_def Let_def)

lemma retry_due:
  assumes "supervising ao" and "ao_last_seen ao = SeenError" and "ao_next_retry_at ao = Some deadline"
  shows "next_deadline ao = Some deadline" and "ao_poll deadline ao = (DoConnect, ao\<lparr>ao_next_retry_at := None\<rparr>)"
  using assms by (simp_all add: next_deadline_def ao_poll_def Let_def)

lemma outage_last:
  assumes "on_tunnel_state jitter TsConnecting now ao = (DoNothing, ao1)" and "on_tunnel_state jitter (TsError reason) (now + took) ao1 = (DoExit code, ao2)"
  shows "outage ((jitter, reason, took) # attempts) now ao = (DoExit code, now + took)"
  by (simp only: outage.simps assms Let_def prod.case action.case)

lemma outage_retried:
  assumes "on_tunnel_state jitter TsConnecting now ao = (DoNothing, ao1)" and "on_tunnel_state jitter (TsError reason) (now + took) ao1 = (DoNothing, ao2)"
    and "supervising ao2" and "ao_last_seen ao2 = SeenError" and "ao_next_retry_at ao2 = Some deadline"
  shows "outage ((jitter, reason, took) # attempts) now ao = outage attempts deadline (ao2\<lparr>ao_next_retry_at := None\<rparr>)"
  by (simp only: outage.simps assms(1,2) retry_due [OF assms(3-5)] Let_def prod.case action.case option.case snd_conv)

lemma remaining_backoff:
  assumes "n < 5"
  shows "c * (32 - 2 ^ n) = c * (32 - 2 ^ Suc n) + c * (2 :: nat) ^ n"
proof -
  have "(2 :: nat) ^ Suc n \<le> 32" using power_increasing [of "Suc n" 5 "2 :: nat"] assms by simp
  then have "(32 :: nat) - 2 ^ n = 32 - 2 ^ Suc n + 2 ^ n" by simp
  then show ?thesis by (simp only: add_mult_distrib2)
qed

lemma outage_from:
  assumes "supervising ao" and "unat (ao_infrastructure_streak ao) = n" and "ao_last_seen ao \<noteq> SeenOffline"
    and "length attempts + n = 6" and "n \<le> 5" and "list_all (\<lambda>(_, reason, _). classify reason = Infrastructure) attempts"
  shows "\<exists>t. outage attempts now ao = (DoExit EXIT_CODE_INFRASTRUCTURE, t)
    \<and> now + time_taken attempts + 4000 * (32 - 2 ^ n) \<le> t \<and> t \<le> now + time_taken attempts + 6000 * (32 - 2 ^ n)"
  using assms
proof (induction attempts arbitrary: n now ao)
  case (Cons attempt attempts)
  obtain jitter reason took where attempt: "attempt = (jitter, reason, took)" by (rule prod_cases3)
  have infra: "classify reason = Infrastructure" using Cons.prems(6) by (simp add: attempt)
  from connecting_report [OF Cons.prems(3), of jitter now] obtain ao1 where connecting: "on_tunnel_state jitter TsConnecting now ao = (DoNothing, ao1)"
    and "supervising ao1 = supervising ao" "ao_infrastructure_streak ao1 = ao_infrastructure_streak ao" by blast
  with Cons.prems(1,2) have ao1: "supervising ao1" "unat (ao_infrastructure_streak ao1) = n" by (simp_all only:)
  show ?case
  proof (cases "n = 5")
    case True
    obtain ao2 where "on_tunnel_state jitter (TsError reason) (now + took) ao1 = (DoExit EXIT_CODE_INFRASTRUCTURE, ao2)"
      using sixth_error [OF ao1(1) infra ao1(2) [unfolded True], of jitter "now + took"] by (metis prod.collapse)
    from outage_last [OF connecting this] Cons.prems(4) show ?thesis by (simp add: attempt True del: outage.simps)
  next
    case False
    then have n: "n < 5" using Cons.prems(5) by simp
    from infrastructure_error [OF ao1(1) infra ao1(2) n, of jitter "now + took"] obtain ao2 delay
      where ao2: "on_tunnel_state jitter (TsError reason) (now + took) ao1 = (DoNothing, ao2)" "supervising ao2"
        "unat (ao_infrastructure_streak ao2) = Suc n" "ao_last_seen ao2 = SeenError" "ao_next_retry_at ao2 = Some (now + took + delay)"
      and delay: "4000 * 2 ^ n \<le> delay" "delay \<le> 6000 * 2 ^ n" by blast
    let ?ao = "ao2\<lparr>ao_next_retry_at := None\<rparr>"
    have "supervising ?ao" "unat (ao_infrastructure_streak ?ao) = Suc n" "ao_last_seen ?ao \<noteq> SeenOffline"
      "length attempts + Suc n = 6" "Suc n \<le> 5" "list_all (\<lambda>(_, reason, _). classify reason = Infrastructure) attempts"
      using ao2(2-4) Cons.prems(4,6) n by (simp_all add: supervising_def)
    from Cons.IH [OF this, of "now + took + delay"] obtain t where t: "outage attempts (now + took + delay) ?ao = (DoExit EXIT_CODE_INFRASTRUCTURE, t)"
      "now + took + delay + time_taken attempts + 4000 * (32 - 2 ^ Suc n) \<le> t"
      "t \<le> now + took + delay + time_taken attempts + 6000 * (32 - 2 ^ Suc n)" by blast
    have "outage (attempt # attempts) now ao = (DoExit EXIT_CODE_INFRASTRUCTURE, t)"
      unfolding attempt outage_retried [OF connecting ao2(1,2,4,5)] by (rule t(1))
    moreover have "now + time_taken (attempt # attempts) + 4000 * (32 - 2 ^ n) \<le> t" "t \<le> now + time_taken (attempt # attempts) + 6000 * (32 - 2 ^ n)"
      using t(2,3) delay unfolding attempt time_taken_simps remaining_backoff [OF n] by linarith+
    ultimately show ?thesis by blast
  qed
qed simp

text \<open>C31: a router that keeps failing is handed over to procd after two to three minutes of waiting. When every attempt
  ends in an infrastructure error, whatever each attempt took and whatever the random offsets were, the sixth error
  makes the process exit, between 124 and 186 seconds of waiting after the first attempt began, the time the attempts
  took not counted.\<close>

theorem outage_handed_over:
  assumes "supervising ao" and "ao_infrastructure_streak ao = 0" and "ao_last_seen ao \<noteq> SeenOffline" and "length attempts = 6"
    and "list_all (\<lambda>(_, reason, _). classify reason = Infrastructure) attempts"
  shows "\<exists>t. outage attempts now ao = (DoExit EXIT_CODE_INFRASTRUCTURE, t)
    \<and> now + time_taken attempts + 124000 \<le> t \<and> t \<le> now + time_taken attempts + 186000"
  using outage_from [of ao 0 attempts now] assms by simp

definition sample_failures :: "((nat \<Rightarrow> nat) \<times> error_state_reason \<times> nat) list" where
  "sample_failures =
     [(id, SetRouting, 1000), (id, SetRouting, 1000), (id, SetRouting, 1000),
      (\<lambda>_. 0, Internal [], 2000), (\<lambda>_. 0, Internal [], 2000), (\<lambda>_. 0, Internal [], 2000)]"

definition sample_supervisor :: always_on where
  "sample_supervisor = on_target_state Secured (ao_new True)"

theorem outage_handed_over_witness:
  "\<exists>t. outage sample_failures 0 sample_supervisor = (DoExit 3, t) \<and> 133000 \<le> t \<and> t \<le> 195000"
  using outage_handed_over [of sample_supervisor sample_failures 0]
  by (simp add: sample_supervisor_def sample_failures_def on_target_state_def reset_series_def ao_new_def supervising_def
      EXIT_CODE_INFRASTRUCTURE_def del: outage.simps)

theorem supervisor_vigilant_witness:
  "\<exists>sv. sv = service_run (service_start True sample_settings) [(id, 0, MachineState (TsError SetDns))] \<and> sv_exited sv = None
     \<and> ao_enabled (sv_always_on sv) \<and> sv_target sv = Secured \<and> \<not> ao_latched (sv_always_on sv) \<and> needs_push (sv_tunnel_state sv)
     \<and> (sv_timer sv \<noteq> None \<or> asked (sv_log sv))"
proof -
  let ?sv = "service_run (service_start True sample_settings) [(id, 0, MachineState (TsError SetDns))]"
  have facts: "sv_exited ?sv = None" "ao_enabled (sv_always_on ?sv)" "sv_target ?sv = Secured" "\<not> ao_latched (sv_always_on ?sv)"
    "needs_push (sv_tunnel_state ?sv)"
    by (simp_all add: service_start_def ao_new_def set_target_state_def on_target_state_def reset_series_def rearm_always_on_timer_def
        send_command_def service_round_def handle_new_state_def on_error_state_def schedule_retry_def supervising_def apply_always_on_def
        MAX_INFRASTRUCTURE_ERRORS_def is_error_state_def word_le_nat_alt Let_def)
  with supervisor_vigilant [OF refl facts(1)] show ?thesis by blast
qed

end
