(* ===== verification/Spec2Isabelle.thy ===== *)
theory Spec2Isabelle
  imports Tunnel_Session Always_On
begin

text \<open>
  A verification library for the Nym VPN daemon on OpenWrt routers.

  The firewall. \<open>FW_Types\<close> holds the policy values the daemon hands to the firewall, \<open>FW_Rules\<close> the
  backend-neutral rules, \<open>FW_Policy\<close> the compiler from policies to rules and \<open>FW_Killswitch\<close> what the
  compiled chains do to packets.
\<close>

end
